(* ===== verification/Prelude.thy ===== *)
theory Prelude
  imports Complex_Main "HOL-Library.Word" "HOL-Library.Multiset"
begin

text \<open>
  Shared vocabulary of the development: Rust's vectors, machine-sized indices and floating point
  values as HOL types, the monad of fallible operations over a state, and the lemma collections
  the component theories rely on.

  \<^item> A \<open>Vec\<close> is a list. \<open>Vec::remove\<close> and \<open>Vec::insert\<close> are \<open>vec_remove\<close> and
    \<open>vec_insert\<close>; both panic out of range in Rust and every use in the models is behind the
    source's own range check.
  \<^item> A \<open>usize\<close> is a \<open>nat\<close>. The addition of the release build wraps at 64 bits and is
    written out as \<open>usize_add\<close>; the checked and the saturating variants are separate functions.
  \<^item> An \<open>f64\<close> is a rational, an infinity or NaN. The program only copies, compares, halves and
    clamps its values, so no rounding is needed; the one subtraction (the change test of
    \<open>sync_node_state\<close>) is exact for operands within a factor of two of each other.
  \<^item> A fallible operation over a state \<open>'s\<close> is a function to a sum and the new state. An error
    keeps the changes made before it, as a Rust method returning \<open>Err\<close> does.
\<close>

named_theorems wp_simps \<open>evaluation of weakest preconditions\<close>
named_theorems keeps_intros \<open>preservation of an invariant by an operation\<close>

subsection \<open>Machine words and indices\<close>

type_synonym u8 = "8 word"
type_synonym u16 = "16 word"
type_synonym u32 = "32 word"
type_synonym u64 = "64 word"
type_synonym usize = nat

definition usize_max :: usize where
  "usize_max = 2 ^ 64 - 1"

definition usize_add :: "usize \<Rightarrow> usize \<Rightarrow> usize" where
  "usize_add a b = (a + b) mod 2 ^ 64"

definition usize_checked_add :: "usize \<Rightarrow> usize \<Rightarrow> usize option" where
  "usize_checked_add a b = (if a + b \<le> usize_max then Some (a + b) else None)"

definition usize_saturating_add :: "usize \<Rightarrow> usize \<Rightarrow> usize" where
  "usize_saturating_add a b = min (a + b) usize_max"

lemma usize_add_exact: "a + b \<le> usize_max \<Longrightarrow> usize_add a b = a + b"
  by (simp add: usize_add_def usize_max_def)

lemma usize_add_le: "usize_add a b \<le> a + b"
  by (simp add: usize_add_def mod_less_eq_dividend)

lemma usize_add_max: "usize_add usize_max 1 = 0"
  by (simp add: usize_add_def usize_max_def)

lemma usize_checked_add_Some:
  "usize_checked_add a b = Some c \<longleftrightarrow> c = a + b \<and> a + b \<le> usize_max"
  by (auto simp: usize_checked_add_def)

subsection \<open>Floating point\<close>

datatype f64 = NaN | PosInf | NegInf | Fin rat

fun f64_lt :: "f64 \<Rightarrow> f64 \<Rightarrow> bool" where
  "f64_lt NaN _ = False"
| "f64_lt _ NaN = False"
| "f64_lt (Fin a) (Fin b) = (a < b)"
| "f64_lt NegInf NegInf = False"
| "f64_lt NegInf _ = True"
| "f64_lt _ NegInf = False"
| "f64_lt PosInf _ = False"
| "f64_lt _ PosInf = True"

fun f64_le :: "f64 \<Rightarrow> f64 \<Rightarrow> bool" where
  "f64_le NaN _ = False"
| "f64_le _ NaN = False"
| "f64_le (Fin a) (Fin b) = (a \<le> b)"
| "f64_le NegInf _ = True"
| "f64_le _ PosInf = True"
| "f64_le PosInf _ = False"
| "f64_le _ NegInf = False"

text \<open>\<open>f64::min\<close> returns the other operand when one is NaN.\<close>

definition f64_min :: "f64 \<Rightarrow> f64 \<Rightarrow> f64" where
  "f64_min a b = (if a = NaN then b else if b = NaN then a else if f64_lt b a then b else a)"

fun f64_half :: "f64 \<Rightarrow> f64" where
  "f64_half (Fin a) = Fin (a / 2)"
| "f64_half x = x"

definition f64_epsilon :: rat where
  "f64_epsilon = 1 / 2 ^ 52"

text \<open>\<open>(a - b).abs() > f64::EPSILON\<close>: the difference with an infinity is an infinity, unless both
  are the same one, when it is NaN and the comparison is false.\<close>

fun f64_differs :: "f64 \<Rightarrow> f64 \<Rightarrow> bool" where
  "f64_differs (Fin a) (Fin b) = (\<bar>a - b\<bar> > f64_epsilon)"
| "f64_differs NaN _ = False"
| "f64_differs _ NaN = False"
| "f64_differs a b = (a \<noteq> b)"

abbreviation f64_zero :: f64 where
  "f64_zero \<equiv> Fin 0"

definition f64_pos :: "f64 \<Rightarrow> bool" where
  "f64_pos x = f64_lt f64_zero x"

lemma f64_differs_irrefl [simp]: "\<not> f64_differs x x"
  by (cases x) (auto simp: f64_epsilon_def)

lemma f64_pos_simps [simp]:
  "f64_pos NaN = False" "f64_pos PosInf = True" "f64_pos NegInf = False"
  "f64_pos (Fin a) = (0 < a)"
  by (auto simp: f64_pos_def)


subsection \<open>Vectors\<close>

definition vec_get :: "'a list \<Rightarrow> usize \<Rightarrow> 'a option" where
  "vec_get xs i = (if i < length xs then Some (xs ! i) else None)"

definition vec_remove :: "usize \<Rightarrow> 'a list \<Rightarrow> 'a list" where
  "vec_remove i xs = take i xs @ drop (Suc i) xs"

definition vec_insert :: "usize \<Rightarrow> 'a \<Rightarrow> 'a list \<Rightarrow> 'a list" where
  "vec_insert i x xs = take i xs @ x # drop i xs"

definition vec_move :: "usize \<Rightarrow> usize \<Rightarrow> 'a list \<Rightarrow> 'a list" where
  "vec_move i j xs = (if i < length xs then vec_insert j (xs ! i) (vec_remove i xs) else xs)"

lemma vec_get_map: "vec_get (map f xs) i = map_option f (vec_get xs i)"
  by (simp add: vec_get_def)

lemma vec_get_None_iff [simp]: "vec_get xs i = None \<longleftrightarrow> length xs \<le> i"
  by (simp add: vec_get_def not_less)

lemma vec_get_SomeD: "vec_get xs i = Some x \<Longrightarrow> i < length xs \<and> xs ! i = x"
  by (simp add: vec_get_def split: if_splits)

lemma length_vec_remove [simp]: "i < length xs \<Longrightarrow> length (vec_remove i xs) = length xs - 1"
  by (simp add: vec_remove_def)

lemma length_vec_insert [simp]: "length (vec_insert i x xs) = Suc (length xs)"
  by (simp add: vec_insert_def)

lemma length_vec_move [simp]: "length (vec_move i j xs) = length xs"
  by (auto simp: vec_move_def)

lemma mset_vec_remove:
  "i < length xs \<Longrightarrow> add_mset (xs ! i) (mset (vec_remove i xs)) = mset xs"
proof -
  assume "i < length xs"
  then have "xs = take i xs @ xs ! i # drop (Suc i) xs" by (simp add: id_take_nth_drop)
  then have "mset xs = mset (take i xs) + add_mset (xs ! i) (mset (drop (Suc i) xs))"
    by (metis mset.simps(2) mset_append)
  then show ?thesis by (simp add: vec_remove_def)
qed

lemma mset_vec_insert: "mset (vec_insert i x xs) = add_mset x (mset xs)"
  using mset_append [of "take i xs" "drop i xs"] by (simp add: vec_insert_def)

lemma mset_vec_move: "mset (vec_move i j xs) = mset xs"
  by (simp add: vec_move_def mset_vec_insert mset_vec_remove)

lemma map_vec_remove: "map f (vec_remove i xs) = vec_remove i (map f xs)"
  by (simp add: vec_remove_def take_map drop_map)

lemma map_vec_insert: "map f (vec_insert i x xs) = vec_insert i (f x) (map f xs)"
  by (simp add: vec_insert_def take_map drop_map)

lemma map_vec_move: "map f (vec_move i j xs) = vec_move i j (map f xs)"
  by (simp add: vec_move_def map_vec_insert map_vec_remove)

lemma nth_vec_remove:
  "i < length xs \<Longrightarrow> k < length xs - 1 \<Longrightarrow> vec_remove i xs ! k = (if k < i then xs ! k else xs ! Suc k)"
  by (auto simp: vec_remove_def nth_append)

lemma nth_vec_insert:
  "i \<le> length xs \<Longrightarrow> k \<le> length xs \<Longrightarrow>
    vec_insert i x xs ! k = (if k < i then xs ! k else if k = i then x else xs ! (k - 1))"
  by (auto simp: vec_insert_def nth_append min_def nth_Cons')

lemma drop_vec_remove:
  "c \<le> i \<Longrightarrow> drop c (vec_remove i xs) = vec_remove (i - c) (drop c xs)"
  by (cases "c \<le> length xs") (auto simp: vec_remove_def drop_take min_def)

lemma drop_vec_insert:
  "c \<le> i \<Longrightarrow> i \<le> length xs \<Longrightarrow> drop c (vec_insert i x xs) = vec_insert (i - c) x (drop c xs)"
  by (auto simp: vec_insert_def drop_take min_def)

lemma drop_vec_move:
  assumes "c \<le> i" "c \<le> j" "i < length xs" "j < length xs"
  shows "drop c (vec_move i j xs) = vec_move (i - c) (j - c) (drop c xs)"
  using assms diff_less_mono [of i "length xs" c]
  by (simp add: vec_move_def drop_vec_insert drop_vec_remove)

subsection \<open>Updating the first match of a list\<close>

text \<open>\<open>iter_mut().find(p)\<close> followed by a change of the element found.\<close>

fun update_first :: "('a \<Rightarrow> bool) \<Rightarrow> ('a \<Rightarrow> 'a) \<Rightarrow> 'a list \<Rightarrow> 'a list" where
  "update_first p f [] = []"
| "update_first p f (x # xs) = (if p x then f x # xs else x # update_first p f xs)"

lemma length_update_first [simp]: "length (update_first p f xs) = length xs"
  by (induction xs) auto

lemma update_first_none: "find p xs = None \<Longrightarrow> update_first p f xs = xs"
  by (induction xs) (auto split: if_splits)

lemma find_update_first:
  "(\<And>x. p x \<Longrightarrow> p (f x)) \<Longrightarrow> find p (update_first p f xs) = map_option f (find p xs)"
  by (induction xs) auto

lemma find_update_first_other:
  "(\<And>x. p x \<Longrightarrow> q (f x) = q x) \<Longrightarrow> (\<And>x. p x \<Longrightarrow> \<not> q x) \<Longrightarrow>
    find q (update_first p f xs) = find q xs"
  by (induction xs) auto

lemma map_update_first:
  "(\<And>x. p x \<Longrightarrow> g (f x) = g x) \<Longrightarrow> map g (update_first p f xs) = map g xs"
  by (induction xs) auto

lemma set_update_first_subset: "set (update_first p f xs) \<subseteq> set xs \<union> f ` set xs"
  by (induction xs) auto

lemma list_all_update_first:
  "list_all Q xs \<Longrightarrow> (\<And>x. Q x \<Longrightarrow> p x \<Longrightarrow> Q (f x)) \<Longrightarrow> list_all Q (update_first p f xs)"
  by (induction xs) auto

lemma list_all_update_found:
  "list_all Q xs \<Longrightarrow> find p xs = Some x \<Longrightarrow> Q (f x) \<Longrightarrow> list_all Q (update_first p f xs)"
  by (induction xs) (auto split: if_splits)

lemma find_map: "find p (map g xs) = map_option g (find (\<lambda>x. p (g x)) xs)"
  by (induction xs) auto

lemma find_SomeD: "find p xs = Some x \<Longrightarrow> x \<in> set xs \<and> p x"
  by (induction xs) (auto split: if_splits)

lemma find_filter: "(\<And>x. p x \<Longrightarrow> q x) \<Longrightarrow> find p (filter q xs) = find p xs"
  by (induction xs) auto

lemma find_append: "find p (xs @ ys) = (case find p xs of None \<Rightarrow> find p ys | Some x \<Rightarrow> Some x)"
  by (induction xs) auto

lemma map_update_all: "(\<And>x. g (f x) = g x) \<Longrightarrow> map g (map f xs) = map g xs"
  by simp

subsection \<open>Fallible operations over a state\<close>

type_synonym ('s, 'e, 'a) io = "'s \<Rightarrow> ('e + 'a) \<times> 's"

definition ret :: "'a \<Rightarrow> ('s, 'e, 'a) io" where
  "ret a = (\<lambda>s. (Inr a, s))"

definition fail :: "'e \<Rightarrow> ('s, 'e, 'a) io" where
  "fail e = (\<lambda>s. (Inl e, s))"

text \<open>\<open>andThen m f\<close> is \<open>f(m?)\<close>: the error of \<open>m\<close> is returned with the state \<open>m\<close> left.\<close>

definition andThen :: "('s, 'e, 'a) io \<Rightarrow> ('a \<Rightarrow> ('s, 'e, 'b) io) \<Rightarrow> ('s, 'e, 'b) io" where
  "andThen m f = (\<lambda>s. case m s of (Inl e, t) \<Rightarrow> (Inl e, t) | (Inr a, t) \<Rightarrow> f a t)"

definition andDo :: "('s, 'e, 'a) io \<Rightarrow> ('s, 'e, 'b) io \<Rightarrow> ('s, 'e, 'b) io" where
  "andDo m n = andThen m (\<lambda>_. n)"

definition reading :: "('s \<Rightarrow> ('s, 'e, 'a) io) \<Rightarrow> ('s, 'e, 'a) io" where
  "reading f = (\<lambda>s. f s s)"

definition modify :: "('s \<Rightarrow> 's) \<Rightarrow> ('s, 'e, unit) io" where
  "modify f = (\<lambda>s. (Inr (), f s))"

text \<open>\<open>if let Err(_) = m {..}\<close>: the error of \<open>m\<close> is only logged.\<close>

definition ignore_err :: "('s, 'e, 'a) io \<Rightarrow> ('s, 'e, unit) io" where
  "ignore_err m = (\<lambda>s. (Inr (), snd (m s)))"

fun for_each :: "'b list \<Rightarrow> ('b \<Rightarrow> ('s, 'e, unit) io) \<Rightarrow> ('s, 'e, unit) io" where
  "for_each [] f = ret ()"
| "for_each (x # xs) f = andDo (f x) (for_each xs f)"

text \<open>
  The weakest precondition of an operation: \<open>Q\<close> must hold of the result and the state on
  success, \<open>E\<close> of the error and the state on failure.
\<close>

definition wp :: "('s, 'e, 'a) io \<Rightarrow> ('a \<Rightarrow> 's \<Rightarrow> bool) \<Rightarrow> ('e \<Rightarrow> 's \<Rightarrow> bool) \<Rightarrow> 's \<Rightarrow> bool" where
  "wp m Q E s = (case m s of (Inl e, t) \<Rightarrow> E e t | (Inr a, t) \<Rightarrow> Q a t)"

lemma wp_ret [wp_simps]: "wp (ret a) Q E s = Q a s"
  by (simp add: wp_def ret_def)

lemma wp_fail [wp_simps]: "wp (fail e) Q E s = E e s"
  by (simp add: wp_def fail_def)

lemma wp_andThen [wp_simps]: "wp (andThen m f) Q E s = wp m (\<lambda>a t. wp (f a) Q E t) E s"
  by (auto simp: wp_def andThen_def split: prod.splits sum.splits)

lemma wp_andDo [wp_simps]: "wp (andDo m n) Q E s = wp m (\<lambda>_ t. wp n Q E t) E s"
  by (simp add: andDo_def wp_andThen)

lemma wp_reading [wp_simps]: "wp (reading f) Q E s = wp (f s) Q E s"
  by (simp add: wp_def reading_def)

lemma wp_modify [wp_simps]: "wp (modify f) Q E s = Q () (f s)"
  by (simp add: wp_def modify_def)

lemma wp_ignore_err [wp_simps]:
  "wp (ignore_err m) Q E s = wp m (\<lambda>_ t. Q () t) (\<lambda>_ t. Q () t) s"
  by (auto simp: wp_def ignore_err_def split: prod.splits sum.splits)

lemma wp_if [wp_simps]: "wp (if b then m else n) Q E s = (if b then wp m Q E s else wp n Q E s)"
  by simp

lemma wp_for_each_Nil [wp_simps]: "wp (for_each [] f) Q E s = Q () s"
  by (simp add: wp_ret)

lemma wp_for_each_Cons [wp_simps]:
  "wp (for_each (x # xs) f) Q E s = wp (f x) (\<lambda>_ t. wp (for_each xs f) Q E t) E s"
  by (simp add: wp_andDo)

lemma wp_mono:
  "wp m Q E s \<Longrightarrow> (\<And>a t. Q a t \<Longrightarrow> Q' a t) \<Longrightarrow> (\<And>e t. E e t \<Longrightarrow> E' e t) \<Longrightarrow> wp m Q' E' s"
  by (auto simp: wp_def split: prod.splits sum.splits)

lemma wp_total: "wp m Q (\<lambda>_ _. False) s \<longleftrightarrow> (\<exists>a t. m s = (Inr a, t) \<and> Q a t)"
  by (auto simp: wp_def split: prod.splits sum.splits)

lemma wp_InrD: "wp m Q E s \<Longrightarrow> m s = (Inr a, t) \<Longrightarrow> Q a t"
  by (simp add: wp_def)

lemma wp_InlD: "wp m Q E s \<Longrightarrow> m s = (Inl e, t) \<Longrightarrow> E e t"
  by (simp add: wp_def)

text \<open>An operation keeps a predicate when it holds afterwards, whatever the result.\<close>

definition keeps :: "('s \<Rightarrow> bool) \<Rightarrow> ('s, 'e, 'a) io \<Rightarrow> bool" where
  "keeps P m \<longleftrightarrow> (\<forall>s. P s \<longrightarrow> P (snd (m s)))"

lemma keeps_wp: "keeps P m \<longleftrightarrow> (\<forall>s. P s \<longrightarrow> wp m (\<lambda>_. P) (\<lambda>_. P) s)"
  by (auto simp: keeps_def wp_def split: prod.splits sum.splits) (metis prod.collapse sum.exhaust)

lemma keepsD: "keeps P m \<Longrightarrow> P s \<Longrightarrow> P (snd (m s))"
  by (simp add: keeps_def)

lemma keeps_ret [keeps_intros]: "keeps P (ret a)"
  by (simp add: keeps_def ret_def)

lemma keeps_fail [keeps_intros]: "keeps P (fail e)"
  by (simp add: keeps_def fail_def)

lemma keeps_andThen [keeps_intros]:
  "keeps P m \<Longrightarrow> (\<And>a. keeps P (f a)) \<Longrightarrow> keeps P (andThen m f)"
  by (fastforce simp: keeps_wp wp_andThen elim: wp_mono)

lemma keeps_andDo [keeps_intros]: "keeps P m \<Longrightarrow> keeps P n \<Longrightarrow> keeps P (andDo m n)"
  by (simp add: andDo_def keeps_andThen)

lemma keeps_reading [keeps_intros]: "(\<And>s. keeps P (f s)) \<Longrightarrow> keeps P (reading f)"
  by (simp add: keeps_def reading_def)

lemma keeps_modify: "(\<And>s. P s \<Longrightarrow> P (f s)) \<Longrightarrow> keeps P (modify f)"
  by (simp add: keeps_def modify_def)

lemma keeps_ignore_err [keeps_intros]: "keeps P m \<Longrightarrow> keeps P (ignore_err m)"
  by (simp add: keeps_def ignore_err_def)

lemma keeps_if [keeps_intros]: "keeps P m \<Longrightarrow> keeps P n \<Longrightarrow> keeps P (if b then m else n)"
  by simp

lemma keeps_for_each [keeps_intros]: "(\<And>x. keeps P (f x)) \<Longrightarrow> keeps P (for_each xs f)"
  by (induction xs) (auto intro: keeps_ret keeps_andDo)

lemma keeps_option_case [keeps_intros]:
  "keeps P m \<Longrightarrow> (\<And>x. keeps P (f x)) \<Longrightarrow> keeps P (case z of None \<Rightarrow> m | Some x \<Rightarrow> f x)"
  by (cases z) auto

lemma keeps_sum_case [keeps_intros]:
  "(\<And>x. keeps P (f x)) \<Longrightarrow> (\<And>x. keeps P (g x)) \<Longrightarrow> keeps P (case z of Inl x \<Rightarrow> f x | Inr x \<Rightarrow> g x)"
  by (cases z) auto

text \<open>Running an operation for its effect only.\<close>

definition run :: "('s, 'e, 'a) io \<Rightarrow> 's \<Rightarrow> 's" where
  "run m s = snd (m s)"

lemma keeps_run: "keeps P m \<Longrightarrow> P s \<Longrightarrow> P (run m s)"
  by (simp add: keeps_def run_def)

end
