(* ===== verification/Model.thy ===== *)
theory Model
  imports Prelude
begin

text \<open>
  The data model of the core crate (\<open>kanade-core/src/model.rs\<close>, \<open>error.rs\<close>, \<open>state.rs\<close>):
  tracks, albums, nodes, playlists and the playback state, with the lookups of
  \<open>PlaybackState\<close>. A Rust \<open>String\<close> is its sequence of UTF-8 bytes, a HOL \<open>string\<close>. Field
  names carry a prefix per struct because HOL records share one name space. The theory also
  holds the well-formedness predicates of a playback state.
\<close>

subsection \<open>Errors\<close>

datatype core_error =
    Output string
  | NodeNotFound
  | NoActiveOutput
  | QueueEmpty
  | QueueIndexOutOfBounds
  | LocalSessionNotFound
  | TrackNotFound string
  | InvalidVolume
  | HandoffFailed string
  | Internal string

subsection \<open>Tracks, albums, artists\<close>

record track =
  tr_id :: string
  tr_file_path :: string
  tr_album_id :: "string option"
  tr_title :: "string option"
  tr_artist :: "string option"
  tr_album_artist :: "string option"
  tr_album_title :: "string option"
  tr_composer :: "string option"
  tr_genre :: "string option"
  tr_track_number :: "u32 option"
  tr_disc_number :: "u32 option"
  tr_duration_secs :: "f64 option"
  tr_format :: "string option"
  tr_sample_rate :: "u32 option"

record album =
  al_id :: string
  al_dir_path :: string
  al_title :: "string option"
  al_artist :: "string option"
  al_artwork_path :: "string option"

record artist =
  ar_id :: string
  ar_name :: string

datatype repeat_mode = Repeat_Off | Repeat_One | Repeat_All

datatype playback_status = Stopped | Playing | Paused | Loading

datatype node_type = Remote | Local

subsection \<open>Nodes\<close>

record node =
  nd_id :: string
  nd_name :: string
  nd_connected :: bool
  nd_status :: playback_status
  nd_position_secs :: f64
  nd_volume :: u8
  nd_node_type :: node_type
  nd_queue :: "track list"
  nd_current_index :: "usize option"
  nd_repeat :: repeat_mode
  nd_shuffle :: bool
  nd_device_id :: "string option"
  nd_disconnected_at :: "int option"

definition default_node :: node where
  "default_node =
    \<lparr>nd_id = [], nd_name = [], nd_connected = True, nd_status = Stopped,
     nd_position_secs = f64_zero, nd_volume = 50, nd_node_type = Remote, nd_queue = [],
     nd_current_index = None, nd_repeat = Repeat_Off, nd_shuffle = False,
     nd_device_id = None, nd_disconnected_at = None\<rparr>"

subsection \<open>Playlists\<close>

datatype match_mode = Match_All | Match_Any

datatype smart_field = F_Title | F_Artist | F_AlbumArtist | F_Album | F_Composer | F_Genre

datatype smart_operator =
  Op_Equals | Op_NotEquals | Op_Contains | Op_NotContains | Op_StartsWith | Op_EndsWith

datatype smart_sort = Sort_Title | Sort_Artist | Sort_Album | Sort_Genre

record smart_condition =
  sc_field :: smart_field
  sc_op :: smart_operator
  sc_value :: string

record smart_filter =
  sf_match_mode :: match_mode
  sf_conditions :: "smart_condition list"

datatype playlist_kind =
    Normal
  | Smart smart_filter "u32 option" "smart_sort option"

record playlist =
  pl_id :: string
  pl_name :: string
  pl_description :: "string option"
  pl_kind :: playlist_kind
  pl_created_at :: int
  pl_updated_at :: int

subsection \<open>The playback state\<close>

record playback_state =
  st_nodes :: "node list"
  st_selected_node_id :: "string option"
  st_queue :: "track list"
  st_current_index :: "usize option"
  st_shuffle :: bool
  st_repeat :: repeat_mode

definition find_node :: "playback_state \<Rightarrow> string \<Rightarrow> node option" where
  "find_node s i = find (\<lambda>n. nd_id n = i) (st_nodes s)"

text \<open>\<open>if let Some(node) = s.node_mut(id) { .. }\<close>: the first node with that id is changed.\<close>

definition with_node :: "string \<Rightarrow> (node \<Rightarrow> node) \<Rightarrow> playback_state \<Rightarrow> playback_state" where
  "with_node i f s = s\<lparr>st_nodes := update_first (\<lambda>n. nd_id n = i) f (st_nodes s)\<rparr>"

text \<open>\<open>for node in s.nodes.iter_mut() { .. }\<close>\<close>

definition all_nodes :: "(node \<Rightarrow> node) \<Rightarrow> playback_state \<Rightarrow> playback_state" where
  "all_nodes f s = s\<lparr>st_nodes := map f (st_nodes s)\<rparr>"

definition selected_node :: "playback_state \<Rightarrow> node option" where
  "selected_node s =
    (case st_selected_node_id s of None \<Rightarrow> None | Some i \<Rightarrow> find_node s i)"

text \<open>\<open>if let Some(node) = s.selected_node_mut() { .. }\<close>\<close>

definition with_selected_node :: "(node \<Rightarrow> node) \<Rightarrow> playback_state \<Rightarrow> playback_state" where
  "with_selected_node f s =
    (case st_selected_node_id s of None \<Rightarrow> s | Some i \<Rightarrow> with_node i f s)"

definition sync_top_level_from_selected_node :: "playback_state \<Rightarrow> playback_state" where
  "sync_top_level_from_selected_node s =
    (case selected_node s of
       Some n \<Rightarrow> s\<lparr>st_queue := nd_queue n, st_current_index := nd_current_index n,
                  st_shuffle := nd_shuffle n, st_repeat := nd_repeat n\<rparr>
     | None \<Rightarrow> s\<lparr>st_queue := [], st_current_index := None,
                  st_shuffle := False, st_repeat := Repeat_Off\<rparr>)"

definition current_track :: "playback_state \<Rightarrow> track option" where
  "current_track s =
    (case (case selected_node s of
             None \<Rightarrow> None
           | Some n \<Rightarrow> (case nd_current_index n of None \<Rightarrow> None | Some i \<Rightarrow> vec_get (nd_queue n) i)) of
       Some t \<Rightarrow> Some t
     | None \<Rightarrow> (case st_current_index s of None \<Rightarrow> None | Some i \<Rightarrow> vec_get (st_queue s) i))"

subsection \<open>Well-formedness\<close>

definition node_ids :: "playback_state \<Rightarrow> string list" where
  "node_ids s = map nd_id (st_nodes s)"

text \<open>The current index of a node points into its queue.\<close>

definition index_ok :: "node \<Rightarrow> bool" where
  "index_ok n = pred_option (\<lambda>i. i < length (nd_queue n)) (nd_current_index n)"

definition indices_ok :: "playback_state \<Rightarrow> bool" where
  "indices_ok s = list_all index_ok (st_nodes s)"

text \<open>The selection, if any, is a node of the state.\<close>

definition selection_ok :: "playback_state \<Rightarrow> bool" where
  "selection_ok s = pred_option (\<lambda>i. i \<in> set (node_ids s)) (st_selected_node_id s)"

text \<open>The top-level index points into the top-level queue.\<close>

definition top_index_ok :: "playback_state \<Rightarrow> bool" where
  "top_index_ok s = pred_option (\<lambda>i. i < length (st_queue s)) (st_current_index s)"

definition state_wf :: "playback_state \<Rightarrow> bool" where
  "state_wf s \<longleftrightarrow> distinct (node_ids s) \<and> selection_ok s \<and> indices_ok s \<and> top_index_ok s"

text \<open>The top-level fields show the selected node, as clients expect of a snapshot.\<close>

definition top_level_synced :: "playback_state \<Rightarrow> bool" where
  "top_level_synced s \<longleftrightarrow> sync_top_level_from_selected_node s = s"

subsection \<open>Lookup and update\<close>

lemma find_node_None_iff: "find_node s i = None \<longleftrightarrow> i \<notin> set (node_ids s)"
  by (auto simp: find_node_def node_ids_def find_None_iff)

lemma find_node_id: "find_node s i = Some n \<Longrightarrow> nd_id n = i"
  by (auto simp: find_node_def dest: find_SomeD)

lemma find_node_mem: "find_node s i = Some n \<Longrightarrow> n \<in> set (st_nodes s)"
  by (auto simp: find_node_def dest: find_SomeD)

lemma find_node_with_node [simp]:
  assumes "\<And>n. nd_id (f n) = nd_id n"
  shows "find_node (with_node i f s) j =
    (if j = i then map_option f (find_node s i) else find_node s j)"
proof (cases "j = i")
  case True
  with assms show ?thesis by (simp add: find_node_def with_node_def find_update_first)
next
  case False
  with assms have "find (\<lambda>n. nd_id n = j) (update_first (\<lambda>n. nd_id n = i) f (st_nodes s)) =
      find (\<lambda>n. nd_id n = j) (st_nodes s)"
    by (intro find_update_first_other) auto
  with False show ?thesis by (simp add: find_node_def with_node_def)
qed

lemma find_node_all_nodes [simp]:
  assumes "\<And>n. nd_id (f n) = nd_id n"
  shows "find_node (all_nodes f s) j = map_option f (find_node s j)"
  using assms by (simp add: find_node_def all_nodes_def find_map)

lemma node_ids_with_node [simp]:
  assumes "\<And>n. nd_id (f n) = nd_id n"
  shows "node_ids (with_node i f s) = node_ids s"
  using assms by (simp add: node_ids_def with_node_def map_update_first)

lemma node_ids_all_nodes [simp]:
  assumes "\<And>n. nd_id (f n) = nd_id n"
  shows "node_ids (all_nodes f s) = node_ids s"
  using assms by (simp add: node_ids_def all_nodes_def)

lemma with_node_fields [simp]:
  "st_selected_node_id (with_node i f s) = st_selected_node_id s"
  "st_queue (with_node i f s) = st_queue s"
  "st_current_index (with_node i f s) = st_current_index s"
  "st_shuffle (with_node i f s) = st_shuffle s"
  "st_repeat (with_node i f s) = st_repeat s"
  by (simp_all add: with_node_def)

lemma all_nodes_fields [simp]:
  "st_selected_node_id (all_nodes f s) = st_selected_node_id s"
  "st_queue (all_nodes f s) = st_queue s"
  "st_current_index (all_nodes f s) = st_current_index s"
  by (simp_all add: all_nodes_def)

lemma sync_fields [simp]:
  "st_nodes (sync_top_level_from_selected_node s) = st_nodes s"
  "st_selected_node_id (sync_top_level_from_selected_node s) = st_selected_node_id s"
  "find_node (sync_top_level_from_selected_node s) i = find_node s i"
  "node_ids (sync_top_level_from_selected_node s) = node_ids s"
  "selected_node (sync_top_level_from_selected_node s) = selected_node s"
  by (auto simp: sync_top_level_from_selected_node_def find_node_def node_ids_def selected_node_def
      split: option.splits)

lemma sync_idem [simp]:
  "sync_top_level_from_selected_node (sync_top_level_from_selected_node s) =
    sync_top_level_from_selected_node s"
proof -
  have "selected_node (sync_top_level_from_selected_node s) = selected_node s" by simp
  then show ?thesis
    by (cases "selected_node s") (simp_all add: sync_top_level_from_selected_node_def)
qed

lemma top_level_synced_sync [simp]: "top_level_synced (sync_top_level_from_selected_node s)"
  by (simp add: top_level_synced_def)

lemma selected_node_with_node:
  assumes "\<And>n. nd_id (f n) = nd_id n"
  shows "selected_node (with_node i f s) =
    (if st_selected_node_id s = Some i then map_option f (find_node s i) else selected_node s)"
  using assms by (auto simp: selected_node_def split: option.splits)

subsection \<open>Preservation of well-formedness\<close>

lemma indices_ok_with_node:
  "indices_ok s \<Longrightarrow> (\<And>n. index_ok n \<Longrightarrow> nd_id n = i \<Longrightarrow> index_ok (f n)) \<Longrightarrow> indices_ok (with_node i f s)"
  by (auto simp: indices_ok_def with_node_def intro: list_all_update_first)

lemma indices_ok_all_nodes:
  "indices_ok s \<Longrightarrow> (\<And>n. index_ok n \<Longrightarrow> index_ok (f n)) \<Longrightarrow> indices_ok (all_nodes f s)"
  by (auto simp: indices_ok_def all_nodes_def list_all_iff)

lemma selection_ok_with_node:
  "(\<And>n. nd_id (f n) = nd_id n) \<Longrightarrow> selection_ok (with_node i f s) = selection_ok s"
  by (simp add: selection_ok_def)

lemma selection_ok_all_nodes:
  "(\<And>n. nd_id (f n) = nd_id n) \<Longrightarrow> selection_ok (all_nodes f s) = selection_ok s"
  by (simp add: selection_ok_def)

lemma state_wf_with_node:
  assumes "state_wf s" "\<And>n. nd_id (f n) = nd_id n"
    and "\<And>n. index_ok n \<Longrightarrow> nd_id n = i \<Longrightarrow> index_ok (f n)"
  shows "state_wf (with_node i f s)"
  using assms by (simp add: state_wf_def selection_ok_with_node indices_ok_with_node top_index_ok_def)

lemma state_wf_found:
  assumes "state_wf s" "find_node s i = Some n" "\<And>n. nd_id (f n) = nd_id n" "index_ok (f n)"
  shows "state_wf (with_node i f s)"
  using assms list_all_update_found [of index_ok "st_nodes s" "\<lambda>n. nd_id n = i" n f]
  by (simp add: state_wf_def selection_ok_with_node top_index_ok_def indices_ok_def find_node_def)
    (simp add: with_node_def)

lemma state_wf_all_nodes:
  assumes "state_wf s" "\<And>n. nd_id (f n) = nd_id n" "\<And>n. index_ok n \<Longrightarrow> index_ok (f n)"
  shows "state_wf (all_nodes f s)"
  using assms by (simp add: state_wf_def selection_ok_all_nodes indices_ok_all_nodes top_index_ok_def)

lemma state_wf_index: "state_wf s \<Longrightarrow> find_node s i = Some n \<Longrightarrow> index_ok n"
  by (auto simp: state_wf_def indices_ok_def list_all_iff dest: find_node_mem)

lemma index_ok_sync:
  "indices_ok s \<Longrightarrow> top_index_ok (sync_top_level_from_selected_node s)"
proof (cases "selected_node s")
  case (Some n)
  assume "indices_ok s"
  moreover have "n \<in> set (st_nodes s)"
    using Some by (auto simp: selected_node_def split: option.splits dest: find_node_mem)
  ultimately have "index_ok n" by (simp add: indices_ok_def list_all_iff)
  with Some show ?thesis
    by (simp add: top_index_ok_def sync_top_level_from_selected_node_def index_ok_def)
qed (simp add: top_index_ok_def sync_top_level_from_selected_node_def)

lemma state_wf_sync: "state_wf s \<Longrightarrow> state_wf (sync_top_level_from_selected_node s)"
  by (simp add: state_wf_def index_ok_sync selection_ok_def indices_ok_def)

lemma state_wf_selected: "state_wf s \<Longrightarrow> st_selected_node_id s = Some i \<Longrightarrow> \<exists>n. find_node s i = Some n"
  using find_node_None_iff [of s i] by (auto simp: state_wf_def selection_ok_def)

text \<open>In a well-formed, synchronised state the current track is defined exactly when an index is.\<close>

lemma current_track_defined:
  assumes "state_wf s" "top_level_synced s" "selected_node s = Some n"
  shows "(\<exists>t. current_track s = Some t) \<longleftrightarrow> nd_current_index n \<noteq> None"
proof -
  obtain i where i: "find_node s i = Some n"
    using assms(3) by (auto simp: selected_node_def split: option.splits)
  have "index_ok n" using state_wf_index [OF assms(1) i] .
  moreover have "st_current_index s = nd_current_index n"
    using arg_cong [OF assms(2) [unfolded top_level_synced_def], of st_current_index] assms(3)
    by (simp add: sync_top_level_from_selected_node_def)
  ultimately show ?thesis using assms(3)
    by (auto simp: current_track_def index_ok_def vec_get_def split: option.splits)
qed

end
