(* ===== verification/Ports.thy ===== *)
theory Ports
  imports Model
begin

text \<open>
  The ports of the core crate (\<open>kanade-core/src/ports.rs\<close>). A \<open>dyn AudioOutput\<close> is a function
  from a method call to an operation on the world outside the core, a \<open>dyn EventBroadcaster\<close> and
  a \<open>dyn StatePersister\<close> are functions from a snapshot to a change of that world. The contract
  of an audio output, that it holds an ordered list of files which the calls replace, extend and
  edit, is the locale \<open>audio_queue\<close>; it is interpreted on the command channel of a remote node
  in the theory \<open>NodeOutput\<close>. The weaker contract \<open>file_player\<close> is what a player promises that has its
  own names for the files; theory \<open>Node_Facts\<close> shows that the renderer of a node meets it whenever the MPD
  daemon behind it follows its protocol.
\<close>

datatype output_call =
    Call_Play
  | Call_Pause
  | Call_Stop
  | Call_Seek f64
  | Call_SetVolume u8
  | Call_SetQueue "string list" u64
  | Call_Add "string list"
  | Call_Remove usize
  | Call_MoveTrack usize usize

type_synonym 'w audio_output = "output_call \<Rightarrow> ('w, core_error, unit) io"
type_synonym 'w event_broadcaster = "playback_state \<Rightarrow> 'w \<Rightarrow> 'w"
type_synonym 'w state_persister = "playback_state \<Rightarrow> 'w \<Rightarrow> 'w"

text \<open>
  What a call does to the list of files an output holds: \<open>set_queue\<close> replaces it, \<open>add\<close> appends,
  \<open>remove\<close> and \<open>move_track\<close> edit by position and leave the list alone out of range.
\<close>

fun apply_call :: "output_call \<Rightarrow> string list \<Rightarrow> string list" where
  "apply_call (Call_SetQueue ps g) q = ps"
| "apply_call (Call_Add ps) q = q @ ps"
| "apply_call (Call_Remove i) q = (if i < length q then vec_remove i q else q)"
| "apply_call (Call_MoveTrack i j) q = (if i < length q \<and> j < length q then vec_move i j q else q)"
| "apply_call _ q = q"

text \<open>
  The contract: as long as the output has room for a call, the call succeeds, changes the list of
  files as described, and uses up at most one unit of room.
\<close>

locale audio_queue =
  fixes out :: "'w audio_output"
    and files :: "'w \<Rightarrow> string list"
    and room :: "'w \<Rightarrow> nat"
  assumes accepts: "0 < room w \<Longrightarrow>
    \<exists>w'. out c w = (Inr (), w') \<and> files w' = apply_call c (files w) \<and> room w \<le> Suc (room w')"
begin

lemma call_obtain:
  assumes "n < room w"
  obtains w' where "out c w = (Inr (), w')" "files w' = apply_call c (files w)" "n \<le> room w'"
  using accepts [of w c] assms by fastforce

text \<open>A sequence of calls succeeds when there is room for all of them.\<close>

lemma calls_fold:
  "length cs \<le> room w \<Longrightarrow> \<exists>w'. for_each cs out w = (Inr (), w') \<and> files w' = fold apply_call cs (files w)"
proof (induction cs arbitrary: w)
  case Nil
  then show ?case by (simp add: ret_def)
next
  case (Cons c cs)
  then obtain w1 where w1: "out c w = (Inr (), w1)" "files w1 = apply_call c (files w)"
    and "length cs \<le> room w1"
    using call_obtain [of "length cs" w c] by auto
  with Cons.IH [of w1] show ?case by (auto simp: andDo_def andThen_def)
qed

end

text \<open>
  A player has names of its own for the files (the URLs it fetches them from), may refuse a call
  that changes nothing (a position out of range), and promises nothing for a call it cannot be told.
  What remains is that its list follows the calls, file by file.
\<close>

fun map_call :: "(string \<Rightarrow> string) \<Rightarrow> output_call \<Rightarrow> output_call" where
  "map_call f (Call_SetQueue ps g) = Call_SetQueue (map f ps) g"
| "map_call f (Call_Add ps) = Call_Add (map f ps)"
| "map_call f c = c"

lemma map_call_id [simp]: "map_call id c = c"
  by (cases c) simp_all

lemma apply_map_call: "apply_call (map_call f c) (map f q) = map f (apply_call c q)"
  by (cases c) (simp_all add: vec_remove_def vec_move_def vec_insert_def take_map drop_map)

locale file_player =
  fixes out :: "'w audio_output"
    and files :: "'w \<Rightarrow> string list"
    and room :: "'w \<Rightarrow> nat"
    and name :: "string \<Rightarrow> string"
    and fits :: "output_call \<Rightarrow> bool"
  assumes follows: "0 < room w \<Longrightarrow> fits c \<Longrightarrow>
    \<exists>r w'. out c w = (r, w') \<and> files w' = apply_call (map_call name c) (files w) \<and> room w \<le> Suc (room w')"

sublocale audio_queue \<subseteq> player: file_player out files room id "\<lambda>_. True"
proof
  fix w c
  assume "0 < room w"
  then show "\<exists>r w'. out c w = (r, w') \<and> files w' = apply_call (map_call id c) (files w) \<and> room w \<le> Suc (room w')"
    using accepts [of w c] by auto
qed

end
