(* ===== verification/Core_Base.thy ===== *)
theory Core_Base
  imports Ports
begin

text \<open>
  The state of the core controller (\<open>kanade-core/src/controller.rs\<close>) and the operations every
  other one is built from: the registry of outputs, broadcasting, the transport projection of a
  node's queue on its output, and the choice of the active node.

  The four locks of \<open>Core\<close> are the components of one record; an operation is modelled as running
  to its end before the next one starts. Logging is left out. The system clock and fresh UUIDs are
  arguments of the operations that read them.
\<close>

subsection \<open>The state\<close>

record transport =
  tp_generation :: u64
  tp_start_index :: "usize option"
  tp_loaded_len :: usize

definition default_transport :: transport where
  "default_transport = \<lparr>tp_generation = 0, tp_start_index = None, tp_loaded_len = 0\<rparr>"

record 'w output_slot =
  slot_connection_id :: string
  slot_output :: "'w audio_output"

record 'w core =
  co_state :: playback_state
  co_outputs :: "string \<rightharpoonup> 'w output_slot"
  co_broadcasters :: "'w event_broadcaster list"
  co_persisters :: "'w state_persister list"
  co_transport :: "string \<rightharpoonup> transport"
  co_world :: 'w

type_synonym ('w, 'a) core_io = "('w core, core_error, 'a) io"

definition empty_state :: playback_state where
  "empty_state = \<lparr>st_nodes = [], st_selected_node_id = None, st_queue = [],
    st_current_index = None, st_shuffle = False, st_repeat = Repeat_Off\<rparr>"

definition core_new ::
  "(string \<times> 'w audio_output) list \<Rightarrow> 'w event_broadcaster list \<Rightarrow> 'w \<Rightarrow> 'w core" where
  "core_new outs bs w =
    \<lparr>co_state = empty_state,
     co_outputs = map_of (rev (map (\<lambda>(i, out).
       (i, \<lparr>slot_connection_id = ''static'', slot_output = out\<rparr>)) outs)),
     co_broadcasters = bs, co_persisters = [], co_transport = Map.empty, co_world = w\<rparr>"

subsection \<open>The output registry\<close>

definition register_output :: "string \<Rightarrow> string \<Rightarrow> 'w audio_output \<Rightarrow> 'w core \<Rightarrow> 'w core" where
  "register_output i conn out c =
    c\<lparr>co_outputs := (co_outputs c)(i \<mapsto> \<lparr>slot_connection_id = conn, slot_output = out\<rparr>)\<rparr>"

definition is_same_output :: "string \<Rightarrow> string \<Rightarrow> 'w core \<Rightarrow> bool" where
  "is_same_output i conn c =
    (case co_outputs c i of None \<Rightarrow> False | Some slot \<Rightarrow> slot_connection_id slot = conn)"

definition unregister_output :: "string \<Rightarrow> string \<Rightarrow> 'w core \<Rightarrow> 'w core" where
  "unregister_output i conn c =
    (case co_outputs c i of
       None \<Rightarrow> c
     | Some slot \<Rightarrow>
         if slot_connection_id slot = conn then c\<lparr>co_outputs := (co_outputs c)(i := None)\<rparr> else c)"

definition has_output :: "string \<Rightarrow> 'w core \<Rightarrow> bool" where
  "has_output i c = (co_outputs c i \<noteq> None)"

definition add_broadcaster :: "'w event_broadcaster \<Rightarrow> 'w core \<Rightarrow> 'w core" where
  "add_broadcaster b c = c\<lparr>co_broadcasters := co_broadcasters c @ [b]\<rparr>"

definition add_persister :: "'w state_persister \<Rightarrow> 'w core \<Rightarrow> 'w core" where
  "add_persister p c = c\<lparr>co_persisters := co_persisters c @ [p]\<rparr>"

definition restore_state :: "playback_state \<Rightarrow> 'w core \<Rightarrow> 'w core" where
  "restore_state s c = c\<lparr>co_state := s\<rparr>"

subsection \<open>Changing the state and broadcasting it\<close>

definition modify_state :: "(playback_state \<Rightarrow> playback_state) \<Rightarrow> ('w, unit) core_io" where
  "modify_state f = modify (\<lambda>c. c\<lparr>co_state := f (co_state c)\<rparr>)"

definition broadcast :: "'w core \<Rightarrow> 'w core" where
  "broadcast c =
    (let s = sync_top_level_from_selected_node (co_state c);
         w = fold (\<lambda>b. b s) (co_broadcasters c) (co_world c)
     in c\<lparr>co_state := s, co_world := fold (\<lambda>p. p s) (co_persisters c) w\<rparr>)"

definition publish :: "('w, unit) core_io" where
  "publish = modify broadcast"

definition call_output :: "'w audio_output \<Rightarrow> output_call \<Rightarrow> ('w, unit) core_io" where
  "call_output out k = (\<lambda>c. case out k (co_world c) of (r, w) \<Rightarrow> (r, c\<lparr>co_world := w\<rparr>))"

subsection \<open>The active node and its outputs\<close>

definition each_output :: "string \<Rightarrow> ('w, 'w audio_output list) core_io" where
  "each_output i = reading (\<lambda>c. case co_outputs c i of
     None \<Rightarrow> fail NoActiveOutput | Some slot \<Rightarrow> ret [slot_output slot])"

definition active_node_of :: "playback_state \<Rightarrow> core_error + string" where
  "active_node_of s =
    (case st_selected_node_id s of
       None \<Rightarrow> Inl NoActiveOutput
     | Some i \<Rightarrow>
         (case find_node s i of
            None \<Rightarrow> Inl NodeNotFound
          | Some n \<Rightarrow> if nd_connected n then Inr i else Inl NoActiveOutput))"

definition active_node_id :: "('w, string) core_io" where
  "active_node_id = reading (\<lambda>c. case active_node_of (co_state c) of Inl e \<Rightarrow> fail e | Inr i \<Rightarrow> ret i)"

definition active_outputs :: "('w, 'w audio_output list) core_io" where
  "active_outputs = andThen active_node_id each_output"

text \<open>\<open>for o in self.active_outputs().await? { o.call(..).await? }\<close>\<close>

definition call_active :: "output_call \<Rightarrow> ('w, unit) core_io" where
  "call_active k = andThen active_outputs (\<lambda>os. for_each os (\<lambda>out. call_output out k))"

text \<open>\<open>self.active_outputs().await.ok()\<close>\<close>

definition maybe_active_outputs :: "('w, 'w audio_output list option) core_io" where
  "maybe_active_outputs = (\<lambda>c. case active_outputs c of
     (Inl e, c') \<Rightarrow> (Inr None, c') | (Inr os, c') \<Rightarrow> (Inr (Some os), c'))"

subsection \<open>The projection of a queue on an output\<close>

text \<open>
  An output is loaded with the queue from the current track on. The generation tells state updates
  of an older load apart.
\<close>

definition build_queue_file_paths :: "track list \<Rightarrow> usize option \<Rightarrow> string list" where
  "build_queue_file_paths q ci =
    (let start = (case ci of None \<Rightarrow> 0 | Some i \<Rightarrow> i);
         tail = (if ci \<noteq> None then map tr_file_path (drop (usize_add start 1) q)
                 else map tr_file_path (drop 1 q));
         head = (case vec_get q start of None \<Rightarrow> [] | Some t \<Rightarrow> [tr_file_path t])
     in head @ tail)"

definition rebuild_projection_state :: "string \<Rightarrow> usize option \<Rightarrow> usize \<Rightarrow> ('w, u64) core_io" where
  "rebuild_projection_state i start len = (\<lambda>c.
    let entry = (case co_transport c i of None \<Rightarrow> default_transport | Some t \<Rightarrow> t);
        entry = entry\<lparr>tp_generation := tp_generation entry + 1, tp_start_index := start, tp_loaded_len := len\<rparr>
    in (Inr (tp_generation entry), c\<lparr>co_transport := (co_transport c)(i \<mapsto> entry)\<rparr>))"

definition update_transport :: "string \<Rightarrow> (transport \<Rightarrow> transport) \<Rightarrow> ('w, unit) core_io" where
  "update_transport i f = modify (\<lambda>c. case co_transport c i of
     None \<Rightarrow> c | Some t \<Rightarrow> c\<lparr>co_transport := (co_transport c)(i \<mapsto> f t)\<rparr>)"

definition extend_projection_loaded_len_active :: "usize \<Rightarrow> ('w, unit) core_io" where
  "extend_projection_loaded_len_active k =
    (if k = 0 then ret () else reading (\<lambda>c. case active_node_of (co_state c) of
       Inl _ \<Rightarrow> ret ()
     | Inr i \<Rightarrow> update_transport i (\<lambda>t. t\<lparr>tp_loaded_len := usize_saturating_add (tp_loaded_len t) k\<rparr>)))"

definition decrement_projection_loaded_len_active :: "usize \<Rightarrow> ('w, unit) core_io" where
  "decrement_projection_loaded_len_active k =
    (if k = 0 then ret () else reading (\<lambda>c. case active_node_of (co_state c) of
       Inl _ \<Rightarrow> ret ()
     | Inr i \<Rightarrow> update_transport i (\<lambda>t.
         let t = t\<lparr>tp_loaded_len := tp_loaded_len t - k\<rparr>
         in if tp_loaded_len t = 0 then t\<lparr>tp_start_index := None\<rparr> else t)))"

definition sync_output_to_global :: "string \<Rightarrow> ('w, unit) core_io" where
  "sync_output_to_global i = reading (\<lambda>c. case find_node (co_state c) i of
     None \<Rightarrow> fail NodeNotFound
   | Some n \<Rightarrow>
       andThen (rebuild_projection_state i (nd_current_index n) (length (nd_queue n))) (\<lambda>gen.
       andThen (each_output i) (\<lambda>os. for_each os (\<lambda>out.
         andDo (call_output out (Call_SetVolume (nd_volume n)))
               (call_output out (Call_SetQueue
                  (build_queue_file_paths (nd_queue n) (nd_current_index n)) gen))))))"

text \<open>\<open>o.play().await?; if position_secs > 0.0 { o.seek(position_secs).await? }\<close>\<close>

definition play_and_seek :: "'w audio_output \<Rightarrow> f64 \<Rightarrow> ('w, unit) core_io" where
  "play_and_seek out pos = andDo (call_output out Call_Play)
    (if f64_pos pos then call_output out (Call_Seek pos) else ret ())"

definition apply_output_runtime_state ::
  "string \<Rightarrow> playback_status \<Rightarrow> f64 \<Rightarrow> ('w, unit) core_io" where
  "apply_output_runtime_state i st pos =
    (case st of
       Paused \<Rightarrow> andThen (each_output i) (\<lambda>os. for_each os (\<lambda>out.
         andDo (play_and_seek out pos) (call_output out Call_Pause)))
     | Stopped \<Rightarrow> andThen (each_output i) (\<lambda>os. for_each os (\<lambda>out. call_output out Call_Stop))
     | _ \<Rightarrow> andThen (each_output i) (\<lambda>os. for_each os (\<lambda>out. play_and_seek out pos)))"

subsection \<open>Weakest preconditions of the base operations\<close>

lemma wp_modify_state [wp_simps]:
  "wp (modify_state f) Q E c = Q () (c\<lparr>co_state := f (co_state c)\<rparr>)"
  by (simp add: modify_state_def wp_modify)

lemma wp_publish [wp_simps]: "wp publish Q E c = Q () (broadcast c)"
  by (simp add: publish_def wp_modify)

lemma wp_each_output [wp_simps]:
  "wp (each_output i) Q E c =
    (case co_outputs c i of None \<Rightarrow> E NoActiveOutput c | Some slot \<Rightarrow> Q [slot_output slot] c)"
  by (simp add: each_output_def wp_reading wp_ret wp_fail split: option.split)

lemma wp_active_node_id [wp_simps]:
  "wp active_node_id Q E c = (case active_node_of (co_state c) of Inl e \<Rightarrow> E e c | Inr i \<Rightarrow> Q i c)"
  by (simp add: active_node_id_def wp_reading wp_ret wp_fail split: sum.split)

lemma wp_active_outputs [wp_simps]:
  "wp active_outputs Q E c = wp active_node_id (\<lambda>i t. wp (each_output i) Q E t) E c"
  by (simp add: active_outputs_def wp_andThen)

lemma wp_maybe_active_outputs [wp_simps]:
  "wp maybe_active_outputs Q E c = wp active_outputs (\<lambda>os t. Q (Some os) t) (\<lambda>_ t. Q None t) c"
  by (auto simp: wp_def maybe_active_outputs_def split: prod.splits sum.splits)

lemma transport_updates:
  "t\<lparr>tp_generation := g, tp_start_index := st, tp_loaded_len := len\<rparr> =
    \<lparr>tp_generation = g, tp_start_index = st, tp_loaded_len = len\<rparr>"
  by (cases t) simp

lemma wp_rebuild [wp_simps]:
  "wp (rebuild_projection_state i st len) Q E c =
    (let g = (case co_transport c i of None \<Rightarrow> 0 | Some t \<Rightarrow> tp_generation t) + 1
     in Q g (c\<lparr>co_transport := (co_transport c)
          (i \<mapsto> \<lparr>tp_generation = g, tp_start_index = st, tp_loaded_len = len\<rparr>)\<rparr>))"
  by (auto simp: rebuild_projection_state_def wp_def Let_def default_transport_def transport_updates
      split: option.split)

lemma wp_update_transport [wp_simps]:
  "wp (update_transport i f) Q E c = Q () (case co_transport c i of
     None \<Rightarrow> c | Some t \<Rightarrow> c\<lparr>co_transport := (co_transport c)(i \<mapsto> f t)\<rparr>)"
  by (simp add: update_transport_def wp_modify)

lemma broadcast_fields [simp]:
  "co_outputs (broadcast c) = co_outputs c" "co_transport (broadcast c) = co_transport c"
  "co_broadcasters (broadcast c) = co_broadcasters c" "co_persisters (broadcast c) = co_persisters c"
  "co_state (broadcast c) = sync_top_level_from_selected_node (co_state c)"
  by (simp_all add: broadcast_def Let_def)

lemma active_node_ofD:
  "active_node_of s = Inr i \<Longrightarrow>
    \<exists>n. st_selected_node_id s = Some i \<and> find_node s i = Some n \<and> nd_connected n"
  by (auto simp: active_node_of_def split: option.splits if_splits)

lemma active_node_ofI:
  "st_selected_node_id s = Some i \<Longrightarrow> find_node s i = Some n \<Longrightarrow> nd_connected n \<Longrightarrow> active_node_of s = Inr i"
  by (simp add: active_node_of_def)

lemma active_node_of_with_node:
  assumes "\<And>n. nd_id (f n) = nd_id n" "\<And>n. nd_connected (f n) = nd_connected n"
  shows "active_node_of (with_node i f s) = active_node_of s"
  using assms by (auto simp: active_node_of_def split: option.split)

lemma active_node_of_all_nodes:
  assumes "\<And>n. nd_id (f n) = nd_id n" "\<And>n. nd_connected (f n) = nd_connected n"
  shows "active_node_of (all_nodes f s) = active_node_of s"
  using assms by (auto simp: active_node_of_def split: option.split)

end
