(* ===== verification/Core_Playback.thy ===== *)
theory Core_Playback
  imports Core_Base
begin

text \<open>
  The playback and queue operations of the core controller
  (\<open>kanade-core/src/controller.rs\<close>, from \<open>play\<close> to \<open>set_queue\<close>), one definition per method.
\<close>

subsection \<open>Transport operations on a given node\<close>

definition play_node :: "string \<Rightarrow> ('w, unit) core_io" where
  "play_node i = andThen (each_output i) (\<lambda>os.
    andDo (for_each os (\<lambda>out. call_output out Call_Play)) (
    andDo (modify_state (with_node i (\<lambda>n.
      let n = (if nd_queue n \<noteq> [] \<and> nd_current_index n = None
               then n\<lparr>nd_current_index := Some 0\<rparr> else n)
      in if nd_current_index n \<noteq> None then n\<lparr>nd_status := Playing\<rparr> else n)))
    publish))"

definition pause_node :: "string \<Rightarrow> ('w, unit) core_io" where
  "pause_node i = andThen (each_output i) (\<lambda>os.
    andDo (for_each os (\<lambda>out. call_output out Call_Pause)) (
    andDo (modify_state (with_node i (\<lambda>n. n\<lparr>nd_status := Paused\<rparr>)))
    publish))"

definition stop_node :: "string \<Rightarrow> ('w, unit) core_io" where
  "stop_node i = andThen (each_output i) (\<lambda>os.
    andDo (for_each os (\<lambda>out. call_output out Call_Stop)) (
    andDo (modify_state (with_node i (\<lambda>n. n\<lparr>nd_status := Stopped, nd_position_secs := f64_zero\<rparr>)))
    publish))"

definition seek_node :: "string \<Rightarrow> f64 \<Rightarrow> ('w, unit) core_io" where
  "seek_node i pos = andThen (each_output i) (\<lambda>os.
    andDo (for_each os (\<lambda>out. call_output out (Call_Seek pos))) (
    andDo (modify_state (with_node i (\<lambda>n. n\<lparr>nd_position_secs := pos\<rparr>)))
    publish))"

definition set_node_volume :: "string \<Rightarrow> u8 \<Rightarrow> ('w, unit) core_io" where
  "set_node_volume i vol =
    (if vol > 100 then fail InvalidVolume
     else andThen (each_output i) (\<lambda>os.
       andDo (for_each os (\<lambda>out. call_output out (Call_SetVolume vol))) (
       andDo (modify_state (with_node i (\<lambda>n. n\<lparr>nd_volume := vol\<rparr>)))
       publish)))"

subsection \<open>The same on the active node\<close>

definition core_play :: "('w, unit) core_io" where
  "core_play = andThen active_node_id play_node"

definition core_pause :: "('w, unit) core_io" where
  "core_pause = andThen active_node_id pause_node"

definition core_stop :: "('w, unit) core_io" where
  "core_stop = andThen active_node_id stop_node"

definition core_seek :: "f64 \<Rightarrow> ('w, unit) core_io" where
  "core_seek pos = andThen active_node_id (\<lambda>i. seek_node i pos)"

definition core_set_volume :: "u8 \<Rightarrow> ('w, unit) core_io" where
  "core_set_volume vol = andThen active_node_id (\<lambda>i. set_node_volume i vol)"

subsection \<open>Jumping to a track\<close>

definition next_index :: "node \<Rightarrow> core_error + usize" where
  "next_index n =
    (let len = length (nd_queue n)
     in if len = 0 then Inl QueueEmpty
        else case nd_current_index n of
          Some i \<Rightarrow> (case nd_repeat n of
              Repeat_Off \<Rightarrow> if usize_add i 1 < len then Inr (usize_add i 1) else Inl QueueEmpty
            | Repeat_One \<Rightarrow> Inr i
            | Repeat_All \<Rightarrow> Inr (usize_add i 1 mod len))
        | None \<Rightarrow> Inr 0)"

definition previous_index :: "node \<Rightarrow> core_error + usize" where
  "previous_index n =
    (let len = length (nd_queue n);
         wrap = (case nd_repeat n of
            Repeat_Off \<Rightarrow> Inl QueueEmpty | Repeat_One \<Rightarrow> Inr 0 | Repeat_All \<Rightarrow> Inr (len - 1))
     in if len = 0 then Inl QueueEmpty
        else case nd_current_index n of
          None \<Rightarrow> wrap
        | Some i \<Rightarrow> if i = 0 then wrap else Inr (i - 1))"

definition play_index_check :: "usize \<Rightarrow> node \<Rightarrow> core_error + usize" where
  "play_index_check k n =
    (if k \<ge> length (nd_queue n) then Inl QueueIndexOutOfBounds else Inr k)"

text \<open>
  \<open>next\<close>, \<open>previous\<close> and \<open>play_index\<close> choose an index and then do the same: make it the current
  one, reset the positions, reload the output from there, play, and mark the node as playing.
\<close>

definition jump :: "(node \<Rightarrow> core_error + usize) \<Rightarrow> ('w, unit) core_io" where
  "jump pick = andThen active_node_id (\<lambda>i.
    reading (\<lambda>c. case find_node (co_state c) i of
      None \<Rightarrow> fail NodeNotFound
    | Some n \<Rightarrow> (case pick n of
        Inl e \<Rightarrow> fail e
      | Inr k \<Rightarrow>
          andDo (modify_state (\<lambda>s. all_nodes (\<lambda>n. n\<lparr>nd_position_secs := f64_zero\<rparr>)
                   (with_node i (\<lambda>n. n\<lparr>nd_current_index := Some k\<rparr>) s))) (
          let paths = build_queue_file_paths (nd_queue n) (Some k) in
          andThen (rebuild_projection_state i (Some k) (length paths)) (\<lambda>gen.
          andDo (call_active (Call_SetQueue paths gen)) (
          andDo (call_active Call_Play) (
          andDo (modify_state (with_node i (\<lambda>n. n\<lparr>nd_status := Playing\<rparr>)))
          publish)))))))"

definition core_next :: "('w, unit) core_io" where
  "core_next = jump next_index"

definition core_previous :: "('w, unit) core_io" where
  "core_previous = jump previous_index"

definition play_index :: "usize \<Rightarrow> ('w, unit) core_io" where
  "play_index k = jump (play_index_check k)"

subsection \<open>Modes of the selected node\<close>

text \<open>\<open>s.selected_node_mut().ok_or(NoActiveOutput)?\<close> followed by a change and a broadcast.\<close>

definition on_selected :: "(node \<Rightarrow> node) \<Rightarrow> ('w, unit) core_io" where
  "on_selected f = reading (\<lambda>c. case selected_node (co_state c) of
     None \<Rightarrow> fail NoActiveOutput
   | Some _ \<Rightarrow> andDo (modify_state (with_selected_node f)) publish)"

definition set_shuffle :: "bool \<Rightarrow> ('w, unit) core_io" where
  "set_shuffle b = on_selected (\<lambda>n. n\<lparr>nd_shuffle := b\<rparr>)"

definition set_repeat :: "repeat_mode \<Rightarrow> ('w, unit) core_io" where
  "set_repeat r = on_selected (\<lambda>n. n\<lparr>nd_repeat := r\<rparr>)"

subsection \<open>Editing the queue\<close>

definition add_tracks_to_queue :: "track list \<Rightarrow> ('w, unit) core_io" where
  "add_tracks_to_queue ts =
    (if ts = [] then ret () else reading (\<lambda>c. case st_selected_node_id (co_state c) of
       None \<Rightarrow> fail NoActiveOutput
     | Some i \<Rightarrow> (case find_node (co_state c) i of
         None \<Rightarrow> fail NodeNotFound
       | Some _ \<Rightarrow>
           andDo (modify_state (with_node i (\<lambda>n. n\<lparr>nd_queue := nd_queue n @ ts\<rparr>))) (
           andDo (andThen maybe_active_outputs (\<lambda>r. case r of
               None \<Rightarrow> ret ()
             | Some os \<Rightarrow> andDo (for_each os (\<lambda>out. call_output out (Call_Add (map tr_file_path ts))))
                 (extend_projection_loaded_len_active (length ts))))
           publish))))"

definition add_to_queue :: "track \<Rightarrow> ('w, unit) core_io" where
  "add_to_queue t = reading (\<lambda>c. case st_selected_node_id (co_state c) of
       None \<Rightarrow> fail NoActiveOutput
     | Some i \<Rightarrow> (case find_node (co_state c) i of
         None \<Rightarrow> fail NodeNotFound
       | Some _ \<Rightarrow>
           andDo (modify_state (with_node i (\<lambda>n. n\<lparr>nd_queue := nd_queue n @ [t]\<rparr>))) (
           andDo (andThen maybe_active_outputs (\<lambda>r. case r of
               None \<Rightarrow> ret ()
             | Some os \<Rightarrow> andDo (for_each os (\<lambda>out. call_output out (Call_Add [tr_file_path t])))
                 (extend_projection_loaded_len_active 1)))
           publish)))"

definition clear_queue :: "('w, unit) core_io" where
  "clear_queue =
    andDo (reading (\<lambda>c. case active_node_of (co_state c) of
        Inl _ \<Rightarrow> ret ()
      | Inr i \<Rightarrow> andThen (rebuild_projection_state i None 0) (\<lambda>gen.
          andThen (each_output i) (\<lambda>os. for_each os (\<lambda>out. call_output out (Call_SetQueue [] gen))))))
    (on_selected (\<lambda>n. n\<lparr>nd_queue := [], nd_current_index := None,
       nd_position_secs := f64_zero, nd_status := Stopped\<rparr>))"

text \<open>The change \<open>remove_from_queue\<close> makes to the node, for an index in range.\<close>

definition remove_track :: "usize \<Rightarrow> node \<Rightarrow> node" where
  "remove_track k n =
    (let n' = n\<lparr>nd_queue := vec_remove k (nd_queue n)\<rparr>
     in case nd_current_index n' of
          Some ci \<Rightarrow>
            if ci = k \<and> nd_queue n' = [] then n'\<lparr>nd_current_index := None, nd_status := Stopped\<rparr>
            else if ci = k then n'\<lparr>nd_current_index := Some (min ci (length (nd_queue n') - 1))\<rparr>
            else if ci > k then n'\<lparr>nd_current_index := Some (ci - 1)\<rparr>
            else n'
        | None \<Rightarrow> n')"

text \<open>The position of a queue index on the output: \<open>index.saturating_sub(ci)\<close>.\<close>

definition output_index :: "node \<Rightarrow> usize \<Rightarrow> usize" where
  "output_index n k = (case nd_current_index n of Some ci \<Rightarrow> k - ci | None \<Rightarrow> k)"

definition remove_from_queue :: "usize \<Rightarrow> ('w, unit) core_io" where
  "remove_from_queue k = reading (\<lambda>c. case selected_node (co_state c) of
     None \<Rightarrow> fail NoActiveOutput
   | Some n \<Rightarrow>
       if k \<ge> length (nd_queue n) then fail QueueIndexOutOfBounds
       else
         andDo (modify_state (with_selected_node (remove_track k))) (
         andDo (andThen maybe_active_outputs (\<lambda>r. case r of
             None \<Rightarrow> ret ()
           | Some os \<Rightarrow> andDo (for_each os (\<lambda>out. call_output out (Call_Remove (output_index n k))))
               (decrement_projection_loaded_len_active 1)))
         publish))"

definition move_index :: "usize \<Rightarrow> usize \<Rightarrow> usize \<Rightarrow> usize" where
  "move_index i j ci =
    (if ci = i then j
     else if i < ci \<and> ci \<le> j then ci - 1
     else if j \<le> ci \<and> ci < i then ci + 1
     else ci)"

definition move_track :: "usize \<Rightarrow> usize \<Rightarrow> node \<Rightarrow> node" where
  "move_track i j n = n\<lparr>nd_queue := vec_move i j (nd_queue n),
     nd_current_index := map_option (move_index i j) (nd_current_index n)\<rparr>"

definition move_in_queue :: "usize \<Rightarrow> usize \<Rightarrow> ('w, unit) core_io" where
  "move_in_queue i j = reading (\<lambda>c. case selected_node (co_state c) of
     None \<Rightarrow> fail NoActiveOutput
   | Some n \<Rightarrow>
       if i \<ge> length (nd_queue n) \<or> j \<ge> length (nd_queue n) then fail QueueIndexOutOfBounds
       else
         andDo (modify_state (with_selected_node (move_track i j))) (
         andDo (andThen maybe_active_outputs (\<lambda>r. case r of
             None \<Rightarrow> ret ()
           | Some os \<Rightarrow> for_each os (\<lambda>out.
               call_output out (Call_MoveTrack (output_index n i) (output_index n j)))))
         publish))"

text \<open>The files \<open>set_queue\<close> loads: the track at the start index, then those after it.\<close>

definition rotated_paths :: "track list \<Rightarrow> usize option \<Rightarrow> string list" where
  "rotated_paths ts start_index =
    (let start = (case start_index of None \<Rightarrow> 0 | Some i \<Rightarrow> i);
         head = (case vec_get ts start of None \<Rightarrow> [] | Some t \<Rightarrow> [tr_file_path t])
     in head @ map tr_file_path (drop (usize_add start 1) ts))"

definition core_set_queue :: "track list \<Rightarrow> usize option \<Rightarrow> ('w, unit) core_io" where
  "core_set_queue ts start_index = reading (\<lambda>c. case st_selected_node_id (co_state c) of
     None \<Rightarrow> fail NoActiveOutput
   | Some sel \<Rightarrow>
       let active = active_node_of (co_state c);
           rotated = rotated_paths ts start_index;
           projection_start = (if rotated = [] then None else start_index)
       in andDo (case active of
              Inl _ \<Rightarrow> ret ()
            | Inr i \<Rightarrow> andThen (rebuild_projection_state i projection_start (length rotated)) (\<lambda>gen.
                andThen (each_output i) (\<lambda>os. for_each os (\<lambda>out. call_output out (Call_SetQueue rotated gen)))))
          (reading (\<lambda>c. case find_node (co_state c) sel of
             None \<Rightarrow> fail NodeNotFound
           | Some _ \<Rightarrow>
               andDo (modify_state (with_node sel (\<lambda>n. n\<lparr>nd_queue := ts, nd_current_index := start_index,
                        nd_position_secs := f64_zero, nd_status := Stopped\<rparr>))) (
               andDo (if start_index = None then ret () else
                 andDo (case active of
                     Inl _ \<Rightarrow> ret ()
                   | Inr i \<Rightarrow> modify_state (with_node i (\<lambda>n. n\<lparr>nd_status := Playing\<rparr>)))
                 (andThen maybe_active_outputs (\<lambda>r. case r of
                     None \<Rightarrow> ret ()
                   | Some os \<Rightarrow> for_each os (\<lambda>out. call_output out Call_Play))))
               publish))))"

end
