(* ===== verification/Core_Nodes.thy ===== *)
theory Core_Nodes
  imports Core_Playback
begin

text \<open>
  The node operations of the core controller (\<open>kanade-core/src/controller.rs\<close>): state updates
  reported by a node, registration, disconnection with fallback, local sessions, handoff, cleanup
  and selection, one definition per method.
\<close>

subsection \<open>State updates from a node\<close>

definition projected_current_index ::
  "(string \<rightharpoonup> transport) \<Rightarrow> string \<Rightarrow> usize option \<Rightarrow> u64 \<Rightarrow> usize option" where
  "projected_current_index tr i song gen =
    (case tr i of
       None \<Rightarrow> None
     | Some p \<Rightarrow>
         if tp_generation p \<noteq> gen then None
         else case song of
           None \<Rightarrow> None
         | Some k \<Rightarrow>
             if k \<ge> tp_loaded_len p then None
             else case tp_start_index p of
               None \<Rightarrow> None
             | Some start \<Rightarrow> usize_checked_add start k)"

definition sync_status :: "playback_status \<Rightarrow> node \<Rightarrow> node" where
  "sync_status st n = (if nd_status n \<noteq> st then n\<lparr>nd_status := st\<rparr> else n)"

definition sync_position :: "f64 \<Rightarrow> node \<Rightarrow> node" where
  "sync_position pos n =
    (if f64_differs (nd_position_secs n) pos then n\<lparr>nd_position_secs := pos\<rparr> else n)"

definition sync_volume :: "u8 \<Rightarrow> node \<Rightarrow> node" where
  "sync_volume vol n = (if nd_volume n \<noteq> vol then n\<lparr>nd_volume := vol\<rparr> else n)"

definition sync_index :: "usize option \<Rightarrow> node \<Rightarrow> node" where
  "sync_index proj n =
    (case proj of
       None \<Rightarrow> n
     | Some k \<Rightarrow> if k < length (nd_queue n) \<and> nd_current_index n \<noteq> Some k
                then n\<lparr>nd_current_index := Some k\<rparr> else n)"

text \<open>Whether one of the fields is written: the flag \<open>changed\<close>.\<close>

definition sync_changed :: "playback_status \<Rightarrow> f64 \<Rightarrow> u8 \<Rightarrow> usize option \<Rightarrow> node \<Rightarrow> bool" where
  "sync_changed st pos vol proj n \<longleftrightarrow>
    nd_status n \<noteq> st \<or> f64_differs (nd_position_secs n) pos \<or> nd_volume n \<noteq> vol \<or>
    (case proj of None \<Rightarrow> False | Some k \<Rightarrow> k < length (nd_queue n) \<and> nd_current_index n \<noteq> Some k)"

definition sync_node_state ::
  "string \<Rightarrow> playback_status \<Rightarrow> f64 \<Rightarrow> u8 \<Rightarrow> usize option \<Rightarrow> u64 \<Rightarrow> 'w core \<Rightarrow> 'w core" where
  "sync_node_state i st pos vol song gen c =
    (let proj = projected_current_index (co_transport c) i song gen in
     case find_node (co_state c) i of
       None \<Rightarrow> c
     | Some n \<Rightarrow>
         let c' = c\<lparr>co_state := with_node i
               (\<lambda>n. sync_index proj (sync_volume vol (sync_position pos (sync_status st n)))) (co_state c)\<rparr>
         in if sync_changed st pos vol proj n then broadcast c' else c')"

subsection \<open>Registration and disconnection\<close>

definition add_node_state :: "node \<Rightarrow> playback_state \<Rightarrow> playback_state" where
  "add_node_state nd s0 =
    (let is_first = (st_nodes s0 = []);
         s = (if find_node s0 (nd_id nd) \<noteq> None
              then with_node (nd_id nd) (\<lambda>n. n\<lparr>nd_name := nd_name nd, nd_connected := nd_connected nd\<rparr>) s0
              else s0\<lparr>st_nodes := st_nodes s0 @ [nd]\<rparr>);
         should_select = ((is_first \<or> st_selected_node_id s = None) \<and> nd_connected nd)
     in sync_top_level_from_selected_node (
        if should_select then
          (let s = s\<lparr>st_selected_node_id := Some (nd_id nd)\<rparr>;
               should_migrate = ((case find_node s (nd_id nd) of None \<Rightarrow> False | Some n \<Rightarrow> nd_queue n = [])
                                 \<and> st_queue s \<noteq> [])
           in if should_migrate then
                with_node (nd_id nd) (\<lambda>n. n\<lparr>nd_queue := st_queue s, nd_current_index := st_current_index s,
                    nd_shuffle := st_shuffle s, nd_repeat := st_repeat s\<rparr>)
                  (s\<lparr>st_queue := [], st_current_index := None\<rparr>)
              else s)
        else s))"

definition add_node :: "node \<Rightarrow> 'w core \<Rightarrow> 'w core" where
  "add_node nd c = broadcast (c\<lparr>co_state := add_node_state nd (co_state c)\<rparr>)"

definition mark_node_connected :: "string \<Rightarrow> bool \<Rightarrow> 'w core \<Rightarrow> 'w core" where
  "mark_node_connected i b c = broadcast (c\<lparr>co_state := with_node i (\<lambda>n.
     let n = n\<lparr>nd_connected := b\<rparr>
     in if b then n else n\<lparr>nd_status := Stopped, nd_position_secs := f64_zero\<rparr>) (co_state c)\<rparr>)"

definition sync_connected_node_to_logical_state :: "string \<Rightarrow> ('w, unit) core_io" where
  "sync_connected_node_to_logical_state i = reading (\<lambda>c. case find_node (co_state c) i of
     None \<Rightarrow> fail NodeNotFound
   | Some n \<Rightarrow>
       andDo (sync_output_to_global i)
         (if st_selected_node_id (co_state c) = Some i
          then apply_output_runtime_state i (nd_status n) (nd_position_secs n)
          else stop_node i))"

text \<open>
  When the selected node goes, the first other connected node takes over its status and position;
  without one the selection stays and the node keeps them, to resume when it comes back.
\<close>

definition fallback_node :: "string \<Rightarrow> playback_state \<Rightarrow> string option" where
  "fallback_node i s =
    (if st_selected_node_id s = Some i
     then map_option nd_id (find (\<lambda>n. nd_id n \<noteq> i \<and> nd_connected n) (st_nodes s))
     else None)"

definition drop_connection :: "bool \<Rightarrow> node \<Rightarrow> node" where
  "drop_connection keep n =
    (let n = n\<lparr>nd_connected := False\<rparr>
     in if keep then n else n\<lparr>nd_status := Stopped, nd_position_secs := f64_zero\<rparr>)"

definition take_over :: "string \<Rightarrow> string \<Rightarrow> playback_status \<Rightarrow> f64 \<Rightarrow> node \<Rightarrow> node" where
  "take_over f i st pos n =
    (if nd_id n = f then n\<lparr>nd_status := st, nd_position_secs := pos\<rparr>
     else if nd_id n \<noteq> i then n\<lparr>nd_status := Stopped, nd_position_secs := f64_zero\<rparr>
     else n)"

definition disconnect_state :: "string \<Rightarrow> playback_state \<Rightarrow> playback_state" where
  "disconnect_state i s0 =
    (let was_selected = (st_selected_node_id s0 = Some i);
         (rst, rpos) = (case find_node s0 i of
            Some n \<Rightarrow> (nd_status n, nd_position_secs n) | None \<Rightarrow> (Stopped, f64_zero));
         fb = fallback_node i s0;
         s = with_node i (drop_connection (was_selected \<and> fb = None)) s0
     in case fb of
          Some f \<Rightarrow> all_nodes (take_over f i rst rpos) (s\<lparr>st_selected_node_id := Some f\<rparr>)
        | None \<Rightarrow> if was_selected then s\<lparr>st_selected_node_id := Some i\<rparr> else s)"

definition handle_node_disconnected :: "string \<Rightarrow> 'w core \<Rightarrow> 'w core" where
  "handle_node_disconnected i c =
    (let fb = fallback_node i (co_state c);
         c1 = c\<lparr>co_state := disconnect_state i (co_state c)\<rparr>;
         c2 = (case fb of None \<Rightarrow> c1 | Some f \<Rightarrow> run (sync_connected_node_to_logical_state f) c1)
     in broadcast c2)"

definition remove_node :: "string \<Rightarrow> 'w core \<Rightarrow> 'w core" where
  "remove_node i c =
    (let s = (co_state c)\<lparr>st_nodes := filter (\<lambda>n. nd_id n \<noteq> i) (st_nodes (co_state c))\<rparr>;
         s = (if st_selected_node_id s = Some i
              then s\<lparr>st_selected_node_id := (case st_nodes s of [] \<Rightarrow> None | n # _ \<Rightarrow> Some (nd_id n))\<rparr>
              else s)
     in broadcast (c\<lparr>co_state := s, co_transport := (co_transport c)(i := None),
                     co_outputs := (co_outputs c)(i := None)\<rparr>))"

subsection \<open>Local sessions\<close>

text \<open>The nodes a device has left behind, and the one to keep: a connected one, or the first.\<close>

definition device_nodes :: "string \<Rightarrow> playback_state \<Rightarrow> string list" where
  "device_nodes did s =
    map nd_id (filter (\<lambda>n. nd_node_type n = Local \<and> nd_device_id n = Some did) (st_nodes s))"

definition canonical_node :: "string \<Rightarrow> playback_state \<Rightarrow> string option" where
  "canonical_node did s =
    (let ids = device_nodes did s in
     case find (\<lambda>i. case find_node s i of None \<Rightarrow> False | Some n \<Rightarrow> nd_connected n) ids of
       Some i \<Rightarrow> Some i
     | None \<Rightarrow> (case ids of [] \<Rightarrow> None | i # _ \<Rightarrow> Some i))"

definition drop_duplicate :: "string \<Rightarrow> string \<Rightarrow> playback_state \<Rightarrow> playback_state" where
  "drop_duplicate canonical dup s =
    (let s = s\<lparr>st_nodes := filter (\<lambda>n. nd_id n \<noteq> dup) (st_nodes s)\<rparr>
     in if st_selected_node_id s = Some dup then s\<lparr>st_selected_node_id := Some canonical\<rparr> else s)"

definition keep_entries :: "string \<Rightarrow> string list \<Rightarrow> (string \<rightharpoonup> 'a) \<Rightarrow> (string \<rightharpoonup> 'a)" where
  "keep_entries canonical ids m = (\<lambda>i. if i = canonical \<or> i \<notin> set ids then m i else None)"

definition new_local_node :: "string \<Rightarrow> string \<Rightarrow> string option \<Rightarrow> node" where
  "new_local_node i name device_id = default_node\<lparr>nd_id := i, nd_name := name, nd_connected := True,
     nd_node_type := Local, nd_device_id := device_id, nd_disconnected_at := None\<rparr>"

definition local_session_start ::
  "string \<Rightarrow> string \<Rightarrow> string option \<Rightarrow> 'w core \<Rightarrow> string \<times> 'w core" where
  "local_session_start uuid name device_id c =
    (let s = co_state c;
         fresh = (let i = ''local-'' @ (case device_id of Some d \<Rightarrow> d | None \<Rightarrow> uuid)
                  in (i, broadcast (c\<lparr>co_state :=
                        s\<lparr>st_nodes := st_nodes s @ [new_local_node i name device_id]\<rparr>\<rparr>)))
     in case device_id of
          None \<Rightarrow> fresh
        | Some did \<Rightarrow>
            (case canonical_node did s of
               None \<Rightarrow> fresh
             | Some canonical \<Rightarrow>
                 let ids = device_nodes did s;
                     s = fold (drop_duplicate canonical) (filter (\<lambda>i. i \<noteq> canonical) ids) s;
                     s = with_node canonical (\<lambda>n. n\<lparr>nd_connected := True, nd_name := name,
                           nd_device_id := Some did, nd_disconnected_at := None\<rparr>) s
                 in (canonical, broadcast (c\<lparr>co_state := s,
                       co_transport := keep_entries canonical ids (co_transport c),
                       co_outputs := keep_entries canonical ids (co_outputs c)\<rparr>))))"

text \<open>Changes of a local session's node fail when there is none or it is not a local one.\<close>

definition on_local_node ::
  "string \<Rightarrow> (playback_state \<Rightarrow> playback_state) \<Rightarrow> ('w, unit) core_io" where
  "on_local_node i f = reading (\<lambda>c. case find_node (co_state c) i of
     None \<Rightarrow> fail LocalSessionNotFound
   | Some n \<Rightarrow> if nd_node_type n \<noteq> Local then fail LocalSessionNotFound
              else andDo (modify_state f) publish)"

definition first_connected :: "node list \<Rightarrow> string option" where
  "first_connected ns = map_option nd_id (find nd_connected ns)"

definition local_session_stop :: "string \<Rightarrow> ('w, unit) core_io" where
  "local_session_stop i = on_local_node i (\<lambda>s.
    let s = s\<lparr>st_nodes := filter (\<lambda>n. nd_id n \<noteq> i) (st_nodes s)\<rparr>
    in if st_selected_node_id s = Some i
       then s\<lparr>st_selected_node_id := first_connected (st_nodes s)\<rparr> else s)"

definition local_session_disconnect :: "int \<Rightarrow> string \<Rightarrow> ('w, unit) core_io" where
  "local_session_disconnect now i = on_local_node i (with_node i (\<lambda>n.
     n\<lparr>nd_connected := False, nd_disconnected_at := Some now\<rparr>))"

definition local_session_update ::
  "string \<Rightarrow> track list option \<Rightarrow> usize option \<Rightarrow> f64 \<Rightarrow> playback_status \<Rightarrow> u8 \<Rightarrow> repeat_mode \<Rightarrow> bool
    \<Rightarrow> ('w, unit) core_io" where
  "local_session_update i queue ci pos st vol rep shuf = on_local_node i (with_node i (\<lambda>n.
     (case queue of None \<Rightarrow> n | Some q \<Rightarrow> n\<lparr>nd_queue := q\<rparr>)
       \<lparr>nd_connected := True, nd_current_index := ci, nd_position_secs := pos, nd_status := st,
        nd_volume := vol, nd_repeat := rep, nd_shuffle := shuf, nd_disconnected_at := None\<rparr>))"

subsection \<open>Handoff, cleanup, selection\<close>

text \<open>A remote target is loaded with the queue and started; a local one plays by itself.\<close>

definition start_target :: "string \<Rightarrow> node_type \<Rightarrow> f64 \<Rightarrow> ('w, unit) core_io" where
  "start_target i ty pos =
    (if ty = Remote then
       andDo (sync_output_to_global i) (
       andDo (andThen (each_output i) (\<lambda>os. for_each os (\<lambda>out. play_and_seek out pos)))
       (modify_state (with_node i (\<lambda>n. n\<lparr>nd_status := Playing\<rparr>))))
     else ret ())"

definition handoff :: "string \<Rightarrow> string \<Rightarrow> ('w, unit) core_io" where
  "handoff src dst = reading (\<lambda>c. case find_node (co_state c) src of
     None \<Rightarrow> fail NodeNotFound
   | Some f \<Rightarrow> (case find_node (co_state c) dst of
       None \<Rightarrow> fail NodeNotFound
     | Some t \<Rightarrow>
         if \<not> nd_connected t then fail (HandoffFailed ''target node not connected'')
         else
           andDo (modify_state (with_node dst (\<lambda>n. n\<lparr>nd_queue := nd_queue f,
               nd_current_index := nd_current_index f, nd_position_secs := nd_position_secs f\<rparr>))) (
           andDo (start_target dst (nd_node_type t) (nd_position_secs f))
           publish)))"

definition expired :: "int \<Rightarrow> node \<Rightarrow> bool" where
  "expired cutoff n \<longleftrightarrow> nd_node_type n = Local \<and> \<not> nd_connected n \<and>
    (case nd_disconnected_at n of None \<Rightarrow> False | Some t \<Rightarrow> t \<le> cutoff)"

text \<open>\<open>current_unix_timestamp().saturating_sub(max_age)\<close> on \<open>i64\<close>.\<close>

definition i64_saturating_sub :: "int \<Rightarrow> int \<Rightarrow> int" where
  "i64_saturating_sub a b = max (- (2 ^ 63)) (min (2 ^ 63 - 1) (a - b))"

definition cleanup_disconnected_nodes :: "int \<Rightarrow> int \<Rightarrow> 'w core \<Rightarrow> 'w core" where
  "cleanup_disconnected_nodes now max_age c =
    (let s = co_state c;
         cutoff = i64_saturating_sub now max_age;
         removed = map nd_id (filter (expired cutoff) (st_nodes s))
     in if removed = [] then c
        else
          (let s = s\<lparr>st_nodes := filter (\<lambda>n. nd_id n \<notin> set removed) (st_nodes s)\<rparr>;
               s = (case st_selected_node_id s of
                      None \<Rightarrow> s
                    | Some i \<Rightarrow> if i \<in> set removed
                               then s\<lparr>st_selected_node_id := first_connected (st_nodes s)\<rparr> else s)
           in broadcast (c\<lparr>co_state := s,
                co_transport := (\<lambda>i. if i \<in> set removed then None else co_transport c i),
                co_outputs := (\<lambda>i. if i \<in> set removed then None else co_outputs c i)\<rparr>)))"

definition switch_state :: "string \<Rightarrow> playback_state \<Rightarrow> playback_state" where
  "switch_state i s = all_nodes (\<lambda>n.
     let n = n\<lparr>nd_status := Stopped\<rparr>
     in if nd_id n \<noteq> i then n\<lparr>nd_position_secs := f64_zero\<rparr> else n) (s\<lparr>st_selected_node_id := Some i\<rparr>)"

definition resume_point :: "playback_state \<Rightarrow> playback_status \<times> f64" where
  "resume_point s = (case selected_node s of
     Some n \<Rightarrow> (nd_status n, nd_position_secs n) | None \<Rightarrow> (Stopped, f64_zero))"

definition stop_previous :: "string option \<Rightarrow> ('w, unit) core_io" where
  "stop_previous prev = (case prev of
     None \<Rightarrow> ret ()
   | Some p \<Rightarrow> andThen (each_output p) (\<lambda>os. for_each os (\<lambda>out. call_output out Call_Stop)))"

definition resume_on :: "string \<Rightarrow> playback_status \<Rightarrow> f64 \<Rightarrow> ('w, unit) core_io" where
  "resume_on i st pos =
    (case st of
       Playing \<Rightarrow>
         andDo (andThen (each_output i) (\<lambda>os. for_each os (\<lambda>out. play_and_seek out pos)))
         (modify_state (with_node i (\<lambda>n. n\<lparr>nd_status := Playing, nd_position_secs := pos\<rparr>)))
     | Paused \<Rightarrow>
         andDo (andThen (each_output i) (\<lambda>os. for_each os (\<lambda>out.
           andDo (play_and_seek out pos) (call_output out Call_Pause))))
         (modify_state (with_node i (\<lambda>n. n\<lparr>nd_status := Paused, nd_position_secs := pos\<rparr>)))
     | _ \<Rightarrow> modify_state (with_node i (\<lambda>n. n\<lparr>nd_position_secs := pos\<rparr>)))"

definition select_node :: "string \<Rightarrow> ('w, unit) core_io" where
  "select_node i = reading (\<lambda>c. case find_node (co_state c) i of
     None \<Rightarrow> fail NodeNotFound
   | Some _ \<Rightarrow>
       if st_selected_node_id (co_state c) = Some i then ret ()
       else
         let prev = st_selected_node_id (co_state c); (st, pos) = resume_point (co_state c) in
         andDo (modify_state (switch_state i)) (
         andDo (stop_previous prev) (
         andDo (sync_output_to_global i) (
         andDo (resume_on i st pos)
         publish))))"

end
