(* ===== verification/Core_Invariants.thy ===== *)
theory Core_Invariants
  imports Core_Nodes
begin

text \<open>
  Preservation of well-formedness by the operations of the core controller, one lemma per
  operation, and the invariant over every sequence of admissible operations. The second half shows
  that an operation that returns \<open>Ok\<close> leaves the top-level fields showing the selected node.
\<close>

subsection \<open>Operations that do not touch the playback state\<close>

definition state_frame :: "('w, 'a) core_io \<Rightarrow> bool" where
  "state_frame m \<longleftrightarrow> (\<forall>c. co_state (snd (m c)) = co_state c)"

lemma state_frame_iff: "state_frame m \<longleftrightarrow> (\<forall>c r c'. m c = (r, c') \<longrightarrow> co_state c' = co_state c)"
  unfolding state_frame_def by (metis prod.collapse snd_conv)

lemma state_frame_ret [keeps_intros]: "state_frame (ret a)"
  and state_frame_fail [keeps_intros]: "state_frame (fail e)"
  by (simp_all add: state_frame_def ret_def fail_def)

lemma state_frame_andThen [keeps_intros]:
  "state_frame m \<Longrightarrow> (\<And>a. state_frame (f a)) \<Longrightarrow> state_frame (andThen m f)"
  by (fastforce simp: state_frame_iff andThen_def split: prod.splits sum.splits)

lemma state_frame_andDo [keeps_intros]: "state_frame m \<Longrightarrow> state_frame n \<Longrightarrow> state_frame (andDo m n)"
  by (simp add: andDo_def state_frame_andThen)

lemma state_frame_reading [keeps_intros]: "(\<And>c. state_frame (f c)) \<Longrightarrow> state_frame (reading f)"
  by (simp add: state_frame_def reading_def)

lemma state_frame_for_each [keeps_intros]: "(\<And>x. state_frame (f x)) \<Longrightarrow> state_frame (for_each xs f)"
  by (induction xs) (auto intro: state_frame_ret state_frame_andDo)

lemma state_frame_call_output [keeps_intros]: "state_frame (call_output out k)"
  by (simp add: state_frame_def call_output_def split: prod.splits)

lemma state_frame_rebuild [keeps_intros]: "state_frame (rebuild_projection_state i st len)"
  by (simp add: state_frame_def rebuild_projection_state_def Let_def)

lemma state_frame_update_transport [keeps_intros]: "state_frame (update_transport i f)"
  by (simp add: state_frame_def update_transport_def modify_def split: option.splits)

lemma state_frame_each_output [keeps_intros]: "state_frame (each_output i)"
  by (simp add: state_frame_def each_output_def reading_def ret_def fail_def split: option.splits)

lemma state_frame_active_node_id [keeps_intros]: "state_frame active_node_id"
  by (simp add: state_frame_def active_node_id_def reading_def ret_def fail_def split: sum.splits)

lemma state_frame_active_outputs [keeps_intros]: "state_frame active_outputs"
  by (simp add: active_outputs_def state_frame_andThen state_frame_active_node_id state_frame_each_output)

lemma state_frame_call_active [keeps_intros]: "state_frame (call_active k)"
  unfolding call_active_def
  by (intro state_frame_andThen state_frame_active_outputs state_frame_for_each state_frame_call_output)

lemma state_frame_maybe_active_outputs [keeps_intros]: "state_frame maybe_active_outputs"
  using state_frame_active_outputs
  by (fastforce simp: state_frame_iff maybe_active_outputs_def split: prod.splits sum.splits)

lemma state_frame_extend [keeps_intros]: "state_frame (extend_projection_loaded_len_active k)"
  by (auto simp: extend_projection_loaded_len_active_def intro!: keeps_intros split: sum.splits)

lemma state_frame_decrement [keeps_intros]: "state_frame (decrement_projection_loaded_len_active k)"
  by (auto simp: decrement_projection_loaded_len_active_def intro!: keeps_intros split: sum.splits)

lemma state_frame_sync_output [keeps_intros]: "state_frame (sync_output_to_global i)"
  by (auto simp: sync_output_to_global_def intro!: keeps_intros split: option.splits)

lemma state_frame_play_and_seek [keeps_intros]: "state_frame (play_and_seek out pos)"
  by (auto simp: play_and_seek_def intro!: keeps_intros)

lemma state_frame_apply_runtime [keeps_intros]: "state_frame (apply_output_runtime_state i st pos)"
  by (cases st) (auto simp: apply_output_runtime_state_def intro!: keeps_intros)

lemma keeps_frame: "state_frame m \<Longrightarrow> keeps (\<lambda>c. P (co_state c)) m"
  by (simp add: keeps_def state_frame_def)

lemma keeps_modify_state:
  "(\<And>s. P s \<Longrightarrow> P (f s)) \<Longrightarrow> keeps (\<lambda>c. P (co_state c)) (modify_state f)"
  by (simp add: modify_state_def keeps_def modify_def)

subsection \<open>Well-formedness\<close>

definition core_wf :: "'w core \<Rightarrow> bool" where
  "core_wf c = state_wf (co_state c)"

lemma core_wf_frame: "state_frame m \<Longrightarrow> keeps core_wf m"
  using keeps_frame [of m state_wf] by (simp add: core_wf_def [abs_def])

lemma core_wf_broadcast: "core_wf c \<Longrightarrow> core_wf (broadcast c)"
  by (simp add: core_wf_def state_wf_sync)

lemma core_wf_publish [keeps_intros]: "keeps core_wf publish"
  by (simp add: publish_def keeps_modify core_wf_broadcast)

lemma core_wf_modify_state: "(\<And>s. state_wf s \<Longrightarrow> state_wf (f s)) \<Longrightarrow> keeps core_wf (modify_state f)"
  using keeps_modify_state [of state_wf f] by (simp add: core_wf_def [abs_def])

lemma core_wf_with_node:
  "(\<And>n. nd_id (f n) = nd_id n) \<Longrightarrow> (\<And>n. index_ok n \<Longrightarrow> index_ok (f n)) \<Longrightarrow>
    keeps core_wf (modify_state (with_node i f))"
  by (intro core_wf_modify_state state_wf_with_node) auto

lemma keeps_readingI:
  "(\<And>c. P c \<Longrightarrow> wp (f c) (\<lambda>_. P) (\<lambda>_. P) c) \<Longrightarrow> keeps P (reading f)"
  by (simp add: keeps_wp wp_reading)

lemma keeps_wpD: "keeps P m \<Longrightarrow> P s \<Longrightarrow> wp m (\<lambda>_. P) (\<lambda>_. P) s"
  by (simp add: keeps_wp)

lemmas frame_intros = core_wf_frame state_frame_call_output state_frame_each_output
  state_frame_active_outputs state_frame_rebuild state_frame_maybe_active_outputs
  state_frame_extend state_frame_decrement state_frame_sync_output state_frame_play_and_seek
  state_frame_apply_runtime state_frame_active_node_id

lemma core_wf_play_node [keeps_intros]: "keeps core_wf (play_node i)"
  unfolding play_node_def
  by (intro keeps_intros core_wf_frame core_wf_with_node) (auto simp: index_ok_def Let_def)

lemma core_wf_pause_node [keeps_intros]: "keeps core_wf (pause_node i)"
  unfolding pause_node_def
  by (intro keeps_intros core_wf_frame core_wf_with_node) (auto simp: index_ok_def)

lemma core_wf_stop_node [keeps_intros]: "keeps core_wf (stop_node i)"
  unfolding stop_node_def
  by (intro keeps_intros core_wf_frame core_wf_with_node) (auto simp: index_ok_def)

lemma core_wf_seek_node [keeps_intros]: "keeps core_wf (seek_node i pos)"
  unfolding seek_node_def
  by (intro keeps_intros core_wf_frame core_wf_with_node) (auto simp: index_ok_def)

lemma core_wf_set_node_volume [keeps_intros]: "keeps core_wf (set_node_volume i vol)"
  unfolding set_node_volume_def
  by (intro keeps_intros core_wf_frame core_wf_with_node) (auto simp: index_ok_def)

lemma selected_nodeD:
  "selected_node s = Some n \<Longrightarrow>
    \<exists>i. st_selected_node_id s = Some i \<and> find_node s i = Some n \<and> nd_id n = i"
  by (auto simp: selected_node_def split: option.splits dest: find_node_id)

lemma state_wf_selected_found:
  assumes "state_wf s" "selected_node s = Some n" "\<And>n. nd_id (f n) = nd_id n" "index_ok (f n)"
  shows "state_wf (with_selected_node f s)"
  using assms selected_nodeD [OF assms(2)]
  by (auto simp: with_selected_node_def intro: state_wf_found)

lemma wp_modify_then:
  "keeps P m \<Longrightarrow> P (c\<lparr>co_state := f (co_state c)\<rparr>) \<Longrightarrow>
    wp (andDo (modify_state f) m) (\<lambda>_. P) (\<lambda>_. P) c"
  by (simp add: keeps_wp wp_andDo wp_modify_state)

lemma core_wf_on_selected [keeps_intros]:
  assumes "\<And>n. nd_id (f n) = nd_id n" "\<And>n. index_ok n \<Longrightarrow> index_ok (f n)"
  shows "keeps core_wf (on_selected f)"
proof -
  have "keeps core_wf (modify_state (with_selected_node f))"
    using assms by (auto simp: with_selected_node_def intro!: core_wf_modify_state state_wf_with_node
        split: option.splits)
  then show ?thesis unfolding on_selected_def by (intro keeps_intros)
qed

lemma core_wf_set_shuffle [keeps_intros]: "keeps core_wf (set_shuffle b)"
  unfolding set_shuffle_def by (rule core_wf_on_selected) (auto simp: index_ok_def)

lemma core_wf_set_repeat [keeps_intros]: "keeps core_wf (set_repeat r)"
  unfolding set_repeat_def by (rule core_wf_on_selected) (auto simp: index_ok_def)

lemma core_wf_transport [keeps_intros]:
  "keeps core_wf core_play" "keeps core_wf core_pause" "keeps core_wf core_stop"
  "keeps core_wf (core_seek pos)" "keeps core_wf (core_set_volume vol)"
  unfolding core_play_def core_pause_def core_stop_def core_seek_def core_set_volume_def
  by (intro keeps_intros core_wf_frame)+

text \<open>A choice of the next index is in range when the current one is.\<close>

definition picks_in_range :: "(node \<Rightarrow> core_error + usize) \<Rightarrow> bool" where
  "picks_in_range pick \<longleftrightarrow> (\<forall>n k. index_ok n \<longrightarrow> pick n = Inr k \<longrightarrow> k < length (nd_queue n))"

lemma next_index_range: "picks_in_range next_index"
  by (auto simp: picks_in_range_def next_index_def Let_def index_ok_def
      split: option.splits repeat_mode.splits if_splits)

lemma previous_index_range: "picks_in_range previous_index"
  by (auto simp: picks_in_range_def previous_index_def Let_def index_ok_def
      split: option.splits repeat_mode.splits if_splits)

lemma play_index_range: "picks_in_range (play_index_check k)"
  by (auto simp: picks_in_range_def play_index_check_def split: if_splits)

lemma state_wf_jump:
  assumes "state_wf s" "find_node s i = Some n" "k < length (nd_queue n)"
  shows "state_wf (all_nodes (\<lambda>n. n\<lparr>nd_position_secs := f64_zero\<rparr>)
           (with_node i (\<lambda>n. n\<lparr>nd_current_index := Some k\<rparr>) s))"
  by (intro state_wf_all_nodes state_wf_found [OF assms(1,2)])
    (use assms(3) in \<open>auto simp: index_ok_def\<close>)

lemma core_wf_jump [keeps_intros]:
  assumes "picks_in_range pick"
  shows "keeps core_wf (jump pick)"
  unfolding jump_def
proof (intro keeps_andThen keeps_readingI)
  fix i and c :: "'a core"
  let ?rest = "\<lambda>n k. let paths = build_queue_file_paths (nd_queue n) (Some k) in
          andThen (rebuild_projection_state i (Some k) (length paths)) (\<lambda>gen.
          andDo (call_active (Call_SetQueue paths gen)) (
          andDo (call_active Call_Play) (
          andDo (modify_state (with_node i (\<lambda>n. n\<lparr>nd_status := Playing\<rparr>)))
          publish)))"
  have rest: "keeps core_wf (?rest n k)" for n k
    unfolding Let_def by (intro keeps_intros core_wf_frame core_wf_with_node) (auto simp: index_ok_def)
  assume wf: "core_wf c"
  show "wp (case find_node (co_state c) i of None \<Rightarrow> fail NodeNotFound
      | Some n \<Rightarrow> (case pick n of Inl e \<Rightarrow> fail e
        | Inr k \<Rightarrow> andDo (modify_state (\<lambda>s. all_nodes (\<lambda>n. n\<lparr>nd_position_secs := f64_zero\<rparr>)
                   (with_node i (\<lambda>n. n\<lparr>nd_current_index := Some k\<rparr>) s))) (?rest n k)))
      (\<lambda>_. core_wf) (\<lambda>_. core_wf) c"
  proof (cases "find_node (co_state c) i")
    case (Some n)
    then have "index_ok n" using wf by (auto simp: core_wf_def dest: state_wf_index)
    with assms have "pick n = Inr k \<Longrightarrow> k < length (nd_queue n)" for k
      by (auto simp: picks_in_range_def)
    then have "pick n = Inr k \<Longrightarrow> core_wf (c\<lparr>co_state := all_nodes (\<lambda>n. n\<lparr>nd_position_secs := f64_zero\<rparr>)
                   (with_node i (\<lambda>n. n\<lparr>nd_current_index := Some k\<rparr>) (co_state c))\<rparr>)" for k
      using wf Some by (simp add: core_wf_def state_wf_jump)
    then show ?thesis using wf Some keeps_wpD [OF rest]
      by (auto simp: wp_simps split: sum.splits)
  qed (use wf in \<open>simp add: wp_simps\<close>)
qed (intro core_wf_frame keeps_intros)

lemma core_wf_jumps [keeps_intros]:
  "keeps core_wf core_next" "keeps core_wf core_previous" "keeps core_wf (play_index k)"
  unfolding core_next_def core_previous_def play_index_def
  by (intro core_wf_jump next_index_range previous_index_range play_index_range)+

subsection \<open>Queue operations\<close>

lemma index_ok_append: "index_ok n \<Longrightarrow> index_ok (n\<lparr>nd_queue := nd_queue n @ ts\<rparr>)"
  by (cases "nd_current_index n") (auto simp: index_ok_def)

lemma core_wf_add_tracks [keeps_intros]: "keeps core_wf (add_tracks_to_queue ts)"
  unfolding add_tracks_to_queue_def
  by (intro keeps_intros core_wf_frame core_wf_with_node) (auto simp: index_ok_append)

lemma core_wf_add_to_queue [keeps_intros]: "keeps core_wf (add_to_queue t)"
  unfolding add_to_queue_def
  by (intro keeps_intros core_wf_frame core_wf_with_node) (auto simp: index_ok_append)

lemma core_wf_clear_queue [keeps_intros]: "keeps core_wf clear_queue"
  unfolding clear_queue_def
  by (intro keeps_intros core_wf_frame) (auto simp: index_ok_def)

lemma index_ok_remove_track: "index_ok n \<Longrightarrow> k < length (nd_queue n) \<Longrightarrow> index_ok (remove_track k n)"
  using length_vec_remove [of k "nd_queue n"]
  by (cases "nd_current_index n")
    (auto simp: remove_track_def index_ok_def Let_def min_less_iff_disj simp flip: length_greater_0_conv)

lemma remove_track_id [simp]: "nd_id (remove_track k n) = nd_id n"
  by (auto simp: remove_track_def Let_def split: option.splits)

text \<open>A guarded edit of the selected node followed by operations that keep well-formedness.\<close>

lemma core_wf_edit:
  assumes "\<And>n. nd_id (f n) = nd_id n"
    and "\<And>n. index_ok n \<Longrightarrow> \<not> bad n \<Longrightarrow> index_ok (f n)"
    and rest: "\<And>n. keeps core_wf (m n)"
  shows "keeps core_wf (reading (\<lambda>c. case selected_node (co_state c) of None \<Rightarrow> fail NoActiveOutput
     | Some n \<Rightarrow> if bad n then fail e else andDo (modify_state (with_selected_node f)) (m n)))"
proof (rule keeps_readingI)
  fix c :: "'a core"
  assume wf: "core_wf c"
  then have "selected_node (co_state c) = Some n \<Longrightarrow> \<not> bad n \<Longrightarrow>
      core_wf (c\<lparr>co_state := with_selected_node f (co_state c)\<rparr>)" for n
    using selected_nodeD [of "co_state c" n] assms(1,2)
    by (auto simp: core_wf_def intro!: state_wf_selected_found dest: state_wf_index)
  with wf rest show "wp (case selected_node (co_state c) of None \<Rightarrow> fail NoActiveOutput
      | Some n \<Rightarrow> if bad n then fail e else andDo (modify_state (with_selected_node f)) (m n))
      (\<lambda>_. core_wf) (\<lambda>_. core_wf) c"
    by (auto simp: wp_fail split: option.split intro!: wp_modify_then)
qed

lemma core_wf_remove_from_queue [keeps_intros]: "keeps core_wf (remove_from_queue k)"
  unfolding remove_from_queue_def
  by (rule core_wf_edit, simp, simp add: index_ok_remove_track) (intro keeps_intros core_wf_frame)

lemma index_ok_move_track:
  "index_ok n \<Longrightarrow> i < length (nd_queue n) \<Longrightarrow> j < length (nd_queue n) \<Longrightarrow> index_ok (move_track i j n)"
  by (cases "nd_current_index n") (auto simp: move_track_def index_ok_def move_index_def)

lemma core_wf_move_in_queue [keeps_intros]: "keeps core_wf (move_in_queue i j)"
  unfolding move_in_queue_def
  by (rule core_wf_edit, simp add: move_track_def, simp add: index_ok_move_track)
    (intro keeps_intros core_wf_frame)

lemma core_wf_set_queue [keeps_intros]:
  assumes "pred_option (\<lambda>k. k < length ts) start_index"
  shows "keeps core_wf (core_set_queue ts start_index)"
  unfolding core_set_queue_def Let_def
  by (intro keeps_intros core_wf_frame core_wf_with_node) (use assms in \<open>auto simp: index_ok_def\<close>)

end
