(* ===== verification/Core_Node_Invariants.thy ===== *)
theory Core_Node_Invariants
  imports Core_Invariants
begin

text \<open>
  Preservation of well-formedness by the node operations of the core controller, and the invariant
  over every sequence of admissible operations.
\<close>

subsection \<open>Selecting and dropping nodes\<close>

lemma state_wf_select:
  "state_wf s \<Longrightarrow> i \<in> set (node_ids s) \<Longrightarrow> state_wf (s\<lparr>st_selected_node_id := Some i\<rparr>)"
  by (simp add: state_wf_def node_ids_def selection_ok_def indices_ok_def top_index_ok_def)

lemma node_ids_filter [simp]:
  "node_ids (s\<lparr>st_nodes := filter (\<lambda>n. P (nd_id n)) (st_nodes s)\<rparr>) = filter P (node_ids s)"
  by (simp add: node_ids_def filter_map o_def)

lemma state_wf_filter:
  assumes "state_wf s"
    and "pred_option (\<lambda>i. i \<in> set (map nd_id (filter P (st_nodes s)))) sel"
  shows "state_wf (s\<lparr>st_nodes := filter P (st_nodes s), st_selected_node_id := sel\<rparr>)"
  using assms distinct_map_filter [of nd_id "st_nodes s" P]
  by (simp add: state_wf_def node_ids_def selection_ok_def indices_ok_def top_index_ok_def list_all_iff)

lemma state_wf_append:
  assumes "state_wf s" "nd_id n \<notin> set (node_ids s)" "index_ok n"
  shows "state_wf (s\<lparr>st_nodes := st_nodes s @ [n]\<rparr>)"
  using assms by (cases "st_selected_node_id s")
    (auto simp: state_wf_def node_ids_def selection_ok_def indices_ok_def top_index_ok_def)

lemma first_connected_mem: "first_connected ns = Some i \<Longrightarrow> i \<in> nd_id ` set ns"
  by (auto simp: first_connected_def dest: find_SomeD)

lemma first_connected_ok: "pred_option (\<lambda>i. i \<in> nd_id ` set ns) (first_connected ns)"
  using first_connected_mem by (cases "first_connected ns") auto

subsection \<open>Node operations\<close>

lemma sync_fields_id [simp]:
  "nd_id (sync_index proj n) = nd_id n" "nd_id (sync_volume vol n) = nd_id n"
  "nd_id (sync_position pos n) = nd_id n" "nd_id (sync_status st n) = nd_id n"
  by (auto simp: sync_index_def sync_volume_def sync_position_def sync_status_def split: option.splits)

lemma sync_fields_index_ok:
  "index_ok n \<Longrightarrow> index_ok (sync_index proj n)"
  "index_ok n \<Longrightarrow> index_ok (sync_volume vol n)"
  "index_ok n \<Longrightarrow> index_ok (sync_position pos n)"
  "index_ok n \<Longrightarrow> index_ok (sync_status st n)"
  by (auto simp: sync_index_def sync_volume_def sync_position_def sync_status_def index_ok_def
      split: option.splits)

lemma core_wf_sync_node_state: "core_wf c \<Longrightarrow> core_wf (sync_node_state i st pos vol song gen c)"
  by (auto simp: sync_node_state_def Let_def core_wf_def sync_fields_index_ok
      intro!: state_wf_with_node state_wf_sync split: option.splits)

lemma state_wf_migrate:
  assumes "state_wf s" "i \<in> set (node_ids s)"
  shows "state_wf (with_node i (\<lambda>n. n\<lparr>nd_queue := st_queue s, nd_current_index := st_current_index s,
      nd_shuffle := st_shuffle s, nd_repeat := st_repeat s\<rparr>) (s\<lparr>st_queue := [], st_current_index := None\<rparr>))"
  using assms
  by (intro state_wf_with_node)
    (auto simp: state_wf_def node_ids_def selection_ok_def indices_ok_def top_index_ok_def index_ok_def)

lemma state_wf_add_node:
  assumes wf: "state_wf s0" and ok: "index_ok nd"
  shows "state_wf (add_node_state nd s0)"
proof -
  define s where "s = (if find_node s0 (nd_id nd) \<noteq> None
      then with_node (nd_id nd) (\<lambda>n. n\<lparr>nd_name := nd_name nd, nd_connected := nd_connected nd\<rparr>) s0
      else s0\<lparr>st_nodes := st_nodes s0 @ [nd]\<rparr>)"
  have s: "state_wf s" "nd_id nd \<in> set (node_ids s)"
    using wf ok find_node_None_iff [of s0 "nd_id nd"]
    by (auto simp: s_def intro!: state_wf_with_node state_wf_append)
      (auto simp: index_ok_def node_ids_def)
  define t where "t = s\<lparr>st_selected_node_id := Some (nd_id nd)\<rparr>"
  have t: "state_wf t" "nd_id nd \<in> set (node_ids t)"
    using s by (auto simp: t_def intro: state_wf_select) (simp add: node_ids_def)
  show ?thesis
    unfolding add_node_state_def Let_def s_def [symmetric] t_def [symmetric]
    using s t by (auto intro!: state_wf_sync state_wf_migrate)
qed

lemma core_wf_add_node: "core_wf c \<Longrightarrow> index_ok nd \<Longrightarrow> core_wf (add_node nd c)"
  by (simp add: add_node_def core_wf_def state_wf_add_node state_wf_sync)

lemma core_wf_mark: "core_wf c \<Longrightarrow> core_wf (mark_node_connected i b c)"
  by (auto simp: mark_node_connected_def core_wf_def Let_def index_ok_def
      intro!: state_wf_sync state_wf_with_node)

lemma core_wf_sync_connected [keeps_intros]: "keeps core_wf (sync_connected_node_to_logical_state i)"
  unfolding sync_connected_node_to_logical_state_def by (intro keeps_intros core_wf_frame)

lemma fallback_node_mem: "fallback_node i s = Some f \<Longrightarrow> f \<noteq> i \<and> f \<in> set (node_ids s)"
  by (auto simp: fallback_node_def node_ids_def dest!: find_SomeD split: if_splits)

lemma drop_connection_simps [simp]:
  "nd_id (drop_connection keep n) = nd_id n" "nd_connected (drop_connection keep n) = False"
  "nd_queue (drop_connection keep n) = nd_queue n"
  "nd_current_index (drop_connection keep n) = nd_current_index n"
  "index_ok (drop_connection keep n) = index_ok n"
  by (auto simp: drop_connection_def index_ok_def Let_def)

lemma take_over_simps [simp]:
  "nd_id (take_over f i st pos n) = nd_id n" "nd_connected (take_over f i st pos n) = nd_connected n"
  "nd_queue (take_over f i st pos n) = nd_queue n"
  "nd_current_index (take_over f i st pos n) = nd_current_index n"
  "index_ok (take_over f i st pos n) = index_ok n"
  by (auto simp: take_over_def index_ok_def)

lemma state_wf_disconnect:
  assumes wf: "state_wf s"
  shows "state_wf (disconnect_state i s)"
proof -
  define s1 where "s1 = with_node i
    (drop_connection (st_selected_node_id s = Some i \<and> fallback_node i s = None)) s"
  have s1: "state_wf s1" "node_ids s1 = node_ids s" "st_selected_node_id s1 = st_selected_node_id s"
    using wf by (auto simp: s1_def intro!: state_wf_with_node)
  have sel: "st_selected_node_id s = Some i \<Longrightarrow> i \<in> set (node_ids s)"
    using wf by (simp add: state_wf_def selection_ok_def)
  show ?thesis
    unfolding disconnect_state_def Let_def case_prod_unfold s1_def [symmetric]
    using s1 sel fallback_node_mem [of i s]
    by (auto intro!: state_wf_all_nodes state_wf_select split: option.split)
qed

lemma core_wf_handle_disconnected: "core_wf c \<Longrightarrow> core_wf (handle_node_disconnected i c)"
  unfolding handle_node_disconnected_def Let_def
  by (rule core_wf_broadcast)
    (auto simp: core_wf_def [of "c\<lparr>co_state := x\<rparr>" for x] state_wf_disconnect core_wf_def [of c]
      split: option.split intro!: keeps_run [OF core_wf_sync_connected])

lemma core_wf_remove_node: "core_wf c \<Longrightarrow> core_wf (remove_node i c)"
proof -
  assume wf: "core_wf c"
  let ?s = "co_state c" and ?ns = "filter (\<lambda>n. nd_id n \<noteq> i) (st_nodes (co_state c))"
  have "state_wf (?s\<lparr>st_nodes := ?ns, st_selected_node_id := (case ?ns of [] \<Rightarrow> None | n # _ \<Rightarrow> Some (nd_id n))\<rparr>)"
    using wf set_filter [of "\<lambda>n. nd_id n \<noteq> i" "st_nodes ?s"]
    by (intro state_wf_filter) (auto simp: core_wf_def split: list.split simp del: set_filter)
  moreover have "st_selected_node_id ?s \<noteq> Some i \<Longrightarrow>
      state_wf (?s\<lparr>st_nodes := ?ns, st_selected_node_id := st_selected_node_id ?s\<rparr>)"
    using wf by (intro state_wf_filter)
      (auto simp: core_wf_def state_wf_def selection_ok_def node_ids_def option.pred_set)
  ultimately show ?thesis
    unfolding remove_node_def Let_def by (auto simp: core_wf_def intro!: state_wf_sync)
qed

subsection \<open>Local sessions\<close>

lemma core_wf_on_local [keeps_intros]:
  "(\<And>s. state_wf s \<Longrightarrow> state_wf (f s)) \<Longrightarrow> keeps core_wf (on_local_node i f)"
  unfolding on_local_node_def by (intro keeps_intros core_wf_modify_state)

lemma core_wf_local_stop [keeps_intros]: "keeps core_wf (local_session_stop i)"
  unfolding local_session_stop_def
proof (rule core_wf_on_local)
  fix s assume wf: "state_wf s"
  let ?ns = "filter (\<lambda>n. nd_id n \<noteq> i) (st_nodes s)"
  have "state_wf (s\<lparr>st_nodes := ?ns, st_selected_node_id := first_connected ?ns\<rparr>)"
    using wf first_connected_ok [of ?ns] by (intro state_wf_filter) auto
  moreover have "st_selected_node_id s \<noteq> Some i \<Longrightarrow>
      state_wf (s\<lparr>st_nodes := ?ns, st_selected_node_id := st_selected_node_id s\<rparr>)"
    using wf by (intro state_wf_filter)
      (auto simp: state_wf_def selection_ok_def node_ids_def option.pred_set)
  ultimately show "state_wf (let s = s\<lparr>st_nodes := ?ns\<rparr>
      in if st_selected_node_id s = Some i
         then s\<lparr>st_selected_node_id := first_connected (st_nodes s)\<rparr> else s)"
    by (auto simp: Let_def)
qed

lemma core_wf_local_disconnect [keeps_intros]: "keeps core_wf (local_session_disconnect now i)"
  unfolding local_session_disconnect_def
  by (intro core_wf_on_local state_wf_with_node) (auto simp: index_ok_def)

lemma index_ok_local_update:
  "pred_option (\<lambda>k. k < length (case queue of None \<Rightarrow> nd_queue n | Some q \<Rightarrow> q)) ci \<Longrightarrow>
    index_ok ((case queue of None \<Rightarrow> n | Some q \<Rightarrow> n\<lparr>nd_queue := q\<rparr>)
       \<lparr>nd_connected := b, nd_current_index := ci, nd_position_secs := pos, nd_status := st,
        nd_volume := vol, nd_repeat := rep, nd_shuffle := shuf, nd_disconnected_at := t\<rparr>)"
  by (cases queue) (auto simp: index_ok_def)

text \<open>
  \<open>local_session_update\<close> takes the index from the client unchecked: well-formedness is kept when it
  points into the queue the node has afterwards.
\<close>

definition update_in_range :: "string \<Rightarrow> track list option \<Rightarrow> usize option \<Rightarrow> playback_state \<Rightarrow> bool" where
  "update_in_range i queue ci s =
    (case find_node s i of None \<Rightarrow> True
     | Some n \<Rightarrow> pred_option (\<lambda>k. k < length (case queue of None \<Rightarrow> nd_queue n | Some q \<Rightarrow> q)) ci)"

lemma core_wf_local_update:
  assumes "core_wf c" "update_in_range i queue ci (co_state c)"
  shows "core_wf (run (local_session_update i queue ci pos st vol rep shuf) c)"
proof (cases "find_node (co_state c) i")
  case (Some n)
  let ?f = "\<lambda>n. (case queue of None \<Rightarrow> n | Some q \<Rightarrow> n\<lparr>nd_queue := q\<rparr>)
       \<lparr>nd_connected := True, nd_current_index := ci, nd_position_secs := pos, nd_status := st,
        nd_volume := vol, nd_repeat := rep, nd_shuffle := shuf, nd_disconnected_at := None\<rparr>"
  have "state_wf (with_node i ?f (co_state c))"
    using assms Some
    by (intro state_wf_found [OF _ Some] index_ok_local_update)
      (auto simp: core_wf_def update_in_range_def split: option.split)
  then show ?thesis using Some assms(1)
    by (simp add: run_def local_session_update_def on_local_node_def reading_def fail_def andDo_def
        andThen_def modify_state_def modify_def publish_def core_wf_def state_wf_sync)
qed (use assms(1) in \<open>simp add: run_def local_session_update_def on_local_node_def reading_def fail_def\<close>)

lemma state_wf_drop_duplicate:
  assumes "state_wf s" "canonical \<in> set (node_ids s)" "dup \<noteq> canonical"
  shows "state_wf (drop_duplicate canonical dup s) \<and> canonical \<in> set (node_ids (drop_duplicate canonical dup s))"
proof -
  let ?ns = "filter (\<lambda>n. nd_id n \<noteq> dup) (st_nodes s)"
  have "state_wf (s\<lparr>st_nodes := ?ns, st_selected_node_id := Some canonical\<rparr>)"
    using assms by (intro state_wf_filter) (auto simp: node_ids_def)
  moreover have "st_selected_node_id s \<noteq> Some dup \<Longrightarrow>
      state_wf (s\<lparr>st_nodes := ?ns, st_selected_node_id := st_selected_node_id s\<rparr>)"
    using assms(1) by (intro state_wf_filter)
      (auto simp: state_wf_def selection_ok_def node_ids_def option.pred_set)
  ultimately show ?thesis using assms
    by (auto simp: drop_duplicate_def Let_def node_ids_def)
qed

lemma state_wf_drop_duplicates:
  "state_wf s \<Longrightarrow> canonical \<in> set (node_ids s) \<Longrightarrow> canonical \<notin> set dups \<Longrightarrow>
    state_wf (fold (drop_duplicate canonical) dups s) \<and>
    canonical \<in> set (node_ids (fold (drop_duplicate canonical) dups s))"
proof (induction dups arbitrary: s)
  case (Cons a dups)
  then have "state_wf (drop_duplicate canonical a s)"
    "canonical \<in> set (node_ids (drop_duplicate canonical a s))"
    using state_wf_drop_duplicate [of s canonical a] by auto
  from Cons.IH [OF this] Cons.prems(3) show ?case by simp
qed simp

lemma canonical_node_mem: "canonical_node did s = Some i \<Longrightarrow> i \<in> set (device_nodes did s)"
  by (auto simp: canonical_node_def Let_def split: option.splits list.splits dest: find_SomeD)

lemma device_nodes_subset: "set (device_nodes did s) \<subseteq> set (node_ids s)"
  by (auto simp: device_nodes_def node_ids_def)

text \<open>A session may start when it takes over a node of the device or its new id is not taken.\<close>

definition can_start :: "string \<Rightarrow> string option \<Rightarrow> playback_state \<Rightarrow> bool" where
  "can_start uuid device_id s =
    (case device_id of
       None \<Rightarrow> ''local-'' @ uuid \<notin> set (node_ids s)
     | Some did \<Rightarrow> canonical_node did s \<noteq> None \<or> ''local-'' @ did \<notin> set (node_ids s))"

lemma core_wf_local_start:
  assumes wf: "core_wf c" and start: "can_start uuid device_id (co_state c)"
  shows "core_wf (snd (local_session_start uuid name device_id c))"
proof -
  have fresh: "state_wf (sync_top_level_from_selected_node ((co_state c)
      \<lparr>st_nodes := st_nodes (co_state c) @ [new_local_node i name device_id]\<rparr>))"
    if "i \<notin> set (node_ids (co_state c))" for i
    using wf that
    by (intro state_wf_sync state_wf_append)
      (auto simp: core_wf_def new_local_node_def default_node_def index_ok_def)
  show ?thesis
  proof (cases "case device_id of None \<Rightarrow> None | Some did \<Rightarrow> canonical_node did (co_state c)")
    case None
    with start fresh show ?thesis
      by (cases device_id) (auto simp: local_session_start_def can_start_def core_wf_def Let_def)
  next
    case (Some canonical)
    then obtain did where did: "device_id = Some did" "canonical_node did (co_state c) = Some canonical"
      by (cases device_id) auto
    have "canonical \<in> set (node_ids (co_state c))"
      using canonical_node_mem [OF did(2)] device_nodes_subset by blast
    then have "state_wf (fold (drop_duplicate canonical)
        (filter (\<lambda>i. i \<noteq> canonical) (device_nodes did (co_state c))) (co_state c))"
      using wf by (intro state_wf_drop_duplicates [THEN conjunct1]) (auto simp: core_wf_def)
    with did show ?thesis
      by (auto simp: local_session_start_def core_wf_def Let_def index_ok_def
          intro!: state_wf_sync state_wf_with_node)
  qed
qed

subsection \<open>Handoff, cleanup, selection\<close>

lemma core_wf_start_target [keeps_intros]: "keeps core_wf (start_target i ty pos)"
  unfolding start_target_def
  by (intro keeps_intros core_wf_frame core_wf_with_node) (auto simp: index_ok_def)

lemma core_wf_handoff [keeps_intros]: "keeps core_wf (handoff src dst)"
  unfolding handoff_def
proof (rule keeps_readingI)
  fix c :: "'a core"
  let ?copy = "\<lambda>f. with_node dst (\<lambda>n. n\<lparr>nd_queue := nd_queue f,
               nd_current_index := nd_current_index f, nd_position_secs := nd_position_secs f\<rparr>)"
  let ?rest = "\<lambda>t f. andDo (start_target dst (nd_node_type t) (nd_position_secs f)) publish"
  have rest: "keeps core_wf (?rest t f)" for t f
    by (intro keeps_intros)
  assume wf: "core_wf c"
  then have "find_node (co_state c) src = Some f \<Longrightarrow> core_wf (c\<lparr>co_state := ?copy f (co_state c)\<rparr>)" for f
    using state_wf_index [of "co_state c" src f]
    by (auto simp: core_wf_def index_ok_def intro!: state_wf_with_node)
  with wf show "wp (case find_node (co_state c) src of None \<Rightarrow> fail NodeNotFound
     | Some f \<Rightarrow> (case find_node (co_state c) dst of None \<Rightarrow> fail NodeNotFound
     | Some t \<Rightarrow>
         if \<not> nd_connected t then fail (HandoffFailed ''target node not connected'')
         else andDo (modify_state (?copy f)) (?rest t f))) (\<lambda>_. core_wf) (\<lambda>_. core_wf) c"
    by (auto simp: wp_fail split: option.split intro!: wp_modify_then rest)
qed

lemma core_wf_cleanup: "core_wf c \<Longrightarrow> core_wf (cleanup_disconnected_nodes now age c)"
proof -
  assume wf: "core_wf c"
  let ?s = "co_state c"
  define R where "R = set (map nd_id (filter (expired (i64_saturating_sub now age)) (st_nodes ?s)))"
  let ?ns = "filter (\<lambda>n. nd_id n \<notin> R) (st_nodes ?s)"
  have "state_wf (?s\<lparr>st_nodes := ?ns, st_selected_node_id := first_connected ?ns\<rparr>)"
    using wf first_connected_ok [of ?ns] by (intro state_wf_filter) (auto simp: core_wf_def)
  moreover have "state_wf (?s\<lparr>st_nodes := ?ns\<rparr>)" if "pred_option (\<lambda>i. i \<notin> R) (st_selected_node_id ?s)"
  proof -
    have "state_wf (?s\<lparr>st_nodes := ?ns, st_selected_node_id := st_selected_node_id ?s\<rparr>)"
      using wf that by (intro state_wf_filter)
        (auto simp: core_wf_def state_wf_def selection_ok_def node_ids_def option.pred_set)
    then show ?thesis by simp
  qed
  ultimately show ?thesis
    unfolding cleanup_disconnected_nodes_def Let_def R_def [symmetric] using wf
    by (cases "st_selected_node_id ?s") (auto simp: core_wf_def intro!: state_wf_sync)
qed

lemma state_wf_switch: "state_wf s \<Longrightarrow> i \<in> set (node_ids s) \<Longrightarrow> state_wf (switch_state i s)"
  unfolding switch_state_def
  by (intro state_wf_all_nodes state_wf_select) (auto simp: index_ok_def Let_def)

lemma state_frame_stop_previous [keeps_intros]: "state_frame (stop_previous prev)"
  by (cases prev) (auto simp: stop_previous_def intro!: keeps_intros)

lemma core_wf_resume_on [keeps_intros]: "keeps core_wf (resume_on i st pos)"
  by (cases st; simp only: resume_on_def playback_status.case; intro keeps_intros core_wf_frame core_wf_with_node)
    (auto simp: index_ok_def)

lemma core_wf_select_node [keeps_intros]: "keeps core_wf (select_node i)"
  unfolding select_node_def Let_def case_prod_unfold
proof (rule keeps_readingI)
  fix c :: "'a core"
  let ?rest = "andDo (stop_previous (st_selected_node_id (co_state c))) (
       andDo (sync_output_to_global i) (andDo (resume_on i (fst (resume_point (co_state c)))
         (snd (resume_point (co_state c)))) publish))"
  have rest: "keeps core_wf ?rest"
    by (intro keeps_intros core_wf_frame)
  assume wf: "core_wf c"
  then have "find_node (co_state c) i = Some n \<Longrightarrow> core_wf (c\<lparr>co_state := switch_state i (co_state c)\<rparr>)" for n
    using find_node_None_iff [of "co_state c" i] by (auto simp: core_wf_def intro!: state_wf_switch)
  with wf rest show "wp (case find_node (co_state c) i of None \<Rightarrow> fail NodeNotFound
     | Some _ \<Rightarrow> if st_selected_node_id (co_state c) = Some i then ret ()
       else andDo (modify_state (switch_state i)) ?rest) (\<lambda>_. core_wf) (\<lambda>_. core_wf) c"
    by (auto simp: wp_fail wp_ret split: option.split intro!: wp_modify_then)
qed

end
