(* ===== verification/Core_Runs.thy ===== *)
theory Core_Runs
  imports Core_Node_Invariants
begin

text \<open>
  The core controller as a state machine: its public methods as operations, the states reachable by
  them from a new controller, and the invariant of those states. Three methods take data from
  outside unchecked; \<open>admissible\<close> says what the callers must respect for the invariant.
\<close>

datatype (plugins only: code size) 'w core_op =
    Op_RegisterOutput string string "'w audio_output"
  | Op_UnregisterOutput string string
  | Op_AddBroadcaster "'w event_broadcaster"
  | Op_AddPersister "'w state_persister"
  | Op_RestoreState playback_state
  | Op_SyncNodeState string playback_status f64 u8 "usize option" u64
  | Op_AddNode node
  | Op_MarkConnected string bool
  | Op_NodeDisconnected string
  | Op_SyncConnected string
  | Op_RemoveNode string
  | Op_LocalStart string string "string option"
  | Op_LocalStop string
  | Op_LocalDisconnect int string
  | Op_LocalUpdate string "track list option" "usize option" f64 playback_status u8 repeat_mode bool
  | Op_Handoff string string
  | Op_Cleanup int int
  | Op_SelectNode string
  | Op_Play | Op_Pause | Op_Stop | Op_Next | Op_Previous
  | Op_Seek f64
  | Op_SetVolume u8
  | Op_PlayNode string | Op_PauseNode string | Op_StopNode string
  | Op_SeekNode string f64
  | Op_SetNodeVolume string u8
  | Op_SetShuffle bool
  | Op_SetRepeat repeat_mode
  | Op_AddToQueue track
  | Op_AddTracks "track list"
  | Op_ClearQueue
  | Op_RemoveFromQueue usize
  | Op_MoveInQueue usize usize
  | Op_PlayIndex usize
  | Op_SetQueue "track list" "usize option"

fun core_exec :: "'w core_op \<Rightarrow> 'w core \<Rightarrow> 'w core" where
  "core_exec (Op_RegisterOutput i conn out) = register_output i conn out"
| "core_exec (Op_UnregisterOutput i conn) = unregister_output i conn"
| "core_exec (Op_AddBroadcaster b) = add_broadcaster b"
| "core_exec (Op_AddPersister p) = add_persister p"
| "core_exec (Op_RestoreState s) = restore_state s"
| "core_exec (Op_SyncNodeState i st pos vol song gen) = sync_node_state i st pos vol song gen"
| "core_exec (Op_AddNode n) = add_node n"
| "core_exec (Op_MarkConnected i b) = mark_node_connected i b"
| "core_exec (Op_NodeDisconnected i) = handle_node_disconnected i"
| "core_exec (Op_SyncConnected i) = run (sync_connected_node_to_logical_state i)"
| "core_exec (Op_RemoveNode i) = remove_node i"
| "core_exec (Op_LocalStart uuid name dev) = (\<lambda>c. snd (local_session_start uuid name dev c))"
| "core_exec (Op_LocalStop i) = run (local_session_stop i)"
| "core_exec (Op_LocalDisconnect now i) = run (local_session_disconnect now i)"
| "core_exec (Op_LocalUpdate i q ci pos st vol rep shuf) = run (local_session_update i q ci pos st vol rep shuf)"
| "core_exec (Op_Handoff src dst) = run (handoff src dst)"
| "core_exec (Op_Cleanup now age) = cleanup_disconnected_nodes now age"
| "core_exec (Op_SelectNode i) = run (select_node i)"
| "core_exec Op_Play = run core_play"
| "core_exec Op_Pause = run core_pause"
| "core_exec Op_Stop = run core_stop"
| "core_exec Op_Next = run core_next"
| "core_exec Op_Previous = run core_previous"
| "core_exec (Op_Seek pos) = run (core_seek pos)"
| "core_exec (Op_SetVolume v) = run (core_set_volume v)"
| "core_exec (Op_PlayNode i) = run (play_node i)"
| "core_exec (Op_PauseNode i) = run (pause_node i)"
| "core_exec (Op_StopNode i) = run (stop_node i)"
| "core_exec (Op_SeekNode i pos) = run (seek_node i pos)"
| "core_exec (Op_SetNodeVolume i v) = run (set_node_volume i v)"
| "core_exec (Op_SetShuffle b) = run (set_shuffle b)"
| "core_exec (Op_SetRepeat r) = run (set_repeat r)"
| "core_exec (Op_AddToQueue t) = run (add_to_queue t)"
| "core_exec (Op_AddTracks ts) = run (add_tracks_to_queue ts)"
| "core_exec Op_ClearQueue = run clear_queue"
| "core_exec (Op_RemoveFromQueue k) = run (remove_from_queue k)"
| "core_exec (Op_MoveInQueue i j) = run (move_in_queue i j)"
| "core_exec (Op_PlayIndex k) = run (play_index k)"
| "core_exec (Op_SetQueue ts k) = run (core_set_queue ts k)"

fun admissible :: "'w core_op \<Rightarrow> 'w core \<Rightarrow> bool" where
  "admissible (Op_RestoreState s) c = state_wf s"
| "admissible (Op_AddNode n) c = index_ok n"
| "admissible (Op_LocalStart uuid name dev) c = can_start uuid dev (co_state c)"
| "admissible (Op_LocalUpdate i q ci pos st vol rep shuf) c = update_in_range i q ci (co_state c)"
| "admissible (Op_SetQueue ts k) c = pred_option (\<lambda>k. k < length ts) k"
| "admissible _ c = True"

lemma core_wf_registry [simp]:
  "core_wf (register_output i conn out c) = core_wf c"
  "core_wf (unregister_output i conn c) = core_wf c"
  "core_wf (add_broadcaster b c) = core_wf c"
  "core_wf (add_persister p c) = core_wf c"
  by (simp_all add: core_wf_def register_output_def unregister_output_def add_broadcaster_def
      add_persister_def split: option.split)

lemma core_wf_exec:
  assumes "core_wf c" "admissible op c"
  shows "core_wf (core_exec op c)"
proof (cases op)
  case (Op_LocalUpdate i q ci pos st vol rep shuf)
  with assms show ?thesis by (simp add: core_wf_local_update)
next
  case (Op_SetQueue ts k)
  then have "keeps core_wf (core_set_queue ts k :: ('a, unit) core_io)" using assms(2) by (intro core_wf_set_queue) simp
  with Op_SetQueue assms(1) show ?thesis by (simp add: keeps_run [of core_wf])
qed (use assms in \<open>simp_all add: core_wf_sync_node_state core_wf_add_node core_wf_mark
      core_wf_handle_disconnected core_wf_remove_node core_wf_local_start core_wf_cleanup
      restore_state_def core_wf_def [of "c\<lparr>co_state := s\<rparr>" for s] keeps_run [of core_wf] keeps_intros\<close>)

subsection \<open>Reachable states\<close>

inductive core_reachable :: "'w core \<Rightarrow> bool" where
  start: "core_reachable (core_new outs bs w)"
| step: "core_reachable c \<Longrightarrow> admissible op c \<Longrightarrow> core_reachable (core_exec op c)"

inductive_cases core_reachable_cases: "core_reachable c"

lemma core_wf_new: "core_wf (core_new outs bs w)"
  by (simp add: core_wf_def core_new_def empty_state_def state_wf_def node_ids_def selection_ok_def
      indices_ok_def top_index_ok_def)

lemma core_reachable_wf: "core_reachable c \<Longrightarrow> core_wf c"
  by (induction rule: core_reachable.induct) (auto simp: core_wf_new core_wf_exec)

text \<open>A run of operations, each admissible where it starts.\<close>

fun core_run :: "'w core_op list \<Rightarrow> 'w core \<Rightarrow> 'w core" where
  "core_run [] c = c"
| "core_run (op # ops) c = core_run ops (core_exec op c)"

fun admissible_run :: "'w core_op list \<Rightarrow> 'w core \<Rightarrow> bool" where
  "admissible_run [] c = True"
| "admissible_run (op # ops) c = (admissible op c \<and> admissible_run ops (core_exec op c))"

lemma core_run_reachable: "core_reachable c \<Longrightarrow> admissible_run ops c \<Longrightarrow> core_reachable (core_run ops c)"
  by (induction ops arbitrary: c) (auto intro: core_reachable.step)

end
