(* ===== verification/Core_Projection.thy ===== *)
theory Core_Projection
  imports Core_Runs
begin

text \<open>
  What the files of an output have to do with the queue of its node. An output is loaded with the
  queue from the current track on, its \<^emph>\<open>projection\<close>; the transport entry records where the
  projection starts and how long it is, so that a song index the output reports maps back to the
  queue. The lemmas are proved for any output that meets the contract \<open>audio_queue\<close>.
\<close>

subsection \<open>The projection of a queue\<close>

definition projection :: "track list \<Rightarrow> usize option \<Rightarrow> string list" where
  "projection q ci = map tr_file_path (drop (case ci of None \<Rightarrow> 0 | Some i \<Rightarrow> i) q)"

lemma usize_max_ge: "length (q :: 'a list) \<le> usize_max \<Longrightarrow> i < length q \<Longrightarrow> usize_add i 1 = Suc i"
  by (simp add: usize_add_exact)

lemma build_is_projection:
  assumes "length q \<le> usize_max" "pred_option (\<lambda>i. i < length q) ci"
  shows "build_queue_file_paths q ci = projection q ci"
proof (cases ci)
  case None
  then show ?thesis
    by (cases q) (auto simp: build_queue_file_paths_def projection_def vec_get_def)
next
  case (Some i)
  then have "i < length q" using assms(2) by simp
  then have "drop i q = q ! i # drop (Suc i) q" by (simp add: Cons_nth_drop_Suc)
  with Some \<open>i < length q\<close> usize_max_ge [OF assms(1)] show ?thesis
    by (simp add: build_queue_file_paths_def projection_def vec_get_def)
qed

lemma rotated_is_projection:
  assumes "length ts \<le> usize_max" "pred_option (\<lambda>i. i < length ts) ci"
  shows "rotated_paths ts ci = projection ts ci"
proof (cases "ts = []")
  case True
  then show ?thesis by (cases ci) (auto simp: rotated_paths_def projection_def vec_get_def)
next
  case False
  define i where "i = (case ci of None \<Rightarrow> 0 | Some i \<Rightarrow> i)"
  have i: "i < length ts" using assms(2) False by (cases ci) (auto simp: i_def)
  then have "drop i ts = ts ! i # drop (Suc i) ts" by (simp add: Cons_nth_drop_Suc)
  with i usize_max_ge [OF assms(1)] show ?thesis
    by (simp add: rotated_paths_def projection_def vec_get_def i_def [symmetric])
qed

text \<open>The index \<open>usize::MAX\<close> passes unchecked: the whole queue is loaded, from its first track.\<close>

lemma rotated_paths_max:
  "length ts \<le> usize_max \<Longrightarrow> rotated_paths ts (Some usize_max) = map tr_file_path ts"
  by (simp add: rotated_paths_def usize_add_max [unfolded One_nat_def] vec_get_def)

text \<open>How the edits of the queue act on the projection.\<close>

lemma projection_append:
  "pred_option (\<lambda>i. i \<le> length q) ci \<Longrightarrow> projection (q @ ts) ci = projection q ci @ map tr_file_path ts"
  by (cases ci) (auto simp: projection_def)

lemma projection_nth:
  "ci + k < length q \<Longrightarrow> projection q (Some ci) ! k = tr_file_path (q ! (ci + k))"
  by (simp add: projection_def)

lemma projection_length: "length (projection q ci) = length q - (case ci of None \<Rightarrow> 0 | Some i \<Rightarrow> i)"
  by (simp add: projection_def)

text \<open>Removing at or after the current track, unless it is the current and last one.\<close>

lemma projection_remove:
  assumes "ci \<le> k" "k < length q"
  shows "projection (vec_remove k q) (Some ci) = vec_remove (k - ci) (projection q (Some ci))"
  using assms by (simp add: projection_def drop_vec_remove map_vec_remove)

lemma projection_move:
  assumes "ci \<le> i" "ci \<le> j" "i < length q" "j < length q"
  shows "projection (vec_move i j q) (Some ci) = vec_move (i - ci) (j - ci) (projection q (Some ci))"
  using assms by (simp add: projection_def drop_vec_move map_vec_move)

lemma projection_None:
  "k < length q \<Longrightarrow> projection (vec_remove k q) None = vec_remove k (projection q None)"
  "projection (vec_move i j q) None = vec_move i j (projection q None)"
  by (simp_all add: projection_def map_vec_remove map_vec_move)

end
