(* ===== verification/Core_Output.thy ===== *)
theory Core_Output
  imports Core_Projection
begin

text \<open>
  The controller as a client of an output that meets the contract \<open>audio_queue\<close>. The relation
  \<open>faithful\<close> says that the output of a node holds the projection its transport entry describes.
  Loading operations establish it, appending keeps it, and while it holds the index a state update
  sets names the very file the output reports. The edits \<open>remove_from_queue\<close> and \<open>move_in_queue\<close>
  keep it as long as the current track is the one the projection starts with.
\<close>

definition faithful :: "('w \<Rightarrow> string list) \<Rightarrow> string \<Rightarrow> 'w core \<Rightarrow> bool" where
  "faithful files i c =
    (case (find_node (co_state c) i, co_transport c i) of
       (Some n, Some t) \<Rightarrow> files (co_world c) = projection (nd_queue n) (tp_start_index t) \<and>
                           tp_loaded_len t = length (files (co_world c))
     | _ \<Rightarrow> False)"

text \<open>Broadcasting does not reach into the output.\<close>

definition quiet :: "('w \<Rightarrow> string list) \<Rightarrow> ('w \<Rightarrow> nat) \<Rightarrow> 'w core \<Rightarrow> bool" where
  "quiet files room c \<longleftrightarrow>
    (\<forall>b \<in> set (co_broadcasters c). \<forall>s w. files (b s w) = files w \<and> room (b s w) = room w) \<and>
    (\<forall>p \<in> set (co_persisters c). \<forall>s w. files (p s w) = files w \<and> room (p s w) = room w)"

text \<open>Node \<open>i\<close> is selected, connected, and driven by the output \<open>out\<close>.\<close>

definition drives :: "'w audio_output \<Rightarrow> string \<Rightarrow> 'w core \<Rightarrow> bool" where
  "drives out i c \<longleftrightarrow> active_node_of (co_state c) = Inr i \<and>
    (case co_outputs c i of None \<Rightarrow> False | Some slot \<Rightarrow> slot_output slot = out)"

lemma fold_broadcast_keeps:
  "(\<And>f w. f \<in> set fs \<Longrightarrow> g (f s w) = g w) \<Longrightarrow> g (fold (\<lambda>f. f s) fs w) = g w"
  by (induction fs arbitrary: w) auto

lemma quiet_broadcast:
  assumes "quiet files room c"
  shows "files (co_world (broadcast c)) = files (co_world c)" "room (co_world (broadcast c)) = room (co_world c)"
proof -
  let ?s = "sync_top_level_from_selected_node (co_state c)"
  have "files (fold (\<lambda>p. p ?s) (co_persisters c) w) = files w" "room (fold (\<lambda>p. p ?s) (co_persisters c) w) = room w"
    "files (fold (\<lambda>b. b ?s) (co_broadcasters c) w) = files w" "room (fold (\<lambda>b. b ?s) (co_broadcasters c) w) = room w" for w
    using assms by (auto simp: quiet_def intro!: fold_broadcast_keeps)
  then show "files (co_world (broadcast c)) = files (co_world c)" "room (co_world (broadcast c)) = room (co_world c)"
    by (simp_all add: broadcast_def Let_def)
qed

lemma quiet_updates [simp]:
  "quiet files room (c\<lparr>co_state := s\<rparr>) = quiet files room c"
  "quiet files room (c\<lparr>co_world := w\<rparr>) = quiet files room c"
  "quiet files room (c\<lparr>co_transport := tr\<rparr>) = quiet files room c"
  "quiet files room (broadcast c) = quiet files room c"
  by (simp_all add: quiet_def)

lemma drives_outputs: "drives out i c \<Longrightarrow> \<exists>slot. co_outputs c i = Some slot \<and> slot_output slot = out"
  by (auto simp: drives_def split: option.splits)

lemma faithful_broadcast:
  "quiet files room c \<Longrightarrow> faithful files i (broadcast c) = faithful files i c"
  by (simp add: faithful_def quiet_broadcast split: option.split)

context audio_queue
begin

text \<open>A call of the output, seen from the controller.\<close>

lemma wp_call:
  assumes "n < room (co_world c)"
    and "\<And>w. files w = apply_call k (files (co_world c)) \<Longrightarrow> n \<le> room w \<Longrightarrow> Q () (c\<lparr>co_world := w\<rparr>)"
  shows "wp (call_output out k) Q E c"
proof -
  obtain w where "out k (co_world c) = (Inr (), w)" "files w = apply_call k (files (co_world c))" "n \<le> room w"
    using assms(1) by (rule call_obtain)
  with assms(2) show ?thesis by (simp add: wp_def call_output_def)
qed

lemma wp_call_active:
  assumes drv: "drives out i c" and room: "n < room (co_world c)"
    and post: "\<And>w. files w = apply_call k (files (co_world c)) \<Longrightarrow> n \<le> room w \<Longrightarrow> Q () (c\<lparr>co_world := w\<rparr>)"
  shows "wp (call_active k) Q E c"
proof -
  obtain slot where slot: "co_outputs c i = Some slot" "slot_output slot = out"
    using drives_outputs [OF drv] by blast
  have "wp (call_output out k) Q E c" using room post by (rule wp_call)
  then show ?thesis using drv slot
    by (simp add: call_active_def drives_def wp_andThen wp_active_outputs wp_active_node_id
        wp_each_output wp_andDo wp_ret)
qed

end

lemma drives_state:
  "active_node_of s = active_node_of (co_state c) \<Longrightarrow> drives out i (c\<lparr>co_state := s\<rparr>) = drives out i c"
  by (simp add: drives_def)

lemma drives_broadcast: "drives out i (broadcast c) = drives out i c"
  by (auto simp: drives_def active_node_of_def split: option.splits)

lemma drives_updates [simp]:
  "drives out i (c\<lparr>co_world := w\<rparr>) = drives out i c"
  "drives out i (c\<lparr>co_transport := tr\<rparr>) = drives out i c"
  by (simp_all add: drives_def)

lemmas wp_active = wp_maybe_active_outputs wp_active_outputs wp_active_node_id wp_each_output
  wp_andDo wp_andThen wp_modify_state wp_reading wp_ret wp_publish wp_for_each_Cons wp_for_each_Nil
  active_node_of_with_node

lemma remove_track_fields [simp]:
  "nd_id (remove_track k n) = nd_id n" "nd_connected (remove_track k n) = nd_connected n"
  by (simp_all add: remove_track_def Let_def split: option.split)

lemma move_track_fields [simp]:
  "nd_id (move_track a b n) = nd_id n" "nd_connected (move_track a b n) = nd_connected n"
  "nd_queue (move_track a b n) = vec_move a b (nd_queue n)"
  by (simp_all add: move_track_def)

lemma drives_edit [simp]:
  "(\<And>n. nd_id (f n) = nd_id n) \<Longrightarrow> (\<And>n. nd_connected (f n) = nd_connected n) \<Longrightarrow>
    drives out i (c\<lparr>co_state := with_node j f (co_state c)\<rparr>) = drives out i c"
  by (simp add: drives_state active_node_of_with_node)

text \<open>
  What the clients and the persister are sent: the snapshot they are called with is the state \<open>c'\<close> is left
  in, and they are called after \<open>w\<close> has been reached.
\<close>

definition announced :: "'w core \<Rightarrow> 'w \<Rightarrow> 'w core \<Rightarrow> bool" where
  "announced c w c' \<longleftrightarrow> co_world c' =
    fold (\<lambda>p. p (co_state c')) (co_persisters c) (fold (\<lambda>b. b (co_state c')) (co_broadcasters c) w)"

lemma announced_broadcast: "announced c (co_world c) (broadcast c)"
  by (simp add: announced_def broadcast_def Let_def)

lemma announced_same:
  "announced d w c' \<Longrightarrow> co_persisters c = co_persisters d \<Longrightarrow> co_broadcasters c = co_broadcasters d \<Longrightarrow> announced c w c'"
  by (simp add: announced_def)

text \<open>Jumping to a track loads the output with the queue from that track on and plays it.\<close>

definition playing_from :: "('w \<Rightarrow> string list) \<Rightarrow> string \<Rightarrow> track list \<Rightarrow> usize \<Rightarrow> 'w core \<Rightarrow> bool" where
  "playing_from files i q k c \<longleftrightarrow>
    faithful files i c \<and> files (co_world c) = projection q (Some k) \<and>
    (\<exists>n. find_node (co_state c) i = Some n \<and> nd_queue n = q \<and> nd_current_index n = Some k \<and>
       nd_status n = Playing) \<and>
    top_level_synced (co_state c)"

context audio_queue
begin

lemma jump_loads:
  assumes drv: "drives out i c" and node: "find_node (co_state c) i = Some n"
    and pick: "pick n = Inr k" "k < length (nd_queue n)"
    and len: "length (nd_queue n) \<le> usize_max"
    and room: "Suc m < room (co_world c)" and quiet: "quiet files room c"
  shows "\<exists>c'. jump pick c = (Inr (), c') \<and> playing_from files i (nd_queue n) k c' \<and>
    drives out i c' \<and> quiet files room c' \<and> m \<le> room (co_world c') \<and>
    find_node (co_state c') i = Some (n\<lparr>nd_current_index := Some k, nd_position_secs := f64_zero, nd_status := Playing\<rparr>) \<and>
    (\<exists>w. files w = projection (nd_queue n) (Some k) \<and> announced c w c')"
    (is "\<exists>c'. _ \<and> ?post c'")
proof -
  have act: "active_node_of (co_state c) = Inr i" using drv by (simp add: drives_def)
  have paths: "build_queue_file_paths (nd_queue n) (Some k) = projection (nd_queue n) (Some k)"
    using len pick(2) by (simp add: build_is_projection)
  have "wp (jump pick) (\<lambda>_. ?post) (\<lambda>_ _. False) c"
    unfolding jump_def
    apply (simp only: wp_andThen wp_andDo wp_active_node_id wp_reading act sum.case node option.case
        pick(1) Let_def paths wp_modify_state wp_rebuild wp_publish)
    apply (rule wp_call_active [of i _ "Suc m"])
    subgoal using drv by (simp add: drives_def active_node_of_all_nodes active_node_of_with_node)
    subgoal using room by simp
    subgoal
      apply (rule wp_call_active [of i _ m])
      subgoal using drv by (simp add: drives_def active_node_of_all_nodes active_node_of_with_node)
      subgoal by simp
      subgoal for w using quiet node drv
        by (simp add: playing_from_def faithful_def quiet_broadcast [of files room] drives_state
            drives_broadcast active_node_of_all_nodes active_node_of_with_node)
          (intro exI [of _ w] conjI; simp add: announced_def broadcast_def Let_def)
      done
    done
  then show ?thesis by (simp add: wp_total)
qed

text \<open>Replacing the queue with a start index loads the output and plays, too.\<close>

lemma set_queue_loads:
  assumes drv: "drives out i c" and node: "find_node (co_state c) i = Some n"
    and k: "k < length ts" and len: "length ts \<le> usize_max"
    and room: "1 < room (co_world c)" and quiet: "quiet files room c"
  shows "\<exists>c'. core_set_queue ts (Some k) c = (Inr (), c') \<and> playing_from files i ts k c'"
proof -
  have act: "active_node_of (co_state c) = Inr i" using drv by (simp add: drives_def)
  then have sel: "st_selected_node_id (co_state c) = Some i" by (auto dest: active_node_ofD)
  obtain slot where slot: "co_outputs c i = Some slot" "slot_output slot = out"
    using drives_outputs [OF drv] by blast
  have paths: "rotated_paths ts (Some k) = projection ts (Some k)"
    using len k by (simp add: rotated_is_projection)
  have ne: "projection ts (Some k) \<noteq> []" using k by (simp add: projection_def)
  have "wp (core_set_queue ts (Some k)) (\<lambda>_ c'. playing_from files i ts k c') (\<lambda>_ _. False) c"
    unfolding core_set_queue_def
    apply (simp only: wp_andThen wp_andDo wp_reading act sel sum.case option.case Let_def paths ne
        if_False wp_rebuild wp_each_output)
    apply (simp add: slot wp_active del: One_nat_def)
    apply (rule wp_call [of 1])
    subgoal using room by simp
    subgoal for w
      apply (simp add: node act slot wp_active)
      apply (rule wp_call [of 0])
      subgoal by simp
      subgoal using quiet node
        by (simp add: playing_from_def faithful_def quiet_broadcast [of files room] ne)
      done
    done
  then show ?thesis by (simp add: wp_total)
qed

text \<open>Tracks appended to the queue are appended on the output.\<close>

lemma add_tracks_faithful:
  assumes drv: "drives out i c" and node: "find_node (co_state c) i = Some n"
    and faith: "faithful files i c" and start: "co_transport c i = Some t"
    and s: "pred_option (\<lambda>s. s \<le> length (nd_queue n)) (tp_start_index t)" and len: "length (nd_queue n) + length ts \<le> usize_max"
    and room: "0 < room (co_world c)" and quiet: "quiet files room c"
  shows "\<exists>c'. add_tracks_to_queue ts c = (Inr (), c') \<and> faithful files i c' \<and>
    (\<exists>n'. find_node (co_state c') i = Some n' \<and> nd_queue n' = nd_queue n @ ts \<and>
       nd_current_index n' = nd_current_index n)"
proof -
  have act: "active_node_of (co_state c) = Inr i" using drv by (simp add: drives_def)
  then have sel: "st_selected_node_id (co_state c) = Some i" by (auto dest: active_node_ofD)
  obtain slot where slot: "co_outputs c i = Some slot" "slot_output slot = out"
    using drives_outputs [OF drv] by blast
  have f: "files (co_world c) = projection (nd_queue n) (tp_start_index t)" "tp_loaded_len t = length (files (co_world c))"
    using faith node start by (simp_all add: faithful_def)
  have app: "projection (nd_queue n @ ts) (tp_start_index t) = projection (nd_queue n) (tp_start_index t) @ map tr_file_path ts"
    using s by (rule projection_append)
  have small: "length (nd_queue n) - (case tp_start_index t of None \<Rightarrow> 0 | Some i \<Rightarrow> i) + length ts \<le> usize_max"
    using len by simp
  have "wp (add_tracks_to_queue ts) (\<lambda>_ c'. faithful files i c' \<and>
    (\<exists>n'. find_node (co_state c') i = Some n' \<and> nd_queue n' = nd_queue n @ ts \<and>
       nd_current_index n' = nd_current_index n)) (\<lambda>_ _. False) c"
  proof (cases "ts = []")
    case True
    with faith node show ?thesis by (simp add: add_tracks_to_queue_def wp_ret)
  next
    case False
    then show ?thesis
      unfolding add_tracks_to_queue_def
      apply (simp add: node sel act slot wp_active)
      apply (rule wp_call [of 0])
      subgoal using room by simp
      subgoal for w using len
        by (simp add: extend_projection_loaded_len_active_def wp_reading act wp_update_transport start
            active_node_of_with_node faithful_def quiet quiet_broadcast [of files room] node f app
            projection_length usize_saturating_add_def small)
      done
  qed
  then show ?thesis by (simp add: wp_total)
qed

text \<open>
  Edits at or after the current track, while the projection starts with it. The queue's last track
  removed while it is the current one is the exception: the projection is empty then, but the
  current index moves to the new last track.
\<close>

lemma remove_faithful:
  assumes drv: "drives out i c" and node: "find_node (co_state c) i = Some n"
    and faith: "faithful files i c" and start: "co_transport c i = Some t" "tp_start_index t = Some ci"
    and cur: "nd_current_index n = Some ci" and k: "ci \<le> k" "k < length (nd_queue n)"
    and last: "length (nd_queue n) \<noteq> Suc ci"
    and room: "0 < room (co_world c)" and quiet: "quiet files room c"
  shows "\<exists>c'. remove_from_queue k c = (Inr (), c') \<and> faithful files i c' \<and>
    find_node (co_state c') i = Some (remove_track k n) \<and> nd_current_index (remove_track k n) = Some ci"
proof -
  have act: "active_node_of (co_state c) = Inr i" using drv by (simp add: drives_def)
  then have sel: "st_selected_node_id (co_state c) = Some i" by (auto dest: active_node_ofD)
  obtain slot where slot: "co_outputs c i = Some slot" "slot_output slot = out"
    using drives_outputs [OF drv] by blast
  have f: "files (co_world c) = projection (nd_queue n) (Some ci)" "tp_loaded_len t = length (files (co_world c))"
    using faith node start by (simp_all add: faithful_def)
  have upd: "projection (vec_remove k (nd_queue n)) (Some ci) = vec_remove (k - ci) (projection (nd_queue n) (Some ci))"
    using k by (rule projection_remove)
  have q: "nd_queue (remove_track k n) = vec_remove k (nd_queue n)"
    by (simp add: remove_track_def Let_def split: option.split)
  have cur': "nd_current_index (remove_track k n) = Some ci"
    using cur k last by (auto simp: remove_track_def Let_def min_def vec_remove_def)
  have lt: "k - ci < length (nd_queue n) - ci" "\<not> length (nd_queue n) - ci \<le> Suc 0"
    using k last by (auto intro: diff_less_mono)
  have "wp (remove_from_queue k) (\<lambda>_ c'. faithful files i c' \<and>
    find_node (co_state c') i = Some (remove_track k n)) (\<lambda>_ _. False) c"
    unfolding remove_from_queue_def
    apply (simp add: node sel act slot selected_node_def with_selected_node_def wp_active k(2) [folded not_le])
    apply (rule wp_call [of 0])
    subgoal using room by simp
    subgoal for w using lt
      by (simp add: decrement_projection_loaded_len_active_def wp_reading act wp_update_transport start
          active_node_of_with_node remove_track_fields faithful_def quiet quiet_broadcast [of files room]
          node f upd q cur output_index_def Let_def projection_length)
    done
  with cur' show ?thesis by (simp add: wp_total)
qed

lemma move_faithful:
  assumes drv: "drives out i c" and node: "find_node (co_state c) i = Some n"
    and faith: "faithful files i c" and start: "co_transport c i = Some t" "tp_start_index t = Some ci"
    and cur: "nd_current_index n = Some ci"
    and ab: "ci \<le> a" "ci \<le> b" "a < length (nd_queue n)" "b < length (nd_queue n)"
    and room: "0 < room (co_world c)" and quiet: "quiet files room c"
  shows "\<exists>c'. move_in_queue a b c = (Inr (), c') \<and> faithful files i c' \<and>
    find_node (co_state c') i = Some (move_track a b n)"
proof -
  have act: "active_node_of (co_state c) = Inr i" using drv by (simp add: drives_def)
  then have sel: "st_selected_node_id (co_state c) = Some i" by (auto dest: active_node_ofD)
  obtain slot where slot: "co_outputs c i = Some slot" "slot_output slot = out"
    using drives_outputs [OF drv] by blast
  have f: "files (co_world c) = projection (nd_queue n) (Some ci)" "tp_loaded_len t = length (files (co_world c))"
    using faith node start by (simp_all add: faithful_def)
  have lt: "a - ci < length (nd_queue n) - ci" "b - ci < length (nd_queue n) - ci"
    using ab by (auto intro: diff_less_mono)
  have "wp (move_in_queue a b) (\<lambda>_ c'. faithful files i c' \<and>
    find_node (co_state c') i = Some (move_track a b n)) (\<lambda>_ _. False) c"
    unfolding move_in_queue_def
    apply (simp add: node sel act slot selected_node_def with_selected_node_def wp_active
        ab(3,4) [folded not_le])
    apply (rule wp_call [of 0])
    subgoal using room by simp
    subgoal for w using lt ab
      by (simp add: start faithful_def quiet quiet_broadcast [of files room] node f cur
          output_index_def projection_move projection_length)
    done
  then show ?thesis by (simp add: wp_total)
qed

text \<open>
  Where the edits go wrong. A removal before the current track is sent as position 0, which drops
  the file being played although the rest of the queue is unchanged. Once the output has advanced
  by \<open>d\<close> tracks on its own, positions are counted from the current track and not from the
  projection's start, so a removal at \<open>k\<close> drops the file of the queue entry \<open>k - d\<close>.
\<close>

lemma remove_before_current:
  assumes drv: "drives out i c" and node: "find_node (co_state c) i = Some n"
    and cur: "nd_current_index n = Some ci" and k: "k < ci" "ci < length (nd_queue n)"
    and files: "files (co_world c) = projection (nd_queue n) (Some ci)"
    and room: "0 < room (co_world c)" and quiet: "quiet files room c"
  shows "\<exists>c' n'. remove_from_queue k c = (Inr (), c') \<and> find_node (co_state c') i = Some n' \<and>
    projection (nd_queue n') (nd_current_index n') = files (co_world c) \<and>
    files (co_world c') = tl (files (co_world c))"
proof -
  have act: "active_node_of (co_state c) = Inr i" using drv by (simp add: drives_def)
  then have sel: "st_selected_node_id (co_state c) = Some i" by (auto dest: active_node_ofD)
  obtain slot where slot: "co_outputs c i = Some slot" "slot_output slot = out"
    using drives_outputs [OF drv] by blast
  have kl: "\<not> length (nd_queue n) \<le> k" using k by simp
  have ne: "files (co_world c) \<noteq> []" using files k by (simp add: projection_def)
  have proj: "projection (nd_queue (remove_track k n)) (nd_current_index (remove_track k n)) = files (co_world c)"
    using cur k files by (auto simp: remove_track_def Let_def projection_def vec_remove_def min_def)
  have "wp (remove_from_queue k) (\<lambda>_ c'. find_node (co_state c') i = Some (remove_track k n) \<and>
    files (co_world c') = tl (files (co_world c))) (\<lambda>_ _. False) c"
    unfolding remove_from_queue_def
    apply (simp add: node sel act slot selected_node_def with_selected_node_def wp_active kl)
    apply (rule wp_call [of 0])
    subgoal using room by simp
    subgoal for w using ne k
      by (auto simp: decrement_projection_loaded_len_active_def wp_reading act wp_update_transport
          active_node_of_with_node node cur output_index_def quiet quiet_broadcast [of files room]
          vec_remove_def drop_Suc split: option.split)
    done
  with proj show ?thesis by (auto simp: wp_total)
qed

lemma remove_after_advance:
  assumes drv: "drives out i c" and node: "find_node (co_state c) i = Some n"
    and cur: "nd_current_index n = Some (s + d)" and k: "s + d \<le> k" "k < length (nd_queue n)"
    and files: "files (co_world c) = projection (nd_queue n) (Some s)"
    and room: "0 < room (co_world c)" and quiet: "quiet files room c"
  shows "\<exists>c'. remove_from_queue k c = (Inr (), c') \<and>
    find_node (co_state c') i = Some (remove_track k n) \<and>
    files (co_world c') = projection (vec_remove (k - d) (nd_queue n)) (Some s)"
proof -
  have act: "active_node_of (co_state c) = Inr i" using drv by (simp add: drives_def)
  then have sel: "st_selected_node_id (co_state c) = Some i" by (auto dest: active_node_ofD)
  obtain slot where slot: "co_outputs c i = Some slot" "slot_output slot = out"
    using drives_outputs [OF drv] by blast
  have kl: "\<not> length (nd_queue n) \<le> k" using k by simp
  have lt: "k - (s + d) < length (nd_queue n) - s" using k by linarith
  have proj: "projection (vec_remove (k - d) (nd_queue n)) (Some s) =
      vec_remove (k - (s + d)) (projection (nd_queue n) (Some s))"
    using projection_remove [of s "k - d" "nd_queue n"] k by (simp add: add.commute)
  have "wp (remove_from_queue k) (\<lambda>_ c'. find_node (co_state c') i = Some (remove_track k n) \<and>
    files (co_world c') = projection (vec_remove (k - d) (nd_queue n)) (Some s)) (\<lambda>_ _. False) c"
    unfolding remove_from_queue_def
    apply (simp add: node sel act slot selected_node_def with_selected_node_def wp_active kl)
    apply (rule wp_call [of 0])
    subgoal using room by simp
    subgoal for w using lt
      by (auto simp: decrement_projection_loaded_len_active_def wp_reading act wp_update_transport
          active_node_of_with_node node cur output_index_def quiet quiet_broadcast [of files room]
          files proj projection_length split: option.split)
    done
  then show ?thesis by (simp add: wp_total)
qed

end

text \<open>
  An output that reports song \<open>k\<close> of the current load moves the current index to the track whose
  file is the \<open>k\<close>-th it holds; a report of an older load leaves the index alone.
\<close>

lemma sync_fields_of_node [simp]:
  "nd_id (sync_index p (sync_volume v (sync_position x (sync_status st n)))) = nd_id n"
  "nd_queue (sync_index p (sync_volume v (sync_position x (sync_status st n)))) = nd_queue n"
  "nd_current_index (sync_volume v (sync_position x (sync_status st n))) = nd_current_index n"
  by (simp_all add: sync_index_def sync_volume_def sync_position_def sync_status_def split: option.split)

lemma find_after_sync:
  "find_node (co_state (sync_node_state i st pos vol song gen c)) i =
    map_option (\<lambda>n. sync_index (projected_current_index (co_transport c) i song gen)
      (sync_volume vol (sync_position pos (sync_status st n)))) (find_node (co_state c) i)"
  by (simp add: sync_node_state_def Let_def split: option.split)

lemma sync_tracks_output:
  assumes faith: "faithful files i c" and node: "find_node (co_state c) i = Some n"
    and t: "co_transport c i = Some t" "tp_generation t = gen" "tp_start_index t = Some s"
    and k: "k < length (files (co_world c))" and len: "length (nd_queue n) \<le> usize_max"
  shows "\<exists>n'. find_node (co_state (sync_node_state i st pos vol (Some k) gen c)) i = Some n' \<and>
    nd_queue n' = nd_queue n \<and> nd_current_index n' = Some (s + k) \<and> s + k < length (nd_queue n) \<and>
    tr_file_path (nd_queue n ! (s + k)) = files (co_world c) ! k"
proof -
  have f: "files (co_world c) = projection (nd_queue n) (Some s)" "tp_loaded_len t = length (files (co_world c))"
    using faith node t by (simp_all add: faithful_def)
  have lt: "s + k < length (nd_queue n)" using k f by (simp add: projection_length)
  have p: "projected_current_index (co_transport c) i (Some k) gen = Some (s + k)"
    using t f k lt len by (simp add: projected_current_index_def usize_checked_add_def)
  have "nd_current_index (sync_index (Some (s + k)) (sync_volume vol (sync_position pos (sync_status st n)))) = Some (s + k)"
    using lt by (simp add: sync_index_def) (simp add: sync_volume_def sync_position_def sync_status_def)
  then show ?thesis using lt f projection_nth [OF lt]
    by (simp add: find_after_sync node p)
qed

lemma sync_ignores_stale:
  assumes "find_node (co_state c) i = Some n" "\<And>t. co_transport c i = Some t \<Longrightarrow> tp_generation t \<noteq> gen"
  shows "\<exists>n'. find_node (co_state (sync_node_state i st pos vol song gen c)) i = Some n' \<and>
    nd_current_index n' = nd_current_index n"
proof -
  have "projected_current_index (co_transport c) i song gen = None"
    using assms(2) by (auto simp: projected_current_index_def split: option.split)
  then show ?thesis using assms(1) by (simp add: find_after_sync sync_index_def)
qed

end
