(* ===== verification/NodeOutput.thy ===== *)
theory NodeOutput
  imports Core_Output
begin

text \<open>
  Remote output nodes: the protocol (\<open>kanade-node-protocol/src/lib.rs\<close>), the server's end of a
  connection (\<open>kanade-adapter-node-server/src/output.rs\<close> and \<open>server.rs\<close>) and the node's end
  (\<open>kanade-node/src/main.rs\<close>).

  The channel of a connection is a bounded queue of commands; the commands already written to the
  WebSocket are kept behind it. The files the node will hold once it has caught up are its
  \<open>view\<close>, and \<open>RemoteNodeOutput\<close> meets the contract \<open>audio_queue\<close> for that view.
\<close>

subsection \<open>The protocol\<close>

record node_registration =
  nr_node_id :: "string option"
  nr_display_name :: "string option"
  nr_name :: "string option"

record node_registration_ack =
  na_node_id :: string
  na_media_base_url :: string
  na_media_auth_key :: "string option"
  na_media_auth_key_id :: "string option"

datatype node_command =
    Cmd_Play | Cmd_Pause | Cmd_Stop
  | Cmd_Seek f64
  | Cmd_SetVolume u8
  | Cmd_SetQueue "string list" u64
  | Cmd_Add "string list"
  | Cmd_Remove usize
  | Cmd_MoveTrack usize usize

record node_state_update =
  nu_status :: playback_status
  nu_position_secs :: f64
  nu_volume :: u8
  nu_mpd_song_index :: "usize option"
  nu_projection_generation :: u64

subsection \<open>The server's end: the command channel\<close>

record link =
  lk_pending :: "node_command list"
  lk_sent :: "node_command list"
  lk_closed :: bool

definition channel_capacity :: nat where
  "channel_capacity = 64"

definition new_link :: link where
  "new_link = \<lparr>lk_pending = [], lk_sent = [], lk_closed = False\<rparr>"

text \<open>
  A send on a full channel waits for two seconds; the model lets it fail then. The receiver's
  progress is the separate step \<open>forward_command\<close>.
\<close>

definition link_send :: "node_command \<Rightarrow> (link, core_error, unit) io" where
  "link_send cmd l =
    (if lk_closed l then (Inl (Output ''channel closed''), l)
     else if channel_capacity \<le> length (lk_pending l) then (Inl (Output ''node command send timeout''), l)
     else (Inr (), l\<lparr>lk_pending := lk_pending l @ [cmd]\<rparr>))"

fun command_of :: "output_call \<Rightarrow> node_command" where
  "command_of Call_Play = Cmd_Play"
| "command_of Call_Pause = Cmd_Pause"
| "command_of Call_Stop = Cmd_Stop"
| "command_of (Call_Seek p) = Cmd_Seek p"
| "command_of (Call_SetVolume v) = Cmd_SetVolume v"
| "command_of (Call_SetQueue ps g) = Cmd_SetQueue ps g"
| "command_of (Call_Add ps) = Cmd_Add ps"
| "command_of (Call_Remove i) = Cmd_Remove i"
| "command_of (Call_MoveTrack i j) = Cmd_MoveTrack i j"

definition remote_node_output :: "link audio_output" where
  "remote_node_output k = link_send (command_of k)"

text \<open>The connection task takes a command and writes it to the WebSocket.\<close>

definition forward_command :: "link \<Rightarrow> link" where
  "forward_command l = (case lk_pending l of
     [] \<Rightarrow> l | cmd # rest \<Rightarrow> l\<lparr>lk_pending := rest, lk_sent := lk_sent l @ [cmd]\<rparr>)"

subsection \<open>The node's end: executing commands\<close>

text \<open>The renderer of a node is an audio output on its own world.\<close>

fun call_of :: "node_command \<Rightarrow> output_call" where
  "call_of Cmd_Play = Call_Play"
| "call_of Cmd_Pause = Call_Pause"
| "call_of Cmd_Stop = Call_Stop"
| "call_of (Cmd_Seek p) = Call_Seek p"
| "call_of (Cmd_SetVolume v) = Call_SetVolume v"
| "call_of (Cmd_SetQueue ps g) = Call_SetQueue ps g"
| "call_of (Cmd_Add ps) = Call_Add ps"
| "call_of (Cmd_Remove i) = Call_Remove i"
| "call_of (Cmd_MoveTrack i j) = Call_MoveTrack i j"

lemma call_of_command_of [simp]: "call_of (command_of k) = k"
  by (cases k) auto

record 'w node_device =
  dv_world :: 'w
  dv_projection_generation :: u64

definition execute_command :: "'w audio_output \<Rightarrow> node_command \<Rightarrow> 'w node_device \<Rightarrow> 'w node_device" where
  "execute_command renderer cmd d =
    (case renderer (call_of cmd) (dv_world d) of (result, w) \<Rightarrow>
       let d = d\<lparr>dv_world := w\<rparr>
       in case (cmd, result) of
            (Cmd_SetQueue _ gen, Inr _) \<Rightarrow> d\<lparr>dv_projection_generation := gen\<rparr>
          | _ \<Rightarrow> d)"

text \<open>\<open>NodeEventBroadcaster::on_state_changed\<close>: the update reports the generation last loaded.\<close>

definition node_update :: "playback_state \<Rightarrow> 'w node_device \<Rightarrow> node_state_update option" where
  "node_update s d = (case st_nodes s of
     [] \<Rightarrow> None
   | n # _ \<Rightarrow> Some \<lparr>nu_status = nd_status n, nu_position_secs = nd_position_secs n,
                nu_volume = nd_volume n, nu_mpd_song_index = st_current_index s,
                nu_projection_generation = dv_projection_generation d\<rparr>)"

text \<open>\<open>backoff = (backoff * 2).min(max_backoff)\<close>, in seconds, after each session.\<close>

definition next_backoff :: "nat \<Rightarrow> nat" where
  "next_backoff b = min (b * 2) 30"

fun parse_media_auth :: "(string \<Rightarrow> u8 list option) \<Rightarrow> node_registration_ack \<Rightarrow> (string \<times> u8 list) option" where
  "parse_media_auth hex_decode ack =
    (case (na_media_auth_key_id ack, na_media_auth_key ack) of
       (Some key_id, Some key_hex) \<Rightarrow>
         (case hex_decode key_hex of
            None \<Rightarrow> None
          | Some bs \<Rightarrow> if length bs = 32 then Some (key_id, bs) else None)
     | _ \<Rightarrow> None)"

subsection \<open>The server's end: connections\<close>

definition registration_name :: "string \<Rightarrow> node_registration \<Rightarrow> string" where
  "registration_name uuid r =
    (case (case nr_display_name r of Some d \<Rightarrow> Some d | None \<Rightarrow> nr_name r) of
       Some s \<Rightarrow> if s \<noteq> [] then s else ''node-'' @ uuid
     | None \<Rightarrow> ''node-'' @ uuid)"

definition registration_id :: "string \<Rightarrow> node_registration \<Rightarrow> string" where
  "registration_id display_name r =
    (case nr_node_id r of Some i \<Rightarrow> if i \<noteq> [] then i else display_name | None \<Rightarrow> display_name)"

definition registration_ack :: "string \<Rightarrow> string \<Rightarrow> node_registration_ack" where
  "registration_ack i url =
    \<lparr>na_node_id = i, na_media_base_url = url, na_media_auth_key = None, na_media_auth_key_id = None\<rparr>"

text \<open>What \<open>handle_node_connection\<close> does once the ack is sent, up to its loop.\<close>

definition open_connection ::
  "string \<Rightarrow> string \<Rightarrow> 'w audio_output \<Rightarrow> node_registration \<Rightarrow> 'w core \<Rightarrow> 'w core" where
  "open_connection uuid conn out r c =
    (let name = registration_name uuid r;
         i = registration_id name r;
         c = register_output i conn out c;
         c = add_node (default_node\<lparr>nd_id := i, nd_name := name\<rparr>) c;
         c = run (sync_connected_node_to_logical_state i) c
     in case st_selected_node_id (co_state c) of
          Some sel \<Rightarrow> if sel \<noteq> i then run (stop_node i) c else c
        | None \<Rightarrow> c)"

definition connection_update :: "string \<Rightarrow> string \<Rightarrow> node_state_update \<Rightarrow> 'w core \<Rightarrow> 'w core" where
  "connection_update i conn u c =
    (if \<not> is_same_output i conn c then c
     else sync_node_state i (nu_status u) (nu_position_secs u) (nu_volume u)
            (nu_mpd_song_index u) (nu_projection_generation u) c)"

definition close_connection :: "string \<Rightarrow> string \<Rightarrow> 'w core \<Rightarrow> 'w core" where
  "close_connection i conn c =
    (if is_same_output i conn c
     then handle_node_disconnected i (unregister_output i conn c) else c)"

text \<open>The heartbeat: a ping every 30 seconds, and the end of the connection after 90 silent ones.\<close>

definition heartbeat_expired :: "nat \<Rightarrow> nat \<Rightarrow> bool" where
  "heartbeat_expired last_seen now = (now - last_seen > 90)"

subsection \<open>The channel meets the contract\<close>

definition link_view :: "link \<Rightarrow> string list" where
  "link_view l = fold (\<lambda>cmd. apply_call (call_of cmd)) (lk_sent l @ lk_pending l) []"

definition link_room :: "link \<Rightarrow> nat" where
  "link_room l = (if lk_closed l then 0 else channel_capacity - length (lk_pending l))"

interpretation remote: audio_queue remote_node_output link_view link_room
  by unfold_locales
    (auto simp: remote_node_output_def link_send_def link_view_def link_room_def split: if_splits)

lemma forward_view [simp]: "link_view (forward_command l) = link_view l"
  by (simp add: forward_command_def link_view_def split: list.split)

lemma forward_room: "\<not> lk_closed l \<Longrightarrow> lk_pending l \<noteq> [] \<Longrightarrow> length (lk_pending l) \<le> channel_capacity \<Longrightarrow>
    link_room (forward_command l) = Suc (link_room l)"
  by (auto simp: forward_command_def link_room_def split: list.split)

text \<open>Commands leave the channel in the order of the calls.\<close>

lemma sends_in_order:
  "snd (for_each ks remote_node_output l) = l' \<Longrightarrow> fst (for_each ks remote_node_output l) = Inr () \<Longrightarrow>
    lk_pending l' = lk_pending l @ map command_of ks \<and> lk_sent l' = lk_sent l"
proof (induction ks arbitrary: l)
  case Nil
  then show ?case by (simp add: ret_def)
next
  case (Cons k ks)
  then show ?case
    by (auto simp: andDo_def andThen_def remote_node_output_def link_send_def split: if_splits)
qed

lemma sends_fit:
  "fst (for_each ks remote_node_output l) = Inr () \<Longrightarrow> length (lk_pending l) \<le> channel_capacity \<Longrightarrow>
    length (lk_pending l) + length ks \<le> channel_capacity"
proof (induction ks arbitrary: l)
  case (Cons k ks)
  define l' where "l' = l\<lparr>lk_pending := lk_pending l @ [command_of k]\<rparr>"
  have "remote_node_output k l = (Inr (), l')" "length (lk_pending l') \<le> channel_capacity"
    using Cons.prems by (auto simp: andDo_def andThen_def remote_node_output_def link_send_def l'_def split: if_splits)
  with Cons.prems Cons.IH [of l'] show ?case by (simp add: andDo_def andThen_def l'_def)
qed simp

lemma capacity_kept:
  "length (lk_pending l) \<le> channel_capacity \<Longrightarrow>
    length (lk_pending (snd (remote_node_output k l))) \<le> channel_capacity"
  by (simp add: remote_node_output_def link_send_def)

subsection \<open>The node catches up\<close>

context audio_queue
begin

text \<open>
  A node whose renderer has room executes what was sent and then holds the files of the view; the
  generation it reports is the one of the last load.
\<close>

lemma execute_ok:
  assumes "n < room (dv_world d)"
  shows "files (dv_world (execute_command out cmd d)) = apply_call (call_of cmd) (files (dv_world d))"
    and "n \<le> room (dv_world (execute_command out cmd d))"
    and "dv_projection_generation (execute_command out cmd d) =
      (case cmd of Cmd_SetQueue _ gen \<Rightarrow> gen | _ \<Rightarrow> dv_projection_generation d)"
proof -
  obtain w where w: "out (call_of cmd) (dv_world d) = (Inr (), w)"
      "files w = apply_call (call_of cmd) (files (dv_world d))" "n \<le> room w"
    using assms by (rule call_obtain)
  then have "dv_world (execute_command out cmd d) = w" "dv_projection_generation (execute_command out cmd d) =
      (case cmd of Cmd_SetQueue _ gen \<Rightarrow> gen | _ \<Rightarrow> dv_projection_generation d)"
    unfolding execute_command_def w(1) by (simp_all add: Let_def split: node_command.split)
  with w show "files (dv_world (execute_command out cmd d)) = apply_call (call_of cmd) (files (dv_world d))"
    and "n \<le> room (dv_world (execute_command out cmd d))"
    and "dv_projection_generation (execute_command out cmd d) =
      (case cmd of Cmd_SetQueue _ gen \<Rightarrow> gen | _ \<Rightarrow> dv_projection_generation d)"
    by simp_all
qed

lemma executes_view:
  "length cmds \<le> room (dv_world d) \<Longrightarrow>
    files (dv_world (fold (execute_command out) cmds d)) =
      fold (\<lambda>cmd. apply_call (call_of cmd)) cmds (files (dv_world d)) \<and>
    dv_projection_generation (fold (execute_command out) cmds d) =
      fold (\<lambda>cmd g. case cmd of Cmd_SetQueue _ gen \<Rightarrow> gen | _ \<Rightarrow> g) cmds (dv_projection_generation d)"
proof (induction cmds arbitrary: d)
  case (Cons cmd cmds)
  have "length cmds < room (dv_world d)" using Cons.prems by simp
  note ok = execute_ok [OF this, of cmd]
  show ?case using Cons.IH [OF ok(2)] by (simp add: ok(1,3))
qed simp

end

lemma execute_command_world: "dv_world (execute_command out cmd d) = snd (out (call_of cmd) (dv_world d))"
  by (simp add: execute_command_def Let_def split: prod.split node_command.split sum.split)

context file_player
begin

text \<open>The commands a node executes leave its player with the files of the same commands, under its names.\<close>

lemma execute_follows:
  assumes "n < room (dv_world d)" "fits (call_of cmd)" "files (dv_world d) = map name q"
  shows "files (dv_world (execute_command out cmd d)) = map name (apply_call (call_of cmd) q)"
    and "n \<le> room (dv_world (execute_command out cmd d))"
  using follows [of "dv_world d" "call_of cmd"] assms by (auto simp: execute_command_world apply_map_call)

lemma executes_files:
  assumes "length cmds \<le> room (dv_world d)" "list_all (fits \<circ> call_of) cmds" "files (dv_world d) = map name q"
  shows "files (dv_world (fold (execute_command out) cmds d)) = map name (fold (\<lambda>cmd. apply_call (call_of cmd)) cmds q)"
  using assms
proof (induction cmds arbitrary: d q)
  case (Cons cmd cmds)
  have "length cmds < room (dv_world d)" "fits (call_of cmd)" using Cons.prems by simp_all
  note ok = execute_follows [OF this Cons.prems(3)]
  show ?case using Cons.IH [OF ok(2) _ ok(1)] Cons.prems(2) by simp
qed simp

end

subsection \<open>A superseded connection\<close>

text \<open>
  After a node has connected again, its old connection changes nothing: neither an update still in
  flight nor its end.
\<close>

lemma superseded_inert:
  assumes "co_outputs c i = Some slot" "slot_connection_id slot \<noteq> conn"
  shows "connection_update i conn u c = c" "close_connection i conn c = c"
  using assms by (simp_all add: connection_update_def close_connection_def is_same_output_def)


lemma backoff_bounds: "0 < b \<Longrightarrow> b \<le> 30 \<Longrightarrow> b \<le> next_backoff b \<and> next_backoff b \<le> 30"
  by (simp add: next_backoff_def)

lemma backoff_fixed: "5 \<le> n \<Longrightarrow> (next_backoff ^^ n) 1 = 30"
proof (induction n rule: dec_induct)
  case base
  then show ?case by (simp add: next_backoff_def eval_nat_numeral)
next
  case (step n)
  then show ?case by (simp add: next_backoff_def)
qed

end
