(* ===== verification/Samples.thy ===== *)
theory Samples
  imports NodeOutput
begin

text \<open>
  Sample states the witness theorems are evaluated on: a controller with one remote node, which is
  selected, connected over an open link, and loaded with a queue of four tracks from a given index.
\<close>

definition sample_track :: "string \<Rightarrow> track" where
  "sample_track p = \<lparr>tr_id = p, tr_file_path = p, tr_album_id = None, tr_title = None, tr_artist = None,
     tr_album_artist = None, tr_album_title = None, tr_composer = None, tr_genre = None,
     tr_track_number = None, tr_disc_number = None, tr_duration_secs = Some (Fin 200),
     tr_format = None, tr_sample_rate = None\<rparr>"

definition sample_queue :: "track list" where
  "sample_queue = map sample_track [''a'', ''b'', ''c'', ''d'']"

definition sample_node :: "usize \<Rightarrow> node" where
  "sample_node k = default_node\<lparr>nd_id := ''n'', nd_queue := sample_queue, nd_current_index := Some k,
     nd_status := Playing, nd_repeat := Repeat_All\<rparr>"

definition sample_state :: "usize \<Rightarrow> playback_state" where
  "sample_state k = \<lparr>st_nodes = [sample_node k], st_selected_node_id = Some ''n'', st_queue = sample_queue,
     st_current_index = Some k, st_shuffle = False, st_repeat = Repeat_All\<rparr>"

definition sample_link :: "usize \<Rightarrow> link" where
  "sample_link s = new_link\<lparr>lk_sent := [Cmd_SetQueue (projection sample_queue (Some s)) 1]\<rparr>"

definition sample_transport :: "usize \<Rightarrow> transport" where
  "sample_transport s = \<lparr>tp_generation = 1, tp_start_index = Some s, tp_loaded_len = 4 - s\<rparr>"

text \<open>The projection starts at \<open>s\<close>, the current track is the one at \<open>k\<close>.\<close>

definition sample_core :: "usize \<Rightarrow> usize \<Rightarrow> link core" where
  "sample_core s k = \<lparr>co_state = sample_state k,
     co_outputs = [''n'' \<mapsto> \<lparr>slot_connection_id = ''conn'', slot_output = remote_node_output\<rparr>],
     co_broadcasters = [], co_persisters = [],
     co_transport = [''n'' \<mapsto> sample_transport s],
     co_world = sample_link s\<rparr>"

lemma sample_basic [simp]:
  "find_node (co_state (sample_core s k)) ''n'' = Some (sample_node k)"
  "nd_queue (sample_node k) = sample_queue" "nd_current_index (sample_node k) = Some k"
  "nd_repeat (sample_node k) = Repeat_All" "length sample_queue = 4"
  "co_transport (sample_core s k) ''n'' = Some (sample_transport s)"
  "tp_start_index (sample_transport s) = Some s" "tp_generation (sample_transport s) = 1"
  "tp_loaded_len (sample_transport s) = 4 - s"
  "link_view (co_world (sample_core s k)) = projection sample_queue (Some s)"
  "link_room (co_world (sample_core s k)) = 64"
  by (simp_all add: sample_core_def sample_state_def sample_node_def find_node_def sample_queue_def
      sample_transport_def
      sample_link_def new_link_def link_view_def link_room_def channel_capacity_def)

lemma sample_drives: "drives remote_node_output ''n'' (sample_core s k)"
  by (simp add: drives_def sample_core_def sample_state_def sample_node_def active_node_of_def
      find_node_def default_node_def)

lemma sample_quiet: "quiet link_view link_room (sample_core s k)"
  by (simp add: quiet_def sample_core_def)

lemma sample_faithful: "s \<le> 4 \<Longrightarrow> faithful link_view ''n'' (sample_core s k)"
  by (simp add: faithful_def projection_length)

lemma sample_small: "length sample_queue \<le> usize_max" "4 \<le> usize_max"
  by (simp_all add: usize_max_def)

end
