(* ===== verification/Plugin.thy ===== *)
theory Plugin
  imports Core_Base
begin

text \<open>
  The plugin bridge (\<open>kanade-core/src/plugin.rs\<close>): it compares each broadcast snapshot with the
  one before and turns the differences into playback events for the plugins. A plugin is a change
  of the world per event; one that panics is logged and skipped, which the model leaves to the
  plugin function.
\<close>

datatype playback_event =
    TrackChanged "track option" track
  | PlaybackPaused "track option" f64
  | PlaybackResumed "track option" f64
  | PlaybackStopped "track option"
  | ScrobblePoint track

record prev_state =
  ps_state :: playback_state
  ps_scrobbled_tracks :: "string set"

definition prev_state_new :: prev_state where
  "prev_state_new = \<lparr>ps_state = empty_state, ps_scrobbled_tracks = {}\<rparr>"

subsection \<open>The events of one snapshot\<close>

definition track_events :: "prev_state \<Rightarrow> playback_state \<Rightarrow> playback_event list" where
  "track_events prev s =
    (case current_track s of
       Some t \<Rightarrow> if st_current_index s \<noteq> st_current_index (ps_state prev)
                then [TrackChanged (current_track (ps_state prev)) t] else []
     | None \<Rightarrow> [])"

text \<open>The arms of the match on the two statuses, first match wins.\<close>

definition status_events ::
  "prev_state \<Rightarrow> playback_state \<Rightarrow> node \<Rightarrow> node \<Rightarrow> playback_event list" where
  "status_events prev s pn n =
    (let track_changed = (st_current_index s \<noteq> st_current_index (ps_state prev) \<and> current_track s \<noteq> None)
     in if nd_status pn = Playing \<and> nd_status n = Paused
        then [PlaybackPaused (current_track s) (nd_position_secs n)]
        else if nd_status pn \<in> {Paused, Stopped} \<and> nd_status n = Playing \<and>
                st_current_index s = st_current_index (ps_state prev)
        then [PlaybackResumed (current_track s) (nd_position_secs n)]
        else if nd_status n = Stopped \<and> nd_status pn \<noteq> Stopped \<and> \<not> track_changed
        then [PlaybackStopped (current_track s)]
        else [])"

definition scrobble_threshold :: "f64 \<Rightarrow> f64" where
  "scrobble_threshold d = f64_min (f64_half d) (Fin 240)"

text \<open>The track to scrobble now, if any.\<close>

definition scrobble_due :: "string set \<Rightarrow> playback_state \<Rightarrow> node \<Rightarrow> track option" where
  "scrobble_due done s n =
    (if nd_status n \<noteq> Playing then None
     else case current_track s of
       None \<Rightarrow> None
     | Some t \<Rightarrow> (case tr_duration_secs t of
         None \<Rightarrow> None
       | Some d \<Rightarrow>
           if f64_lt (Fin 30) d \<and> tr_id t \<notin> done \<and> f64_le (scrobble_threshold d) (nd_position_secs n)
           then Some t else None))"

definition diff_events :: "prev_state \<Rightarrow> playback_state \<Rightarrow> playback_event list \<times> prev_state" where
  "diff_events prev s =
    (let events = track_events prev s;
         (events, done) =
           (case (selected_node (ps_state prev), selected_node s) of
              (Some pn, Some n) \<Rightarrow>
                (let events = events @ status_events prev s pn n
                 in case scrobble_due (ps_scrobbled_tracks prev) s n of
                      None \<Rightarrow> (events, ps_scrobbled_tracks prev)
                    | Some t \<Rightarrow> (events @ [ScrobblePoint t], insert (tr_id t) (ps_scrobbled_tracks prev)))
            | _ \<Rightarrow> (events, ps_scrobbled_tracks prev))
     in (events, \<lparr>ps_state = s, ps_scrobbled_tracks = done\<rparr>))"

subsection \<open>The bridge\<close>

record 'w plugin_bridge =
  pb_plugins :: "(playback_event \<Rightarrow> 'w \<Rightarrow> 'w) list"
  pb_prev :: prev_state

definition plugin_bridge_new :: "(playback_event \<Rightarrow> 'w \<Rightarrow> 'w) list \<Rightarrow> 'w plugin_bridge" where
  "plugin_bridge_new ps = \<lparr>pb_plugins = ps, pb_prev = prev_state_new\<rparr>"

definition plugin_register :: "(playback_event \<Rightarrow> 'w \<Rightarrow> 'w) \<Rightarrow> 'w plugin_bridge \<Rightarrow> 'w plugin_bridge" where
  "plugin_register p b = b\<lparr>pb_plugins := pb_plugins b @ [p]\<rparr>"

definition deliver_events :: "(playback_event \<Rightarrow> 'w \<Rightarrow> 'w) list \<Rightarrow> playback_event list \<Rightarrow> 'w \<Rightarrow> 'w" where
  "deliver_events ps es w = fold (\<lambda>e. fold (\<lambda>p. p e) ps) es w"

definition bridge_on_state_changed ::
  "playback_state \<Rightarrow> 'w plugin_bridge \<times> 'w \<Rightarrow> 'w plugin_bridge \<times> 'w" where
  "bridge_on_state_changed s = (\<lambda>(b, w).
    let (es, prev) = diff_events (pb_prev b) s
    in (b\<lparr>pb_prev := prev\<rparr>, if es = [] then w else deliver_events (pb_plugins b) es w))"

text \<open>All events of a sequence of snapshots.\<close>

fun bridge_events :: "prev_state \<Rightarrow> playback_state list \<Rightarrow> playback_event list" where
  "bridge_events prev [] = []"
| "bridge_events prev (s # ss) =
    (let (es, prev') = diff_events prev s in es @ bridge_events prev' ss)"

subsection \<open>What the events say\<close>

fun scrobbled_id :: "playback_event \<Rightarrow> string option" where
  "scrobbled_id (ScrobblePoint t) = Some (tr_id t)"
| "scrobbled_id _ = None"

definition scrobbled_ids :: "playback_event list \<Rightarrow> string list" where
  "scrobbled_ids es = List.map_filter scrobbled_id es"

lemma scrobbled_ids_simps [simp]:
  "scrobbled_ids [] = []"
  "scrobbled_ids (e # es) = (case scrobbled_id e of None \<Rightarrow> scrobbled_ids es | Some i \<Rightarrow> i # scrobbled_ids es)"
  "scrobbled_ids (es @ fs) = scrobbled_ids es @ scrobbled_ids fs"
  by (simp_all add: scrobbled_ids_def map_filter_def split: option.split)

lemma scrobbled_ids_other [simp]:
  "scrobbled_ids (track_events prev s) = []" "scrobbled_ids (status_events prev s pn n) = []"
  by (simp_all add: track_events_def status_events_def Let_def split: option.split)

lemma scrobble_due_new: "scrobble_due done s n = Some t \<Longrightarrow> tr_id t \<notin> done"
  by (auto simp: scrobble_due_def split: if_splits option.splits)

text \<open>One snapshot: the ids it scrobbles were not scrobbled before and are remembered.\<close>

lemma diff_events_scrobbled:
  assumes "diff_events prev s = (es, prev')"
  shows "distinct (scrobbled_ids es)" "set (scrobbled_ids es) \<inter> ps_scrobbled_tracks prev = {}"
    "ps_scrobbled_tracks prev' = ps_scrobbled_tracks prev \<union> set (scrobbled_ids es)"
  using assms by (auto simp: diff_events_def Let_def dest: scrobble_due_new split: option.splits)

lemma bridge_scrobbles_fresh:
  "distinct (scrobbled_ids (bridge_events prev ss)) \<and>
   set (scrobbled_ids (bridge_events prev ss)) \<inter> ps_scrobbled_tracks prev = {}"
proof (induction ss arbitrary: prev)
  case (Cons s ss)
  obtain es prev' where d: "diff_events prev s = (es, prev')" by (cases "diff_events prev s")
  show ?case using diff_events_scrobbled [OF d] Cons [of prev'] by (auto simp: d)
qed simp

text \<open>The bridge hands its plugins the events of the snapshots it has seen, in order.\<close>

lemma deliver_append: "deliver_events ps (es @ fs) w = deliver_events ps fs (deliver_events ps es w)"
  by (simp add: deliver_events_def)

lemma bridge_delivers:
  "snd (fold bridge_on_state_changed ss (b, w)) =
    deliver_events (pb_plugins b) (bridge_events (pb_prev b) ss) w"
proof (induction ss arbitrary: b w)
  case Nil
  then show ?case by (simp add: deliver_events_def)
next
  case (Cons s ss)
  obtain es prev' where d: "diff_events (pb_prev b) s = (es, prev')" by (cases "diff_events (pb_prev b) s")
  have "deliver_events (pb_plugins b) [] w = w" by (simp add: deliver_events_def)
  then show ?case using Cons by (auto simp: bridge_on_state_changed_def d deliver_append)
qed

text \<open>A repeated snapshot reports nothing but a scrobble that falls due.\<close>

lemma diff_events_repeat:
  "fst (diff_events \<lparr>ps_state = s, ps_scrobbled_tracks = done\<rparr> s) =
    (case selected_node s of None \<Rightarrow> [] | Some n \<Rightarrow>
      (case scrobble_due done s n of None \<Rightarrow> [] | Some t \<Rightarrow> [ScrobblePoint t]))"
  by (auto simp: diff_events_def Let_def track_events_def status_events_def split: option.split)

text \<open>
  A change of track is seen through the index alone: with the index unchanged there is no event,
  whatever track it now names.
\<close>

lemma same_index_no_change:
  "st_current_index s = st_current_index (ps_state prev) \<Longrightarrow>
    TrackChanged p t \<notin> set (fst (diff_events prev s))"
  by (auto simp: diff_events_def Let_def track_events_def status_events_def split: option.split)

text \<open>A scrobble needs more than half of the track, or four minutes, of a track over 30 seconds.\<close>

lemma scrobble_conditions:
  assumes "ScrobblePoint t \<in> set (fst (diff_events prev s))"
  shows "current_track s = Some t \<and> tr_id t \<notin> ps_scrobbled_tracks prev \<and>
    (\<exists>n d. selected_node s = Some n \<and> nd_status n = Playing \<and> tr_duration_secs t = Some d \<and>
       f64_lt (Fin 30) d \<and>
       (f64_le (f64_half d) (nd_position_secs n) \<or> f64_le (Fin 240) (nd_position_secs n)))"
proof -
  have due: "\<exists>n. selected_node s = Some n \<and> scrobble_due (ps_scrobbled_tracks prev) s n = Some t"
    using assms
    by (auto simp: diff_events_def Let_def track_events_def status_events_def split: option.splits if_splits)
  have "f64_le (scrobble_threshold d) p \<Longrightarrow> f64_le (f64_half d) p \<or> f64_le (Fin 240) p" for d p
    by (auto simp: scrobble_threshold_def f64_min_def split: if_splits)
  with due show ?thesis
    by (fastforce simp: scrobble_due_def split: if_splits option.splits)
qed

end
