(* ===== verification/Playlists.thy ===== *)
theory Playlists
  imports Text Model "HOL-Library.Char_ord" "HOL-Library.List_Lexorder" "HOL-Library.Option_ord" "HOL-Library.Product_Lexorder"
begin

text \<open>
  The playlists of the database (\<open>kanade-db/src/repo.rs\<close>). The tables \<open>playlists\<close>,
  \<open>playlist_tracks\<close> and \<open>tracks\<close> are lists of rows, and each SQL statement of the source is the
  list function it denotes; an \<open>INSERT\<close> or an \<open>UPDATE\<close> that repeats a primary key fails, deleting a playlist
  deletes its entries, and a transaction that fails leaves the tables as they were. The JSON text of
  a smart playlist's filter is kept as the value it encodes. \<open>unixepoch()\<close> is the argument \<open>now\<close>.
\<close>

subsection \<open>Tables\<close>

record playlist_row =
  pr_id :: string
  pr_name :: string
  pr_description :: "string option"
  pr_kind :: string
  pr_smart_filter :: "playlist_kind option"
  pr_created_at :: int
  pr_updated_at :: int

record playlist_db =
  pd_playlists :: "playlist_row list"
  pd_entries :: "(string \<times> int \<times> string) list"
  pd_tracks :: "track list"

type_synonym 'a db_io = "(playlist_db, string, 'a) io"

definition transaction :: "'a db_io \<Rightarrow> 'a db_io" where
  "transaction m = (\<lambda>s. case m s of (Inl e, _) \<Rightarrow> (Inl e, s) | (Inr a, t) \<Rightarrow> (Inr a, t))"

fun is_smart :: "playlist_kind \<Rightarrow> bool" where
  "is_smart Normal = False"
| "is_smart (Smart _ _ _) = True"

definition row_to_playlist :: "playlist_row \<Rightarrow> string + playlist" where
  "row_to_playlist r =
    (let pl = (\<lambda>k. \<lparr>pl_id = pr_id r, pl_name = pr_name r, pl_description = pr_description r,
                     pl_kind = k, pl_created_at = pr_created_at r, pl_updated_at = pr_updated_at r\<rparr>)
     in if pr_kind r = ''normal'' then Inr (pl Normal)
        else if pr_kind r = ''smart'' then
          (case pr_smart_filter r of
             None \<Rightarrow> Inl (''smart playlist '' @ pr_id r @ '' missing filter'')
           | Some k \<Rightarrow> Inr (pl k))
        else Inl (''unknown playlist kind: '' @ pr_kind r))"

subsection \<open>Playlists\<close>

definition find_row :: "string \<Rightarrow> playlist_db \<Rightarrow> playlist_row option" where
  "find_row i db = find (\<lambda>r. pr_id r = i) (pd_playlists db)"

definition get_playlist :: "string \<Rightarrow> playlist option db_io" where
  "get_playlist i = reading (\<lambda>db. case find_row i db of
     None \<Rightarrow> ret None
   | Some r \<Rightarrow> (case row_to_playlist r of Inl e \<Rightarrow> fail e | Inr p \<Rightarrow> ret (Some p)))"

definition existing_playlist :: "string \<Rightarrow> playlist db_io" where
  "existing_playlist i = andThen (get_playlist i) (\<lambda>r. case r of
     None \<Rightarrow> fail (''playlist '' @ i @ '' not found'') | Some p \<Rightarrow> ret p)"

definition create_playlist_with_id ::
  "int \<Rightarrow> string \<Rightarrow> string \<Rightarrow> string option \<Rightarrow> playlist_kind \<Rightarrow> playlist db_io" where
  "create_playlist_with_id now i name description kind = reading (\<lambda>db.
    if find_row i db \<noteq> None then fail ''UNIQUE constraint failed: playlists.id''
    else
      andDo (modify (\<lambda>db. db\<lparr>pd_playlists := pd_playlists db @
          [\<lparr>pr_id = i, pr_name = name, pr_description = description,
            pr_kind = (if is_smart kind then ''smart'' else ''normal''),
            pr_smart_filter = (if is_smart kind then Some kind else None),
            pr_created_at = now, pr_updated_at = now\<rparr>]\<rparr>))
        (andThen (get_playlist i) (\<lambda>r. case r of
           None \<Rightarrow> fail (''playlist '' @ i @ '' not found after insert'') | Some p \<Rightarrow> ret p)))"

definition get_all_playlists :: "playlist list db_io" where
  "get_all_playlists = reading (\<lambda>db.
    foldr (\<lambda>r acc. case row_to_playlist r of Inl e \<Rightarrow> fail e | Inr p \<Rightarrow> andThen acc (\<lambda>ps. ret (p # ps)))
      (sort_key pr_name (pd_playlists db)) (ret []))"

definition update_row :: "string \<Rightarrow> (playlist_row \<Rightarrow> playlist_row) \<Rightarrow> unit db_io" where
  "update_row i f = modify (\<lambda>db. db\<lparr>pd_playlists := map (\<lambda>r. if pr_id r = i then f r else r) (pd_playlists db)\<rparr>)"

definition update_playlist ::
  "int \<Rightarrow> string \<Rightarrow> string option \<Rightarrow> string option option \<Rightarrow> playlist_kind option \<Rightarrow> unit db_io" where
  "update_playlist now i name description kind = andThen (existing_playlist i) (\<lambda>pl.
    if (case kind of None \<Rightarrow> False | Some k \<Rightarrow> is_smart k \<noteq> is_smart (pl_kind pl))
    then fail ''cannot change playlist kind between normal and smart''
    else
      let new_kind = (case kind of None \<Rightarrow> pl_kind pl | Some k \<Rightarrow> k)
      in update_row i (\<lambda>r. r\<lparr>pr_name := (case name of None \<Rightarrow> pl_name pl | Some s \<Rightarrow> s),
            pr_description := (case description of None \<Rightarrow> pl_description pl | Some d \<Rightarrow> d),
            pr_smart_filter := (if is_smart new_kind then Some new_kind else None),
            pr_updated_at := now\<rparr>))"

definition delete_playlist :: "string \<Rightarrow> unit db_io" where
  "delete_playlist i = modify (\<lambda>db.
    db\<lparr>pd_playlists := filter (\<lambda>r. pr_id r \<noteq> i) (pd_playlists db),
       pd_entries := filter (\<lambda>(p, _, _). p \<noteq> i) (pd_entries db)\<rparr>)"

definition touch_playlist :: "int \<Rightarrow> string \<Rightarrow> unit db_io" where
  "touch_playlist now i = update_row i (\<lambda>r. r\<lparr>pr_updated_at := now\<rparr>)"

subsection \<open>Entries\<close>

text \<open>\<open>SELECT position, track_id .. WHERE playlist_id = ? ORDER BY position\<close>\<close>

definition entry_rows :: "string \<Rightarrow> playlist_db \<Rightarrow> (int \<times> string) list" where
  "entry_rows i db = sort_key fst (map snd (filter (\<lambda>(p, _, _). p = i) (pd_entries db)))"

definition has_entry :: "string \<Rightarrow> int \<Rightarrow> playlist_db \<Rightarrow> bool" where
  "has_entry i pos db = list_ex (\<lambda>(p, q, _). p = i \<and> q = pos) (pd_entries db)"

definition insert_entry :: "string \<Rightarrow> int \<Rightarrow> string \<Rightarrow> unit db_io" where
  "insert_entry i pos tid = reading (\<lambda>db.
    if has_entry i pos db
    then fail ''UNIQUE constraint failed: playlist_tracks.playlist_id, playlist_tracks.position''
    else modify (\<lambda>db. db\<lparr>pd_entries := pd_entries db @ [(i, pos, tid)]\<rparr>))"

definition entry_selected :: "string \<Rightarrow> (int \<Rightarrow> bool) \<Rightarrow> string \<times> int \<times> string \<Rightarrow> bool" where
  "entry_selected i sel = (\<lambda>(p, q, _). p = i \<and> sel q)"

definition delete_entries :: "string \<Rightarrow> (int \<Rightarrow> bool) \<Rightarrow> unit db_io" where
  "delete_entries i sel = modify (\<lambda>db.
    db\<lparr>pd_entries := filter (\<lambda>e. \<not> entry_selected i sel e) (pd_entries db)\<rparr>)"

text \<open>
  \<open>UPDATE .. SET position = position - 1 WHERE playlist_id = ? AND position > ?\<close>. The rows are updated one
  after the other in the order of the table, which is that of their insertion, and the primary key is
  checked at each of them; \<open>visited\<close> are the rows already visited.
\<close>

fun shift_rows :: "string \<Rightarrow> int \<Rightarrow> (string \<times> int \<times> string) list \<Rightarrow> (string \<times> int \<times> string) list
    \<Rightarrow> (string \<times> int \<times> string) list option" where
  "shift_rows i k visited [] = Some visited"
| "shift_rows i k visited ((p, q, t) # es) =
    (if p = i \<and> q > k
     then if list_ex (\<lambda>(p', q', _). p' = i \<and> q' = q - 1) (visited @ es) then None
       else shift_rows i k (visited @ [(p, q - 1, t)]) es
     else shift_rows i k (visited @ [(p, q, t)]) es)"

definition move_down :: "string \<Rightarrow> int \<Rightarrow> unit db_io" where
  "move_down i k = reading (\<lambda>db. case shift_rows i k [] (pd_entries db) of
     None \<Rightarrow> fail ''UNIQUE constraint failed: playlist_tracks.playlist_id, playlist_tracks.position''
   | Some es \<Rightarrow> modify (\<lambda>db. db\<lparr>pd_entries := es\<rparr>))"

fun insert_from :: "string \<Rightarrow> int \<Rightarrow> string list \<Rightarrow> unit db_io" where
  "insert_from i pos [] = ret ()"
| "insert_from i pos (t # ts) = andDo (insert_entry i pos t) (insert_from i (pos + 1) ts)"

definition normal_playlist :: "string \<Rightarrow> unit db_io \<Rightarrow> unit db_io" where
  "normal_playlist i m = andThen (existing_playlist i) (\<lambda>pl.
    if is_smart (pl_kind pl) then fail ''cannot edit tracks of a smart playlist''
    else transaction m)"

definition set_playlist_tracks :: "int \<Rightarrow> string \<Rightarrow> string list \<Rightarrow> unit db_io" where
  "set_playlist_tracks now i ts = normal_playlist i
    (andDo (delete_entries i (\<lambda>_. True)) (andDo (insert_from i 0 ts) (touch_playlist now i)))"

text \<open>\<open>SELECT COALESCE(MAX(position) + 1, 0)\<close>\<close>

definition next_position :: "string \<Rightarrow> playlist_db \<Rightarrow> int" where
  "next_position i db = (case rev (entry_rows i db) of [] \<Rightarrow> 0 | (q, _) # _ \<Rightarrow> q + 1)"

definition append_playlist_tracks :: "int \<Rightarrow> string \<Rightarrow> string list \<Rightarrow> unit db_io" where
  "append_playlist_tracks now i ts =
    (if ts = [] then ret () else normal_playlist i
      (andDo (reading (\<lambda>db. insert_from i (next_position i db) ts)) (touch_playlist now i)))"

text \<open>\<open>position as i64\<close>\<close>

definition i64_of_usize :: "usize \<Rightarrow> int" where
  "i64_of_usize k = (if k < 2 ^ 63 then int k else int k - 2 ^ 64)"

definition remove_playlist_track :: "int \<Rightarrow> string \<Rightarrow> usize \<Rightarrow> unit db_io" where
  "remove_playlist_track now i k = normal_playlist i (reading (\<lambda>db.
    if has_entry i (i64_of_usize k) db
    then andDo (delete_entries i (\<lambda>q. q = i64_of_usize k))
        (andDo (move_down i (i64_of_usize k)) (touch_playlist now i))
    else ret ()))"

definition move_playlist_track :: "int \<Rightarrow> string \<Rightarrow> usize \<Rightarrow> usize \<Rightarrow> unit db_io" where
  "move_playlist_track now i from' to' =
    (if from' = to' then ret () else normal_playlist i (reading (\<lambda>db.
       let ids = map snd (entry_rows i db)
       in if from' \<ge> length ids then fail (''from index '' @ show_nat from' @ '' out of range'')
          else andDo (delete_entries i (\<lambda>_. True))
            (andDo (insert_from i 0 (vec_insert (min to' (length ids - 1)) (ids ! from') (vec_remove from' ids)))
              (touch_playlist now i)))))"

subsection \<open>Smart filters\<close>

definition fold_case :: "char \<Rightarrow> char" where
  "fold_case c = (if 65 \<le> byte_of c \<and> byte_of c \<le> 90 then chr (byte_of c + 32) else c)"

text \<open>SQL's \<open>LIKE\<close> with the escape character backslash; ASCII letters match in either case.\<close>

fun sql_like :: "string \<Rightarrow> string \<Rightarrow> bool" where
  "sql_like [] s = (s = [])"
| "sql_like (p # ps) [] = (p = CHR ''%'' \<and> sql_like ps [])"
| "sql_like (p # ps) (c # cs) =
    (if p = CHR ''%'' then sql_like ps (c # cs) \<or> sql_like (p # ps) cs
     else if p = CHR 0x5C then (case ps of [] \<Rightarrow> False | q # qs \<Rightarrow> fold_case q = fold_case c \<and> sql_like qs cs)
     else if p = CHR ''_'' then sql_like ps cs
     else fold_case p = fold_case c \<and> sql_like ps cs)"

definition escape_like :: "string \<Rightarrow> string" where
  "escape_like s = concat (map (\<lambda>c.
     if c = CHR 0x5C \<or> c = CHR ''%'' \<or> c = CHR ''_'' then [CHR 0x5C, c] else [c]) s)"

fun smart_field_column :: "smart_field \<Rightarrow> track \<Rightarrow> string option" where
  "smart_field_column F_Title = tr_title"
| "smart_field_column F_Artist = tr_artist"
| "smart_field_column F_AlbumArtist = tr_album_artist"
| "smart_field_column F_Album = tr_album_title"
| "smart_field_column F_Composer = tr_composer"
| "smart_field_column F_Genre = tr_genre"

fun operator_holds :: "smart_operator \<Rightarrow> string \<Rightarrow> string \<Rightarrow> bool" where
  "operator_holds Op_Equals v col = (col = v)"
| "operator_holds Op_NotEquals v col = (col \<noteq> v)"
| "operator_holds Op_Contains v col = sql_like (''%'' @ escape_like v @ ''%'') col"
| "operator_holds Op_NotContains v col = (\<not> sql_like (''%'' @ escape_like v @ ''%'') col)"
| "operator_holds Op_StartsWith v col = sql_like (escape_like v @ ''%'') col"
| "operator_holds Op_EndsWith v col = sql_like (''%'' @ escape_like v) col"

text \<open>\<open>(col IS NOT NULL AND col op ?)\<close>\<close>

definition condition_holds :: "track \<Rightarrow> smart_condition \<Rightarrow> bool" where
  "condition_holds t c =
    (case smart_field_column (sc_field c) t of None \<Rightarrow> False | Some v \<Rightarrow> operator_holds (sc_op c) (sc_value c) v)"

definition filter_holds :: "smart_filter \<Rightarrow> track \<Rightarrow> bool" where
  "filter_holds f t = (case sf_match_mode f of
     Match_All \<Rightarrow> list_all (condition_holds t) (sf_conditions f)
   | Match_Any \<Rightarrow> list_ex (condition_holds t) (sf_conditions f))"

definition nocase :: "string option \<Rightarrow> string option" where
  "nocase = map_option (map fold_case)"

text \<open>The key of the \<open>ORDER BY\<close> clause; NULL sorts first.\<close>

type_synonym order_key =
  "string option \<times> string option \<times> string option \<times> nat option \<times> nat option \<times> string option"

definition order_key :: "smart_sort option \<Rightarrow> track \<Rightarrow> order_key" where
  "order_key srt t =
    (let disc = map_option unat (tr_disc_number t); num = map_option unat (tr_track_number t)
     in case srt of
          Some Sort_Title \<Rightarrow> (nocase (tr_title t), None, None, None, None, None)
        | Some Sort_Artist \<Rightarrow> (nocase (tr_artist t), tr_album_title t, None, disc, num, None)
        | Some Sort_Album \<Rightarrow> (nocase (tr_album_title t), None, None, disc, num, None)
        | Some Sort_Genre \<Rightarrow> (nocase (tr_genre t), tr_artist t, tr_album_title t, disc, num, None)
        | None \<Rightarrow> (tr_artist t, tr_album_title t, None, disc, num, tr_title t))"

definition evaluate_smart_filter :: "track list \<Rightarrow> smart_filter \<Rightarrow> smart_sort option \<Rightarrow> u32 option \<Rightarrow> track list" where
  "evaluate_smart_filter tracks f srt cap =
    (if sf_conditions f = [] then []
     else let rows = sort_key (order_key srt) (filter (filter_holds f) tracks)
          in case cap of None \<Rightarrow> rows | Some n \<Rightarrow> take (unat n) rows)"

text \<open>The join of the entries with the tracks, in playlist order.\<close>

definition normal_playlist_tracks :: "string \<Rightarrow> playlist_db \<Rightarrow> track list" where
  "normal_playlist_tracks i db =
    List.map_filter (\<lambda>(_, tid). find (\<lambda>t. tr_id t = tid) (pd_tracks db)) (entry_rows i db)"

definition get_playlist_tracks :: "string \<Rightarrow> track list db_io" where
  "get_playlist_tracks i = andThen (existing_playlist i) (\<lambda>pl. reading (\<lambda>db.
     case pl_kind pl of
       Normal \<Rightarrow> ret (normal_playlist_tracks i db)
     | Smart f cap srt \<Rightarrow> ret (evaluate_smart_filter (pd_tracks db) f srt cap)))"

end
