(* ===== verification/Playlists_Facts.thy ===== *)
theory Playlists_Facts
  imports Playlists
begin

text \<open>
  The playlist operations refine operations on a list of track ids: the entries of a playlist stay
  numbered from 0 without gaps, and setting, appending, removing and moving are the list functions.
  Smart filters match literally whatever characters the search text contains.
\<close>

subsection \<open>Numbered entries\<close>

fun number :: "int \<Rightarrow> string list \<Rightarrow> (int \<times> string) list" where
  "number p [] = []"
| "number p (t # ts) = (p, t) # number (p + 1) ts"

definition playlist_ids :: "string \<Rightarrow> playlist_db \<Rightarrow> string list" where
  "playlist_ids i db = map snd (entry_rows i db)"

text \<open>The rows of a playlist in the order of the table, which is the one an update visits them in.\<close>

definition rows_of :: "string \<Rightarrow> (string \<times> int \<times> string) list \<Rightarrow> (int \<times> string) list" where
  "rows_of i es = map snd (filter (\<lambda>(p, _, _). p = i) es)"

definition positions_ok :: "string \<Rightarrow> playlist_db \<Rightarrow> bool" where
  "positions_ok i db \<longleftrightarrow> rows_of i (pd_entries db) = number 0 (playlist_ids i db)"

lemma number_snd [simp]: "map snd (number p ts) = ts"
  by (induction ts arbitrary: p) auto

lemma length_number [simp]: "length (number p ts) = length ts"
  by (induction ts arbitrary: p) auto

lemma number_append: "number p (xs @ ys) = number p xs @ number (p + int (length xs)) ys"
  by (induction xs arbitrary: p) (auto simp: algebra_simps)

lemma number_fst: "q \<in> fst ` set (number p ts) \<longleftrightarrow> p \<le> q \<and> q < p + int (length ts)"
  by (induction ts arbitrary: p) auto

lemma number_sorted: "sorted (map fst (number p ts))" "distinct (map fst (number p ts))"
proof (induction ts arbitrary: p)
  case (Cons t ts)
  { case 1 show ?case using Cons number_fst by fastforce }
  { case 2 show ?case using Cons number_fst by fastforce }
qed simp_all

lemma sort_key_number:
  assumes "mset xs = mset (number p ts)"
  shows "sort_key fst xs = number p ts"
proof (rule map_sorted_distinct_set_unique [of fst])
  have "mset (map fst xs) = mset (map fst (number p ts))" using assms by (metis mset_map)
  then have "distinct (map fst xs)" using number_sorted(2) by (metis mset_eq_imp_distinct_iff)
  then show "distinct (map fst (sort_key fst xs))" by (metis mset_eq_imp_distinct_iff mset_map mset_sort)
  show "set (sort_key fst xs) = set (number p ts)" using assms by (metis mset_eq_setD mset_sort)
  then show "inj_on fst (set (sort_key fst xs) \<union> set (number p ts))"
    using number_sorted(2) by (simp add: distinct_map)
qed (simp_all add: number_sorted)

definition shift_down :: "int \<Rightarrow> int \<times> string \<Rightarrow> int \<times> string" where
  "shift_down k = (\<lambda>(q, t). if q > k then (q - 1, t) else (q, t))"

lemma shift_down_simp [simp]: "shift_down k (q, t) = (if q > k then (q - 1, t) else (q, t))"
  by (simp add: shift_down_def)

lemma shift_above: "r < s \<Longrightarrow> map (shift_down r) (filter (\<lambda>e. fst e \<noteq> r) (number s us)) = number (s - 1) us"
  by (induction us arbitrary: s) auto

lemma number_remove:
  "k < length ts \<Longrightarrow>
    map (shift_down (p + int k)) (filter (\<lambda>e. fst e \<noteq> p + int k) (number p ts)) = number p (vec_remove k ts)"
proof (induction ts arbitrary: p k)
  case (Cons t ts)
  show ?case
  proof (cases k)
    case 0
    then show ?thesis using shift_above [of p "p + 1" ts] by (simp add: vec_remove_def)
  next
    case (Suc j)
    then show ?thesis using Cons.IH [of j "p + 1"] Cons.prems by (simp add: vec_remove_def algebra_simps)
  qed
qed simp

subsection \<open>The entries after an update\<close>

lemma entry_rows_of: "entry_rows i db = sort_key fst (rows_of i (pd_entries db))"
  by (simp add: entry_rows_def rows_of_def)

lemma mset_entry_rows: "mset (rows_of i (pd_entries db)) = mset (entry_rows i db)"
  by (simp add: entry_rows_of)

lemma rows_of_append [simp]: "rows_of i (es @ fs) = rows_of i es @ rows_of i fs"
  by (simp add: rows_of_def)

lemma rows_of_tag [simp]: "rows_of j (map (Pair i) rs) = (if j = i then rs else [])"
  by (induction rs) (auto simp: rows_of_def)

lemma rows_of_delete [simp]:
  "rows_of j (filter (\<lambda>e. \<not> entry_selected i sel e) es) =
    (if j = i then filter (\<lambda>e. \<not> sel (fst e)) (rows_of i es) else rows_of j es)"
  by (induction es) (auto simp: rows_of_def entry_selected_def)

lemma rows_of_simps [simp]:
  "rows_of i [] = []" "rows_of i ((p, q, t) # es) = (if p = i then (q, t) # rows_of i es else rows_of i es)"
  by (simp_all add: rows_of_def)

definition lower :: "string \<Rightarrow> int \<Rightarrow> string \<times> int \<times> string \<Rightarrow> string \<times> int \<times> string" where
  "lower i k = (\<lambda>(p, q, t). if p = i \<and> q > k then (p, q - 1, t) else (p, q, t))"

lemma lower_owner: "fst (lower i k e) = fst e" "snd (lower i k e) = (if fst e = i then shift_down k (snd e) else snd e)"
  by (cases e; simp add: lower_def)+

lemma rows_of_shift [simp]:
  "rows_of j (map (lower i k) es) = (if j = i then map (shift_down k) (rows_of i es) else rows_of j es)"
  by (induction es) (auto simp: rows_of_def lower_owner case_prod_unfold)

text \<open>
  In a playlist whose rows stand in the table in the order of their positions, none of them at \<open>k\<close>, every
  row finds the position below it free when its turn comes.
\<close>

lemma shift_rows_exact:
  assumes "sorted_wrt (<) (map fst (rows_of i es))" "k \<notin> fst ` set (rows_of i es)"
    and "\<And>q q'. q \<in> fst ` set (rows_of i visited) \<Longrightarrow> q' \<in> fst ` set (rows_of i es) \<Longrightarrow> k < q' \<Longrightarrow> q < q' - 1"
  shows "shift_rows i k visited es = Some (visited @ map (lower i k) es)"
  using assms
proof (induction es arbitrary: visited)
  case (Cons e es)
  obtain p q t where e: "e = (p, q, t)" by (cases e)
  have rows: "rows_of i (e # es) = (if p = i then (q, t) # rows_of i es else rows_of i es)" by (simp add: e rows_of_def)
  show ?case
  proof (cases "p = i \<and> q > k")
    case True
    have above: "q < q'" if "q' \<in> fst ` set (rows_of i es)" for q' using Cons.prems(1) that True by (auto simp: rows)
    have below: "r < q - 1" if "r \<in> fst ` set (rows_of i visited)" for r using Cons.prems(3) [OF that, of q] True by (simp add: rows)
    have "q - 1 \<notin> fst ` set (rows_of i (visited @ es))" using above [of "q - 1"] below [of "q - 1"] by auto
    then have free: "\<not> list_ex (\<lambda>(p', q', _). p' = i \<and> q' = q - 1) (visited @ es)"
      by (force simp: list_ex_iff rows_of_def)
    have "shift_rows i k (visited @ [(p, q - 1, t)]) es = Some ((visited @ [(p, q - 1, t)]) @ map (lower i k) es)"
    proof (rule Cons.IH)
      fix r q'
      assume r: "r \<in> fst ` set (rows_of i (visited @ [(p, q - 1, t)]))" and q': "q' \<in> fst ` set (rows_of i es)" "k < q'"
      have "r = q - 1 \<or> r \<in> fst ` set (rows_of i visited)" using r True by auto
      then show "r < q' - 1" using above [OF q'(1)] below [of r] by (elim disjE) simp_all
    qed (use Cons.prems in \<open>auto simp: rows split: if_splits\<close>)
    with True free show ?thesis by (simp add: e lower_def del: list_ex_append)
  next
    case False
    have "shift_rows i k (visited @ [(p, q, t)]) es = Some ((visited @ [(p, q, t)]) @ map (lower i k) es)"
    proof (rule Cons.IH)
      fix r q'
      assume r: "r \<in> fst ` set (rows_of i (visited @ [(p, q, t)]))" and q': "q' \<in> fst ` set (rows_of i es)" "k < q'"
      have "q < k" if "p = i" using False that Cons.prems(2) by (auto simp: rows)
      moreover have "r \<in> fst ` set (rows_of i visited) \<or> p = i \<and> r = q" using r by (auto split: if_splits)
      moreover have "r < q' - 1" if "r \<in> fst ` set (rows_of i visited)" using Cons.prems(3) [OF that, of q'] q' by (simp add: rows)
      ultimately show "r < q' - 1" using q'(2) by auto
    qed (use Cons.prems in \<open>auto simp: rows split: if_splits\<close>)
    with False show ?thesis by (auto simp: e lower_def)
  qed
qed simp

lemma has_entry_rows: "has_entry i pos db \<longleftrightarrow> pos \<in> fst ` set (rows_of i (pd_entries db))"
  by (force simp: has_entry_def list_ex_iff rows_of_def)

lemma positions_okI:
  assumes "rows_of i (pd_entries db) = number 0 ts"
  shows "positions_ok i db \<and> playlist_ids i db = ts"
  using sort_key_number [of "rows_of i (pd_entries db)" 0 ts] assms by (simp add: positions_ok_def playlist_ids_def entry_rows_of)

lemma positions_okD: "positions_ok i db \<Longrightarrow> rows_of i (pd_entries db) = number 0 (playlist_ids i db)"
  by (simp add: positions_ok_def)

lemma positions_ok_rows: "positions_ok i db \<Longrightarrow> entry_rows i db = number 0 (playlist_ids i db)"
  using sort_key_number [of "rows_of i (pd_entries db)" 0 "playlist_ids i db"] by (simp add: positions_ok_def entry_rows_of)

lemma wp_insert_from:
  assumes "\<And>q t. (i, q, t) \<in> set (pd_entries db) \<Longrightarrow> q < pos"
    and "Q () (db\<lparr>pd_entries := pd_entries db @ map (Pair i) (number pos ts)\<rparr>)"
  shows "wp (insert_from i pos ts) Q E db"
  using assms
proof (induction ts arbitrary: pos db)
  case (Cons t ts)
  have "\<not> has_entry i pos db"
    using Cons.prems(1) by (auto simp: has_entry_def list_ex_iff)
  moreover have "wp (insert_from i (pos + 1) ts) Q E (db\<lparr>pd_entries := pd_entries db @ [(i, pos, t)]\<rparr>)"
    using Cons.prems by (intro Cons.IH) (auto dest: Cons.prems(1) intro: less_trans)
  ultimately show ?case by (simp add: wp_andDo insert_entry_def wp_reading wp_modify)
qed (simp add: wp_ret)

text \<open>A normal playlist, ready to be edited.\<close>

definition normal_row :: "string \<Rightarrow> playlist_db \<Rightarrow> bool" where
  "normal_row i db \<longleftrightarrow> (case find_row i db of None \<Rightarrow> False | Some r \<Rightarrow> pr_kind r = ''normal'')"

lemma wp_normal_playlist:
  assumes "normal_row i db" "wp m Q (\<lambda>e _. E e db) db"
  shows "wp (normal_playlist i m) Q E db"
proof -
  obtain r where r: "find_row i db = Some r" "pr_kind r = ''normal''"
    using assms(1) by (auto simp: normal_row_def split: option.splits)
  have "wp (transaction m) Q E db"
    using assms(2) by (auto simp: wp_def transaction_def split: prod.splits sum.splits)
  with r show ?thesis
    by (simp add: normal_playlist_def existing_playlist_def get_playlist_def row_to_playlist_def Let_def
        wp_andThen wp_reading wp_ret)
qed

lemma wp_touch: "wp (touch_playlist now i) Q E db =
    Q () (db\<lparr>pd_playlists := map (\<lambda>r. if pr_id r = i then r\<lparr>pr_updated_at := now\<rparr> else r) (pd_playlists db)\<rparr>)"
  by (simp add: touch_playlist_def update_row_def wp_modify)

lemma wp_delete_entries: "wp (delete_entries i sel) Q E db =
    Q () (db\<lparr>pd_entries := filter (\<lambda>e. \<not> entry_selected i sel e) (pd_entries db)\<rparr>)"
  by (simp add: delete_entries_def wp_modify)

text \<open>The effect of an edit: the playlist's list becomes \<open>ts\<close>, the others keep theirs.\<close>

definition becomes :: "string \<Rightarrow> string list \<Rightarrow> playlist_db \<Rightarrow> playlist_db \<Rightarrow> bool" where
  "becomes i ts db db' \<longleftrightarrow> positions_ok i db' \<and> playlist_ids i db' = ts \<and>
    (\<forall>j. j \<noteq> i \<longrightarrow> rows_of j (pd_entries db') = rows_of j (pd_entries db))"

lemma becomesI:
  assumes "rows_of i (pd_entries db') = number 0 ts"
    and "\<And>j. j \<noteq> i \<Longrightarrow> rows_of j (pd_entries db') = rows_of j (pd_entries db)"
  shows "becomes i ts db db'"
  using positions_okI [OF assms(1)] assms(2) by (simp add: becomes_def entry_rows_of)

lemma rewrite_becomes:
  "pd_entries db' = filter (\<lambda>e. \<not> entry_selected i (\<lambda>_. True) e) (pd_entries db) @ map (Pair i) (number 0 ts) \<Longrightarrow>
    becomes i ts db db'"
  by (intro becomesI) simp_all

lemma set_tracks_refines:
  assumes "normal_row i db"
  shows "\<exists>db'. set_playlist_tracks now i ts db = (Inr (), db') \<and> becomes i ts db db'"
proof -
  have "wp (insert_from i 0 ts) (\<lambda>_ s. wp (touch_playlist now i) (\<lambda>_. becomes i ts db) (\<lambda>_ _. False) s) (\<lambda>_ _. False)
      (db\<lparr>pd_entries := filter (\<lambda>e. \<not> entry_selected i (\<lambda>_. True) e) (pd_entries db)\<rparr>)"
    by (rule wp_insert_from) (auto simp: entry_selected_def wp_touch intro: rewrite_becomes)
  then have "wp (set_playlist_tracks now i ts) (\<lambda>_. becomes i ts db) (\<lambda>_ _. False) db"
    unfolding set_playlist_tracks_def by (intro wp_normal_playlist [OF assms]) (simp add: wp_andDo wp_delete_entries)
  then show ?thesis by (simp add: wp_total)
qed

lemma next_position_number:
  "positions_ok i db \<Longrightarrow> next_position i db = int (length (playlist_ids i db))"
proof -
  assume ok: "positions_ok i db"
  show ?thesis
  proof (cases "playlist_ids i db" rule: rev_cases)
    case Nil
    with positions_ok_rows [OF ok] show ?thesis by (simp add: next_position_def)
  next
    case (snoc ts t)
    with positions_ok_rows [OF ok] have "entry_rows i db = number 0 ts @ [(int (length ts), t)]"
      by (simp add: number_append)
    with snoc show ?thesis by (simp add: next_position_def)
  qed
qed

lemma entry_position_range:
  "positions_ok i db \<Longrightarrow> (i, q, t) \<in> set (pd_entries db) \<Longrightarrow> 0 \<le> q \<and> q < int (length (playlist_ids i db))"
proof -
  assume ok: "positions_ok i db" and "(i, q, t) \<in> set (pd_entries db)"
  then have "(q, t) \<in> set (rows_of i (pd_entries db))" by (force simp: rows_of_def)
  then have "(q, t) \<in> set (number 0 (playlist_ids i db))" using positions_okD [OF ok] by simp
  then show ?thesis using number_fst [of q 0 "playlist_ids i db"] by force
qed

lemma append_tracks_refines:
  assumes "normal_row i db" "positions_ok i db"
  shows "\<exists>db'. append_playlist_tracks now i ts db = (Inr (), db') \<and> becomes i (playlist_ids i db @ ts) db db'"
proof (cases "ts = []")
  case True
  then show ?thesis using assms by (simp add: append_playlist_tracks_def ret_def becomes_def)
next
  case False
  let ?n = "int (length (playlist_ids i db))"
  have eff: "becomes i (playlist_ids i db @ ts) db db'"
    if "pd_entries db' = pd_entries db @ map (Pair i) (number ?n ts)" for db'
    using positions_okD [OF assms(2)] that by (intro becomesI) (simp_all add: number_append)
  have "wp (insert_from i ?n ts) (\<lambda>_ s. wp (touch_playlist now i) (\<lambda>_. becomes i (playlist_ids i db @ ts) db) (\<lambda>_ _. False) s)
      (\<lambda>_ _. False) db"
    by (rule wp_insert_from) (auto simp: wp_touch intro: eff dest: entry_position_range [OF assms(2)])
  then have "wp (append_playlist_tracks now i ts) (\<lambda>_. becomes i (playlist_ids i db @ ts) db) (\<lambda>_ _. False) db"
    using False unfolding append_playlist_tracks_def
    by (simp, intro wp_normal_playlist [OF assms(1)])
      (simp add: wp_andDo wp_reading next_position_number [OF assms(2)])
  then show ?thesis by (simp add: wp_total)
qed

lemma i64_small: "k < 2 ^ 63 \<Longrightarrow> i64_of_usize k = int k"
  by (simp add: i64_of_usize_def)

lemma entry_exists:
  assumes "positions_ok i db"
  shows "has_entry i (int k) db \<longleftrightarrow> k < length (playlist_ids i db)"
proof -
  have "set (rows_of i (pd_entries db)) = set (number 0 (playlist_ids i db))"
    using positions_okD [OF assms] by simp
  then show ?thesis using number_fst [of "int k" 0 "playlist_ids i db"] by (simp add: has_entry_rows)
qed

lemma remove_effect:
  assumes "positions_ok i db" "k < length (playlist_ids i db)"
    and "pd_entries db' = map (lower i (int k))
      (filter (\<lambda>e. \<not> entry_selected i (\<lambda>q. q = int k) e) (pd_entries db))"
  shows "becomes i (vec_remove k (playlist_ids i db)) db db'"
proof (rule becomesI)
  have "map (shift_down (int k)) (filter (\<lambda>e. fst e \<noteq> int k) (number 0 (playlist_ids i db))) = number 0 (vec_remove k (playlist_ids i db))"
    using number_remove [OF assms(2), of 0] by simp
  then show "rows_of i (pd_entries db') = number 0 (vec_remove k (playlist_ids i db))"
    by (simp add: assms(3) positions_okD [OF assms(1)])
qed (simp add: assms(3))

lemma remove_shift:
  assumes "positions_ok i db"
  shows "shift_rows i (int k) [] (filter (\<lambda>e. \<not> entry_selected i (\<lambda>q. q = int k) e) (pd_entries db)) =
    Some (map (lower i (int k)) (filter (\<lambda>e. \<not> entry_selected i (\<lambda>q. q = int k) e) (pd_entries db)))"
proof -
  have rows: "rows_of i (filter (\<lambda>e. \<not> entry_selected i (\<lambda>q. q = int k) e) (pd_entries db)) =
      filter (\<lambda>e. fst e \<noteq> int k) (number 0 (playlist_ids i db))"
    by (simp add: positions_okD [OF assms])
  have "sorted_wrt (<) (map fst (number 0 (playlist_ids i db)))"
    using number_sorted by (simp add: strict_sorted_iff)
  then have "sorted_wrt (<) (map fst (filter (\<lambda>e. fst e \<noteq> int k) (number 0 (playlist_ids i db))))"
    by (simp add: sorted_wrt_map sorted_wrt_filter)
  then show ?thesis using shift_rows_exact [of i "filter (\<lambda>e. \<not> entry_selected i (\<lambda>q. q = int k) e) (pd_entries db)" "int k" "[]"]
    unfolding rows by fastforce
qed

lemma remove_track_refines:
  assumes "normal_row i db" "positions_ok i db" "k < 2 ^ 63"
  shows "\<exists>db'. remove_playlist_track now i k db = (Inr (), db') \<and>
    becomes i (if k < length (playlist_ids i db) then vec_remove k (playlist_ids i db) else playlist_ids i db) db db'"
proof -
  let ?ts = "if k < length (playlist_ids i db) then vec_remove k (playlist_ids i db) else playlist_ids i db"
  have same: "becomes i (playlist_ids i db) db db" using assms(2) by (simp add: becomes_def)
  have "wp (remove_playlist_track now i k) (\<lambda>_. becomes i ?ts db) (\<lambda>_ _. False) db"
    unfolding remove_playlist_track_def
    by (rule wp_normal_playlist [OF assms(1)])
      (simp add: wp_reading i64_small [OF assms(3)] entry_exists [OF assms(2)] wp_andDo wp_delete_entries
        move_down_def remove_shift [OF assms(2)] wp_modify wp_touch wp_ret remove_effect [OF assms(2)] same)
  then show ?thesis by (simp add: wp_total)
qed

lemma vec_move_self: "a < length xs \<Longrightarrow> vec_move a a xs = xs"
  by (simp add: vec_move_def vec_insert_def vec_remove_def min_def flip: id_take_nth_drop)

lemma move_track_refines:
  assumes "normal_row i db" "positions_ok i db" "a < length (playlist_ids i db)"
  shows "\<exists>db'. move_playlist_track now i a b db = (Inr (), db') \<and>
    becomes i (vec_move a (min b (length (playlist_ids i db) - 1)) (playlist_ids i db)) db db'"
proof (cases "a = b")
  case True
  then have "min b (length (playlist_ids i db) - 1) = a" using assms(3) by simp
  then show ?thesis using assms(2,3) True
    by (simp add: move_playlist_track_def ret_def becomes_def vec_move_self)
next
  case False
  define us where "us = vec_move a (min b (length (playlist_ids i db) - 1)) (playlist_ids i db)"
  have m: "vec_insert (min b (length (playlist_ids i db) - 1)) (playlist_ids i db ! a) (vec_remove a (playlist_ids i db)) = us"
    using assms(3) by (simp add: vec_move_def us_def)
  have "wp (insert_from i 0 us) (\<lambda>_ s. wp (touch_playlist now i) (\<lambda>_. becomes i us db) (\<lambda>_ _. False) s) (\<lambda>_ _. False)
      (db\<lparr>pd_entries := filter (\<lambda>e. \<not> entry_selected i (\<lambda>_. True) e) (pd_entries db)\<rparr>)"
    by (rule wp_insert_from) (auto simp: entry_selected_def wp_touch intro: rewrite_becomes)
  then have "wp (move_playlist_track now i a b) (\<lambda>_. becomes i us db) (\<lambda>_ _. False) db"
    using False assms(3) unfolding move_playlist_track_def
    by (simp only: if_False Let_def playlist_ids_def [symmetric], intro wp_normal_playlist [OF assms(1)])
      (simp add: wp_reading wp_andDo wp_delete_entries m del: One_nat_def)
  then show ?thesis by (simp add: wp_total us_def)
qed

lemma move_out_of_range:
  assumes "normal_row i db" "length (playlist_ids i db) \<le> a" "a \<noteq> b"
  shows "\<exists>e. move_playlist_track now i a b db = (Inl e, db)"
proof -
  have "\<not> wp (move_playlist_track now i a b) (\<lambda>_ _. True) (\<lambda>_ _. False) db \<and>
      snd (move_playlist_track now i a b db) = db"
  proof -
    obtain r where "find_row i db = Some r" "pr_kind r = ''normal''"
      using assms(1) by (auto simp: normal_row_def split: option.splits)
    then show ?thesis using assms(2,3)
      by (simp add: move_playlist_track_def normal_playlist_def existing_playlist_def get_playlist_def row_to_playlist_def
          wp_def andThen_def reading_def ret_def fail_def transaction_def playlist_ids_def Let_def)
  qed
  then show ?thesis by (cases "move_playlist_track now i a b db") (auto simp: wp_def split: sum.splits)
qed

subsection \<open>Refused edits\<close>

text \<open>An edit of a missing or a smart playlist fails and changes nothing.\<close>

lemma refused_unchanged:
  assumes "\<not> normal_row i db" "distinct (map pr_id (pd_playlists db))" "\<And>r. find_row i db = Some r \<Longrightarrow> pr_kind r = ''smart'' \<Longrightarrow> pred_option is_smart (pr_smart_filter r)"
  shows "\<exists>e. normal_playlist i m db = (Inl e, db)"
proof (cases "find_row i db")
  case None
  then show ?thesis
    by (simp add: normal_playlist_def existing_playlist_def get_playlist_def andThen_def reading_def ret_def fail_def)
next
  case (Some r)
  then have "pr_kind r \<noteq> ''normal''" using assms(1) by (simp add: normal_row_def)
  with Some assms(3) [OF Some] show ?thesis
    by (auto simp: normal_playlist_def existing_playlist_def get_playlist_def row_to_playlist_def Let_def
        andThen_def reading_def ret_def fail_def split: option.split)
qed

lemma failed_transaction: "fst (transaction m db) = Inl e \<Longrightarrow> snd (transaction m db) = db"
  by (auto simp: transaction_def split: prod.splits sum.splits)

lemma failed_normal_edit: "fst (normal_playlist i m db) = Inl e \<Longrightarrow> snd (normal_playlist i m db) = db"
  by (auto simp: normal_playlist_def existing_playlist_def get_playlist_def andThen_def reading_def ret_def fail_def
      intro: failed_transaction split: option.splits sum.splits if_splits prod.splits)

lemma failed_edits:
  "fst (set_playlist_tracks now i ts db) = Inl e \<Longrightarrow> snd (set_playlist_tracks now i ts db) = db"
  "fst (append_playlist_tracks now i ts db) = Inl e \<Longrightarrow> snd (append_playlist_tracks now i ts db) = db"
  "fst (remove_playlist_track now i a db) = Inl e \<Longrightarrow> snd (remove_playlist_track now i a db) = db"
  "fst (move_playlist_track now i a b db) = Inl e \<Longrightarrow> snd (move_playlist_track now i a b db) = db"
  by (simp_all add: set_playlist_tracks_def append_playlist_tracks_def remove_playlist_track_def
      move_playlist_track_def ret_def failed_normal_edit split: if_splits)

subsection \<open>Literal search\<close>

lemma fold_case_escape: "fold_case (CHR 0x5C) = CHR 0x5C"
  by (simp add: fold_case_def byte_of_def)

lemma escape_like_simps [simp]:
  "escape_like [] = []"
  "escape_like (c # cs) = (if c = CHR 0x5C \<or> c = CHR ''%'' \<or> c = CHR ''_'' then [CHR 0x5C, c] else [c]) @ escape_like cs"
  by (simp_all add: escape_like_def)

lemma sql_like_percent: "sql_like (CHR ''%'' # ps) s \<longleftrightarrow> (\<exists>a b. s = a @ b \<and> sql_like ps b)"
proof (induction s)
  case Nil
  then show ?case by simp
next
  case (Cons c s)
  show ?case
  proof
    assume "sql_like (CHR ''%'' # ps) (c # s)"
    then consider "sql_like ps (c # s)" | "sql_like (CHR ''%'' # ps) s" by auto
    then show "\<exists>a b. c # s = a @ b \<and> sql_like ps b"
      using Cons.IH by cases (metis append_Nil, metis append_Cons)
  next
    assume "\<exists>a b. c # s = a @ b \<and> sql_like ps b"
    then obtain a b where ab: "c # s = a @ b" "sql_like ps b" by blast
    show "sql_like (CHR ''%'' # ps) (c # s)"
    proof (cases a)
      case Nil
      with ab(1) have "b = c # s" by simp
      with ab(2) show ?thesis by simp
    next
      case (Cons d a')
      with ab Cons.IH have "sql_like (CHR ''%'' # ps) s" by auto
      then show ?thesis by simp
    qed
  qed
qed

lemma sql_like_escaped_Cons:
  "sql_like (escape_like (c # v) @ ps) s \<longleftrightarrow>
    (\<exists>d s'. s = d # s' \<and> fold_case c = fold_case d \<and> sql_like (escape_like v @ ps) s')"
  by (cases s) auto

lemma sql_like_escaped:
  "sql_like (escape_like v @ ps) s \<longleftrightarrow>
    (\<exists>a b. s = a @ b \<and> map fold_case a = map fold_case v \<and> sql_like ps b)"
proof (induction v arbitrary: s)
  case (Cons c v)
  have "sql_like (escape_like (c # v) @ ps) s \<longleftrightarrow> (\<exists>d s'. s = d # s' \<and> fold_case c = fold_case d \<and>
      (\<exists>a b. s' = a @ b \<and> map fold_case a = map fold_case v \<and> sql_like ps b))"
    unfolding sql_like_escaped_Cons Cons ..
  also have "\<dots> \<longleftrightarrow> (\<exists>a b. s = a @ b \<and> map fold_case a = map fold_case (c # v) \<and> sql_like ps b)"
  proof
    assume "\<exists>d s'. s = d # s' \<and> fold_case c = fold_case d \<and>
      (\<exists>a b. s' = a @ b \<and> map fold_case a = map fold_case v \<and> sql_like ps b)"
    then obtain d a b where "s = (d # a) @ b" "map fold_case (d # a) = map fold_case (c # v)" "sql_like ps b" by auto
    then show "\<exists>a b. s = a @ b \<and> map fold_case a = map fold_case (c # v) \<and> sql_like ps b" by blast
  next
    assume "\<exists>a b. s = a @ b \<and> map fold_case a = map fold_case (c # v) \<and> sql_like ps b"
    then obtain a b where ab: "s = a @ b" "map fold_case a = map fold_case (c # v)" "sql_like ps b" by blast
    then obtain d a' where "a = d # a'" by (cases a) auto
    with ab show "\<exists>d s'. s = d # s' \<and> fold_case c = fold_case d \<and>
      (\<exists>a b. s' = a @ b \<and> map fold_case a = map fold_case v \<and> sql_like ps b)" by auto
  qed
  finally show ?case .
qed simp

lemma sql_like_any: "sql_like ''%'' s"
  by (simp add: sql_like_percent)

lemma contains_literal:
  "operator_holds Op_Contains v col \<longleftrightarrow> contains (map fold_case v) (map fold_case col)"
proof -
  have "operator_holds Op_Contains v col \<longleftrightarrow>
      (\<exists>x a b. col = x @ a @ b \<and> map fold_case a = map fold_case v)"
    by (auto simp: sql_like_percent sql_like_escaped)
  also have "\<dots> \<longleftrightarrow> contains (map fold_case v) (map fold_case col)"
  proof
    assume "\<exists>x a b. col = x @ a @ b \<and> map fold_case a = map fold_case v"
    then obtain x a b where "col = x @ a @ b" "map fold_case a = map fold_case v" by blast
    then have "map fold_case col = map fold_case x @ map fold_case v @ map fold_case b" by simp
    then show "contains (map fold_case v) (map fold_case col)" unfolding contains_iff by blast
  next
    assume "contains (map fold_case v) (map fold_case col)"
    then obtain p q where "map fold_case col = p @ map fold_case v @ q" by (auto simp: contains_iff)
    then obtain x y where x: "col = x @ y" "map fold_case v @ q = map fold_case y"
      unfolding map_eq_append_conv by blast
    from x(2) [symmetric] obtain a b where y: "y = a @ b" and a: "map fold_case v = map fold_case a"
      unfolding map_eq_append_conv by blast
    from x(1) y a [symmetric] show "\<exists>x a b. col = x @ a @ b \<and> map fold_case a = map fold_case v" by blast
  qed
  finally show ?thesis .
qed

lemma starts_with_literal:
  "operator_holds Op_StartsWith v col \<longleftrightarrow> prefix (map fold_case v) (map fold_case col)"
proof -
  have "operator_holds Op_StartsWith v col \<longleftrightarrow> (\<exists>a b. col = a @ b \<and> map fold_case a = map fold_case v)"
    by (simp add: sql_like_escaped sql_like_any)
  also have "\<dots> \<longleftrightarrow> prefix (map fold_case v) (map fold_case col)"
    unfolding prefix_def by (metis (no_types, lifting) map_append map_eq_append_conv)
  finally show ?thesis .
qed

lemma ends_with_literal:
  "operator_holds Op_EndsWith v col \<longleftrightarrow> suffix (map fold_case v) (map fold_case col)"
proof -
  have "operator_holds Op_EndsWith v col \<longleftrightarrow> (\<exists>x a. col = x @ a \<and> map fold_case a = map fold_case v)"
    using sql_like_escaped [of v "[]"] by (auto simp: sql_like_percent)
  also have "\<dots> \<longleftrightarrow> suffix (map fold_case v) (map fold_case col)"
    unfolding suffix_def by (metis (no_types, lifting) map_append map_eq_append_conv)
  finally show ?thesis .
qed

text \<open>What a condition asks of a track, operator by operator, with the search read literally.\<close>

definition text_matches :: "smart_operator \<Rightarrow> string \<Rightarrow> string \<Rightarrow> bool" where
  "text_matches op v col \<longleftrightarrow>
    (op = Op_Equals \<longrightarrow> col = v) \<and> (op = Op_NotEquals \<longrightarrow> col \<noteq> v) \<and>
    (op = Op_Contains \<longrightarrow> contains (map fold_case v) (map fold_case col)) \<and>
    (op = Op_NotContains \<longrightarrow> \<not> contains (map fold_case v) (map fold_case col)) \<and>
    (op = Op_StartsWith \<longrightarrow> prefix (map fold_case v) (map fold_case col)) \<and>
    (op = Op_EndsWith \<longrightarrow> suffix (map fold_case v) (map fold_case col))"

text \<open>A tag the track does not have matches nothing, not even a negated operator.\<close>

definition track_matches :: "track \<Rightarrow> smart_condition \<Rightarrow> bool" where
  "track_matches t c \<longleftrightarrow>
    (\<exists>v. (sc_field c, Some v) \<in> set [(F_Title, tr_title t), (F_Artist, tr_artist t), (F_AlbumArtist, tr_album_artist t),
        (F_Album, tr_album_title t), (F_Composer, tr_composer t), (F_Genre, tr_genre t)] \<and> text_matches (sc_op c) (sc_value c) v)"

lemma operator_matches: "operator_holds op v col \<longleftrightarrow> text_matches op v col"
proof (cases op)
  case Op_NotContains
  have "operator_holds Op_NotContains v col \<longleftrightarrow> \<not> operator_holds Op_Contains v col" by simp
  then show ?thesis unfolding contains_literal by (simp add: Op_NotContains text_matches_def)
qed (simp_all only: contains_literal starts_with_literal ends_with_literal, simp_all add: text_matches_def)

lemma condition_matches: "condition_holds t c \<longleftrightarrow> track_matches t c"
  by (cases "sc_field c") (auto simp: condition_holds_def track_matches_def operator_matches split: option.split)

lemma filter_matches:
  "filter_holds f t \<longleftrightarrow> (if sf_match_mode f = Match_All then \<forall>c \<in> set (sf_conditions f). track_matches t c
    else \<exists>c \<in> set (sf_conditions f). track_matches t c)"
  by (cases "sf_match_mode f") (simp_all add: filter_holds_def condition_matches list_all_iff list_ex_iff)

text \<open>The order of the rows, column by column.\<close>

lemma smart_order:
  fixes ts :: "track list" and f :: smart_filter and srt :: "smart_sort option"
  defines "rows \<equiv> evaluate_smart_filter ts f srt None"
  shows "(srt = Some Sort_Title \<longrightarrow> sorted (map (\<lambda>t. map_option (map fold_case) (tr_title t)) rows)) \<and>
    (srt = Some Sort_Artist \<longrightarrow> sorted (map (\<lambda>t. (map_option (map fold_case) (tr_artist t), tr_album_title t,
        map_option unat (tr_disc_number t), map_option unat (tr_track_number t))) rows)) \<and>
    (srt = Some Sort_Album \<longrightarrow> sorted (map (\<lambda>t. (map_option (map fold_case) (tr_album_title t),
        map_option unat (tr_disc_number t), map_option unat (tr_track_number t))) rows)) \<and>
    (srt = Some Sort_Genre \<longrightarrow> sorted (map (\<lambda>t. (map_option (map fold_case) (tr_genre t), tr_artist t, tr_album_title t,
        map_option unat (tr_disc_number t), map_option unat (tr_track_number t))) rows)) \<and>
    (srt = None \<longrightarrow> sorted (map (\<lambda>t. (tr_artist t, tr_album_title t,
        map_option unat (tr_disc_number t), map_option unat (tr_track_number t), tr_title t)) rows))"
proof -
  have key: "sorted (map (order_key srt) rows)" by (simp add: rows_def evaluate_smart_filter_def)
  have map_sorted: "sorted (map g xs)" if "sorted (map h xs)" "\<And>t u. h t \<le> h u \<Longrightarrow> g t \<le> g u"
    for g :: "track \<Rightarrow> 'b :: linorder" and h :: "track \<Rightarrow> order_key" and xs
    using that by (simp add: sorted_wrt_map sorted_wrt_mono_rel [of xs "\<lambda>x y. h x \<le> h y" "\<lambda>x y. g x \<le> g y"])
  show ?thesis
    by (intro conjI impI; rule map_sorted [OF key])
      (auto simp: order_key_def nocase_def Let_def less_eq_prod_simp less_prod_simp)
qed

text \<open>A smart playlist holds matching tracks only, each as often as the library does, and up to the limit.\<close>

lemma smart_filter_exact:
  assumes "sf_conditions f \<noteq> []"
  shows "mset (evaluate_smart_filter ts f srt None) = filter_mset (filter_holds f) (mset ts)"
  using assms by (simp add: evaluate_smart_filter_def)

lemma smart_filter_sound:
  "t \<in> set (evaluate_smart_filter ts f srt cap) \<Longrightarrow> t \<in> set ts \<and> filter_holds f t \<and> sf_conditions f \<noteq> []"
  by (auto simp: evaluate_smart_filter_def Let_def dest: in_set_takeD split: if_splits option.splits)

lemma smart_filter_limit: "length (evaluate_smart_filter ts f srt (Some n)) \<le> unat n"
  by (simp add: evaluate_smart_filter_def)

end
