(* ===== verification/Hls_Parse.thy ===== *)
theory Hls_Parse
  imports Prelude
begin

unbundle bit_operations_syntax

text \<open>
  The byte parsers of the HLS packager (\<open>kanade-adapter-ws/src/hls.rs\<close>): FLAC metadata and frames,
  MP3 and ADTS frame headers, WAV and AIFF chunks, Ogg pages and Opus packets. Offsets are natural
  numbers: a file in memory is shorter than \<open>2 ^ 63\<close> bytes and the lengths added to an offset are
  below \<open>2 ^ 32\<close>, so that neither \<open>+\<close> nor \<open>saturating_add\<close> leaves \<open>usize\<close>. Reads stand behind the
  length checks of the source, which keep them in range.
\<close>

datatype hls_error = Hls_Unsupported string | Hls_InvalidData string

subsection \<open>Reading bytes\<close>

text \<open>\<open>&bytes[a..b]\<close>, \<open>from_be_bytes\<close> and \<open>from_le_bytes\<close>.\<close>

definition slice :: "nat \<Rightarrow> nat \<Rightarrow> 'a list \<Rightarrow> 'a list" where
  "slice a b xs = take (b - a) (drop a xs)"

definition be_nat :: "u8 list \<Rightarrow> nat" where
  "be_nat bs = foldl (\<lambda>n b. 256 * n + unat b) 0 bs"

definition le_nat :: "u8 list \<Rightarrow> nat" where
  "le_nat bs = be_nat (rev bs)"

text \<open>A byte string literal.\<close>

definition magic :: "string \<Rightarrow> u8 list" where
  "magic s = map (\<lambda>c. word_of_nat (of_char c)) s"

subsection \<open>FLAC metadata\<close>

record flac_block =
  fb_last :: u8
  fb_type :: u8
  fb_data :: "u8 list"

record flac_stream_info =
  fs_sample_rate :: u32
  fs_channels :: u8
  fs_bits_per_sample :: u8
  fs_max_block_size :: u16
  fs_total_samples :: u64

definition parse_flac_streaminfo :: "u8 list \<Rightarrow> hls_error + flac_stream_info" where
  "parse_flac_streaminfo b =
    (if length b \<noteq> 34 then Inl (Hls_InvalidData ''FLAC STREAMINFO block must be 34 bytes'')
     else Inr \<lparr>
       fs_sample_rate = push_bit 12 (ucast (b ! 10)) OR push_bit 4 (ucast (b ! 11)) OR
         drop_bit 4 (ucast (b ! 12) AND 0xF0),
       fs_channels = drop_bit 1 (b ! 12 AND 0x0E) + 1,
       fs_bits_per_sample = (push_bit 4 (b ! 12 AND 0x01) OR drop_bit 4 (b ! 13 AND 0xF0)) + 1,
       fs_max_block_size = push_bit 8 (ucast (b ! 2)) OR ucast (b ! 3),
       fs_total_samples = push_bit 32 (ucast (b ! 13) AND 0x0F) OR push_bit 24 (ucast (b ! 14)) OR
         push_bit 16 (ucast (b ! 15)) OR push_bit 8 (ucast (b ! 16)) OR ucast (b ! 17)\<rparr>)"

text \<open>The length field of a metadata block, three bytes.\<close>

definition flac_block_length :: "u8 list \<Rightarrow> nat \<Rightarrow> nat" where
  "flac_block_length bytes offset =
    push_bit 16 (unat (bytes ! (offset + 1))) OR push_bit 8 (unat (bytes ! (offset + 2))) OR unat (bytes ! (offset + 3))"

function flac_metadata_loop ::
  "u8 list \<Rightarrow> nat \<Rightarrow> flac_block list \<Rightarrow> flac_stream_info option
    \<Rightarrow> hls_error + flac_block list \<times> flac_stream_info option \<times> nat" where
  "flac_metadata_loop bytes offset blocks streaminfo =
    (if offset + 4 > length bytes then Inl (Hls_InvalidData ''unexpected end of FLAC metadata blocks'')
     else
       let header = bytes ! offset;
           is_last = (header AND 0x80 \<noteq> 0);
           block_type = header AND 0x7F;
           start = offset + 4;
           end' = start + flac_block_length bytes offset
       in if end' > length bytes then Inl (Hls_InvalidData ''FLAC metadata block exceeded file bounds'')
          else
            let data = slice start end' bytes
            in case (if block_type = 0 then map_sum id Some (parse_flac_streaminfo data) else Inr streaminfo) of
                 Inl e \<Rightarrow> Inl e
               | Inr streaminfo \<Rightarrow>
                   let blocks = blocks @ [\<lparr>fb_last = (if is_last then 1 else 0), fb_type = block_type, fb_data = data\<rparr>]
                   in if is_last then Inr (blocks, streaminfo, end')
                      else flac_metadata_loop bytes end' blocks streaminfo)"
  by pat_completeness auto
termination
  by (relation "measure (\<lambda>(bytes, offset, _, _). length bytes - offset)") auto

declare flac_metadata_loop.simps [simp del]

definition parse_flac_metadata :: "u8 list \<Rightarrow> hls_error + flac_block list \<times> flac_stream_info \<times> nat" where
  "parse_flac_metadata bytes =
    (case flac_metadata_loop bytes 4 [] None of
       Inl e \<Rightarrow> Inl e
     | Inr (blocks, streaminfo, offset) \<Rightarrow>
         (case streaminfo of
            None \<Rightarrow> Inl (Hls_InvalidData ''FLAC streaminfo block missing'')
          | Some si \<Rightarrow> Inr (blocks, si, offset)))"

definition rebuild_dfla_blocks :: "flac_block list \<Rightarrow> flac_block list" where
  "rebuild_dfla_blocks blocks =
    (if blocks = [] then blocks
     else let blocks = map (\<lambda>b. b\<lparr>fb_last := 0\<rparr>) blocks
          in butlast blocks @ [(last blocks)\<lparr>fb_last := 1\<rparr>])"

subsection \<open>FLAC frames\<close>

definition flac_crc_bit :: "u8 \<Rightarrow> u8" where
  "flac_crc_bit crc = (if crc AND 0x80 \<noteq> 0 then push_bit 1 crc XOR 0x07 else push_bit 1 crc)"

definition flac_crc_byte :: "u8 \<Rightarrow> u8 \<Rightarrow> u8" where
  "flac_crc_byte crc byte = (flac_crc_bit ^^ 8) (crc XOR byte)"

definition flac_crc8 :: "u8 list \<Rightarrow> u8" where
  "flac_crc8 data = foldl flac_crc_byte 0 data"

definition skip_flac_utf8_number :: "u8 list \<Rightarrow> nat option" where
  "skip_flac_utf8_number bytes =
    (case bytes of
       [] \<Rightarrow> None
     | first # _ \<Rightarrow>
         (case (if first AND 0x80 = 0 then Some 1
                else if first AND 0xE0 = 0xC0 then Some 2
                else if first AND 0xF0 = 0xE0 then Some 3
                else if first AND 0xF8 = 0xF0 then Some 4
                else if first AND 0xFC = 0xF8 then Some 5
                else if first AND 0xFE = 0xFC then Some 6
                else if first = 0xFE then Some 7
                else None) of
            None \<Rightarrow> None
          | Some len \<Rightarrow> if length bytes \<ge> len then Some len else None))"

text \<open>The bytes a block size or sample rate code appends to the frame header.\<close>

definition block_size_extra :: "u8 \<Rightarrow> nat" where
  "block_size_extra code = (if code = 6 then 1 else if code = 7 then 2 else 0)"

definition sample_rate_extra :: "u8 \<Rightarrow> nat" where
  "sample_rate_extra code = (if code = 12 then 1 else if code = 13 \<or> code = 14 then 2 else 0)"

definition find_flac_frame_header_end :: "u8 list \<Rightarrow> nat \<Rightarrow> nat option" where
  "find_flac_frame_header_end bytes offset =
    (if offset + 4 > length bytes then None
     else
       let code = bytes ! (offset + 2);
           block_size_code = drop_bit 4 (code AND 0xF0);
           sample_rate_code = code AND 0x0F
       in map_option (\<lambda>n. offset + 4 + n + block_size_extra block_size_code + sample_rate_extra sample_rate_code)
            (skip_flac_utf8_number (drop (offset + 4) bytes)))"

definition validate_flac_frame_header_crc :: "u8 list \<Rightarrow> nat \<Rightarrow> bool" where
  "validate_flac_frame_header_crc bytes offset =
    (case find_flac_frame_header_end bytes offset of
       None \<Rightarrow> False
     | Some header_end \<Rightarrow>
         if header_end \<ge> length bytes then False
         else flac_crc8 (slice offset header_end bytes) = bytes ! header_end)"

definition flac_sync :: "u8 list \<Rightarrow> nat \<Rightarrow> bool" where
  "flac_sync bytes offset \<longleftrightarrow> bytes ! offset = 0xFF \<and> bytes ! (offset + 1) AND 0xFC = 0xF8"

function flac_frame_starts :: "u8 list \<Rightarrow> nat \<Rightarrow> nat list" where
  "flac_frame_starts bytes offset =
    (if offset + 1 < length bytes then
       (if flac_sync bytes offset
        then (if validate_flac_frame_header_crc bytes offset then [offset] else []) @ flac_frame_starts bytes (offset + 2)
        else flac_frame_starts bytes (offset + 1))
     else [])"
  by pat_completeness auto
termination
  by (relation "measure (\<lambda>(bytes, offset). length bytes - offset)") auto

declare flac_frame_starts.simps [simp del]

text \<open>The block size a code stands for, and the bytes of the header it takes.\<close>

definition flac_block_size :: "u8 list \<Rightarrow> flac_stream_info \<Rightarrow> u8 \<Rightarrow> nat \<Rightarrow> (u32 \<times> nat) option" where
  "flac_block_size frame si code offset =
    (if code = 0 then Some (ucast (fs_max_block_size si), 0)
     else if code = 1 then Some (192, 0)
     else if code = 2 then Some (576, 0)
     else if code = 3 then Some (1152, 0)
     else if code = 4 then Some (2304, 0)
     else if code = 5 then Some (4608, 0)
     else if code = 6 then map_option (\<lambda>b. (ucast b + 1, 1)) (vec_get frame offset)
     else if code = 7 then
       (case (vec_get frame offset, vec_get frame (offset + 1)) of
          (Some hi, Some lo) \<Rightarrow> Some ((push_bit 8 (ucast hi) OR ucast lo) + 1, 2)
        | _ \<Rightarrow> None)
     else if code = 8 then Some (256, 0)
     else if code = 9 then Some (512, 0)
     else if code = 10 then Some (1024, 0)
     else if code = 11 then Some (2048, 0)
     else if code = 12 then Some (4096, 0)
     else if code = 13 then Some (8192, 0)
     else if code = 14 then Some (16384, 0)
     else if code = 15 then Some (32768, 0)
     else None)"

definition parse_flac_frame_block_size :: "u8 list \<Rightarrow> flac_stream_info \<Rightarrow> u32 option" where
  "parse_flac_frame_block_size frame si =
    (if length frame < 5 \<or> frame ! 0 \<noteq> 0xFF \<or> frame ! 1 AND 0xFC \<noteq> 0xF8 then None
     else
       let block_size_code = drop_bit 4 (frame ! 2 AND 0xF0);
           sample_rate_code = frame ! 2 AND 0x0F
       in case skip_flac_utf8_number (drop 4 frame) of
            None \<Rightarrow> None
          | Some n \<Rightarrow>
              (case flac_block_size frame si block_size_code (4 + n) of
                 None \<Rightarrow> None
               | Some (block_size, k) \<Rightarrow>
                   map_option (\<lambda>_. block_size) (vec_get frame (4 + n + k + sample_rate_extra sample_rate_code))))"

subsection \<open>MP3\<close>

record mp3_frame =
  mf_frame_length :: nat
  mf_samples_per_frame :: u32

definition mp3_sample_rates :: "u8 \<Rightarrow> nat list" where
  "mp3_sample_rates version_id =
    (if version_id = 0 then [11025, 12000, 8000]
     else if version_id = 2 then [22050, 24000, 16000]
     else [44100, 48000, 32000])"

definition mp3_bitrates :: "bool \<Rightarrow> u8 \<Rightarrow> nat list" where
  "mp3_bitrates is_mpeg1 layer =
    (if is_mpeg1 then
       (if layer = 3 then [32, 64, 96, 128, 160, 192, 224, 256, 288, 320, 352, 384, 416, 448]
        else if layer = 2 then [32, 48, 56, 64, 80, 96, 112, 128, 160, 192, 224, 256, 320, 384]
        else [32, 40, 48, 56, 64, 80, 96, 112, 128, 160, 192, 224, 256, 320])
     else
       (if layer = 3 then [32, 48, 56, 64, 80, 96, 112, 128, 144, 160, 176, 192, 224, 256]
        else [8, 16, 24, 32, 40, 48, 56, 64, 80, 96, 112, 128, 144, 160]))"

definition mp3_frame_size :: "bool \<Rightarrow> u8 \<Rightarrow> nat \<Rightarrow> nat \<Rightarrow> nat \<Rightarrow> mp3_frame" where
  "mp3_frame_size is_mpeg1 layer bitrate sample_rate padding =
    (if layer = 3 then \<lparr>mf_frame_length = (12 * bitrate div sample_rate + padding) * 4, mf_samples_per_frame = 384\<rparr>
     else if layer = 2 \<or> is_mpeg1 then
       \<lparr>mf_frame_length = 144 * bitrate div sample_rate + padding, mf_samples_per_frame = 1152\<rparr>
     else \<lparr>mf_frame_length = 72 * bitrate div sample_rate + padding, mf_samples_per_frame = 576\<rparr>)"

definition parse_mp3_frame :: "u8 list \<Rightarrow> mp3_frame option" where
  "parse_mp3_frame bytes =
    (if length bytes < 4 \<or> bytes ! 0 \<noteq> 0xFF \<or> bytes ! 1 AND 0xE0 \<noteq> 0xE0 then None
     else
       let version_id = drop_bit 3 (bytes ! 1) AND 0x03;
           layer = drop_bit 1 (bytes ! 1) AND 0x03;
           bitrate_index = drop_bit 4 (bytes ! 2) AND 0x0F;
           sample_rate_index = drop_bit 2 (bytes ! 2) AND 0x03;
           padding = unat (drop_bit 1 (bytes ! 2) AND 0x01)
       in if version_id = 1 \<or> layer = 0 \<or> bitrate_index = 0 \<or> bitrate_index = 0x0F \<or> sample_rate_index = 0x03 then None
          else Some (mp3_frame_size (version_id = 3) layer
            (mp3_bitrates (version_id = 3) layer ! (unat bitrate_index - 1) * 1000)
            (mp3_sample_rates version_id ! unat sample_rate_index) padding))"

text \<open>The size of an ID3v2 tag; its four bytes of seven bits are not masked.\<close>

definition skip_id3v2 :: "u8 list \<Rightarrow> nat" where
  "skip_id3v2 bytes =
    (if length bytes < 10 \<or> take 3 bytes \<noteq> magic ''ID3'' then 0
     else 10 + (push_bit 21 (unat (bytes ! 6)) OR push_bit 14 (unat (bytes ! 7)) OR
                push_bit 7 (unat (bytes ! 8)) OR unat (bytes ! 9)))"

subsection \<open>AAC in ADTS\<close>

record adts_frame =
  af_frame_length :: nat
  af_header_len :: nat
  af_sample_rate :: nat
  af_sampling_frequency_index :: u8
  af_channel_config :: u8
  af_audio_object_type :: u8
  af_samples_per_frame :: u32

definition adts_sample_rates :: "nat list" where
  "adts_sample_rates = [96000, 88200, 64000, 48000, 44100, 32000, 24000, 22050, 16000, 12000, 11025, 8000, 7350]"

definition parse_adts_frame :: "u8 list \<Rightarrow> adts_frame option" where
  "parse_adts_frame bytes =
    (if length bytes < 7 \<or> bytes ! 0 \<noteq> 0xFF \<or> bytes ! 1 AND 0xF0 \<noteq> 0xF0 then None
     else
       let has_crc = (bytes ! 1 AND 0x01 = 0);
           sampling_frequency_index = drop_bit 2 (bytes ! 2) AND 0x0F
       in map_option (\<lambda>sample_rate.
            \<lparr>af_frame_length = push_bit 11 (unat (bytes ! 3 AND 0x03)) OR push_bit 3 (unat (bytes ! 4)) OR
               drop_bit 5 (unat (bytes ! 5 AND 0xE0)),
             af_header_len = (if has_crc then 9 else 7),
             af_sample_rate = sample_rate,
             af_sampling_frequency_index = sampling_frequency_index,
             af_channel_config = push_bit 2 (bytes ! 2 AND 0x01) OR (drop_bit 6 (bytes ! 3) AND 0x03),
             af_audio_object_type = (drop_bit 6 (bytes ! 2) AND 0x03) + 1,
             af_samples_per_frame = 1024 * (ucast (bytes ! 6 AND 0x03) + 1)\<rparr>)
          (vec_get adts_sample_rates (unat sampling_frequency_index)))"

definition aac_audio_specific_config :: "u8 \<Rightarrow> u8 \<Rightarrow> u8 \<Rightarrow> u8 list" where
  "aac_audio_specific_config audio_object_type sample_rate_index channel_config =
    [push_bit 3 audio_object_type OR drop_bit 1 (sample_rate_index AND 0x0E),
     push_bit 7 (sample_rate_index AND 0x01) OR push_bit 3 (channel_config AND 0x0F)]"

subsection \<open>WAV\<close>

record pcm_info =
  pi_sample_rate :: u32
  pi_channels :: u8
  pi_bits_per_sample :: u8
  pi_data_offset :: nat
  pi_data_len :: nat

text \<open>What the chunks read so far have set.\<close>

record pcm_fields =
  pf_channels :: "u8 option"
  pf_sample_rate :: "u32 option"
  pf_bits_per_sample :: "u8 option"
  pf_data :: "(nat \<times> nat) option"

definition no_fields :: pcm_fields where
  "no_fields = \<lparr>pf_channels = None, pf_sample_rate = None, pf_bits_per_sample = None, pf_data = None\<rparr>"

definition wav_chunk :: "u8 list \<Rightarrow> nat \<Rightarrow> u8 list \<Rightarrow> nat \<Rightarrow> pcm_fields \<Rightarrow> pcm_fields" where
  "wav_chunk bytes offset chunk_id chunk_size f =
    (if chunk_id = magic ''fmt '' \<and> chunk_size \<ge> 16 then
       f\<lparr>pf_channels := Some (word_of_nat (le_nat (slice (offset + 2) (offset + 4) bytes))),
         pf_sample_rate := Some (word_of_nat (le_nat (slice (offset + 4) (offset + 8) bytes))),
         pf_bits_per_sample := Some (word_of_nat (le_nat (slice (offset + 14) (offset + 16) bytes)))\<rparr>
     else if chunk_id = magic ''data'' then f\<lparr>pf_data := Some (offset, chunk_size)\<rparr>
     else f)"

function wav_loop :: "u8 list \<Rightarrow> nat \<Rightarrow> pcm_fields \<Rightarrow> pcm_fields" where
  "wav_loop bytes offset f =
    (if offset + 8 \<le> length bytes then
       let chunk_id = slice offset (offset + 4) bytes;
           chunk_size = le_nat (slice (offset + 4) (offset + 8) bytes);
           start = offset + 8;
           chunk_end = start + chunk_size
       in if chunk_end > length bytes then f
          else wav_loop bytes (chunk_end + chunk_size mod 2) (wav_chunk bytes start chunk_id chunk_size f)
     else f)"
  by pat_completeness auto
termination
  by (relation "measure (\<lambda>(bytes, offset, _). length bytes - offset)") auto

declare wav_loop.simps [simp del]

text \<open>The required fields, or the error of the first missing one.\<close>

definition pcm_info_of :: "string \<Rightarrow> string \<Rightarrow> pcm_fields \<Rightarrow> hls_error + pcm_info" where
  "pcm_info_of format data_chunk f =
    (case pf_data f of
       None \<Rightarrow> Inl (Hls_InvalidData (format @ '' '' @ data_chunk @ '' chunk missing''))
     | Some (offset, len) \<Rightarrow> (case pf_sample_rate f of
         None \<Rightarrow> Inl (Hls_InvalidData (format @ '' sample rate missing''))
       | Some rate \<Rightarrow> (case pf_channels f of
           None \<Rightarrow> Inl (Hls_InvalidData (format @ '' channels missing''))
         | Some channels \<Rightarrow> Inr \<lparr>pi_sample_rate = rate, pi_channels = channels,
             pi_bits_per_sample = (case pf_bits_per_sample f of None \<Rightarrow> 16 | Some b \<Rightarrow> b),
             pi_data_offset = offset, pi_data_len = len\<rparr>)))"

definition parse_wav_pcm :: "u8 list \<Rightarrow> hls_error + pcm_info" where
  "parse_wav_pcm bytes =
    (if length bytes < 12 \<or> take 4 bytes \<noteq> magic ''RIFF'' \<or> slice 8 12 bytes \<noteq> magic ''WAVE''
     then Inl (Hls_InvalidData ''not a RIFF/WAVE file'')
     else pcm_info_of ''WAV'' ''data'' (wav_loop bytes 12 no_fields))"

subsection \<open>AIFF\<close>

text \<open>
  The 80-bit float of the sample rate and the saturating cast of its value to \<open>u32\<close>. The mantissa is
  rounded to the 53 bits of an \<open>f64\<close>, to even on a tie; the product with a power of two is exact, and
  where it leaves the range of \<open>f64\<close> it becomes an infinity or zero, which the cast maps to the same
  result as the exact value.
\<close>

definition round_even :: "nat \<Rightarrow> nat \<Rightarrow> nat" where
  "round_even m k =
    (let q = m div 2 ^ k; r = 2 * (m mod 2 ^ k)
     in (if r > 2 ^ k \<or> (r = 2 ^ k \<and> odd q) then q + 1 else q) * 2 ^ k)"

definition f64_of_u64 :: "nat \<Rightarrow> nat" where
  "f64_of_u64 m = (case find (\<lambda>k. m < 2 ^ (53 + k)) [0..<12] of None \<Rightarrow> m | Some k \<Rightarrow> round_even m k)"

definition f80_power :: "int \<Rightarrow> rat" where
  "f80_power e = (if e \<ge> 0 then 2 ^ nat e else 1 / 2 ^ nat (- e))"

definition parse_extended_f80 :: "u8 list \<Rightarrow> hls_error + rat" where
  "parse_extended_f80 bytes =
    (if length bytes \<noteq> 10 then Inl (Hls_InvalidData ''invalid AIFF extended float'')
     else
       let exponent = be_nat (take 2 bytes)
       in if exponent = 0 \<and> list_all (\<lambda>b. b = 0) (drop 2 bytes) then Inr 0
          else
            let sign = (if 0x8000 \<le> exponent then -1 else 1);
                e = int (exponent mod 0x8000) - 16383;
                mantissa = be_nat (drop 2 bytes)
            in Inr (sign * of_nat (f64_of_u64 mantissa) * f80_power (e - 63)))"

definition u32_of_rat :: "rat \<Rightarrow> u32" where
  "u32_of_rat r = (if r < 0 then 0 else if r \<ge> 2 ^ 32 - 1 then - 1 else word_of_int \<lfloor>r\<rfloor>)"

text \<open>A chunk may fail: an error of the sample rate is returned at once.\<close>

definition aiff_chunk :: "u8 list \<Rightarrow> nat \<Rightarrow> u8 list \<Rightarrow> nat \<Rightarrow> pcm_fields \<Rightarrow> hls_error + pcm_fields" where
  "aiff_chunk bytes offset chunk_id chunk_size f =
    (if chunk_id = magic ''COMM'' \<and> chunk_size \<ge> 18 then
       (case parse_extended_f80 (slice (offset + 8) (offset + 18) bytes) of
          Inl e \<Rightarrow> Inl e
        | Inr r \<Rightarrow> Inr (f\<lparr>pf_channels := Some (word_of_nat (be_nat (slice offset (offset + 2) bytes))),
                       pf_sample_rate := Some (u32_of_rat r),
                       pf_bits_per_sample := Some (word_of_nat (be_nat (slice (offset + 6) (offset + 8) bytes)))\<rparr>))
     else if chunk_id = magic ''SSND'' \<and> chunk_size \<ge> 8 then
       (let skip = be_nat (slice offset (offset + 4) bytes)
        in Inr (f\<lparr>pf_data := Some (offset + 8 + skip, chunk_size - (8 + skip))\<rparr>))
     else Inr f)"

function aiff_loop :: "u8 list \<Rightarrow> nat \<Rightarrow> pcm_fields \<Rightarrow> hls_error + pcm_fields" where
  "aiff_loop bytes offset f =
    (if offset + 8 \<le> length bytes then
       let chunk_id = slice offset (offset + 4) bytes;
           chunk_size = be_nat (slice (offset + 4) (offset + 8) bytes);
           start = offset + 8;
           chunk_end = start + chunk_size
       in if chunk_end > length bytes then Inr f
          else case aiff_chunk bytes start chunk_id chunk_size f of
            Inl e \<Rightarrow> Inl e
          | Inr f \<Rightarrow> aiff_loop bytes (chunk_end + chunk_size mod 2) f
     else Inr f)"
  by pat_completeness auto
termination
  by (relation "measure (\<lambda>(bytes, offset, _). length bytes - offset)") auto

declare aiff_loop.simps [simp del]

definition parse_aiff_pcm :: "u8 list \<Rightarrow> hls_error + pcm_info" where
  "parse_aiff_pcm bytes =
    (if length bytes < 12 \<or> take 4 bytes \<noteq> magic ''FORM'' then Inl (Hls_InvalidData ''not an AIFF file'')
     else if slice 8 12 bytes \<noteq> magic ''AIFF'' \<and> slice 8 12 bytes \<noteq> magic ''AIFC''
     then Inl (Hls_InvalidData ''unsupported AIFF form type'')
     else case aiff_loop bytes 12 no_fields of
       Inl e \<Rightarrow> Inl e
     | Inr f \<Rightarrow> pcm_info_of ''AIFF'' ''SSND'' f)"

subsection \<open>Opus in Ogg\<close>

text \<open>One page: every lace extends the current packet, one below 255 ends it.\<close>

fun ogg_laces :: "u8 list \<Rightarrow> u8 list \<Rightarrow> u8 list list \<Rightarrow> u8 list \<Rightarrow> u8 list list \<times> u8 list" where
  "ogg_laces [] body packets current = (packets, current)"
| "ogg_laces (lace # laces) body packets current =
    (let current = current @ take (unat lace) body;
         body = drop (unat lace) body
     in if lace < 255 then ogg_laces laces body (packets @ [current]) []
        else ogg_laces laces body packets current)"

function ogg_pages ::
  "u8 list \<Rightarrow> nat \<Rightarrow> u8 list list \<Rightarrow> u8 list \<Rightarrow> hls_error + u8 list list \<times> u8 list" where
  "ogg_pages bytes offset packets current =
    (if offset + 27 \<le> length bytes then
       (if slice offset (offset + 4) bytes \<noteq> magic ''OggS'' then Inl (Hls_InvalidData ''invalid Ogg page header'')
        else
          let page_segments = unat (bytes ! (offset + 26));
              lace_start = offset + 27;
              data_start = lace_start + page_segments
          in if data_start > length bytes then Inl (Hls_InvalidData ''invalid Ogg lacing table'')
             else
               let laces = slice lace_start data_start bytes;
                   data_end = data_start + sum_list (map unat laces)
               in if data_end > length bytes then Inl (Hls_InvalidData ''invalid Ogg page size'')
                  else case ogg_laces laces (slice data_start data_end bytes) packets current of
                    (packets, current) \<Rightarrow> ogg_pages bytes data_end packets current)
     else Inr (packets, current))"
  by pat_completeness auto
termination
  by (relation "measure (\<lambda>(bytes, offset, _, _). length bytes - offset)") auto

declare ogg_pages.simps [simp del]

record ogg_opus_data =
  oo_channels :: u8
  oo_pre_skip :: u16
  oo_packets :: "u8 list list"

text \<open>The flag tells whether an \<open>OpusHead\<close> has been seen.\<close>

definition opus_packet :: "u8 list \<Rightarrow> ogg_opus_data \<times> bool \<Rightarrow> ogg_opus_data \<times> bool" where
  "opus_packet packet = (\<lambda>(d, head).
    if take 8 packet = magic ''OpusHead'' \<and> length packet \<ge> 19
    then (d\<lparr>oo_channels := packet ! 9,
            oo_pre_skip := word_of_nat (le_nat (slice 10 12 packet))\<rparr>, True)
    else if take 8 packet = magic ''OpusTags'' then (d, head)
    else (d\<lparr>oo_packets := oo_packets d @ [packet]\<rparr>, head))"

definition parse_ogg_opus_packets :: "u8 list \<Rightarrow> hls_error + ogg_opus_data" where
  "parse_ogg_opus_packets bytes =
    (case ogg_pages bytes 0 [] [] of
       Inl e \<Rightarrow> Inl e
     | Inr (packets, current) \<Rightarrow>
         let packets = (if current \<noteq> [] then packets @ [current] else packets)
         in case fold opus_packet packets (\<lparr>oo_channels = 2, oo_pre_skip = 312, oo_packets = []\<rparr>, False) of
              (d, head) \<Rightarrow> if head then Inr d else Inl (Hls_InvalidData ''OpusHead packet missing''))"

definition opus_packet_duration :: "u8 list \<Rightarrow> u32" where
  "opus_packet_duration packet =
    (case packet of
       [] \<Rightarrow> 960
     | toc # rest \<Rightarrow>
         let config = unat (drop_bit 3 toc);
             code = toc AND 0x03;
             frames = (if code = 0 then 1
                       else if code = 1 \<or> code = 2 then 2
                       else case rest of [] \<Rightarrow> 1 | v # _ \<Rightarrow> max (v AND 0x3F) 1);
             samples_per_frame =
               (if config \<le> 3 then 480 else if config \<le> 7 then 960 else if config \<le> 11 then 1920
                else if config \<le> 15 then 2880 else if config \<le> 19 then 120 else if config \<le> 23 then 240
                else if config \<le> 27 then 480 else 960)
         in samples_per_frame * ucast frames)"


end
