(* ===== verification/Hls.thy ===== *)
theory Hls
  imports Hls_Parse Text
begin

unbundle bit_operations_syntax

text \<open>
  The HLS packager (\<open>kanade-adapter-ws/src/hls.rs\<close>): a source file is cut into samples, the samples
  are grouped into segments, and the segments are written to a directory of the cache, which is kept
  below a size limit. What other crates do is a parameter: the file type and properties \<open>lofty\<close>
  reads, the samples the MP4 demuxer yields, the metadata the MP4 muxer writes, the ALAC encoder.
  A shared \<open>Arc<SampleEntry>\<close> is a sample entry with the number of its allocation, which is what
  \<open>Arc::ptr_eq\<close> compares.
\<close>

subsection \<open>Samples\<close>

datatype sample_entry =
    Entry_Flac u16 u16 u16 "flac_block list"
  | Entry_Mp4a u16 u16 u16 "u8 list"
  | Entry_Opus u16 u16 u8 u16
  | Entry_Unknown "u8 list" u16 u16 u16 "u8 list"
  | Entry_Demuxed nat

type_synonym entry_ref = "nat \<times> sample_entry"

record remux_sample =
  rs_range :: "nat \<times> nat"
  rs_duration :: u32
  rs_sample_entry :: "entry_ref option"
  rs_keyframe :: bool
  rs_composition_time_offset :: "int option"

record remuxed_track =
  rt_timescale :: u32
  rt_bytes :: "u8 list"
  rt_sample_entry :: "entry_ref option"
  rt_samples :: "remux_sample list"

record file_properties =
  fp_sample_rate :: "u32 option"
  fp_channels :: "u8 option"
  fp_bit_depth :: "u8 option"

definition plain_sample :: "nat \<Rightarrow> nat \<Rightarrow> u32 \<Rightarrow> remux_sample" where
  "plain_sample start end' duration = \<lparr>rs_range = (start, end'), rs_duration = duration,
     rs_sample_entry = None, rs_keyframe = True, rs_composition_time_offset = None\<rparr>"

definition unwrap_or :: "'a option \<Rightarrow> 'a \<Rightarrow> 'a" where
  "unwrap_or x d = (case x of None \<Rightarrow> d | Some y \<Rightarrow> y)"

definition nonzero :: "u32 \<Rightarrow> hls_error + u32" where
  "nonzero v = (if v = 0 then Inl (Hls_InvalidData ''timescale must be non-zero'') else Inr v)"

text \<open>\<open>u16::try_from(sample_rate).unwrap_or(u16::MAX)\<close>\<close>

definition clamp_u16 :: "u32 \<Rightarrow> u16" where
  "clamp_u16 v = (if v \<le> 0xFFFF then ucast v else 0xFFFF)"

definition unknown_audio_sample_entry :: "string \<Rightarrow> u32 \<Rightarrow> u8 \<Rightarrow> u8 \<Rightarrow> u8 list \<Rightarrow> sample_entry" where
  "unknown_audio_sample_entry box sample_rate channels bits trailing =
    Entry_Unknown (magic box) (ucast channels) (ucast bits) (clamp_u16 sample_rate) trailing"

definition mp4a_entry :: "u32 \<Rightarrow> u8 \<Rightarrow> u16 \<Rightarrow> u8 list \<Rightarrow> sample_entry" where
  "mp4a_entry sample_rate channels bits payload = Entry_Mp4a (ucast channels) bits (clamp_u16 sample_rate) payload"

subsection \<open>FLAC\<close>

text \<open>\<open>min\<close> the durations, from the last sample back, until the excess is gone; a sample keeps one.\<close>

fun trim_excess :: "nat \<Rightarrow> remux_sample list \<Rightarrow> remux_sample list" where
  "trim_excess excess [] = []"
| "trim_excess excess (s # ss) =
    (if excess = 0 then s # ss
     else
       let reducible = unat (rs_duration s) - 1;
           reduction = min reducible excess
       in s\<lparr>rs_duration := rs_duration s - word_of_nat reduction\<rparr> # trim_excess (excess - reduction) ss)"

definition total_duration :: "remux_sample list \<Rightarrow> nat" where
  "total_duration ss = sum_list (map (\<lambda>s. unat (rs_duration s)) ss)"

definition trim_to_total :: "nat \<Rightarrow> remux_sample list \<Rightarrow> remux_sample list" where
  "trim_to_total limit samples =
    (if limit > 0 \<and> total_duration samples > limit
     then rev (trim_excess (total_duration samples - limit) (rev samples)) else samples)"

definition flac_mp4_rate :: "u32 \<Rightarrow> u16" where
  "flac_mp4_rate r = (if r \<le> 65535 then ucast r else if r = 88200 then 44100 else if r = 96000 then 48000
     else if r = 176400 then 58800 else if r = 192000 then 48000 else 65535)"

text \<open>The samples between consecutive frame starts; the last one ends with the file.\<close>

fun flac_samples :: "u8 list \<Rightarrow> flac_stream_info \<Rightarrow> nat list \<Rightarrow> remux_sample list" where
  "flac_samples bytes si [] = []"
| "flac_samples bytes si (start # starts) =
    (let end' = (case starts of [] \<Rightarrow> length bytes | e # _ \<Rightarrow> e)
     in if end' \<le> start then flac_samples bytes si starts
        else
          let duration = unwrap_or (parse_flac_frame_block_size (drop start bytes) si)
                (ucast (max (fs_max_block_size si) 1))
          in plain_sample start end' (max duration 1) # flac_samples bytes si starts)"

definition remux_flac :: "u8 list \<Rightarrow> file_properties \<Rightarrow> hls_error + remuxed_track" where
  "remux_flac bytes props =
    (if take 4 bytes \<noteq> magic ''fLaC'' then Inl (Hls_InvalidData ''flac magic missing'')
     else case parse_flac_metadata bytes of
       Inl e \<Rightarrow> Inl e
     | Inr (blocks, si, audio_offset) \<Rightarrow>
         (case nonzero (unwrap_or (fp_sample_rate props) (fs_sample_rate si)) of
            Inl e \<Rightarrow> Inl e
          | Inr timescale \<Rightarrow>
              let entry = Entry_Flac (ucast (fs_channels si)) (ucast (fs_bits_per_sample si))
                            (flac_mp4_rate (fs_sample_rate si)) (rebuild_dfla_blocks blocks);
                  starts = flac_frame_starts bytes audio_offset
              in if starts = [] then Inl (Hls_InvalidData ''no FLAC frames were found in source file'')
                 else Inr \<lparr>rt_timescale = timescale, rt_bytes = bytes, rt_sample_entry = Some (0, entry),
                        rt_samples = trim_to_total (unat (fs_total_samples si)) (flac_samples bytes si starts)\<rparr>))"

subsection \<open>MP3\<close>

lemma and_mask_unat: "unat (x AND 0x0F :: u8) = unat x mod 16" "unat (x AND 0x03 :: u8) = unat x mod 4"
proof -
  have "x AND 0x0F = take_bit 4 x" "x AND 0x03 = take_bit 2 x"
    by (simp_all add: take_bit_eq_mask mask_eq_exp_minus_1)
  then show "unat (x AND 0x0F :: u8) = unat x mod 16" "unat (x AND 0x03 :: u8) = unat x mod 4"
    by (simp_all add: unsigned_take_bit_eq take_bit_eq_mod unat_mod)
qed

lemma mp3_bitrates_range: "b \<in> set (mp3_bitrates m l) \<Longrightarrow> 8 \<le> b \<and> b \<le> 448"
  by (auto simp: mp3_bitrates_def split: if_splits)

lemma mp3_sample_rates_range: "r \<in> set (mp3_sample_rates v) \<Longrightarrow> 8000 \<le> r \<and> r \<le> 48000"
  by (auto simp: mp3_sample_rates_def split: if_splits)

lemma length_mp3_tables [simp]: "length (mp3_bitrates m l) = 14" "length (mp3_sample_rates v) = 3"
  by (simp_all add: mp3_bitrates_def mp3_sample_rates_def)

text \<open>A frame header that is accepted announces at least twelve bytes.\<close>

lemma mp3_frame_size_pos:
  assumes "8000 \<le> bitrate" "0 < rate" "rate \<le> 48000"
  shows "12 \<le> mf_frame_length (mp3_frame_size m l bitrate rate padding) \<or>
    (l = 3 \<and> 8 \<le> mf_frame_length (mp3_frame_size m l bitrate rate padding))"
proof -
  have "12 \<le> 72 * bitrate div rate" "2 \<le> 12 * bitrate div rate" "12 \<le> 144 * bitrate div rate"
    using assms by (simp_all add: less_eq_div_iff_mult_less_eq)
  then show ?thesis by (auto simp: mp3_frame_size_def)
qed

lemma parse_mp3_frame_pos: "parse_mp3_frame bytes = Some f \<Longrightarrow> 8 \<le> mf_frame_length f"
proof -
  assume parse: "parse_mp3_frame bytes = Some f"
  let ?v = "drop_bit 3 (bytes ! 1) AND 0x03" and ?l = "drop_bit 1 (bytes ! 1) AND 0x03"
  let ?b = "drop_bit 4 (bytes ! 2) AND 0x0F" and ?r = "drop_bit 2 (bytes ! 2) AND 0x03"
  let ?rate = "mp3_sample_rates ?v ! unat ?r" and ?bitrate = "mp3_bitrates (?v = 3) ?l ! (unat ?b - 1)"
  have f: "f = mp3_frame_size (?v = 3) ?l (?bitrate * 1000) ?rate (unat (drop_bit 1 (bytes ! 2) AND 0x01))"
    and nz: "?b \<noteq> 0x0F" "?r \<noteq> 0x03" "?b \<noteq> 0"
    using parse by (auto simp: parse_mp3_frame_def Let_def split: if_splits)
  have "unat ?b \<noteq> 15" "unat ?r \<noteq> 3" using nz(1,2) by (simp_all add: word_unat_eq_iff)
  then have "unat ?b - 1 < 14" "unat ?r < 3"
    using and_mask_unat(1) [of "drop_bit 4 (bytes ! 2)"] and_mask_unat(2) [of "drop_bit 2 (bytes ! 2)"] by linarith+
  then have "8 \<le> ?bitrate" "8000 \<le> ?rate" "?rate \<le> 48000"
    using mp3_bitrates_range mp3_sample_rates_range by (metis length_mp3_tables nth_mem)+
  then show ?thesis using mp3_frame_size_pos [of "?bitrate * 1000" ?rate] unfolding f by force
qed

function mp3_samples :: "u8 list \<Rightarrow> nat \<Rightarrow> remux_sample list" where
  "mp3_samples bytes offset =
    (if offset + 4 \<le> length bytes then
       case parse_mp3_frame (drop offset bytes) of
         Some frame \<Rightarrow>
           let end' = offset + mf_frame_length frame
           in if end' > length bytes then []
              else plain_sample offset end' (mf_samples_per_frame frame) # mp3_samples bytes end'
       | None \<Rightarrow> mp3_samples bytes (offset + 1)
     else [])"
  by pat_completeness auto
termination
  by (relation "measure (\<lambda>(bytes, offset). length bytes - offset)") (auto dest: parse_mp3_frame_pos)

declare mp3_samples.simps [simp del]

definition remux_mp3 :: "u8 list \<Rightarrow> file_properties \<Rightarrow> hls_error + remuxed_track" where
  "remux_mp3 bytes props =
    (case fp_sample_rate props of
       None \<Rightarrow> Inl (Hls_InvalidData ''missing MP3 sample rate'')
     | Some rate \<Rightarrow> (case nonzero rate of
         Inl e \<Rightarrow> Inl e
       | Inr timescale \<Rightarrow>
           let entry = unknown_audio_sample_entry ''.mp3'' rate (unwrap_or (fp_channels props) 2)
                         (unwrap_or (fp_bit_depth props) 16) [];
               samples = mp3_samples bytes (skip_id3v2 bytes)
           in if samples = [] then Inl (Hls_InvalidData ''no MP3 frames found'')
              else Inr \<lparr>rt_timescale = timescale, rt_bytes = bytes, rt_sample_entry = Some (0, entry),
                     rt_samples = samples\<rparr>))"

subsection \<open>AAC\<close>

text \<open>A new entry is allocated whenever the parameters of the frames change.\<close>

type_synonym aac_key = "nat \<times> u8 \<times> u8 \<times> u8"

definition adts_key :: "adts_frame \<Rightarrow> aac_key" where
  "adts_key f = (af_sample_rate f, af_channel_config f, af_audio_object_type f, af_sampling_frequency_index f)"

definition adts_entry :: "adts_frame \<Rightarrow> sample_entry" where
  "adts_entry f = mp4a_entry (word_of_nat (af_sample_rate f)) (af_channel_config f) 16
     (aac_audio_specific_config (af_audio_object_type f) (af_sampling_frequency_index f) (af_channel_config f))"

definition next_entry :: "(aac_key \<times> entry_ref) option \<Rightarrow> adts_frame \<Rightarrow> aac_key \<times> entry_ref" where
  "next_entry current f =
    (case current of
       None \<Rightarrow> (adts_key f, 0, adts_entry f)
     | Some (key, entry) \<Rightarrow> if key = adts_key f then (key, entry) else (adts_key f, fst entry + 1, adts_entry f))"

text \<open>The samples, and the sample rate of the last frame.\<close>

function aac_samples ::
  "u8 list \<Rightarrow> nat \<Rightarrow> (aac_key \<times> entry_ref) option \<Rightarrow> nat option \<Rightarrow> remux_sample list \<times> nat option" where
  "aac_samples bytes offset current rate =
    (if offset + 7 \<le> length bytes then
       case parse_adts_frame (drop offset bytes) of
         None \<Rightarrow> aac_samples bytes (offset + 1) current rate
       | Some frame \<Rightarrow>
           let end' = offset + af_frame_length frame
           in if end' > length bytes \<or> af_frame_length frame \<le> af_header_len frame then ([], rate)
              else
                let entry = next_entry current frame;
                    s = (plain_sample (offset + af_header_len frame) end' (af_samples_per_frame frame))
                          \<lparr>rs_sample_entry := Some (snd entry)\<rparr>
                in map_prod (Cons s) id (aac_samples bytes end' (Some entry) (Some (af_sample_rate frame)))
     else ([], rate))"
  by pat_completeness auto
termination
  by (relation "measure (\<lambda>(bytes, offset, _, _). length bytes - offset)") auto

declare aac_samples.simps [simp del]

definition remux_aac_adts :: "u8 list \<Rightarrow> hls_error + remuxed_track" where
  "remux_aac_adts bytes =
    (case aac_samples bytes 0 None None of
       (_, None) \<Rightarrow> Inl (Hls_InvalidData ''no AAC ADTS frames found'')
     | (samples, Some rate) \<Rightarrow>
         map_sum id (\<lambda>timescale. \<lparr>rt_timescale = timescale, rt_bytes = bytes, rt_sample_entry = None,
           rt_samples = samples\<rparr>) (nonzero (word_of_nat rate)))"

subsection \<open>PCM\<close>

definition default_segment_secs :: nat where
  "default_segment_secs = 6"

function pcm_loop :: "nat \<Rightarrow> nat \<Rightarrow> nat \<Rightarrow> nat \<Rightarrow> remux_sample list" where
  "pcm_loop bytes_per_frame chunk_size offset data_end =
    (if offset < data_end then
       let next_end = min (offset + chunk_size) data_end;
           aligned_end = next_end - (next_end - offset) mod bytes_per_frame;
           end' = (if aligned_end = offset then data_end else aligned_end);
           frame_count = max ((end' - offset) div bytes_per_frame) 1
       in plain_sample offset end' (word_of_nat frame_count) # pcm_loop bytes_per_frame chunk_size end' data_end
     else [])"
  by pat_completeness auto
termination
proof (relation "measure (\<lambda>(_, _, offset, data_end). data_end - offset)", goal_cases)
  case (2 bpf chunk offset data_end next_end aligned_end end' frame_count)
  have "(next_end - offset) mod bpf \<le> next_end - offset" "offset \<le> next_end"
    using 2(1,2) by (simp_all add: mod_less_eq_dividend)
  then have "offset \<le> aligned_end" unfolding 2(3) by linarith
  then have "offset < end'" unfolding 2(4) using 2(1) by simp
  then show ?case using 2(1) by simp
qed simp

declare pcm_loop.simps [simp del]

definition pcm_chunks :: "nat \<Rightarrow> nat \<Rightarrow> nat \<Rightarrow> u32 \<Rightarrow> nat \<Rightarrow> remux_sample list" where
  "pcm_chunks data_start data_end bytes_per_frame sample_rate secs =
    (let frames_per_chunk = unat sample_rate * max secs 1;
         chunk_size = max (frames_per_chunk * bytes_per_frame) bytes_per_frame
     in pcm_loop bytes_per_frame chunk_size data_start data_end)"

definition pcm_bytes_per_sample :: "u8 \<Rightarrow> hls_error + nat" where
  "pcm_bytes_per_sample bit_depth =
    (if bit_depth = 16 then Inr 2
     else if bit_depth = 20 \<or> bit_depth = 24 then Inr 3
     else if bit_depth = 32 then Inr 4
     else Inl (Hls_Unsupported ''ALAC remux only supports 16/20/24/32-bit PCM input''))"

text \<open>\<open>chunks\<close> and \<open>chunks_exact\<close> of a slice, for a positive size.\<close>

function chunks :: "nat \<Rightarrow> 'a list \<Rightarrow> 'a list list" where
  "chunks n xs = (if xs = [] \<or> n = 0 then [] else take n xs # chunks n (drop n xs))"
  by pat_completeness auto
termination
  by (relation "measure (\<lambda>(_, xs). length xs)") auto

declare chunks.simps [simp del]

definition chunks_exact :: "nat \<Rightarrow> 'a list \<Rightarrow> 'a list list" where
  "chunks_exact n xs = filter (\<lambda>c. length c = n) (chunks n xs)"

definition pcm_to_alac_bytes :: "u8 list \<Rightarrow> u8 \<Rightarrow> bool \<Rightarrow> hls_error + u8 list" where
  "pcm_to_alac_bytes pcm bit_depth source_big_endian =
    (case pcm_bytes_per_sample bit_depth of
       Inl e \<Rightarrow> Inl e
     | Inr n \<Rightarrow>
         let target_big_endian = (bit_depth = 20 \<or> bit_depth = 24)
         in if source_big_endian = target_big_endian then Inr pcm
            else Inr (concat (map rev (chunks_exact n pcm))))"

text \<open>The encoder: packet length, its configuration, and the output for a chunk after earlier ones.\<close>

record alac_codec =
  ac_frames_per_packet :: nat
  ac_magic_cookie :: "u8 list"
  ac_encode :: "u8 list list \<Rightarrow> u8 list \<Rightarrow> u8 list"

definition be_u32 :: "nat \<Rightarrow> u8 list" where
  "be_u32 n = map (\<lambda>k. word_of_nat (n div 256 ^ k)) [3, 2, 1, 0]"

fun alac_samples ::
  "(u8 list list \<Rightarrow> u8 list \<Rightarrow> u8 list) \<Rightarrow> nat \<Rightarrow> u8 list list \<Rightarrow> u8 list list \<Rightarrow> u8 list \<Rightarrow> u8 list \<times> remux_sample list" where
  "alac_samples encode bytes_per_frame earlier [] payload = (payload, [])"
| "alac_samples encode bytes_per_frame earlier (c # cs) payload =
    (let frame_count = length c div bytes_per_frame
     in if frame_count = 0 then alac_samples encode bytes_per_frame earlier cs payload
        else
          let payload' = payload @ encode earlier c
          in map_prod id (Cons (plain_sample (length payload) (length payload') (word_of_nat frame_count)))
               (alac_samples encode bytes_per_frame (earlier @ [c]) cs payload'))"

definition remux_pcm_as_alac :: "alac_codec \<Rightarrow> u8 list \<Rightarrow> u32 \<Rightarrow> u8 \<Rightarrow> u8 \<Rightarrow> bool \<Rightarrow> hls_error + remuxed_track" where
  "remux_pcm_as_alac codec pcm sample_rate channels bit_depth source_big_endian =
    (case pcm_bytes_per_sample bit_depth of
       Inl e \<Rightarrow> Inl e
     | Inr n \<Rightarrow>
         let bytes_per_frame = n * unat channels
         in if bytes_per_frame = 0 then Inl (Hls_InvalidData ''PCM frame size must be non-zero'')
            else if length pcm mod bytes_per_frame \<noteq> 0
            then Inl (Hls_InvalidData ''PCM payload was not aligned to whole audio frames'')
            else case pcm_to_alac_bytes pcm bit_depth source_big_endian of
              Inl e \<Rightarrow> Inl e
            | Inr normalized \<Rightarrow>
                let inner = be_u32 (12 + length (ac_magic_cookie codec)) @ magic ''alac'' @ be_u32 0 @ ac_magic_cookie codec;
                    entry = unknown_audio_sample_entry ''alac'' sample_rate channels bit_depth inner
                in case alac_samples (ac_encode codec) bytes_per_frame []
                          (chunks (ac_frames_per_packet codec * bytes_per_frame) normalized) [] of
                     (payload, samples) \<Rightarrow>
                       if samples = [] then Inl (Hls_InvalidData ''no ALAC packets were produced from PCM input'')
                       else map_sum id (\<lambda>timescale. \<lparr>rt_timescale = timescale, rt_bytes = payload,
                              rt_sample_entry = Some (0, entry), rt_samples = samples\<rparr>) (nonzero sample_rate))"

text \<open>
  WAV and AIFF alike, once the header has been read. \<open>None\<close> is the panic of the slice
  \<open>&bytes[data_offset..data_offset + data_len]\<close>.
\<close>

definition remux_pcm ::
  "alac_codec \<Rightarrow> bool \<Rightarrow> u8 list \<Rightarrow> file_properties \<Rightarrow> pcm_info \<Rightarrow> (hls_error + remuxed_track) option" where
  "remux_pcm codec big_endian bytes props info =
    (let sample_rate = unwrap_or (fp_sample_rate props) (pi_sample_rate info);
         channels = unwrap_or (fp_channels props) (pi_channels info);
         bit_depth = unwrap_or (fp_bit_depth props) (pi_bits_per_sample info);
         data_end = pi_data_offset info + pi_data_len info
     in if sample_rate > 0xFFFF then
          (if data_end > length bytes then None
           else Some (remux_pcm_as_alac codec (slice (pi_data_offset info) data_end bytes)
                        sample_rate channels bit_depth big_endian))
        else Some (map_sum id (\<lambda>timescale.
          \<lparr>rt_timescale = timescale, rt_bytes = bytes,
           rt_sample_entry = Some (0, unknown_audio_sample_entry ''lpcm'' sample_rate channels bit_depth []),
           rt_samples = pcm_chunks (pi_data_offset info) data_end
             (max (unat channels * unat bit_depth div 8) 1) sample_rate default_segment_secs\<rparr>) (nonzero sample_rate)))"

definition remux_wav :: "alac_codec \<Rightarrow> u8 list \<Rightarrow> file_properties \<Rightarrow> (hls_error + remuxed_track) option" where
  "remux_wav codec bytes props = (case parse_wav_pcm bytes of
     Inl e \<Rightarrow> Some (Inl e) | Inr info \<Rightarrow> remux_pcm codec False bytes props info)"

definition remux_aiff :: "alac_codec \<Rightarrow> u8 list \<Rightarrow> file_properties \<Rightarrow> (hls_error + remuxed_track) option" where
  "remux_aiff codec bytes props = (case parse_aiff_pcm bytes of
     Inl e \<Rightarrow> Some (Inl e) | Inr info \<Rightarrow> remux_pcm codec True bytes props info)"

subsection \<open>Opus and MP4\<close>

fun opus_samples :: "u8 list list \<Rightarrow> u8 list \<Rightarrow> u8 list \<times> remux_sample list" where
  "opus_samples [] payload = (payload, [])"
| "opus_samples (packet # packets) payload =
    (let payload' = payload @ packet
     in map_prod id (Cons (plain_sample (length payload) (length payload') (max (opus_packet_duration packet) 1)))
          (opus_samples packets payload'))"

definition remux_opus :: "u8 list \<Rightarrow> file_properties \<Rightarrow> hls_error + remuxed_track" where
  "remux_opus bytes props =
    (case parse_ogg_opus_packets bytes of
       Inl e \<Rightarrow> Inl e
     | Inr opus \<Rightarrow>
         let channels = unwrap_or (fp_channels props) (oo_channels opus);
             entry = Entry_Opus (ucast channels) (ucast (unwrap_or (fp_bit_depth props) 16)) channels (oo_pre_skip opus)
         in case opus_samples (oo_packets opus) [] of
              (payload, samples) \<Rightarrow>
                if samples = [] then Inl (Hls_InvalidData ''no Opus packets found'')
                else map_sum id (\<lambda>timescale. \<lparr>rt_timescale = timescale, rt_bytes = payload,
                       rt_sample_entry = Some (0, entry), rt_samples = samples\<rparr>) (nonzero 48000))"

text \<open>What the demuxer yields for the samples of a file, in order.\<close>

record demuxed_sample =
  ds_track_id :: nat
  ds_sample_entry :: "nat option"
  ds_data_offset :: nat
  ds_data_size :: nat
  ds_duration :: u32
  ds_keyframe :: bool
  ds_composition_time_offset :: "int option"

text \<open>\<open>demux\<close> is the first audio track, if any, with its timescale, and the samples of all tracks.\<close>

fun mp4_samples :: "nat \<Rightarrow> nat \<Rightarrow> entry_ref option \<Rightarrow> demuxed_sample list \<Rightarrow> hls_error + remux_sample list" where
  "mp4_samples len track_id current [] = Inr []"
| "mp4_samples len track_id current (d # ds) =
    (if ds_track_id d \<noteq> track_id then mp4_samples len track_id current ds
     else
       let current = (case ds_sample_entry d of
             Some e \<Rightarrow> Some ((case current of None \<Rightarrow> 0 | Some (k, _) \<Rightarrow> k + 1), Entry_Demuxed e)
           | None \<Rightarrow> current)
       in case current of
            None \<Rightarrow> Inl (Hls_InvalidData ''audio sample missing sample entry in mp4 source'')
          | Some entry \<Rightarrow>
              let end' = usize_saturating_add (ds_data_offset d) (ds_data_size d)
              in if end' > len then Inl (Hls_InvalidData ''mp4 sample range exceeded source file'')
                 else map_sum id (Cons \<lparr>rs_range = (ds_data_offset d, end'), rs_duration = ds_duration d,
                        rs_sample_entry = Some entry, rs_keyframe = ds_keyframe d,
                        rs_composition_time_offset = ds_composition_time_offset d\<rparr>)
                      (mp4_samples len track_id current ds))"

definition remux_mp4 :: "u8 list \<Rightarrow> (nat \<times> u32) option \<Rightarrow> demuxed_sample list \<Rightarrow> hls_error + remuxed_track" where
  "remux_mp4 bytes audio demuxed =
    (case audio of
       None \<Rightarrow> Inl (Hls_InvalidData ''mp4 did not contain an audio track'')
     | Some (track_id, timescale) \<Rightarrow>
         (case mp4_samples (length bytes) track_id None demuxed of
            Inl e \<Rightarrow> Inl e
          | Inr samples \<Rightarrow>
              if samples = [] then Inl (Hls_InvalidData ''mp4 source did not yield any audio samples'')
              else Inr \<lparr>rt_timescale = timescale, rt_bytes = bytes, rt_sample_entry = None, rt_samples = samples\<rparr>))"

datatype file_type = Ft_Flac | Ft_Mpeg | Ft_Aac | Ft_Wav | Ft_Aiff | Ft_Opus | Ft_Mp4 | Ft_Other

definition remux_source ::
  "alac_codec \<Rightarrow> (u8 list \<Rightarrow> (nat \<times> u32) option \<times> demuxed_sample list) \<Rightarrow> file_type \<Rightarrow> file_properties
    \<Rightarrow> u8 list \<Rightarrow> (hls_error + remuxed_track) option" where
  "remux_source codec demux ft props bytes =
    (case ft of
       Ft_Flac \<Rightarrow> Some (remux_flac bytes props)
     | Ft_Mpeg \<Rightarrow> Some (remux_mp3 bytes props)
     | Ft_Aac \<Rightarrow> Some (remux_aac_adts bytes)
     | Ft_Wav \<Rightarrow> remux_wav codec bytes props
     | Ft_Aiff \<Rightarrow> remux_aiff codec bytes props
     | Ft_Opus \<Rightarrow> Some (remux_opus bytes props)
     | Ft_Mp4 \<Rightarrow> Some (case demux bytes of (audio, demuxed) \<Rightarrow> remux_mp4 bytes audio demuxed)
     | Ft_Other \<Rightarrow> Some (Inl (Hls_Unsupported ''file type is not supported for HLS remux'')))"


end
