(* ===== verification/Ws_Session.thy ===== *)
theory Ws_Session
  imports Core_Runs
begin

text \<open>
  The WebSocket sessions of the server (\<open>kanade-adapter-ws/src/command.rs\<close>, and from
  \<open>server.rs\<close>: \<open>MediaKeyStore\<close>, the owners of local sessions, \<open>dispatch_command\<close> and the end of
  \<open>run_ui_mode\<close>). A connection is named by the id of the key generated for it. Errors of the
  core are logged by the source and dropped here. Time is in seconds.
\<close>

subsection \<open>Media keys\<close>

text \<open>A key id names a key and the time it was made.\<close>

type_synonym key_store = "string \<rightharpoonup> (u8 list \<times> nat)"

definition ks_generate :: "string \<Rightarrow> u8 list \<Rightarrow> nat \<Rightarrow> key_store \<Rightarrow> key_store" where
  "ks_generate kid key now ks = ks(kid \<mapsto> (key, now))"

definition ks_get :: "string \<Rightarrow> key_store \<Rightarrow> u8 list option" where
  "ks_get kid ks = map_option fst (ks kid)"

definition ks_revoke :: "string \<Rightarrow> key_store \<Rightarrow> key_store" where
  "ks_revoke kid ks = ks(kid := None)"

definition ks_cleanup_expired :: "nat \<Rightarrow> nat \<Rightarrow> key_store \<Rightarrow> key_store" where
  "ks_cleanup_expired now max_age ks = (\<lambda>kid. case ks kid of
     None \<Rightarrow> None
   | Some (key, created_at) \<Rightarrow> if now - created_at \<le> max_age then Some (key, created_at) else None)"

definition media_url_ttl_secs :: nat where
  "media_url_ttl_secs = 900"

text \<open>The server's cleanup task calls \<open>cleanup_expired\<close> with this age.\<close>

definition key_max_age :: nat where
  "key_max_age = media_url_ttl_secs + 300"

definition key_broadcast_interval :: nat where
  "key_broadcast_interval = 10 * 60"

definition key_overlap :: nat where
  "key_overlap = 5 * 60"

text \<open>The rotation of a node connection's key: the new one becomes active, the old one is revoked
  after the overlap.\<close>

record key_rotation =
  kr_active :: string
  kr_issued :: "string list"
  kr_revoke_at :: "(nat \<times> string) list"

definition start_rotation :: "string \<Rightarrow> key_rotation" where
  "start_rotation kid = \<lparr>kr_active = kid, kr_issued = [kid], kr_revoke_at = []\<rparr>"

definition rotate_key ::
  "string \<Rightarrow> u8 list \<Rightarrow> nat \<Rightarrow> bool \<Rightarrow> key_rotation \<times> key_store \<Rightarrow> key_rotation \<times> key_store" where
  "rotate_key kid key now sent = (\<lambda>(r, ks).
    let ks = ks_generate kid key now ks
    in if sent
       then (r\<lparr>kr_active := kid, kr_issued := kr_issued r @ [kid],
               kr_revoke_at := kr_revoke_at r @ [(now + key_overlap, kr_active r)]\<rparr>, ks)
       else (r, ks_revoke kid ks))"

definition end_rotation :: "key_rotation \<times> key_store \<Rightarrow> key_store" where
  "end_rotation = (\<lambda>(r, ks). fold ks_revoke (kr_issued r) ks)"

subsection \<open>Commands\<close>

datatype ws_command =
    Ws_Play | Ws_Pause | Ws_Stop | Ws_Next | Ws_Previous
  | Ws_Seek f64
  | Ws_SetVolume u8
  | Ws_SetRepeat repeat_mode
  | Ws_SetShuffle bool
  | Ws_SelectNode string
  | Ws_AddToQueue track
  | Ws_AddTracksToQueue "track list"
  | Ws_PlayIndex usize
  | Ws_RemoveFromQueue usize
  | Ws_MoveInQueue usize usize
  | Ws_ClearQueue
  | Ws_ReplaceAndPlay "track list" usize
  | Ws_LocalSessionStart string "string option"
  | Ws_LocalSessionStop
  | Ws_LocalSessionUpdate "track list option" "usize option" f64 playback_status u8 repeat_mode bool
  | Ws_Handoff string string
  | Ws_CreatePlaylist string "string option" playlist_kind
  | Ws_UpdatePlaylist string "string option" "string option option" "playlist_kind option"
  | Ws_DeletePlaylist string
  | Ws_SetPlaylistTracks string "string list"
  | Ws_AppendPlaylistTracks string "string list"
  | Ws_RemovePlaylistTrack string usize
  | Ws_MovePlaylistTrack string usize usize

fun is_playlist_command :: "ws_command \<Rightarrow> bool" where
  "is_playlist_command (Ws_CreatePlaylist _ _ _) = True"
| "is_playlist_command (Ws_UpdatePlaylist _ _ _ _) = True"
| "is_playlist_command (Ws_DeletePlaylist _) = True"
| "is_playlist_command (Ws_SetPlaylistTracks _ _) = True"
| "is_playlist_command (Ws_AppendPlaylistTracks _ _) = True"
| "is_playlist_command (Ws_RemovePlaylistTrack _ _) = True"
| "is_playlist_command (Ws_MovePlaylistTrack _ _ _) = True"
| "is_playlist_command _ = False"

text \<open>The commands that act on the selected node's playback or queue.\<close>

fun is_queue_op :: "ws_command \<Rightarrow> bool" where
  "is_queue_op Ws_Play = True"
| "is_queue_op Ws_Pause = True"
| "is_queue_op Ws_Stop = True"
| "is_queue_op Ws_Next = True"
| "is_queue_op Ws_Previous = True"
| "is_queue_op (Ws_Seek _) = True"
| "is_queue_op (Ws_SetVolume _) = True"
| "is_queue_op (Ws_SetRepeat _) = True"
| "is_queue_op (Ws_SetShuffle _) = True"
| "is_queue_op (Ws_AddToQueue _) = True"
| "is_queue_op (Ws_AddTracksToQueue _) = True"
| "is_queue_op (Ws_PlayIndex _) = True"
| "is_queue_op (Ws_RemoveFromQueue _) = True"
| "is_queue_op (Ws_MoveInQueue _ _) = True"
| "is_queue_op Ws_ClearQueue = True"
| "is_queue_op (Ws_ReplaceAndPlay _ _) = True"
| "is_queue_op _ = False"

subsection \<open>Owners of local sessions\<close>

type_synonym owners = "string \<rightharpoonup> string"

definition claim_owner :: "string \<Rightarrow> string \<Rightarrow> owners \<Rightarrow> owners" where
  "claim_owner nid conn ow = ow(nid \<mapsto> conn)"

definition release_owner :: "string \<Rightarrow> string \<Rightarrow> owners \<Rightarrow> owners" where
  "release_owner nid conn ow = (if ow nid = Some conn then ow(nid := None) else ow)"

record 'w session =
  se_core :: "'w core"
  se_owners :: owners
  se_local_node_id :: "string option"

definition on_core :: "('w, 'a) core_io \<Rightarrow> 'w session \<Rightarrow> 'w session" where
  "on_core m s = s\<lparr>se_core := run m (se_core s)\<rparr>"

definition conflicting_owner :: "string \<Rightarrow> string \<Rightarrow> 'w session \<Rightarrow> bool" where
  "conflicting_owner did conn s =
    list_ex (\<lambda>n. nd_node_type n = Local \<and> nd_device_id n = Some did \<and>
        (case se_owners s (nd_id n) of None \<Rightarrow> False | Some o' \<Rightarrow> o' \<noteq> conn))
      (st_nodes (co_state (se_core s)))"

definition start_session :: "string \<Rightarrow> string \<Rightarrow> string option \<Rightarrow> string \<Rightarrow> 'w session \<Rightarrow> 'w session" where
  "start_session uuid name did conn s =
    (case local_session_start uuid name did (se_core s) of (nid, c) \<Rightarrow>
       let ow = (case se_local_node_id s of
                   Some old \<Rightarrow> if old \<noteq> nid then release_owner old conn (se_owners s) else se_owners s
                 | None \<Rightarrow> se_owners s)
       in s\<lparr>se_core := c, se_local_node_id := Some nid, se_owners := claim_owner nid conn ow\<rparr>)"

definition stop_session :: "string \<Rightarrow> 'w session \<Rightarrow> 'w session" where
  "stop_session conn s =
    (case se_local_node_id s of
       None \<Rightarrow> s
     | Some nid \<Rightarrow>
         (if se_owners s nid = Some conn
          then (on_core (local_session_stop nid) s)\<lparr>se_owners := release_owner nid conn (se_owners s)\<rparr>
          else s)\<lparr>se_local_node_id := None\<rparr>)"

definition update_session ::
  "track list option \<Rightarrow> usize option \<Rightarrow> f64 \<Rightarrow> playback_status \<Rightarrow> u8 \<Rightarrow> repeat_mode \<Rightarrow> bool \<Rightarrow> string
    \<Rightarrow> 'w session \<Rightarrow> 'w session" where
  "update_session ts idx pos st vol rep shuf conn s =
    (case se_local_node_id s of
       None \<Rightarrow> s
     | Some nid \<Rightarrow>
         if se_owners s nid = Some conn
         then (case local_session_update nid ts idx pos st vol rep shuf (se_core s) of (r, c) \<Rightarrow>
                 let s = s\<lparr>se_core := c\<rparr>
                 in if r = Inl LocalSessionNotFound
                    then s\<lparr>se_owners := release_owner nid conn (se_owners s), se_local_node_id := None\<rparr>
                    else s)
         else s\<lparr>se_local_node_id := None\<rparr>)"

text \<open>A queue command for a selected local node that is not this connection's is rejected.\<close>

definition rejected :: "ws_command \<Rightarrow> 'w session \<Rightarrow> bool" where
  "rejected cmd s \<longleftrightarrow> is_queue_op cmd \<and>
    (case st_selected_node_id (co_state (se_core s)) of
       None \<Rightarrow> False
     | Some sel \<Rightarrow> (case find_node (co_state (se_core s)) sel of
         None \<Rightarrow> False
       | Some n \<Rightarrow> nd_node_type n = Local \<and> se_local_node_id s \<noteq> Some sel))"

fun execute :: "string \<Rightarrow> string \<Rightarrow> ws_command \<Rightarrow> 'w session \<Rightarrow> 'w session" where
  "execute uuid conn Ws_Play s = on_core core_play s"
| "execute uuid conn Ws_Pause s = on_core core_pause s"
| "execute uuid conn Ws_Stop s = on_core core_stop s"
| "execute uuid conn Ws_Next s = on_core core_next s"
| "execute uuid conn Ws_Previous s = on_core core_previous s"
| "execute uuid conn (Ws_Seek p) s = on_core (core_seek p) s"
| "execute uuid conn (Ws_SetVolume v) s = on_core (core_set_volume v) s"
| "execute uuid conn (Ws_SetRepeat r) s = on_core (set_repeat r) s"
| "execute uuid conn (Ws_SetShuffle b) s = on_core (set_shuffle b) s"
| "execute uuid conn (Ws_SelectNode i) s = on_core (select_node i) s"
| "execute uuid conn (Ws_AddToQueue t) s = on_core (add_to_queue t) s"
| "execute uuid conn (Ws_AddTracksToQueue ts) s = on_core (add_tracks_to_queue ts) s"
| "execute uuid conn (Ws_PlayIndex k) s = on_core (play_index k) s"
| "execute uuid conn (Ws_RemoveFromQueue k) s = on_core (remove_from_queue k) s"
| "execute uuid conn (Ws_MoveInQueue i j) s = on_core (move_in_queue i j) s"
| "execute uuid conn Ws_ClearQueue s = on_core clear_queue s"
| "execute uuid conn (Ws_ReplaceAndPlay ts k) s = on_core (core_set_queue ts (Some k)) s"
| "execute uuid conn (Ws_LocalSessionStart name did) s =
    (case did of
       Some d \<Rightarrow> if conflicting_owner d conn s then s else start_session uuid name (Some d) conn s
     | None \<Rightarrow> start_session uuid name None conn s)"
| "execute uuid conn Ws_LocalSessionStop s = stop_session conn s"
| "execute uuid conn (Ws_LocalSessionUpdate ts idx pos st vol rep shuf) s =
    update_session ts idx pos st vol rep shuf conn s"
| "execute uuid conn (Ws_Handoff src dst) s = on_core (handoff src dst) s"
| "execute uuid conn _ s = s"

definition dispatch_command :: "string \<Rightarrow> string \<Rightarrow> ws_command \<Rightarrow> 'w session \<Rightarrow> 'w session" where
  "dispatch_command uuid conn cmd s = (if rejected cmd s then s else execute uuid conn cmd s)"

text \<open>The end of \<open>run_ui_mode\<close>.\<close>

definition end_session :: "nat \<Rightarrow> string \<Rightarrow> 'w session \<Rightarrow> 'w session" where
  "end_session now conn s =
    (case se_local_node_id s of
       None \<Rightarrow> s
     | Some nid \<Rightarrow> on_core (local_session_disconnect (int now) nid)
                    (s\<lparr>se_owners := release_owner nid conn (se_owners s)\<rparr>))"

subsection \<open>Rejection\<close>

lemma rejected_unchanged: "rejected cmd s \<Longrightarrow> dispatch_command uuid conn cmd s = s"
  by (simp add: dispatch_command_def)

text \<open>A connection with no local session cannot play on a selected local node, nor edit its queue.\<close>

lemma stranger_rejected:
  assumes "is_queue_op cmd" "st_selected_node_id (co_state (se_core s)) = Some sel"
    "find_node (co_state (se_core s)) sel = Some n" "nd_node_type n = Local"
    "se_local_node_id s \<noteq> Some sel"
  shows "dispatch_command uuid conn cmd s = s"
  using assms by (simp add: dispatch_command_def rejected_def)

subsection \<open>Ownership\<close>

text \<open>Playback, queue and playlist commands leave the sessions alone.\<close>

lemma on_core_session [simp]:
  "se_owners (on_core m s) = se_owners s" "se_local_node_id (on_core m s) = se_local_node_id s"
  "se_core (on_core m s) = run m (se_core s)"
  by (simp_all add: on_core_def)

lemma release_owner_other: "ow m \<noteq> Some conn \<Longrightarrow> release_owner nid conn ow m = ow m"
  by (auto simp: release_owner_def)

lemma claim_owner_apply: "claim_owner nid conn ow m = (if m = nid then Some conn else ow m)"
  by (simp add: claim_owner_def)

text \<open>The node a start command would claim belongs to no other connection.\<close>

definition claimable :: "string \<Rightarrow> string \<Rightarrow> ws_command \<Rightarrow> 'w session \<Rightarrow> bool" where
  "claimable uuid conn cmd s =
    (case cmd of
       Ws_LocalSessionStart name did \<Rightarrow>
         se_owners s (fst (local_session_start uuid name did (se_core s))) \<in> {None, Some conn}
     | _ \<Rightarrow> True)"

text \<open>No command takes a session away from another connection.\<close>

lemma others_keep_sessions:
  assumes "claimable uuid conn cmd s" "se_owners s m = Some other" "other \<noteq> conn"
  shows "se_owners (dispatch_command uuid conn cmd s) m = Some other"
proof -
  have "se_owners (execute uuid conn cmd s) m = Some other"
  proof (cases cmd)
    case (Ws_LocalSessionStart name did)
    obtain nid c where l: "local_session_start uuid name did (se_core s) = (nid, c)"
      by (cases "local_session_start uuid name did (se_core s)")
    have "m \<noteq> nid" using assms by (auto simp: claimable_def Ws_LocalSessionStart l)
    then have "se_owners (start_session uuid name did conn s) m = Some other"
      using assms(2,3) by (auto simp: start_session_def l claim_owner_apply release_owner_other split: option.split)
    then show ?thesis using assms(2) by (cases did) (auto simp: Ws_LocalSessionStart)
  next
    case (Ws_LocalSessionUpdate ts idx pos st vol rep shuf)
    then show ?thesis using assms(2,3)
      by (auto simp: update_session_def Let_def release_owner_other split: option.split prod.split)
  qed (use assms(2,3) in \<open>auto simp: stop_session_def release_owner_other split: option.split\<close>)
  then show ?thesis using assms(2) by (simp add: dispatch_command_def)
qed

text \<open>The owner recorded for the connection's own node is the connection itself.\<close>

definition session_ok :: "string \<Rightarrow> 'w session \<Rightarrow> bool" where
  "session_ok conn s \<longleftrightarrow> (\<forall>nid. (se_local_node_id s = Some nid) \<longleftrightarrow> (se_owners s nid = Some conn))"

lemma session_okD: "session_ok conn s \<Longrightarrow> (se_owners s nid = Some conn) = (se_local_node_id s = Some nid)"
  by (simp add: session_ok_def)

lemma session_okI:
  "(\<And>nid. (se_owners s nid = Some conn) = (se_local_node_id s = Some nid)) \<Longrightarrow> session_ok conn s"
  by (simp add: session_ok_def)

lemma session_ok_release:
  assumes "session_ok conn s" "se_local_node_id s = Some nid"
  shows "release_owner nid conn (se_owners s) m \<noteq> Some conn"
  using assms session_okD [OF assms(1)] by (simp add: release_owner_def)

lemma session_ok_core [simp]: "session_ok conn (s\<lparr>se_core := c\<rparr>) = session_ok conn s"
  "session_ok conn (on_core m s) = session_ok conn s"
  by (simp_all add: session_ok_def)

lemma session_ok_none:
  assumes "\<And>m. ow m \<noteq> Some conn"
  shows "session_ok conn (s\<lparr>se_owners := ow, se_local_node_id := None\<rparr>)"
  using assms by (simp add: session_ok_def)

lemma session_ok_start:
  assumes "session_ok conn s"
  shows "session_ok conn (start_session uuid name did conn s)"
proof -
  obtain nid c where l: "local_session_start uuid name did (se_core s) = (nid, c)"
    by (cases "local_session_start uuid name did (se_core s)")
  show ?thesis
  proof (cases "se_local_node_id s")
    case None
    then show ?thesis using session_okD [OF assms]
      by (intro session_okI) (simp add: start_session_def l claim_owner_apply)
  next
    case (Some old)
    then show ?thesis using session_okD [OF assms] session_ok_release [OF assms Some]
      by (intro session_okI) (simp add: start_session_def l claim_owner_apply)
  qed
qed

lemma session_ok_stop:
  assumes "session_ok conn s"
  shows "session_ok conn (stop_session conn s)"
proof (cases "se_local_node_id s")
  case (Some nid)
  then have "se_owners s nid = Some conn" using session_okD [OF assms] by simp
  with Some session_ok_release [OF assms Some] show ?thesis
    by (simp add: stop_session_def session_ok_def)
qed (use assms in \<open>simp add: stop_session_def\<close>)

lemma session_ok_update:
  assumes "session_ok conn s"
  shows "session_ok conn (update_session ts idx pos st vol rep shuf conn s)"
proof (cases "se_local_node_id s")
  case (Some nid)
  obtain r c where u: "local_session_update nid ts idx pos st vol rep shuf (se_core s) = (r, c)"
    by (cases "local_session_update nid ts idx pos st vol rep shuf (se_core s)")
  have "se_owners s nid = Some conn" using Some session_okD [OF assms] by simp
  with Some assms session_ok_release [OF assms Some] show ?thesis
    by (simp add: update_session_def u Let_def session_ok_none)
qed (use assms in \<open>simp add: update_session_def\<close>)

lemma session_ok_dispatch:
  assumes "session_ok conn s"
  shows "session_ok conn (dispatch_command uuid conn cmd s)"
proof -
  have "session_ok conn (execute uuid conn cmd s)"
    using assms by (cases cmd) (simp_all add: session_ok_start session_ok_stop session_ok_update split: option.split)
  then show ?thesis using assms by (simp add: dispatch_command_def)
qed

lemma end_session_releases:
  assumes "session_ok conn s"
  shows "se_owners (end_session now conn s) nid \<noteq> Some conn"
proof (cases "se_local_node_id s")
  case (Some m)
  then show ?thesis using session_ok_release [OF assms Some] by (simp add: end_session_def)
qed (use session_okD [OF assms] in \<open>simp add: end_session_def\<close>)

text \<open>
  A connection that starts a second session under another id leaves the node of the first one
  behind: still marked connected, so that the cleanup never removes it, and owned by nobody.
\<close>

lemma restart_leaves_node:
  assumes "se_local_node_id s = Some old" "se_owners s old = Some conn"
    "find_node (co_state (se_core s)) old = Some n" "nd_connected n" "old \<noteq> ''local-'' @ uuid"
  shows "find_node (co_state (se_core (dispatch_command uuid conn (Ws_LocalSessionStart name None) s))) old = Some n"
    "se_owners (dispatch_command uuid conn (Ws_LocalSessionStart name None) s) old = None"
    "\<not> expired cutoff n"
  using assms
  by (simp_all add: dispatch_command_def rejected_def start_session_def local_session_start_def Let_def
      claim_owner_apply release_owner_def expired_def find_node_def find_append)

subsection \<open>Keys over time\<close>

lemma ks_cleanup_young: "ks kid = Some (key, t) \<Longrightarrow> now - t \<le> max_age \<Longrightarrow>
    ks_get kid (ks_cleanup_expired now max_age ks) = Some key"
  by (simp add: ks_get_def ks_cleanup_expired_def)

lemma ks_cleanup_old: "ks kid = Some (key, t) \<Longrightarrow> max_age < now - t \<Longrightarrow>
    ks_get kid (ks_cleanup_expired now max_age ks) = None"
  by (simp add: ks_get_def ks_cleanup_expired_def)

text \<open>A node's active key is announced anew before the cleanup could remove it.\<close>

lemma interval_within_age: "key_broadcast_interval + 600 \<le> key_max_age"
  by (simp add: key_broadcast_interval_def key_max_age_def media_url_ttl_secs_def)

lemma rotated_key_valid:
  assumes "now \<le> t + key_broadcast_interval + 600"
  shows "ks_get kid (ks_cleanup_expired now key_max_age (snd (rotate_key kid key t True (r, ks)))) = Some key"
  using assms by (simp add: rotate_key_def ks_generate_def ks_get_def ks_cleanup_expired_def
      key_broadcast_interval_def key_max_age_def media_url_ttl_secs_def)

lemma fold_revoke: "fold ks_revoke kids ks kid = (if kid \<in> set kids then None else ks kid)"
  by (induction kids arbitrary: ks) (auto simp: ks_revoke_def)

text \<open>When the connection ends, none of the keys it announced is left.\<close>

lemma end_rotation_revokes: "kid \<in> set (kr_issued r) \<Longrightarrow> ks_get kid (end_rotation (r, ks)) = None"
  by (simp add: end_rotation_def fold_revoke ks_get_def)

lemma active_issued:
  "kr_active r \<in> set (kr_issued r) \<Longrightarrow> kr_active (fst (rotate_key kid key now sent (r, ks))) \<in>
    set (kr_issued (fst (rotate_key kid key now sent (r, ks))))"
  by (simp add: rotate_key_def Let_def)

end
