(* ===== verification/Media.thy ===== *)
theory Media
  imports Text Model Ws_Session
begin

text \<open>
  The media endpoint of the WebSocket server (\<open>kanade-adapter-ws/src/server.rs\<close>): signed URLs,
  the paths that may be signed, byte ranges, streamed bodies and responses. HMAC-SHA256, which the
  \<open>hmac\<close> crate computes, is the parameter \<open>hmac\<close>; the file system is the parameter \<open>fs\<close> from
  paths to contents; the tables of the library are lists.
\<close>

subsection \<open>Lookups\<close>

record library =
  lib_tracks :: "track list"
  lib_albums :: "album list"

definition get_track_by_id :: "library \<Rightarrow> string \<Rightarrow> track option" where
  "get_track_by_id lib i = find (\<lambda>t. tr_id t = i) (lib_tracks lib)"

definition get_track_by_path :: "library \<Rightarrow> string \<Rightarrow> track option" where
  "get_track_by_path lib p = find (\<lambda>t. tr_file_path t = p) (lib_tracks lib)"

definition get_album_by_id :: "library \<Rightarrow> string \<Rightarrow> album option" where
  "get_album_by_id lib i = find (\<lambda>a. al_id a = i) (lib_albums lib)"

type_synonym file_system = "string \<Rightarrow> u8 list option"

definition is_known_track_id :: "library \<Rightarrow> string \<Rightarrow> bool" where
  "is_known_track_id lib i = (get_track_by_id lib i \<noteq> None)"

definition is_known_album_id :: "library \<Rightarrow> string \<Rightarrow> bool" where
  "is_known_album_id lib i = (get_album_by_id lib i \<noteq> None)"

definition is_known_track_file :: "file_system \<Rightarrow> library \<Rightarrow> string \<Rightarrow> bool" where
  "is_known_track_file fs lib p = (fs p \<noteq> None \<and> get_track_by_path lib p \<noteq> None)"

subsection \<open>UTF-8 and percent decoding\<close>

definition is_cont :: "char \<Rightarrow> bool" where
  "is_cont c \<longleftrightarrow> 128 \<le> byte_of c \<and> byte_of c \<le> 191"

text \<open>Well-formed UTF-8: no overlong forms, no surrogates, nothing above U+10FFFF.\<close>

fun utf8_valid :: "string \<Rightarrow> bool" where
  "utf8_valid [] = True"
| "utf8_valid (c # s) = (let b = byte_of c in
    if b < 128 then utf8_valid s
    else if 194 \<le> b \<and> b \<le> 223 then (case s of d # s \<Rightarrow> is_cont d \<and> utf8_valid s | _ \<Rightarrow> False)
    else if 224 \<le> b \<and> b \<le> 239 then (case s of d # e # s \<Rightarrow>
        is_cont d \<and> (b = 224 \<longrightarrow> 160 \<le> byte_of d) \<and> (b = 237 \<longrightarrow> byte_of d \<le> 159) \<and> is_cont e \<and> utf8_valid s
      | _ \<Rightarrow> False)
    else if 240 \<le> b \<and> b \<le> 244 then (case s of d # e # f # s \<Rightarrow>
        is_cont d \<and> (b = 240 \<longrightarrow> 144 \<le> byte_of d) \<and> (b = 244 \<longrightarrow> byte_of d \<le> 143) \<and> is_cont e \<and> is_cont f \<and> utf8_valid s
      | _ \<Rightarrow> False)
    else False)"

text \<open>\<open>u8::from_str_radix(_, 16)\<close> on two bytes: a plus sign is accepted before a single digit.\<close>

definition hex_pair :: "char \<Rightarrow> char \<Rightarrow> nat option" where
  "hex_pair c d =
    (if c = CHR ''+'' then hex_val d
     else case (hex_val c, hex_val d) of (Some h, Some l) \<Rightarrow> Some (16 * h + l) | _ \<Rightarrow> None)"

text \<open>
  The loop of \<open>percent_decode\<close>. \<open>None\<close> is the panic of the slice \<open>&input[i + 1..i + 3]\<close> when its
  end is inside a character.
\<close>

fun percent_bytes :: "string \<Rightarrow> string option" where
  "percent_bytes [] = Some []"
| "percent_bytes (c # s) =
    (case s of
       d # e # rest \<Rightarrow>
         if c = CHR ''%'' then
           (if rest \<noteq> [] \<and> is_cont (hd rest) then None
            else case hex_pair d e of
              Some n \<Rightarrow> map_option (Cons (chr n)) (percent_bytes rest)
            | None \<Rightarrow> map_option (Cons c) (percent_bytes s))
         else map_option (Cons c) (percent_bytes s)
     | _ \<Rightarrow> map_option (Cons c) (percent_bytes s))"

definition percent_decode :: "string \<Rightarrow> string option" where
  "percent_decode s = map_option (\<lambda>r. if utf8_valid r then r else []) (percent_bytes s)"

subsection \<open>Paths that may be signed\<close>

definition single_path_segment :: "string \<Rightarrow> string \<Rightarrow> string option" where
  "single_path_segment path pre =
    (case strip_prefix pre path of
       None \<Rightarrow> None
     | Some seg \<Rightarrow> if seg = [] \<or> CHR ''/'' \<in> set seg \<or> contains ''..'' seg then None else Some seg)"

definition hls_track_id :: "string \<Rightarrow> string option" where
  "hls_track_id path =
    (case strip_prefix ''/media/hls/'' path of
       None \<Rightarrow> None
     | Some rest \<Rightarrow>
         (case split_on (CHR ''/'') rest of
            [track_id, variant, resource] \<Rightarrow>
              if track_id = [] \<or> variant = [] \<or> contains ''..'' track_id \<or> contains ''..'' variant then None
              else if resource = ''index.m3u8'' \<or> resource = ''init.mp4'' \<or>
                      (prefix ''seg'' resource \<and> suffix ''.m4s'' resource)
                   then Some track_id else None
          | _ \<Rightarrow> None))"

definition is_valid_media_file_path :: "string \<Rightarrow> bool" where
  "is_valid_media_file_path p \<longleftrightarrow> p \<noteq> [] \<and> CHR 0x00 \<notin> set p \<and> \<not> contains ''..'' p"

text \<open>A panic of \<open>percent_decode\<close> is the result \<open>None\<close>.\<close>

definition is_signable_media_path :: "file_system \<Rightarrow> library \<Rightarrow> string \<Rightarrow> bool option" where
  "is_signable_media_path fs lib path =
    (if path = [] \<or> CHR ''?'' \<in> set path \<or> CHR ''#'' \<in> set path \<or> CHR 0x00 \<in> set path then Some False
     else case single_path_segment path ''/media/tracks/'' of
       Some track_id \<Rightarrow> Some (is_known_track_id lib track_id)
     | None \<Rightarrow> (case single_path_segment path ''/media/art/'' of
         Some album_id \<Rightarrow> Some (is_known_album_id lib album_id)
       | None \<Rightarrow> (case hls_track_id path of
           Some track_id \<Rightarrow> Some (is_known_track_id lib track_id)
         | None \<Rightarrow> (case strip_prefix ''/media/file/'' path of
             Some raw \<Rightarrow> map_option (\<lambda>d. is_valid_media_file_path d \<and> is_known_track_file fs lib d) (percent_decode raw)
           | None \<Rightarrow> Some False))))"

subsection \<open>Signatures\<close>

type_synonym mac = "u8 list \<Rightarrow> string \<Rightarrow> u8 list"

definition media_message :: "string \<Rightarrow> nat \<Rightarrow> string" where
  "media_message path expiry = ''GET:'' @ path @ '':'' @ show_nat expiry"

definition compute_media_signature :: "mac \<Rightarrow> u8 list \<Rightarrow> string \<Rightarrow> nat \<Rightarrow> u8 list" where
  "compute_media_signature hmac key path expiry = hmac key (media_message path expiry)"

definition build_signed_media_url :: "mac \<Rightarrow> string \<Rightarrow> string \<Rightarrow> string \<Rightarrow> u8 list \<Rightarrow> nat \<Rightarrow> string" where
  "build_signed_media_url hmac base path kid key expiry =
    trim_end_matches (CHR ''/'') base @ path @ ''?kid='' @ kid @ ''&exp='' @ show_nat expiry @
      ''&sig='' @ hex_encode (compute_media_signature hmac key path expiry)"

record media_auth_query =
  aq_kid :: string
  aq_exp :: nat
  aq_sig :: string

text \<open>Every failure is answered 403.\<close>

definition verify_media_auth :: "mac \<Rightarrow> key_store \<Rightarrow> nat \<Rightarrow> string \<Rightarrow> media_auth_query \<Rightarrow> bool" where
  "verify_media_auth hmac ks now path q =
    (if aq_exp q < now then False
     else case ks_get (aq_kid q) ks of
       None \<Rightarrow> False
     | Some key \<Rightarrow> (case hex_decode (aq_sig q) of
         None \<Rightarrow> False
       | Some provided \<Rightarrow> compute_media_signature hmac key path (aq_exp q) = provided))"

text \<open>One path of a signing request: a path that may not be signed is skipped.\<close>

definition sign_step ::
  "(string \<Rightarrow> bool option) \<Rightarrow> (string \<Rightarrow> string) \<Rightarrow> string \<Rightarrow> (string \<rightharpoonup> string) option \<Rightarrow> (string \<rightharpoonup> string) option" where
  "sign_step signable url path urls =
    (case urls of
       None \<Rightarrow> None
     | Some m \<Rightarrow> map_option (\<lambda>ok. if ok then m(path \<mapsto> url path) else m) (signable path))"

definition sign_urls ::
  "mac \<Rightarrow> file_system \<Rightarrow> library \<Rightarrow> key_store \<Rightarrow> string \<Rightarrow> string \<Rightarrow> nat \<Rightarrow> string list \<Rightarrow> (string \<rightharpoonup> string) option" where
  "sign_urls hmac fs lib ks base kid now paths =
    (case ks_get kid ks of
       None \<Rightarrow> Some Map.empty
     | Some key \<Rightarrow>
         let expiry = min (now + media_url_ttl_secs) usize_max
         in fold (sign_step (is_signable_media_path fs lib)
                   (\<lambda>path. build_signed_media_url hmac base path kid key expiry)) paths (Some Map.empty))"

definition rewrite_line ::
  "mac \<Rightarrow> string \<Rightarrow> string \<Rightarrow> string \<Rightarrow> string \<Rightarrow> u8 list \<Rightarrow> nat \<Rightarrow> string \<Rightarrow> string" where
  "rewrite_line hmac base track_id variant kid key expiry line =
    (let dir = ''/media/hls/'' @ track_id @ ''/'' @ variant @ ''/''
     in if prefix ''#EXT-X-MAP:URI='' line
        then ''#EXT-X-MAP:URI='' @ [CHR 0x22] @
          build_signed_media_url hmac base (dir @ ''init.mp4'') kid key expiry @ [CHR 0x22]
        else if \<not> prefix ''#'' line \<and> line \<noteq> []
        then build_signed_media_url hmac base (dir @ line) kid key expiry
        else line)"

definition rewrite_m3u8_with_signed_urls ::
  "mac \<Rightarrow> string \<Rightarrow> string \<Rightarrow> string \<Rightarrow> string \<Rightarrow> string \<Rightarrow> u8 list \<Rightarrow> nat \<Rightarrow> string" where
  "rewrite_m3u8_with_signed_urls hmac m3u8 base track_id variant kid key expiry =
    concat (map (\<lambda>l. rewrite_line hmac base track_id variant kid key expiry l @ [CHR 0x0A]) (lines m3u8))"

subsection \<open>Ranges\<close>

text \<open>\<open>Inl ()\<close> is an unsatisfiable range, \<open>Inr None\<close> no range.\<close>

definition parse_range :: "string option \<Rightarrow> nat \<Rightarrow> unit + (nat \<times> nat) option" where
  "parse_range header total_len =
    (case header of
       None \<Rightarrow> Inr None
     | Some h \<Rightarrow>
         if total_len = 0 then Inl ()
         else case strip_prefix ''bytes='' (trim h) of
           None \<Rightarrow> Inl ()
         | Some spec \<Rightarrow> (case split_once (CHR ''-'') spec of
             None \<Rightarrow> Inl ()
           | Some (start_s, end_s) \<Rightarrow>
               if start_s = [] then
                 (case parse_u64 end_s of
                    None \<Rightarrow> Inl ()
                  | Some suffix' \<Rightarrow> if suffix' = 0 then Inl ()
                      else Inr (Some (total_len - min suffix' total_len, total_len - 1)))
               else (case parse_u64 start_s of
                 None \<Rightarrow> Inl ()
               | Some start \<Rightarrow>
                   if start \<ge> total_len then Inl ()
                   else case (if end_s = [] then Some (total_len - 1)
                              else map_option (\<lambda>e. min e (total_len - 1)) (parse_u64 end_s)) of
                     None \<Rightarrow> Inl ()
                   | Some end' \<Rightarrow> if start > end' then Inl () else Inr (Some (start, end')))))"

subsection \<open>Responses\<close>

record response =
  rs_status :: nat
  rs_headers :: "string \<rightharpoonup> string"
  rs_body :: "u8 list list"

text \<open>\<open>HeaderValue::from_str\<close> accepts tabs and the printable ASCII characters.\<close>

definition header_value_ok :: "string \<Rightarrow> bool" where
  "header_value_ok = list_all (\<lambda>c. byte_of c = 9 \<or> (32 \<le> byte_of c \<and> byte_of c < 127))"

definition insert_header :: "string \<Rightarrow> string \<Rightarrow> response \<Rightarrow> response" where
  "insert_header name v r =
    (if header_value_ok v then r\<lparr>rs_headers := (rs_headers r)(name \<mapsto> v)\<rparr> else r)"

definition body_response :: "nat \<Rightarrow> u8 list list \<Rightarrow> response" where
  "body_response status body =
    insert_header ''access-control-allow-headers'' ''Range''
      (insert_header ''access-control-allow-origin'' ''*''
        \<lparr>rs_status = status, rs_headers = Map.empty, rs_body = body\<rparr>)"

definition bytes_of :: "string \<Rightarrow> u8 list" where
  "bytes_of s = map (\<lambda>c. word_of_nat (byte_of c)) s"

definition simple_response :: "nat \<Rightarrow> string \<Rightarrow> response" where
  "simple_response status body =
    insert_header ''content-length'' (show_nat (length body))
      (insert_header ''content-type'' ''text/plain; charset=utf-8''
        (body_response status [bytes_of body]))"

definition bytes_response :: "nat \<Rightarrow> bool \<Rightarrow> string \<Rightarrow> string option \<Rightarrow> u8 list \<Rightarrow> response" where
  "bytes_response status is_head content_type cache_control data =
    (let r = insert_header ''content-length'' (show_nat (length data))
               (insert_header ''content-type'' content_type
                 (body_response status (if is_head then [] else [data])))
     in case cache_control of None \<Rightarrow> r | Some v \<Rightarrow> insert_header ''cache-control'' v r)"

definition read_chunk_size :: nat where
  "read_chunk_size = 64 * 1024"

text \<open>
  The body stream. Each read asks for at most a chunk and gets at least one byte unless the file
  is at its end; how many is up to the operating system, here \<open>got\<close>.
\<close>

definition bytes_read :: "(nat \<Rightarrow> nat) \<Rightarrow> u8 list \<Rightarrow> nat \<Rightarrow> nat" where
  "bytes_read got data remaining =
    (if data = [] then 0
     else max 1 (min (got remaining) (min (min remaining read_chunk_size) (length data))))"

function body_chunks :: "(nat \<Rightarrow> nat) \<Rightarrow> u8 list \<Rightarrow> nat \<Rightarrow> u8 list list" where
  "body_chunks got data remaining =
    (if remaining = 0 \<or> bytes_read got data remaining = 0 then []
     else take (bytes_read got data remaining) data #
       body_chunks got (drop (bytes_read got data remaining) data) (remaining - bytes_read got data remaining))"
  by auto
termination
  by (relation "measure (\<lambda>(got, data, remaining). remaining)") auto

declare body_chunks.simps [simp del]

definition serve_path_with_range ::
  "(nat \<Rightarrow> nat) \<Rightarrow> file_system \<Rightarrow> bool \<Rightarrow> string \<Rightarrow> string \<Rightarrow> string option \<Rightarrow> string option \<Rightarrow> response" where
  "serve_path_with_range got fs is_head path content_type range_header cache_control =
    (case fs path of
       None \<Rightarrow> simple_response 404 ''Not Found''
     | Some data \<Rightarrow>
         let total_len = length data
         in case parse_range range_header total_len of
              Inl _ \<Rightarrow> insert_header ''content-length'' ''0''
                (insert_header ''content-range'' (''bytes */'' @ show_nat total_len) (body_response 416 []))
            | Inr r \<Rightarrow>
                let (start, end', status) = (case r of
                      Some (s, e) \<Rightarrow> (s, e, 206)
                    | None \<Rightarrow> (0, if total_len = 0 then 0 else total_len - 1, 200));
                    content_length = (if total_len = 0 then 0 else end' - start + 1);
                    body = (if is_head \<or> content_length = 0 then []
                            else body_chunks got (drop start data) content_length);
                    resp = insert_header ''content-length'' (show_nat content_length)
                             (insert_header ''accept-ranges'' ''bytes''
                               (insert_header ''content-type'' content_type (body_response status body)));
                    resp = (if status = 206
                            then insert_header ''content-range''
                              (''bytes '' @ show_nat start @ ''-'' @ show_nat end' @ ''/'' @ show_nat total_len) resp
                            else resp)
                in (case cache_control of None \<Rightarrow> resp | Some v \<Rightarrow> insert_header ''cache-control'' v resp))"

text \<open>\<open>PathBuf::extension\<close>: what follows the last dot of the last component, unless that dot is its
  first character.\<close>

definition path_extension :: "string \<Rightarrow> string option" where
  "path_extension p =
    (case rev (filter (\<lambda>c. c \<noteq> [] \<and> c \<noteq> ''.'') (split_on (CHR ''/'') p)) of
       [] \<Rightarrow> None
     | name # _ \<Rightarrow>
         if name = ''..'' then None
         else case split_once (CHR ''.'') (rev name) of
           None \<Rightarrow> None
         | Some (ext, stem) \<Rightarrow> if stem = [] then None else Some (rev ext))"

definition content_type_for_path :: "string \<Rightarrow> string" where
  "content_type_for_path p =
    (case map_option to_ascii_lowercase (path_extension p) of
       None \<Rightarrow> ''application/octet-stream''
     | Some e \<Rightarrow>
         if e = ''flac'' then ''audio/flac''
         else if e = ''mp3'' then ''audio/mpeg''
         else if e = ''wav'' then ''audio/wav''
         else if e = ''m4a'' \<or> e = ''mp4'' then ''audio/mp4''
         else if e = ''aac'' then ''audio/aac''
         else if e = ''ogg'' \<or> e = ''opus'' then ''audio/ogg''
         else if e = ''aiff'' \<or> e = ''aif'' then ''audio/aiff''
         else if e = ''dsf'' then ''audio/x-dsf''
         else ''application/octet-stream'')"

subsection \<open>Handlers\<close>

text \<open>\<open>media_track_handler\<close> and \<open>media_file_handler\<close>; a panic is \<open>None\<close>.\<close>

definition media_track_handler ::
  "mac \<Rightarrow> (nat \<Rightarrow> nat) \<Rightarrow> file_system \<Rightarrow> library \<Rightarrow> key_store \<Rightarrow> nat \<Rightarrow> string \<Rightarrow> string \<Rightarrow> media_auth_query
    \<Rightarrow> string option \<Rightarrow> bool \<Rightarrow> response" where
  "media_track_handler hmac got fs lib ks now uri_path track_id q range_header is_head =
    (if \<not> verify_media_auth hmac ks now uri_path q then body_response 403 []
     else case get_track_by_id lib track_id of
       None \<Rightarrow> simple_response 404 ''Track Not Found''
     | Some t \<Rightarrow> serve_path_with_range got fs is_head (tr_file_path t)
                  (content_type_for_path (tr_file_path t)) range_header None)"

definition media_file_handler ::
  "mac \<Rightarrow> (nat \<Rightarrow> nat) \<Rightarrow> file_system \<Rightarrow> library \<Rightarrow> key_store \<Rightarrow> nat \<Rightarrow> string \<Rightarrow> string \<Rightarrow> media_auth_query
    \<Rightarrow> string option \<Rightarrow> bool \<Rightarrow> response option" where
  "media_file_handler hmac got fs lib ks now uri_path path q range_header is_head =
    (if \<not> verify_media_auth hmac ks now uri_path q then Some (body_response 403 [])
     else map_option (\<lambda>decoded.
       if decoded = [] \<or> contains ''..'' decoded then simple_response 400 ''Bad Request''
       else if \<not> is_known_track_file fs lib decoded then simple_response 404 ''Not Found''
       else serve_path_with_range got fs is_head decoded (content_type_for_path decoded) range_header None)
     (percent_decode path))"

end
