(* ===== verification/Hls_Cache.thy ===== *)
theory Hls_Cache
  imports Hls Media
begin

text \<open>
  Segments and their cache (\<open>kanade-adapter-ws/src/hls.rs\<close>): \<open>split_into_segments\<close>,
  \<open>write_hls_output\<close>, \<open>HlsSegments\<close>, \<open>HlsCache\<close> with its size limit, and the HLS handlers of
  \<open>server.rs\<close>. A directory of the cache is a finite list of named files; the muxer and the text of
  the playlist are parameters.
\<close>

subsection \<open>Segments\<close>

text \<open>A half-open range of samples and its duration in time units.\<close>

record segment_chunk =
  sc_start :: nat
  sc_end :: nat
  sc_duration :: nat

definition effective_entry :: "remuxed_track \<Rightarrow> remux_sample \<Rightarrow> entry_ref option" where
  "effective_entry t s = (case rs_sample_entry s of Some e \<Rightarrow> Some e | None \<Rightarrow> rt_sample_entry t)"

definition entry_differs :: "entry_ref option \<Rightarrow> entry_ref option \<Rightarrow> bool" where
  "entry_differs a b =
    (case (a, b) of (Some x, Some y) \<Rightarrow> fst x \<noteq> fst y | (None, None) \<Rightarrow> False | _ \<Rightarrow> True)"

text \<open>The loop, with its variables \<open>current_start\<close>, \<open>current_len\<close>, \<open>current_duration\<close> and
  \<open>current_entry\<close>.\<close>

fun split_loop ::
  "remuxed_track \<Rightarrow> nat \<Rightarrow> nat \<Rightarrow> nat \<Rightarrow> nat \<Rightarrow> entry_ref option \<Rightarrow> remux_sample list \<Rightarrow> segment_chunk list" where
  "split_loop t target start len duration current [] =
    (if len > 0 then [\<lparr>sc_start = start, sc_end = start + len, sc_duration = duration\<rparr>] else [])"
| "split_loop t target start len duration current (s # ss) =
    (let exceeds_target = (duration > 0 \<and> duration + unat (rs_duration s) > target);
         entry = effective_entry t s;
         entry_changed = (len > 0 \<and> entry_differs current entry)
     in if len > 0 \<and> (exceeds_target \<or> entry_changed)
        then \<lparr>sc_start = start, sc_end = start + len, sc_duration = duration\<rparr> #
          split_loop t target (start + len) 1 (unat (rs_duration s)) entry ss
        else split_loop t target start (len + 1) (duration + unat (rs_duration s)) entry ss)"

definition target_units :: "remuxed_track \<Rightarrow> nat \<Rightarrow> nat" where
  "target_units t secs = max (secs * unat (rt_timescale t)) 1"

definition split_into_segments :: "remuxed_track \<Rightarrow> nat \<Rightarrow> segment_chunk list" where
  "split_into_segments t secs = split_loop t (target_units t secs) 0 0 0 None (rt_samples t)"

subsection \<open>Writing the output\<close>

record mux_sample =
  ms_sample_entry :: "sample_entry option"
  ms_duration :: u32
  ms_keyframe :: bool
  ms_composition_time_offset :: "int option"
  ms_data_offset :: nat
  ms_data_size :: nat

definition sample_size :: "remux_sample \<Rightarrow> nat" where
  "sample_size s = snd (rs_range s) - fst (rs_range s)"

text \<open>The samples of a segment as the muxer gets them: the first one carries the entry, and each one's
  data follows that of the one before.\<close>

fun mux_tail :: "nat \<Rightarrow> remux_sample list \<Rightarrow> mux_sample list" where
  "mux_tail offset [] = []"
| "mux_tail offset (s # ss) =
    \<lparr>ms_sample_entry = None, ms_duration = rs_duration s, ms_keyframe = rs_keyframe s,
     ms_composition_time_offset = rs_composition_time_offset s, ms_data_offset = offset,
     ms_data_size = sample_size s\<rparr> # mux_tail (offset + sample_size s) ss"

definition mux_samples :: "remuxed_track \<Rightarrow> remux_sample list \<Rightarrow> hls_error + mux_sample list" where
  "mux_samples t samples =
    (case samples of
       [] \<Rightarrow> Inr []
     | s # _ \<Rightarrow> (case effective_entry t s of
         None \<Rightarrow> Inl (Hls_InvalidData ''missing sample entry for media segment'')
       | Some e \<Rightarrow> (case mux_tail 0 samples of
           m # ms \<Rightarrow> Inr (m\<lparr>ms_sample_entry := Some (snd e)\<rparr> # ms)
         | [] \<Rightarrow> Inr [])))"

text \<open>The bytes of the samples, as they are written after the metadata.\<close>

definition sample_bytes :: "remuxed_track \<Rightarrow> remux_sample \<Rightarrow> u8 list" where
  "sample_bytes t s = slice (fst (rs_range s)) (snd (rs_range s)) (rt_bytes t)"

type_synonym directory = "(string \<times> u8 list) list"

definition seg_name :: "nat \<Rightarrow> string" where
  "seg_name k = ''seg'' @ show_nat k @ ''.m4s''"

text \<open>
  The muxer: the metadata of a segment after earlier segments, and the initialisation segment of
  all of them; and the text of a playlist.
\<close>

record playlist_segment =
  ps_uri :: string
  ps_duration :: rat
  ps_map :: "string option"

record media_playlist =
  mp_target_duration :: nat
  mp_segments :: "playlist_segment list"

record hls_muxer =
  mx_metadata :: "mux_sample list list \<Rightarrow> mux_sample list \<Rightarrow> hls_error + u8 list"
  mx_init :: "mux_sample list list \<Rightarrow> hls_error + u8 list"
  mx_playlist :: "media_playlist \<Rightarrow> hls_error + u8 list"

text \<open>
  The seconds of a segment, exact. The dividend is below \<open>2 ^ 36\<close> (the target or one sample) and the
  divisor below \<open>2 ^ 32\<close>, so that the quotient in \<open>f64\<close> has the same ceiling.
\<close>

definition duration_secs :: "remuxed_track \<Rightarrow> segment_chunk \<Rightarrow> rat" where
  "duration_secs t c = of_nat (sc_duration c) / of_nat (unat (rt_timescale t))"

definition chunk_samples :: "remuxed_track \<Rightarrow> segment_chunk \<Rightarrow> remux_sample list" where
  "chunk_samples t c = slice (sc_start c) (sc_end c) (rt_samples t)"

fun write_segments ::
  "hls_muxer \<Rightarrow> remuxed_track \<Rightarrow> nat \<Rightarrow> mux_sample list list \<Rightarrow> segment_chunk list
    \<Rightarrow> hls_error + directory \<times> mux_sample list list" where
  "write_segments mx t index earlier [] = Inr ([], earlier)"
| "write_segments mx t index earlier (c # cs) =
    (case mux_samples t (chunk_samples t c) of
       Inl e \<Rightarrow> Inl e
     | Inr ms \<Rightarrow> (case mx_metadata mx earlier ms of
         Inl e \<Rightarrow> Inl e
       | Inr meta \<Rightarrow>
           map_sum id (map_prod (Cons (seg_name index, meta @ concat (map (sample_bytes t) (chunk_samples t c)))) id)
             (write_segments mx t (index + 1) (earlier @ [ms]) cs)))"

definition hls_playlist :: "remuxed_track \<Rightarrow> segment_chunk list \<Rightarrow> media_playlist" where
  "hls_playlist t cs =
    \<lparr>mp_target_duration = Max (set (map (\<lambda>c. nat \<lceil>duration_secs t c\<rceil>) cs)),
     mp_segments = map (\<lambda>(k, c). \<lparr>ps_uri = seg_name k, ps_duration = max (duration_secs t c) (1 / 1000),
       ps_map = (if k = 0 then Some ''init.mp4'' else None)\<rparr>) (enumerate 0 cs)\<rparr>"

definition write_hls_output :: "hls_muxer \<Rightarrow> remuxed_track \<Rightarrow> nat \<Rightarrow> hls_error + directory" where
  "write_hls_output mx t secs =
    (let cs = split_into_segments t secs
     in if cs = [] then Inl (Hls_InvalidData ''no HLS chunks were produced from source track'')
        else case write_segments mx t 0 [] cs of
          Inl e \<Rightarrow> Inl e
        | Inr (files, muxed) \<Rightarrow> (case mx_init mx muxed of
            Inl e \<Rightarrow> Inl e
          | Inr init \<Rightarrow> (case mx_playlist mx (hls_playlist t cs) of
              Inl e \<Rightarrow> Inl e
            | Inr text \<Rightarrow> Inr (files @ [(''init.mp4'', init), (''index.m3u8'', text)]))))"

subsection \<open>Opening a directory\<close>

definition file_exists :: "directory \<Rightarrow> string \<Rightarrow> bool" where
  "file_exists dir name \<longleftrightarrow> name \<in> fst ` set dir"

lemma seg_name_inject: "seg_name j = seg_name k \<longleftrightarrow> j = k"
  by (simp add: seg_name_def)

lemma finite_segments: "finite {k. file_exists dir (seg_name k)}"
proof (rule finite_imageD)
  show "finite (seg_name ` {k. file_exists dir (seg_name k)})"
    by (rule finite_subset [of _ "fst ` set dir"]) (auto simp: file_exists_def)
qed (auto simp: inj_on_def seg_name_inject)

function count_segments :: "directory \<Rightarrow> nat \<Rightarrow> nat" where
  "count_segments dir k = (if file_exists dir (seg_name k) then count_segments dir (k + 1) else k)"
  by pat_completeness auto
termination
proof (relation "measure (\<lambda>(dir, k). card {m. k \<le> m \<and> file_exists dir (seg_name m)})", goal_cases)
  case (2 dir k)
  have "k \<in> {m. k \<le> m \<and> file_exists dir (seg_name m)}" "k \<notin> {m. k + 1 \<le> m \<and> file_exists dir (seg_name m)}"
    using 2 by simp_all
  moreover have "{m. k + 1 \<le> m \<and> file_exists dir (seg_name m)} \<subseteq> {m. k \<le> m \<and> file_exists dir (seg_name m)}" by auto
  ultimately have "{m. k + 1 \<le> m \<and> file_exists dir (seg_name m)} \<subset> {m. k \<le> m \<and> file_exists dir (seg_name m)}" by blast
  moreover have "finite {m. k \<le> m \<and> file_exists dir (seg_name m)}"
    by (rule finite_subset [OF _ finite_segments [of dir]]) auto
  ultimately show ?case by (simp add: psubset_card_mono)
qed simp

declare count_segments.simps [simp del]

text \<open>\<open>None\<close> is an error: a missing file or no segment at all.\<close>

definition open_segments :: "directory \<Rightarrow> nat option" where
  "open_segments dir =
    (if \<not> file_exists dir ''index.m3u8'' \<or> \<not> file_exists dir ''init.mp4'' then None
     else let n = count_segments dir 0 in if n = 0 then None else Some n)"

definition segment_path :: "nat \<Rightarrow> nat \<Rightarrow> string option" where
  "segment_path segment_count index = (if index < segment_count then Some (seg_name index) else None)"

definition read_file :: "directory \<Rightarrow> string \<Rightarrow> u8 list option" where
  "read_file dir name = map_of dir name"

subsection \<open>The size limit\<close>

text \<open>An entry of the cache: the track and variant it holds, its size and its last access.\<close>

record cache_entry =
  ce_key :: "string \<times> string"
  ce_size :: nat
  ce_last_access :: nat

text \<open>The loop over the entries, oldest first: the keys whose directories it removes.\<close>

fun evict_loop :: "nat \<Rightarrow> (string \<times> string) option \<Rightarrow> nat \<Rightarrow> cache_entry list \<Rightarrow> (string \<times> string) list" where
  "evict_loop max_size preserve size' [] = []"
| "evict_loop max_size preserve size' (e # es) =
    (if size' \<le> max_size then []
     else if preserve = Some (ce_key e) then evict_loop max_size preserve size' es
     else ce_key e # evict_loop max_size preserve (size' - ce_size e) es)"

definition enforce_size_limit :: "nat \<Rightarrow> (string \<times> string) option \<Rightarrow> cache_entry list \<Rightarrow> (string \<times> string) list" where
  "enforce_size_limit max_size preserve entries =
    (let size' = sum_list (map ce_size entries)
     in if size' \<le> max_size then []
        else evict_loop max_size preserve size' (sort_key ce_last_access entries))"

subsection \<open>The cache\<close>

text \<open>
  The directories of the variants with their last access. The lock of a variant is held for the
  whole of \<open>get_or_generate\<close>, which is one step of the model.
\<close>

record hls_cache =
  hc_dirs :: "((string \<times> string) \<times> directory \<times> nat) list"
  hc_max_size :: nat

definition dir_size :: "directory \<Rightarrow> nat" where
  "dir_size dir = sum_list (map (\<lambda>f. length (snd f)) dir)"

definition collect_cache_entries :: "hls_cache \<Rightarrow> cache_entry list" where
  "collect_cache_entries c =
    map (\<lambda>(key, dir, access). \<lparr>ce_key = key, ce_size = dir_size dir, ce_last_access = access\<rparr>)
      (filter (\<lambda>(_, dir, _). file_exists dir ''index.m3u8'') (hc_dirs c))"

definition enforce_limit :: "(string \<times> string) option \<Rightarrow> hls_cache \<Rightarrow> hls_cache" where
  "enforce_limit preserve c =
    (let removed = enforce_size_limit (hc_max_size c) preserve (collect_cache_entries c)
     in c\<lparr>hc_dirs := filter (\<lambda>(key, _). key \<notin> set removed) (hc_dirs c)\<rparr>)"

text \<open>\<open>touch\<close> writes the time into a stamp file of the directory.\<close>

definition touch_dir :: "nat \<Rightarrow> directory \<Rightarrow> directory" where
  "touch_dir now dir =
    filter (\<lambda>f. fst f \<noteq> ''.last_access'') dir @ [(''.last_access'', bytes_of (show_nat now))]"

definition put_dir :: "string \<times> string \<Rightarrow> directory \<Rightarrow> nat \<Rightarrow> hls_cache \<Rightarrow> hls_cache" where
  "put_dir key dir now c = c\<lparr>hc_dirs := (key, dir, now) # filter (\<lambda>(k, _). k \<noteq> key) (hc_dirs c)\<rparr>"

text \<open>
  A cached variant is touched and returned; otherwise it is generated, which replaces its
  directory. The directory returned is read later, by its path.
\<close>

definition get_or_generate ::
  "(unit \<Rightarrow> hls_error + directory) \<Rightarrow> nat \<Rightarrow> string \<times> string \<Rightarrow> hls_cache \<Rightarrow> (hls_error + nat) \<times> hls_cache" where
  "get_or_generate generate now key c =
    (let c = enforce_limit None c;
         cached = (case map_of (hc_dirs c) key of
            None \<Rightarrow> None | Some (dir, _) \<Rightarrow> map_option (Pair dir) (open_segments dir))
     in case cached of
          Some (dir, n) \<Rightarrow> (Inr n, put_dir key (touch_dir now dir) now c)
        | None \<Rightarrow> (case generate () of
            Inl e \<Rightarrow> (Inl e, c)
          | Inr dir \<Rightarrow>
              (case open_segments dir of
                 None \<Rightarrow> (Inl (Hls_InvalidData ''generated HLS cache did not contain any media segments''),
                   put_dir key dir now c)
               | Some n \<Rightarrow> (Inr n, enforce_limit (Some key) (put_dir key (touch_dir now dir) now c)))))"

subsection \<open>The handlers\<close>

text \<open>
  The path of a source file is that of its track; \<open>remux\<close> and the muxer give what the packager makes
  of its contents. The unreadable source and the panic of the packager's blocking task are errors of
  \<open>get_or_generate\<close>, which the handlers answer with status 500.
\<close>

type_synonym generator = "string \<Rightarrow> hls_error + directory"

definition resolve_hls_segments ::
  "library \<Rightarrow> generator \<Rightarrow> nat \<Rightarrow> string \<Rightarrow> string \<Rightarrow> hls_cache \<Rightarrow> (nat + nat) \<times> hls_cache" where
  "resolve_hls_segments lib generate now track_id variant c =
    (case get_track_by_id lib track_id of
       None \<Rightarrow> (Inl 404, c)
     | Some t \<Rightarrow> (case get_or_generate (\<lambda>_. generate (tr_file_path t)) now (track_id, variant) c of
         (Inl e, c) \<Rightarrow> (Inl 500, c)
       | (Inr n, c) \<Rightarrow> (Inr n, c)))"

text \<open>Reading a file of a variant once its segments are resolved.\<close>

definition read_variant :: "string \<times> string \<Rightarrow> string \<Rightarrow> hls_cache \<Rightarrow> u8 list option" where
  "read_variant key name c =
    (case map_of (hc_dirs c) key of None \<Rightarrow> None | Some (dir, _) \<Rightarrow> read_file dir name)"

definition media_response :: "bool \<Rightarrow> u8 list option \<Rightarrow> response" where
  "media_response is_head data =
    (case data of
       None \<Rightarrow> simple_response 404 ''Not Found''
     | Some d \<Rightarrow> bytes_response 200 is_head ''video/mp4'' (Some ''public, max-age=31536000, immutable'') d)"

definition hls_serve_init ::
  "library \<Rightarrow> generator \<Rightarrow> nat \<Rightarrow> string \<Rightarrow> string \<Rightarrow> bool \<Rightarrow> hls_cache \<Rightarrow> response \<times> hls_cache" where
  "hls_serve_init lib generate now track_id variant is_head c =
    (case resolve_hls_segments lib generate now track_id variant c of
       (Inl status, c) \<Rightarrow> (body_response status [], c)
     | (Inr _, c) \<Rightarrow> (media_response is_head (read_variant (track_id, variant) ''init.mp4'' c), c))"

definition hls_init_handler ::
  "mac \<Rightarrow> library \<Rightarrow> generator \<Rightarrow> key_store \<Rightarrow> nat \<Rightarrow> string \<Rightarrow> string \<Rightarrow> string \<Rightarrow> media_auth_query \<Rightarrow> bool
    \<Rightarrow> hls_cache \<Rightarrow> response \<times> hls_cache" where
  "hls_init_handler hmac lib generate ks now uri_path track_id variant q is_head c =
    (if \<not> verify_media_auth hmac ks now uri_path q then (body_response 403 [], c)
     else hls_serve_init lib generate now track_id variant is_head c)"

definition segment_index :: "string \<Rightarrow> nat option" where
  "segment_index name =
    (case strip_prefix ''seg'' name of
       None \<Rightarrow> None
     | Some s \<Rightarrow> (case strip_suffix ''.m4s'' s of None \<Rightarrow> None | Some s \<Rightarrow> parse_u64 s))"

definition hls_segment_handler ::
  "mac \<Rightarrow> library \<Rightarrow> generator \<Rightarrow> key_store \<Rightarrow> nat \<Rightarrow> string \<Rightarrow> string \<Rightarrow> string \<Rightarrow> string \<Rightarrow> media_auth_query
    \<Rightarrow> bool \<Rightarrow> hls_cache \<Rightarrow> response \<times> hls_cache" where
  "hls_segment_handler hmac lib generate ks now uri_path track_id variant name q is_head c =
    (if \<not> verify_media_auth hmac ks now uri_path q then (body_response 403 [], c)
     else if name = ''init.mp4'' then hls_serve_init lib generate now track_id variant is_head c
     else case segment_index name of
       None \<Rightarrow> (simple_response 404 ''Not Found'', c)
     | Some index \<Rightarrow> (case resolve_hls_segments lib generate now track_id variant c of
         (Inl status, c) \<Rightarrow> (body_response status [], c)
       | (Inr n, c) \<Rightarrow>
           (media_response is_head (case segment_path n index of
              None \<Rightarrow> None | Some file \<Rightarrow> read_variant (track_id, variant) file c), c)))"

text \<open>The text of a playlist must be UTF-8; the key may have gone since the request was verified.\<close>

definition text_of :: "u8 list \<Rightarrow> string option" where
  "text_of bs = (let s = map (\<lambda>b. chr (unat b)) bs in if utf8_valid s then Some s else None)"

definition hls_playlist_handler ::
  "mac \<Rightarrow> library \<Rightarrow> generator \<Rightarrow> key_store \<Rightarrow> string \<Rightarrow> nat \<Rightarrow> string \<Rightarrow> string \<Rightarrow> string \<Rightarrow> media_auth_query
    \<Rightarrow> bool \<Rightarrow> hls_cache \<Rightarrow> response \<times> hls_cache" where
  "hls_playlist_handler hmac lib generate ks base now uri_path track_id variant q is_head c =
    (if \<not> verify_media_auth hmac ks now uri_path q then (body_response 403 [], c)
     else case resolve_hls_segments lib generate now track_id variant c of
       (Inl status, c) \<Rightarrow> (body_response status [], c)
     | (Inr _, c) \<Rightarrow>
         (case read_variant (track_id, variant) ''index.m3u8'' c of
            None \<Rightarrow> (simple_response 404 ''Not Found'', c)
          | Some bs \<Rightarrow> (case text_of bs of
              None \<Rightarrow> (simple_response 404 ''Not Found'', c)
            | Some text \<Rightarrow>
                let key = unwrap_or (ks_get (aq_kid q) ks) (replicate 32 0)
                in (bytes_response 200 is_head ''application/vnd.apple.mpegurl'' (Some ''public, max-age=60'')
                      (bytes_of (rewrite_m3u8_with_signed_urls hmac text base track_id variant (aq_kid q) key (aq_exp q))), c))))"


end
