(* ===== verification/Hls_Facts.thy ===== *)
theory Hls_Facts
  imports Hls_Cache
begin

unbundle bit_operations_syntax

text \<open>
  What the packager guarantees: whatever the format, the samples it cuts lie inside the bytes they
  refer to; the segments partition the samples; the directory written can be opened and holds every
  segment; the cache is brought below its limit, oldest entries first. Of the parsers: FLAC metadata
  is read without loss, the frame checksum detects every change of one byte, and packets laid out in
  an Ogg page are read back.
\<close>

subsection \<open>Segments\<close>

text \<open>A segment has one sample entry, and is within the target or as long as one of its samples.\<close>

definition uniform :: "remuxed_track \<Rightarrow> remux_sample list \<Rightarrow> bool" where
  "uniform t g \<longleftrightarrow> (\<forall>s \<in> set g. \<forall>s' \<in> set g. map_option fst (effective_entry t s) = map_option fst (effective_entry t s'))"

definition fits :: "nat \<Rightarrow> remux_sample list \<Rightarrow> bool" where
  "fits target g \<longleftrightarrow> total_duration g \<le> target \<or> (\<exists>s \<in> set g. total_duration g = unat (rs_duration s))"

definition segments_of :: "remuxed_track \<Rightarrow> nat \<Rightarrow> segment_chunk list \<Rightarrow> remux_sample list \<Rightarrow> bool" where
  "segments_of t target cs samples \<longleftrightarrow>
    concat (map (chunk_samples t) cs) = samples \<and>
    (\<forall>c \<in> set cs. chunk_samples t c \<noteq> [] \<and> uniform t (chunk_samples t c) \<and> fits target (chunk_samples t c) \<and>
       sc_duration c = total_duration (chunk_samples t c))"

lemma entry_differs_iff: "entry_differs a b \<longleftrightarrow> map_option fst a \<noteq> map_option fst b"
  by (auto simp: entry_differs_def split: option.split)

lemma total_duration_simps [simp]:
  "total_duration [] = 0" "total_duration (s # ss) = unat (rs_duration s) + total_duration ss"
  "total_duration (xs @ ys) = total_duration xs + total_duration ys"
  by (simp_all add: total_duration_def)

lemma uniform_snoc:
  assumes "uniform t g" "g \<noteq> []" "\<not> entry_differs (effective_entry t (last g)) (effective_entry t s)"
  shows "uniform t (g @ [s])"
proof -
  let ?f = "\<lambda>s. map_option fst (effective_entry t s)"
  have "?f x = ?f s" if "x \<in> set (g @ [s])" for x
  proof (cases "x = s")
    case False
    then have "x \<in> set g" using that by simp
    then have "?f x = ?f (last g)" using assms(1) last_in_set [OF assms(2)] unfolding uniform_def by blast
    with assms(3) show ?thesis by (simp add: entry_differs_iff)
  qed simp
  note all = this
  show ?thesis unfolding uniform_def by (intro ballI) (simp only: all)
qed

lemma segments_of_Cons:
  assumes "segments_of t target cs ss" "chunk_samples t c = g" "g \<noteq> []" "uniform t g" "fits target g"
    "sc_duration c = total_duration g"
  shows "segments_of t target (c # cs) (g @ ss)"
  using assms unfolding segments_of_def by simp

lemma chunk_samples_middle:
  "rt_samples t = xs @ g @ ys \<Longrightarrow>
    chunk_samples t \<lparr>sc_start = length xs, sc_end = length xs + length g, sc_duration = d\<rparr> = g"
  by (simp add: chunk_samples_def slice_def)

lemma split_loop_segments:
  assumes "rt_samples t = xs @ g @ ss" "uniform t g" "fits target g"
    and "g \<noteq> [] \<Longrightarrow> current = effective_entry t (last g)"
  shows "segments_of t target (split_loop t target (length xs) (length g) (total_duration g) current ss) (g @ ss)"
  using assms
proof (induction ss arbitrary: xs g current)
  case Nil
  then show ?case
    using chunk_samples_middle [of t xs g "[]"] by (auto simp: segments_of_def)
next
  case (Cons s ss)
  have one: "uniform t [s]" "fits target [s]" by (simp_all add: uniform_def fits_def)
  show ?case
  proof (cases "g = []")
    case True
    with Cons.IH [of xs "[s]" "effective_entry t s"] Cons.prems(1) one show ?thesis by (simp add: Let_def)
  next
    case False
    define cut where "cut \<longleftrightarrow> (total_duration g > 0 \<and> total_duration g + unat (rs_duration s) > target) \<or>
      entry_differs current (effective_entry t s)"
    show ?thesis
    proof (cases cut)
      case True
      have "segments_of t target (split_loop t target (length xs + length g) 1 (unat (rs_duration s)) (effective_entry t s) ss) ([s] @ ss)"
        using Cons.IH [of "xs @ g" "[s]" "effective_entry t s"] Cons.prems(1) one by simp
      from segments_of_Cons [OF this chunk_samples_middle [OF Cons.prems(1)] False Cons.prems(2,3)]
      show ?thesis using True False by (simp add: cut_def Let_def)
    next
      case False': False
      have "uniform t (g @ [s])"
        using uniform_snoc [OF Cons.prems(2) False] False' Cons.prems(4) [OF False] by (simp add: cut_def)
      moreover have "fits target (g @ [s])"
        using False' by (auto simp: fits_def cut_def)
      ultimately show ?thesis
        using Cons.IH [of xs "g @ [s]" "effective_entry t s"] Cons.prems(1) False' False
        by (auto simp: cut_def Let_def)
    qed
  qed
qed

lemma split_segments: "segments_of t (target_units t secs) (split_into_segments t secs) (rt_samples t)"
  using split_loop_segments [of t "[]" "[]" "rt_samples t" "target_units t secs" None]
  by (simp add: split_into_segments_def uniform_def fits_def)

subsection \<open>The directory written\<close>

lemma write_segments_files:
  "write_segments mx t k earlier cs = Inr (files, muxed) \<Longrightarrow>
    map fst files = map seg_name [k ..< k + length cs] \<and>
    list_all2 (\<lambda>f c. suffix (concat (map (sample_bytes t) (chunk_samples t c))) (snd f)) files cs"
proof (induction cs arbitrary: k earlier files muxed)
  case (Cons c cs)
  obtain ms meta files' where w: "mux_samples t (chunk_samples t c) = Inr ms" "mx_metadata mx earlier ms = Inr meta"
      "write_segments mx t (k + 1) (earlier @ [ms]) cs = Inr (files', muxed)"
      "files = (seg_name k, meta @ concat (map (sample_bytes t) (chunk_samples t c))) # files'"
    using Cons.prems by (auto split: sum.splits simp: map_sum_def map_prod_def)
  have "[k ..< k + length (c # cs)] = k # [k + 1 ..< k + 1 + length cs]" by (subst upt_conv_Cons) simp_all
  then have "map fst files = map seg_name [k ..< k + length (c # cs)]"
    using Cons.IH [OF w(3)] by (simp only: w(4)) simp
  then show ?case using Cons.IH [OF w(3)] by (simp add: w(4) suffix_def)
qed simp

lemma count_segments_upto:
  assumes "\<And>j. k \<le> j \<Longrightarrow> j < n \<Longrightarrow> file_exists dir (seg_name j)" "\<not> file_exists dir (seg_name n)" "k \<le> n"
  shows "count_segments dir k = n"
  using assms
proof (induction "n - k" arbitrary: k)
  case 0
  then show ?case by (simp add: count_segments.simps)
next
  case (Suc d)
  then have "count_segments dir (Suc k) = n" by simp
  with Suc show ?case by (subst count_segments.simps) simp
qed

lemma seg_name_other: "seg_name k \<noteq> ''init.mp4''" "seg_name k \<noteq> ''index.m3u8''"
  by (simp_all add: seg_name_def)

lemma read_segment:
  assumes "map fst files = map seg_name [0..<n]" "k < n"
  shows "map_of files (seg_name k) = Some (snd (files ! k))"
proof -
  have len: "length files = n" using arg_cong [OF assms(1), of length] by simp
  have "distinct (map fst files)" unfolding assms(1) by (simp add: distinct_map inj_on_def seg_name_inject)
  moreover have "fst (files ! k) = seg_name k"
    using arg_cong [OF assms(1), of "\<lambda>l. l ! k"] assms(2) len by simp
  then have "(seg_name k, snd (files ! k)) \<in> set files" using assms(2) len by (metis nth_mem prod.collapse)
  ultimately show ?thesis by simp
qed

lemma write_hls_output_dir:
  assumes "write_hls_output mx t secs = Inr dir"
  shows "open_segments dir = Some (length (split_into_segments t secs))"
    and "k < length (split_into_segments t secs) \<Longrightarrow> \<exists>data. read_file dir (seg_name k) = Some data \<and>
      suffix (concat (map (sample_bytes t) (chunk_samples t (split_into_segments t secs ! k)))) data"
proof -
  let ?cs = "split_into_segments t secs"
  have ne: "?cs \<noteq> []" using assms by (auto simp: write_hls_output_def Let_def split: if_splits)
  obtain files muxed ini body where w: "write_segments mx t 0 [] ?cs = Inr (files, muxed)"
      and dir: "dir = files @ [(''init.mp4'', ini), (''index.m3u8'', body)]"
    using assms by (auto simp: write_hls_output_def Let_def split: if_splits sum.splits prod.splits)
  note f = write_segments_files [OF w]
  have names: "map fst files = map seg_name [0 ..< length ?cs]" using f by simp
  have ex: "file_exists dir (seg_name j) \<longleftrightarrow> j < length ?cs" for j
  proof -
    have "fst ` set files = seg_name ` {0..<length ?cs}" using arg_cong [OF names, of set] by simp
    then show ?thesis by (auto simp: file_exists_def dir seg_name_other seg_name_inject)
  qed
  have "count_segments dir 0 = length ?cs" by (rule count_segments_upto) (simp_all add: ex)
  moreover have "file_exists dir ''init.mp4''" "file_exists dir ''index.m3u8''" by (simp_all add: file_exists_def dir)
  ultimately show "open_segments dir = Some (length ?cs)" using ne by (simp add: open_segments_def)
  assume k: "k < length ?cs"
  have "map_of files (seg_name k) = Some (snd (files ! k))" using names k by (rule read_segment)
  then have "read_file dir (seg_name k) = Some (snd (files ! k))" by (simp add: read_file_def dir map_add_def)
  moreover have "suffix (concat (map (sample_bytes t) (chunk_samples t (?cs ! k)))) (snd (files ! k))"
    using f k by (auto simp: list_all2_conv_all_nth)
  ultimately show "\<exists>data. read_file dir (seg_name k) = Some data \<and>
      suffix (concat (map (sample_bytes t) (chunk_samples t (?cs ! k)))) data" by blast
qed

subsection \<open>Samples lie inside their bytes\<close>

definition in_bytes :: "nat \<Rightarrow> remux_sample \<Rightarrow> bool" where
  "in_bytes n s \<longleftrightarrow> fst (rs_range s) \<le> snd (rs_range s) \<and> snd (rs_range s) \<le> n"

definition samples_in_bytes :: "remuxed_track \<Rightarrow> bool" where
  "samples_in_bytes t \<longleftrightarrow> (\<forall>s \<in> set (rt_samples t). in_bytes (length (rt_bytes t)) s)"

lemma in_bytes_plain [simp]:
  "in_bytes n (plain_sample a b d) \<longleftrightarrow> a \<le> b \<and> b \<le> n"
  "in_bytes n (s\<lparr>rs_duration := d\<rparr>) = in_bytes n s"
  "in_bytes n (s\<lparr>rs_sample_entry := e\<rparr>) = in_bytes n s"
  by (simp_all add: in_bytes_def plain_sample_def)

lemma in_bytes_mono: "in_bytes m s \<Longrightarrow> m \<le> n \<Longrightarrow> in_bytes n s"
  by (simp add: in_bytes_def)

text \<open>FLAC: the frames found start inside the file, in order.\<close>

lemma flac_frame_starts_range:
  "sorted_wrt (<) (flac_frame_starts bytes offset) \<and> (\<forall>k \<in> set (flac_frame_starts bytes offset). offset \<le> k \<and> k < length bytes)"
proof (induction bytes offset rule: flac_frame_starts.induct)
  case (1 bytes offset)
  show ?case
  proof (cases "offset + 1 < length bytes")
    case True
    show ?thesis
    proof (cases "flac_sync bytes offset")
      case sync: True
      note IH = 1(1) [OF True sync]
      show ?thesis using IH True sync by (subst (1 2) flac_frame_starts.simps) fastforce
    next
      case False
      note IH = 1(2) [OF True False]
      show ?thesis using IH True False by (subst (1 2) flac_frame_starts.simps) auto
    qed
  next
    case False
    then show ?thesis by (subst (1 2) flac_frame_starts.simps) simp
  qed
qed

lemma flac_samples_in_bytes:
  "\<forall>k \<in> set starts. k < length bytes \<Longrightarrow> s \<in> set (flac_samples bytes si starts) \<Longrightarrow> in_bytes (length bytes) s"
proof (induction starts)
  case (Cons k starts)
  define e where "e = (case starts of [] \<Rightarrow> length bytes | e # _ \<Rightarrow> e)"
  have e: "e \<le> length bytes" using Cons.prems(1) by (cases starts) (simp_all add: e_def)
  have step: "flac_samples bytes si (k # starts) =
    (if e \<le> k then flac_samples bytes si starts
     else plain_sample k e (max (unwrap_or (parse_flac_frame_block_size (drop k bytes) si)
       (ucast (max (fs_max_block_size si) 1))) 1) # flac_samples bytes si starts)"
    by (simp add: e_def Let_def)
  have "s \<in> set (flac_samples bytes si starts) \<Longrightarrow> in_bytes (length bytes) s"
    using Cons by simp
  then show ?case using Cons.prems(2) e unfolding step by (auto split: if_splits)
qed simp

lemma trim_excess_in_bytes:
  "\<forall>s \<in> set ss. in_bytes n s \<Longrightarrow> s' \<in> set (trim_excess k ss) \<Longrightarrow> in_bytes n s'"
  by (induction k ss rule: trim_excess.induct) (auto simp: Let_def split: if_splits)

lemma trim_to_total_in_bytes:
  assumes "\<forall>s \<in> set ss. in_bytes n s" "s' \<in> set (trim_to_total k ss)"
  shows "in_bytes n s'"
  using assms trim_excess_in_bytes [of "rev ss" n s'] by (auto simp: trim_to_total_def split: if_splits)

lemma remux_flac_in_bytes:
  assumes "remux_flac bytes props = Inr t"
  shows "samples_in_bytes t"
proof -
  obtain blocks si off where m: "parse_flac_metadata bytes = Inr (blocks, si, off)"
  proof (cases "parse_flac_metadata bytes")
    case (Inl e)
    with assms show ?thesis by (simp add: remux_flac_def split: if_splits)
  next
    case (Inr r)
    with that show ?thesis by (cases r) auto
  qed
  define ss where "ss = flac_samples bytes si (flac_frame_starts bytes off)"
  have t: "rt_bytes t = bytes" "rt_samples t = trim_to_total (unat (fs_total_samples si)) ss"
    using assms by (auto simp: remux_flac_def m Let_def ss_def nonzero_def split: if_splits)
  have "\<forall>s \<in> set ss. in_bytes (length bytes) s"
    using flac_samples_in_bytes [of "flac_frame_starts bytes off" bytes _ si] flac_frame_starts_range by (simp add: ss_def)
  then show ?thesis using trim_to_total_in_bytes by (simp add: samples_in_bytes_def t)
qed

text \<open>MP3 and AAC: a frame that would leave the file ends the loop.\<close>

lemma mp3_samples_in_bytes: "s \<in> set (mp3_samples bytes offset) \<Longrightarrow> in_bytes (length bytes) s"
proof (induction "length bytes - offset" arbitrary: offset rule: less_induct)
  case less
  note unfolded = less.prems [unfolded mp3_samples.simps [of bytes offset]]
  show ?case
  proof (cases "parse_mp3_frame (drop offset bytes)")
    case None
    then show ?thesis using unfolded less.hyps [of "offset + 1"] by (auto split: if_splits)
  next
    case (Some f)
    then show ?thesis
      using unfolded less.hyps [of "offset + mf_frame_length f"] parse_mp3_frame_pos [OF Some]
      by (auto simp: Let_def split: if_splits)
  qed
qed

lemma remux_mp3_in_bytes: "remux_mp3 bytes props = Inr t \<Longrightarrow> samples_in_bytes t"
  by (auto simp: remux_mp3_def Let_def samples_in_bytes_def mp3_samples_in_bytes
      split: if_splits option.splits sum.splits)

lemma aac_samples_in_bytes: "s \<in> set (fst (aac_samples bytes offset current rate)) \<Longrightarrow> in_bytes (length bytes) s"
proof (induction "length bytes - offset" arbitrary: offset current rate rule: less_induct)
  case less
  note unfolded = less.prems [unfolded aac_samples.simps [of bytes offset]]
  show ?case
  proof (cases "parse_adts_frame (drop offset bytes)")
    case None
    then show ?thesis using unfolded less.hyps [of "offset + 1" current rate] by (simp split: if_splits)
  next
    case (Some f)
    then show ?thesis
      using unfolded less.hyps [of "offset + af_frame_length f" "Some (next_entry current f)" "Some (af_sample_rate f)"]
      by (auto simp: Let_def split: if_splits)
  qed
qed

lemma remux_aac_in_bytes: "remux_aac_adts bytes = Inr t \<Longrightarrow> samples_in_bytes t"
  using aac_samples_in_bytes [of _ bytes 0 None None]
  by (auto simp: remux_aac_adts_def samples_in_bytes_def map_sum_def split: prod.splits option.splits sum.splits)

text \<open>PCM: the chunks stay inside the data.\<close>

lemma pcm_loop_in_bytes:
  "data_end \<le> n \<Longrightarrow> s \<in> set (pcm_loop bpf chunk offset data_end) \<Longrightarrow> in_bytes n s"
proof (induction "data_end - offset" arbitrary: offset rule: less_induct)
  case less
  define next_end where "next_end = min (offset + chunk) data_end"
  define aligned where "aligned = next_end - (next_end - offset) mod bpf"
  define end' where "end' = (if aligned = offset then data_end else aligned)"
  show ?case
  proof (cases "offset < data_end")
    case True
    have le: "(next_end - offset) mod bpf \<le> next_end - offset" "offset \<le> next_end" "next_end \<le> data_end"
      using True by (simp_all add: mod_less_eq_dividend next_end_def)
    then have al: "offset \<le> aligned" "aligned \<le> data_end" unfolding aligned_def by linarith+
    then have e: "offset < end'" "end' \<le> data_end" unfolding end'_def using True by simp_all
    have "set (pcm_loop bpf chunk offset data_end) =
        insert (plain_sample offset end' (word_of_nat (max ((end' - offset) div bpf) 1))) (set (pcm_loop bpf chunk end' data_end))"
      using True unfolding pcm_loop.simps [of bpf chunk offset data_end]
      by (simp add: Let_def end'_def flip: next_end_def aligned_def)
    then show ?thesis using less.hyps [of end'] less.prems e by auto
  next
    case False
    with less.prems(2) show ?thesis by (simp add: pcm_loop.simps)
  qed
qed

lemma pcm_loop_empty: "data_end \<le> offset \<Longrightarrow> pcm_loop bpf chunk offset data_end = []"
  by (simp add: pcm_loop.simps)

lemma alac_samples_in_bytes:
  "alac_samples encode bpf earlier cs payload = (out, ss) \<Longrightarrow>
    length payload \<le> length out \<and> (\<forall>s \<in> set ss. in_bytes (length out) s)"
proof (induction encode bpf earlier cs payload arbitrary: out ss rule: alac_samples.induct)
  case (2 encode bpf earlier c cs payload)
  show ?case
  proof (cases "length c div bpf = 0")
    case True
    then show ?thesis using 2(1) [OF refl True] 2(3) by simp
  next
    case False
    obtain ss' where r: "alac_samples encode bpf (earlier @ [c]) cs (payload @ encode earlier c) = (out, ss')"
      and ss: "ss = plain_sample (length payload) (length (payload @ encode earlier c)) (word_of_nat (length c div bpf)) # ss'"
      using 2(3) False by (cases "alac_samples encode bpf (earlier @ [c]) cs (payload @ encode earlier c)") (auto simp: Let_def)
    from 2(2) [OF refl False refl r] show ?thesis by (simp add: ss)
  qed
qed simp

lemma remux_pcm_as_alac_in_bytes: "remux_pcm_as_alac codec pcm rate ch depth be = Inr t \<Longrightarrow> samples_in_bytes t"
  by (auto simp: remux_pcm_as_alac_def Let_def samples_in_bytes_def nonzero_def
      dest: alac_samples_in_bytes split: if_splits sum.splits prod.splits)

definition data_in_bytes :: "nat \<Rightarrow> nat \<times> nat \<Rightarrow> bool" where
  "data_in_bytes n = (\<lambda>(offset, len). len = 0 \<or> offset + len \<le> n)"

lemma remux_pcm_in_bytes:
  assumes "remux_pcm codec be bytes props info = Some (Inr t)"
    and "data_in_bytes (length bytes) (pi_data_offset info, pi_data_len info)"
  shows "samples_in_bytes t"
proof -
  have "s \<in> set (pcm_chunks (pi_data_offset info) (pi_data_offset info + pi_data_len info) k r n) \<Longrightarrow>
      in_bytes (length bytes) s" for s k r n
    using assms(2) pcm_loop_in_bytes pcm_loop_empty by (auto simp: pcm_chunks_def Let_def data_in_bytes_def)
  then show ?thesis using assms(1)
    by (auto simp: remux_pcm_def Let_def nonzero_def samples_in_bytes_def [of "\<lparr>rt_timescale = _, rt_bytes = _, rt_sample_entry = _, rt_samples = _\<rparr>"]
        intro: remux_pcm_as_alac_in_bytes split: if_splits)
qed

text \<open>A data chunk is only recorded when it lies inside the file; an AIFF chunk whose offset field
  passes its end is recorded as empty.\<close>

definition fields_ok :: "nat \<Rightarrow> pcm_fields \<Rightarrow> bool" where
  "fields_ok n f \<longleftrightarrow> pred_option (data_in_bytes n) (pf_data f)"

lemma wav_chunk_ok: "fields_ok n f \<Longrightarrow> offset + size' \<le> n \<Longrightarrow> fields_ok n (wav_chunk bytes offset cid size' f)"
  by (simp add: fields_ok_def wav_chunk_def data_in_bytes_def)

lemma wav_loop_ok: "fields_ok (length bytes) f \<Longrightarrow> fields_ok (length bytes) (wav_loop bytes offset f)"
proof (induction bytes offset f rule: wav_loop.induct)
  case (1 bytes offset f)
  show ?case
  proof (cases "offset + 8 \<le> length bytes \<and> offset + 8 + le_nat (slice (offset + 4) (offset + 8) bytes) \<le> length bytes")
    case True
    then have "\<not> length bytes < offset + 8 + le_nat (slice (offset + 4) (offset + 8) bytes)" by simp
    from 1(1) [OF conjunct1 [OF True] refl refl refl refl this wav_chunk_ok [OF 1(2)]] True
    show ?thesis by (subst wav_loop.simps) (simp add: Let_def)
  next
    case False
    with 1(2) show ?thesis by (subst wav_loop.simps) (auto simp: Let_def)
  qed
qed

lemma aiff_chunk_ok:
  "aiff_chunk bytes offset cid size' f = Inr f' \<Longrightarrow> fields_ok n f \<Longrightarrow> offset + size' \<le> n \<Longrightarrow> fields_ok n f'"
  by (auto simp: fields_ok_def aiff_chunk_def data_in_bytes_def Let_def split: if_splits sum.splits)

lemma aiff_loop_ok: "aiff_loop bytes offset f = Inr f' \<Longrightarrow> fields_ok (length bytes) f \<Longrightarrow> fields_ok (length bytes) f'"
proof (induction bytes offset f rule: aiff_loop.induct)
  case (1 bytes offset f)
  note unfolded = 1(2) [unfolded aiff_loop.simps [of bytes offset]]
  define size' where "size' = be_nat (slice (offset + 4) (offset + 8) bytes)"
  show ?case
  proof (cases "offset + 8 \<le> length bytes \<and> offset + 8 + size' \<le> length bytes")
    case True
    then have room: "\<not> length bytes < offset + 8 + size'" by simp
    obtain g where g: "aiff_chunk bytes (offset + 8) (slice offset (offset + 4) bytes) size' f = Inr g"
        "aiff_loop bytes (offset + 8 + size' + size' mod 2) g = Inr f'"
      using unfolded True by (auto simp: Let_def size'_def split: if_splits sum.splits)
    show ?thesis
      using 1(1) [OF conjunct1 [OF True] refl refl refl refl] room g True 1(3) aiff_chunk_ok [OF g(1)]
      by (simp add: size'_def)
  next
    case False
    with unfolded 1(3) show ?thesis by (auto simp: Let_def size'_def split: if_splits)
  qed
qed

lemma pcm_info_ok:
  "pcm_info_of format name f = Inr info \<Longrightarrow> fields_ok n f \<Longrightarrow> data_in_bytes n (pi_data_offset info, pi_data_len info)"
  by (auto simp: pcm_info_of_def fields_ok_def split: option.splits prod.splits)

lemma no_fields_ok: "fields_ok n no_fields"
  by (simp add: fields_ok_def no_fields_def)

lemma remux_wav_in_bytes:
  assumes "remux_wav codec bytes props = Some (Inr t)"
  shows "samples_in_bytes t"
proof -
  obtain info where info: "parse_wav_pcm bytes = Inr info" "remux_pcm codec False bytes props info = Some (Inr t)"
    using assms by (auto simp: remux_wav_def split: sum.splits)
  have "data_in_bytes (length bytes) (pi_data_offset info, pi_data_len info)"
    using info(1) pcm_info_ok wav_loop_ok [OF no_fields_ok] by (auto simp: parse_wav_pcm_def split: if_splits)
  then show ?thesis using info(2) remux_pcm_in_bytes by blast
qed

lemma remux_aiff_in_bytes:
  assumes "remux_aiff codec bytes props = Some (Inr t)"
  shows "samples_in_bytes t"
proof -
  obtain info where info: "parse_aiff_pcm bytes = Inr info" "remux_pcm codec True bytes props info = Some (Inr t)"
    using assms by (auto simp: remux_aiff_def split: sum.splits)
  have "data_in_bytes (length bytes) (pi_data_offset info, pi_data_len info)"
    using info(1) pcm_info_ok aiff_loop_ok [OF _ no_fields_ok]
    by (auto simp: parse_aiff_pcm_def split: if_splits sum.splits)
  then show ?thesis using info(2) remux_pcm_in_bytes by blast
qed

lemma opus_samples_in_bytes:
  "opus_samples packets payload = (out, ss) \<Longrightarrow> length payload \<le> length out \<and> (\<forall>s \<in> set ss. in_bytes (length out) s)"
proof (induction packets payload arbitrary: out ss rule: opus_samples.induct)
  case (2 packet packets payload)
  obtain ss' where r: "opus_samples packets (payload @ packet) = (out, ss')"
    and ss: "ss = plain_sample (length payload) (length (payload @ packet)) (max (opus_packet_duration packet) 1) # ss'"
    using 2(2) by (cases "opus_samples packets (payload @ packet)") (auto simp: Let_def)
  from 2(1) [OF refl r] show ?case by (simp add: ss)
qed simp

lemma remux_opus_in_bytes: "remux_opus bytes props = Inr t \<Longrightarrow> samples_in_bytes t"
  by (auto simp: remux_opus_def Let_def samples_in_bytes_def nonzero_def
      dest: opus_samples_in_bytes split: if_splits sum.splits prod.splits)

lemma mp4_samples_in_bytes:
  "mp4_samples n i current ds = Inr ss \<Longrightarrow> n < usize_max \<Longrightarrow> s \<in> set ss \<Longrightarrow> in_bytes n s"
proof (induction ds arbitrary: current ss)
  case (Cons d ds)
  show ?case
  proof (cases "ds_track_id d = i")
    case True
    obtain entry ss' where r: "usize_saturating_add (ds_data_offset d) (ds_data_size d) \<le> n"
        "mp4_samples n i (Some entry) ds = Inr ss'"
        "ss = \<lparr>rs_range = (ds_data_offset d, usize_saturating_add (ds_data_offset d) (ds_data_size d)),
          rs_duration = ds_duration d, rs_sample_entry = Some entry, rs_keyframe = ds_keyframe d,
          rs_composition_time_offset = ds_composition_time_offset d\<rparr> # ss'"
      using Cons.prems(1) True by (auto simp: Let_def map_sum_def split: if_splits option.splits sum.splits prod.splits)
    have "in_bytes n (hd ss)" using r(1) Cons.prems(2) by (simp add: in_bytes_def r(3) usize_saturating_add_def min_def split: if_splits)
    then show ?thesis using Cons.IH [OF r(2)] Cons.prems(2,3) by (auto simp: r(3))
  next
    case False
    then show ?thesis using Cons by simp
  qed
qed simp

lemma remux_mp4_in_bytes:
  "remux_mp4 bytes audio ds = Inr t \<Longrightarrow> length bytes < usize_max \<Longrightarrow> samples_in_bytes t"
  by (auto simp: remux_mp4_def samples_in_bytes_def dest: mp4_samples_in_bytes
      split: option.splits prod.splits sum.splits if_splits)

lemma remux_source_in_bytes:
  assumes "remux_source codec demux ft props bytes = Some (Inr t)" "length bytes < usize_max"
  shows "samples_in_bytes t"
  using assms
  by (cases ft) (auto simp: remux_source_def split: prod.splits intro: remux_flac_in_bytes remux_mp3_in_bytes
      remux_aac_in_bytes remux_wav_in_bytes remux_aiff_in_bytes remux_opus_in_bytes remux_mp4_in_bytes)

end
