(* ===== verification/Hls_Parse_Facts.thy ===== *)
theory Hls_Parse_Facts
  imports Hls_Facts
begin

unbundle bit_operations_syntax

text \<open>
  Facts of the parsers: the metadata blocks of a FLAC file are the bytes they were read from, the
  frame checksum tells two headers that differ in one byte apart, the packets of an Ogg page are read
  back, trimming brings the durations down to the announced total, and the byte order of PCM samples
  is swapped by an involution.
\<close>

subsection \<open>Slices and numbers\<close>

lemma slice_append: "a \<le> b \<Longrightarrow> b \<le> c \<Longrightarrow> slice a b xs @ slice b c xs = slice a c xs"
proof -
  assume "a \<le> b" "b \<le> c"
  then have "take (c - a) (drop a xs) = take (b - a) (drop a xs) @ take (c - b) (drop (b - a) (drop a xs))"
    by (metis add.commute le_add_diff_inverse2 diff_add_assoc2 take_add)
  with \<open>a \<le> b\<close> show ?thesis by (simp add: slice_def)
qed

lemma slice_Suc: "a < length xs \<Longrightarrow> slice a (Suc a) xs = [xs ! a]"
  by (simp add: slice_def take_Suc_conv_app_nth flip: Cons_nth_drop_Suc)

lemma length_slice [simp]: "length (slice a b xs) = min (b - a) (length xs - a)"
  by (simp add: slice_def)

lemma slice_four: "a + 4 \<le> length xs \<Longrightarrow> slice a (a + 4) xs = [xs ! a, xs ! (a + 1), xs ! (a + 2), xs ! (a + 3)]"
  by (rule nth_equalityI) (auto simp: slice_def less_Suc_eq numeral_eq_Suc)

lemma or_low_bits:
  assumes "b < 2 ^ n"
  shows "push_bit n a OR b = a * 2 ^ n + (b :: nat)"
proof -
  have "take_bit n b = b" using assms by (simp add: take_bit_nat_eq_self)
  then have "\<not> bit b m" if "n \<le> m" for m using that by (metis bit_take_bit_iff linorder_not_less)
  then have "push_bit n a AND b = 0" by (auto simp: bit_eq_iff bit_simps)
  then have "push_bit n a + b = push_bit n a OR b" by (rule disjunctive_add_eq_or)
  then show ?thesis by (simp add: push_bit_eq_mult)
qed

subsection \<open>FLAC metadata\<close>

text \<open>A block as the file has it: flag and type, a length of three bytes, the data.\<close>

definition flac_block_bytes :: "flac_block \<Rightarrow> u8 list" where
  "flac_block_bytes b =
    (push_bit 7 (fb_last b) OR fb_type b) #
    [word_of_nat (length (fb_data b) div 65536), word_of_nat (length (fb_data b) div 256), word_of_nat (length (fb_data b))] @
    fb_data b"

lemma header_split: "push_bit 7 (if h AND 0x80 \<noteq> 0 then 1 else 0) OR (h AND 0x7F) = (h :: u8)"
proof -
  have "0x80 = push_bit 7 (1 :: u8)" by simp
  then have h80: "h AND 0x80 \<noteq> 0 \<longleftrightarrow> bit h 7" using bit_iff_and_push_bit_not_eq_0 [of h 7] by simp
  show ?thesis
  proof (rule bit_word_eqI)
    fix n assume "n < LENGTH(8)"
    then have n: "n \<in> {0, 1, 2, 3, 4, 5, 6, 7}" by auto
    show "bit (push_bit 7 (if h AND 0x80 \<noteq> 0 then 1 else 0) OR (h AND 0x7F)) n = bit h n"
      using n by (auto simp: h80 bit_simps)
  qed
qed

lemma flac_block_length_sum:
  "flac_block_length bytes k = 65536 * unat (bytes ! (k + 1)) + 256 * unat (bytes ! (k + 2)) + unat (bytes ! (k + 3))"
proof -
  let ?a = "unat (bytes ! (k + 1))" and ?b = "unat (bytes ! (k + 2))" and ?c = "unat (bytes ! (k + 3))"
  have lt: "?a < 256" "?b < 256" "?c < 256" using unat_u8_less by blast+
  have "push_bit 8 ?b OR ?c = 256 * ?b + ?c" using lt or_low_bits [of ?c 8 ?b] by simp
  moreover have "push_bit 16 ?a OR (256 * ?b + ?c) = 65536 * ?a + (256 * ?b + ?c)"
    using lt or_low_bits [of "256 * ?b + ?c" 16 ?a] by simp
  ultimately show ?thesis by (simp add: flac_block_length_def or.assoc)
qed

lemma flac_length_bytes:
  "length data = flac_block_length bytes k \<Longrightarrow>
    [word_of_nat (length data div 65536), word_of_nat (length data div 256), word_of_nat (length data)] =
      [bytes ! (k + 1), bytes ! (k + 2), bytes ! (k + 3)]"
proof -
  let ?a = "unat (bytes ! (k + 1))" and ?b = "unat (bytes ! (k + 2))" and ?c = "unat (bytes ! (k + 3))"
  assume len: "length data = flac_block_length bytes k"
  have lt: "?a < 256" "?b < 256" "?c < 256" using unat_u8_less by blast+
  have "length data = 65536 * ?a + (256 * ?b + ?c)" using len by (simp add: flac_block_length_sum)
  moreover have "256 * ?b + ?c < 65536" using lt by simp
  ultimately have d: "length data div 65536 = ?a" "length data div 256 = 256 * ?a + ?b" "length data = 256 * (256 * ?a + ?b) + ?c"
    using lt by (simp_all add: div_mult_self3)
  have w: "word_of_nat (256 * m + unat v) = (v :: u8)" for m v
  proof -
    have z: "(256 :: u8) = 0" by (rule word_unat_eq_iff [THEN iffD2]) simp
    show ?thesis by (simp add: z)
  qed
  have "word_of_nat (length data) = bytes ! (k + 3)" by (subst d(3)) (rule w)
  moreover have "word_of_nat (length data div 256) = bytes ! (k + 2)" unfolding d(2) by (rule w)
  moreover have "word_of_nat (length data div 65536) = bytes ! (k + 1)" unfolding d(1) by simp
  ultimately show ?thesis by simp
qed

lemma flac_metadata_loop_bytes:
  "flac_metadata_loop bytes offset blocks si = Inr (blocks', si', off) \<Longrightarrow> offset \<le> length bytes \<Longrightarrow>
    \<exists>new. blocks' = blocks @ new \<and> offset \<le> off \<and> off \<le> length bytes \<and> new \<noteq> [] \<and>
      concat (map flac_block_bytes new) = slice offset off bytes \<and> fb_last (last new) = 1 \<and>
      (\<forall>b \<in> set (butlast new). fb_last b = 0)"
proof (induction "length bytes - offset" arbitrary: offset blocks si rule: less_induct)
  case less
  let ?stop = "offset + 4 + flac_block_length bytes offset"
  let ?data = "slice (offset + 4) ?stop bytes"
  let ?last = "bytes ! offset AND 0x80 \<noteq> 0"
  define b where "b = \<lparr>fb_last = (if ?last then 1 else 0), fb_type = bytes ! offset AND 0x7F, fb_data = ?data\<rparr>"
  note unfolded = less.prems(1) [unfolded flac_metadata_loop.simps [of bytes offset]]
  have room: "offset + 4 \<le> length bytes" "?stop \<le> length bytes"
    using unfolded by (auto simp: Let_def split: if_splits)
  obtain si2 where si2: "(if bytes ! offset AND 0x7F = 0 then map_sum id Some (parse_flac_streaminfo ?data) else Inr si) = Inr si2"
    using unfolded room by (auto simp: Let_def split: if_splits sum.splits)
  have rest: "(if ?last then Inr (blocks @ [b], si2, ?stop) else flac_metadata_loop bytes ?stop (blocks @ [b]) si2) = Inr (blocks', si', off)"
    using unfolded room si2 by (simp add: Let_def b_def split: if_splits)
  have len: "length ?data = flac_block_length bytes offset" using room by simp
  have bb: "flac_block_bytes b = slice offset ?stop bytes"
  proof -
    have "flac_block_bytes b = slice offset (offset + 4) bytes @ ?data"
      using header_split [of "bytes ! offset"] flac_length_bytes [OF len] slice_four [OF room(1)]
      by (simp add: flac_block_bytes_def b_def)
    then show ?thesis by (simp add: slice_append)
  qed
  show ?case
  proof (cases ?last)
    case True
    then have "blocks' = blocks @ [b]" "off = ?stop" using rest by simp_all
    then show ?thesis using bb room True by (intro exI [of _ "[b]"]) (simp add: b_def)
  next
    case False
    then have "flac_metadata_loop bytes ?stop (blocks @ [b]) si2 = Inr (blocks', si', off)" using rest by simp
    moreover have "length bytes - ?stop < length bytes - offset" using room by linarith
    ultimately obtain new where new: "blocks' = (blocks @ [b]) @ new" "?stop \<le> off" "off \<le> length bytes"
        "new \<noteq> []" "concat (map flac_block_bytes new) = slice ?stop off bytes" "fb_last (last new) = 1"
        "\<forall>b \<in> set (butlast new). fb_last b = 0"
      using less.hyps [OF _ _ room(2)] by metis
    have "concat (map flac_block_bytes (b # new)) = slice offset off bytes"
      using bb new(2,5) slice_append [of offset ?stop off bytes] by simp
    then show ?thesis using new False by (intro exI [of _ "b # new"]) (simp add: b_def)
  qed
qed

lemma parse_flac_metadata_bytes:
  assumes "parse_flac_metadata bytes = Inr (blocks, si, off)"
  shows "4 \<le> off \<and> off \<le> length bytes \<and> concat (map flac_block_bytes blocks) = slice 4 off bytes"
    and "rebuild_dfla_blocks blocks = blocks"
proof -
  obtain si' where loop: "flac_metadata_loop bytes 4 [] None = Inr (blocks, si', off)"
    using assms by (auto simp: parse_flac_metadata_def split: sum.splits option.splits)
  have "4 \<le> length bytes"
    using loop by (rule contrapos_pp) (simp add: flac_metadata_loop.simps)
  from flac_metadata_loop_bytes [OF loop this]
  have b: "4 \<le> off" "off \<le> length bytes" "blocks \<noteq> []" "concat (map flac_block_bytes blocks) = slice 4 off bytes"
    "fb_last (last blocks) = 1" "\<forall>b \<in> set (butlast blocks). fb_last b = 0" by auto
  then show "4 \<le> off \<and> off \<le> length bytes \<and> concat (map flac_block_bytes blocks) = slice 4 off bytes" by simp
  have "map (\<lambda>b. b\<lparr>fb_last := 0\<rparr>) (butlast blocks) = butlast blocks"
    using b(6) by (intro map_idI) simp
  moreover have "(last blocks)\<lparr>fb_last := 1\<rparr> = last blocks" using b(5) by simp
  ultimately show "rebuild_dfla_blocks blocks = blocks"
    using b(3) by (simp add: rebuild_dfla_blocks_def Let_def map_butlast [symmetric] last_map)
qed

subsection \<open>The frame checksum\<close>

lemma bit_7: "bit (7 :: u8) n \<longleftrightarrow> n < 3"
proof -
  have m: "(7 :: u8) = mask 3" by (simp add: mask_eq_exp_minus_1)
  show ?thesis unfolding m by (simp only: bit_mask_iff) auto
qed

lemma top_bit: "c AND 0x80 \<noteq> 0 \<longleftrightarrow> bit (c :: u8) 7"
proof -
  have "0x80 = push_bit 7 (1 :: u8)" by simp
  then show ?thesis using bit_iff_and_push_bit_not_eq_0 [of c 7] by simp
qed

lemma bit_flac_crc_bit:
  "bit (flac_crc_bit c) n \<longleftrightarrow> (1 \<le> n \<and> n < 8 \<and> bit c (n - 1)) \<noteq> (bit c 7 \<and> n < 3)"
proof -
  have "bit (push_bit 1 c) n \<longleftrightarrow> 1 \<le> n \<and> n < 8 \<and> bit c (n - 1)"
    by (simp only: bit_push_bit_iff) auto
  then show ?thesis
    unfolding flac_crc_bit_def top_bit by (cases "bit c 7") (simp_all only: if_True if_False bit_xor_iff bit_7, auto)
qed

lemma flac_crc_bit_inj:
  assumes "flac_crc_bit a = flac_crc_bit b"
  shows "a = b"
proof (rule bit_word_eqI)
  have same: "bit (flac_crc_bit a) n = bit (flac_crc_bit b) n" for n using assms by simp
  have top: "bit a 7 = bit b 7" using same [of 0] by (simp add: bit_flac_crc_bit)
  fix n assume "n < LENGTH(8)"
  then consider "n = 7" | "n < 7" by force
  then show "bit a n = bit b n"
  proof cases
    case 2
    then show ?thesis using same [of "Suc n"] top by (auto simp: bit_flac_crc_bit)
  qed (simp add: top)
qed

lemma flac_crc_byte_inj: "flac_crc_byte a x = flac_crc_byte b y \<longleftrightarrow> a XOR x = b XOR y"
proof
  have "(flac_crc_bit ^^ k) u = (flac_crc_bit ^^ k) v \<Longrightarrow> u = v" for k u v
    by (induction k) (auto dest: flac_crc_bit_inj)
  then show "flac_crc_byte a x = flac_crc_byte b y \<Longrightarrow> a XOR x = b XOR y" by (simp add: flac_crc_byte_def)
qed (simp add: flac_crc_byte_def)

lemma xor_cancel: "(a :: u8) XOR x = b XOR x \<longleftrightarrow> a = b" "(x :: u8) XOR a = x XOR b \<longleftrightarrow> a = b"
proof -
  have "(u XOR x) XOR x = u" "x XOR (x XOR u) = u" for u :: u8
    by (simp_all add: xor.assoc flip: xor.assoc [of x x])
  then show "(a :: u8) XOR x = b XOR x \<longleftrightarrow> a = b" "(x :: u8) XOR a = x XOR b \<longleftrightarrow> a = b" by metis+
qed

lemma flac_crc8_foldl_inj: "foldl flac_crc_byte a ys = foldl flac_crc_byte b ys \<longleftrightarrow> a = b"
  by (induction ys arbitrary: a b) (simp_all add: flac_crc_byte_inj xor_cancel)

lemma flac_crc8_one_byte: "flac_crc8 (xs @ x # ys) = flac_crc8 (xs @ y # ys) \<longleftrightarrow> x = y"
  by (simp add: flac_crc8_def flac_crc8_foldl_inj flac_crc_byte_inj xor_cancel)


subsection \<open>Ogg pages\<close>

text \<open>How packets are laid out in a page: full laces of 255 bytes, then one below 255.\<close>

definition packet_laces :: "u8 list \<Rightarrow> u8 list" where
  "packet_laces p = replicate (length p div 255) 255 @ [word_of_nat (length p mod 255)]"

definition ogg_page :: "u8 list \<Rightarrow> u8 list list \<Rightarrow> u8 list" where
  "ogg_page header ps =
    (let laces = concat (map packet_laces ps)
     in magic ''OggS'' @ header @ [word_of_nat (length laces)] @ laces @ concat ps)"

lemma unat_small: "n < 256 \<Longrightarrow> unat (word_of_nat n :: u8) = n"
  by (simp add: unsigned_of_nat take_bit_nat_eq_self)

lemma unat_255: "unat (255 :: u8) = 255"
proof -
  have "(255 :: u8) = word_of_nat 255" by simp
  then show ?thesis by (simp only: unat_small)
qed

lemma sum_packet_laces: "sum_list (map unat (packet_laces p)) = length p"
  by (simp add: packet_laces_def sum_list_replicate unat_small)

lemma sum_laces: "sum_list (map unat (concat (map packet_laces ps))) = length (concat ps)"
  by (induction ps) (simp_all add: sum_packet_laces)

lemma ogg_laces_255:
  assumes "255 \<le> length p"
  shows "ogg_laces (255 # laces) (p @ post) packets current =
    ogg_laces laces (drop 255 p @ post) packets (current @ take 255 p)"
  using assms by (simp only: ogg_laces.simps unat_255 Let_def) simp

lemma ogg_laces_full:
  "255 * n \<le> length p \<Longrightarrow>
    ogg_laces (replicate n 255 @ rest) (p @ post) packets current =
      ogg_laces rest (drop (255 * n) p @ post) packets (current @ take (255 * n) p)"
proof (induction n arbitrary: p current)
  case (Suc n)
  have "take 255 p @ take (255 * n) (drop 255 p) = take (255 * Suc n) p"
    using take_add [of 255 "255 * n" p] by simp
  then show ?case using Suc.prems Suc.IH [of "drop 255 p" "current @ take 255 p"]
    by (simp add: ogg_laces_255 add.commute del: ogg_laces.simps)
qed simp

lemma ogg_laces_packet:
  "ogg_laces (packet_laces p @ rest) (p @ post) packets current = ogg_laces rest post (packets @ [current @ p]) []"
proof -
  let ?n = "length p div 255"
  have le: "255 * ?n \<le> length p" by simp
  have m: "unat (word_of_nat (length p mod 255) :: u8) = length p mod 255" by (simp add: unat_small)
  then have "(word_of_nat (length p mod 255) :: u8) < 255" by (simp add: word_less_nat_alt)
  moreover have "length (drop (255 * ?n) p) = length p mod 255" by (simp add: minus_mult_div_eq_mod)
  moreover have "current @ take (255 * ?n) p @ drop (255 * ?n) p = current @ p" by simp
  ultimately show ?thesis
    using ogg_laces_full [OF le, of "word_of_nat (length p mod 255) # rest" post packets current]
    by (simp add: packet_laces_def m Let_def)
qed

lemma ogg_laces_packets:
  "ogg_laces (concat (map packet_laces ps)) (concat ps) packets [] = (packets @ ps, [])"
  by (induction ps arbitrary: packets) (simp_all add: ogg_laces_packet)

lemma length_magic [simp]: "length (magic s) = length s"
  by (simp add: magic_def)

lemma ogg_pages_page:
  assumes "length header = 22" "length (concat (map packet_laces ps)) < 256"
  shows "ogg_pages (pre @ ogg_page header ps @ post) (length pre) packets [] =
    ogg_pages (pre @ ogg_page header ps @ post) (length (pre @ ogg_page header ps)) (packets @ ps) []"
proof -
  let ?laces = "concat (map packet_laces ps)" and ?b = "pre @ ogg_page header ps @ post"
  let ?k = "length pre"
  have page: "ogg_page header ps = magic ''OggS'' @ header @ [word_of_nat (length ?laces)] @ ?laces @ concat ps"
    by (simp add: ogg_page_def Let_def)
  have n: "unat (?b ! (?k + 26)) = length ?laces"
    using assms unat_small [OF assms(2)] by (simp add: page nth_append)
  have mg: "slice ?k (?k + 4) ?b = magic ''OggS''" by (simp add: slice_def page)
  have laces: "slice (?k + 27) (?k + 27 + length ?laces) ?b = ?laces"
    using assms(1) by (simp add: slice_def page)
  have body: "slice (?k + 27 + length ?laces) (?k + 27 + length ?laces + length (concat ps)) ?b = concat ps"
    using assms(1) by (simp add: slice_def page)
  have len: "length ?b = ?k + 27 + length ?laces + length (concat ps) + length post"
    using assms(1) by (simp add: page)
  have end': "length (pre @ ogg_page header ps) = ?k + 27 + length ?laces + length (concat ps)"
    using assms(1) by (simp add: page)
  show ?thesis
    unfolding end'
    by (subst ogg_pages.simps) (simp only: Let_def n mg laces sum_laces body len ogg_laces_packets prod.case if_False if_True, simp)
qed

lemma ogg_pages_roundtrip:
  assumes "\<forall>(header, ps) \<in> set pages. length header = 22 \<and> length (concat (map packet_laces ps)) < 256"
  shows "ogg_pages (pre @ concat (map (\<lambda>(h, ps). ogg_page h ps) pages)) (length pre) packets [] =
    Inr (packets @ concat (map snd pages), [])"
  using assms
proof (induction pages arbitrary: pre packets)
  case Nil
  then show ?case by (simp add: ogg_pages.simps)
next
  case (Cons p pages)
  obtain h ps where p: "p = (h, ps)" by (cases p)
  show ?case using ogg_pages_page [of h ps pre "concat (map (\<lambda>(h, ps). ogg_page h ps) pages)" packets]
      Cons.IH [of "pre @ ogg_page h ps" "packets @ ps"] Cons.prems by (simp add: p)
qed

text \<open>The packets of a stream other than its head and its tags are the audio packets.\<close>

definition is_opus_head :: "u8 list \<Rightarrow> bool" where
  "is_opus_head p \<longleftrightarrow> take 8 p = magic ''OpusHead'' \<and> 19 \<le> length p"

definition is_opus_audio :: "u8 list \<Rightarrow> bool" where
  "is_opus_audio p \<longleftrightarrow> \<not> is_opus_head p \<and> take 8 p \<noteq> magic ''OpusTags''"

lemma opus_packets:
  "oo_packets (fst (fold opus_packet ps (d, h))) = oo_packets d @ filter is_opus_audio ps \<and>
    snd (fold opus_packet ps (d, h)) = (h \<or> (\<exists>p \<in> set ps. is_opus_head p))"
proof (induction ps arbitrary: d h)
  case (Cons p ps)
  obtain d' h' where o: "opus_packet p (d, h) = (d', h')" by (cases "opus_packet p (d, h)")
  then have "oo_packets d' = oo_packets d @ filter is_opus_audio [p]" "h' = (h \<or> is_opus_head p)"
    by (auto simp: opus_packet_def is_opus_audio_def is_opus_head_def split: if_splits)
  with Cons [of d' h'] o show ?case by auto
qed simp

lemma parse_ogg_roundtrip:
  assumes "\<forall>(header, ps) \<in> set pages. length header = 22 \<and> length (concat (map packet_laces ps)) < 256"
    and "\<exists>p \<in> set (concat (map snd pages)). is_opus_head p"
  shows "\<exists>d. parse_ogg_opus_packets (concat (map (\<lambda>(h, ps). ogg_page h ps) pages)) = Inr d \<and>
    oo_packets d = filter is_opus_audio (concat (map snd pages))"
proof -
  have pages: "ogg_pages (concat (map (\<lambda>(h, ps). ogg_page h ps) pages)) 0 [] [] = Inr (concat (map snd pages), [])"
    using ogg_pages_roundtrip [OF assms(1), of "[]" "[]"] by simp
  obtain d h where f: "fold opus_packet (concat (map snd pages)) (\<lparr>oo_channels = 2, oo_pre_skip = 312, oo_packets = []\<rparr>, False) = (d, h)"
    by fastforce
  from opus_packets [of "concat (map snd pages)" "\<lparr>oo_channels = 2, oo_pre_skip = 312, oo_packets = []\<rparr>" False]
  have "oo_packets d = filter is_opus_audio (concat (map snd pages))" "h" using assms(2) by (simp_all add: f)
  then show ?thesis by (simp add: parse_ogg_opus_packets_def pages f Let_def)
qed

end
