(* ===== verification/Hls_Limits.thy ===== *)
theory Hls_Limits
  imports Hls_Parse_Facts
begin

text \<open>
  Bounds of the packager: how far the cache is evicted and in which order, how trimming brings the
  durations of a FLAC file down to the announced total, how PCM data is cut into chunks and swapped.
\<close>

subsection \<open>Eviction\<close>

definition evictable :: "(string \<times> string) option \<Rightarrow> cache_entry \<Rightarrow> bool" where
  "evictable preserve e \<longleftrightarrow> preserve \<noteq> Some (ce_key e)"

definition sizes :: "cache_entry list \<Rightarrow> nat" where
  "sizes es = sum_list (map ce_size es)"

lemma sizes_simps [simp]: "sizes [] = 0" "sizes (e # es) = ce_size e + sizes es" "sizes (xs @ ys) = sizes xs + sizes ys"
  by (simp_all add: sizes_def)

text \<open>The entries removed are the evictable ones of a prefix, which ends as soon as the rest fits.\<close>

lemma evict_loop_prefix:
  "\<exists>n \<le> length es. evict_loop m p size' es = map ce_key (filter (evictable p) (take n es)) \<and>
    (n = length es \<or> size' - sizes (filter (evictable p) (take n es)) \<le> m)"
proof (induction m p size' es rule: evict_loop.induct)
  case (1 m p size')
  then show ?case by simp
next
  case (2 m p size' e es)
  show ?case
  proof (cases "size' \<le> m")
    case True
    then show ?thesis by (intro exI [of _ 0]) simp
  next
    case False
    define size2 where "size2 = (if evictable p e then size' - ce_size e else size')"
    have step: "evict_loop m p size' (e # es) = (if evictable p e then [ce_key e] else []) @ evict_loop m p size2 es"
      using False by (simp add: evictable_def size2_def)
    have "\<exists>n \<le> length es. evict_loop m p size2 es = map ce_key (filter (evictable p) (take n es)) \<and>
        (n = length es \<or> size2 - sizes (filter (evictable p) (take n es)) \<le> m)"
    proof (cases "evictable p e")
      case True
      then show ?thesis using 2(2) [OF False True [unfolded evictable_def]] by (simp add: size2_def)
    next
      case False': False
      then have "p = Some (ce_key e)" by (simp add: evictable_def)
      from 2(1) [OF False this] show ?thesis using False' by (simp add: size2_def)
    qed
    then obtain n where n: "n \<le> length es" "evict_loop m p size2 es = map ce_key (filter (evictable p) (take n es))"
        "n = length es \<or> size2 - sizes (filter (evictable p) (take n es)) \<le> m" by blast
    have "evict_loop m p size' (e # es) = map ce_key (filter (evictable p) (take (Suc n) (e # es)))"
      unfolding step n(2) by simp
    moreover have "Suc n = length (e # es) \<or> size' - sizes (filter (evictable p) (take (Suc n) (e # es))) \<le> m"
      using n(3) by (auto simp: size2_def)
    ultimately show ?thesis using n(1) by (intro exI [of _ "Suc n"]) simp
  qed
qed

lemma kept_of_prefix:
  assumes "distinct (map ce_key es)" "r = set (map ce_key (filter q (take n es)))"
  shows "filter (\<lambda>e. ce_key e \<notin> r) es = filter (\<lambda>e. \<not> q e) (take n es) @ drop n es"
proof -
  have inj: "inj_on ce_key (set es)" using assms(1) by (simp add: distinct_map)
  have d: "set (take n es) \<inter> set (drop n es) = {}" "set (take n es) \<subseteq> set es" "set (drop n es) \<subseteq> set es"
    using assms(1) by (auto simp: distinct_map set_take_disj_set_drop_if_distinct dest: in_set_takeD in_set_dropD)
  have "ce_key e \<in> r \<longleftrightarrow> e \<in> set (take n es) \<and> q e" if "e \<in> set es" for e
    using inj d(2) that by (auto simp: assms(2) inj_on_def)
  then have "filter (\<lambda>e. ce_key e \<notin> r) es = filter (\<lambda>e. \<not> (e \<in> set (take n es) \<and> q e)) (take n es @ drop n es)"
    by (simp cong: filter_cong)
  also have "\<dots> = filter (\<lambda>e. \<not> (e \<in> set (take n es) \<and> q e)) (take n es) @
      filter (\<lambda>e. \<not> (e \<in> set (take n es) \<and> q e)) (drop n es)"
    by (rule filter_append)
  also have "filter (\<lambda>e. \<not> (e \<in> set (take n es) \<and> q e)) (take n es) = filter (\<lambda>e. \<not> q e) (take n es)"
    by (rule filter_cong) auto
  also have "filter (\<lambda>e. \<not> (e \<in> set (take n es) \<and> q e)) (drop n es) = drop n es"
    using d(1) by (intro filter_True) auto
  finally show ?thesis .
qed

definition kept_entries :: "nat \<Rightarrow> (string \<times> string) option \<Rightarrow> cache_entry list \<Rightarrow> cache_entry list" where
  "kept_entries m p es = filter (\<lambda>e. ce_key e \<notin> set (enforce_size_limit m p es)) es"

text \<open>What is kept, up to order: the prefix's entry that is not evictable, and the rest.\<close>

lemma kept_entries_prefix:
  assumes "distinct (map ce_key es)"
  obtains n where "mset (kept_entries m p es) =
      mset (filter (\<lambda>e. \<not> evictable p e) (take n (sort_key ce_last_access es)) @ drop n (sort_key ce_last_access es))"
    and "n = length es \<or> sizes (kept_entries m p es) \<le> m"
proof (cases "sizes es \<le> m")
  case True
  then have "kept_entries m p es = es"
    by (simp add: kept_entries_def enforce_size_limit_def sizes_def Let_def)
  then show thesis using that [of 0] True by simp
next
  case False
  let ?s = "sort_key ce_last_access es"
  obtain n where n: "evict_loop m p (sizes es) ?s = map ce_key (filter (evictable p) (take n ?s))"
      "n = length ?s \<or> sizes es - sizes (filter (evictable p) (take n ?s)) \<le> m"
    using evict_loop_prefix by blast
  have r: "enforce_size_limit m p es = map ce_key (filter (evictable p) (take n ?s))"
    using False n(1) by (simp add: enforce_size_limit_def sizes_def Let_def)
  have ds: "distinct (map ce_key ?s)" using assms by (metis mset_eq_imp_distinct_iff mset_map mset_sort)
  let ?k = "filter (\<lambda>e. \<not> evictable p e) (take n ?s) @ drop n ?s"
  have k: "filter (\<lambda>e. ce_key e \<notin> set (enforce_size_limit m p es)) ?s = ?k"
    unfolding r by (rule kept_of_prefix [OF ds refl])
  have mk: "mset (kept_entries m p es) = mset ?k"
    unfolding k [symmetric] by (simp add: kept_entries_def)
  have sz: "sizes xs = sizes ys" if "mset xs = mset ys" for xs ys
    using that by (metis mset_map sizes_def sum_mset_sum_list)
  have part: "sizes xs = sizes (filter q xs) + sizes (filter (\<lambda>e. \<not> q e) xs)" for xs q by (induction xs) auto
  have "sizes es = sizes ?s" by (rule sz) simp
  also have "\<dots> = sizes (take n ?s) + sizes (drop n ?s)" by (metis append_take_drop_id sizes_simps(3))
  also have "\<dots> = sizes (filter (evictable p) (take n ?s)) + sizes ?k"
    using part [of "take n ?s" "evictable p"] by simp
  finally have "sizes es = sizes (filter (evictable p) (take n ?s)) + sizes (kept_entries m p es)"
    using sz [OF mk] by simp
  then show thesis using that [of n] mk n(2) False by auto
qed

lemma enforce_limit_reached:
  assumes "distinct (map ce_key es)"
  shows "sizes (kept_entries m p es) \<le> m \<or> (\<forall>e \<in> set (kept_entries m p es). p = Some (ce_key e))"
proof -
  let ?s = "sort_key ce_last_access es"
  obtain n where n: "mset (kept_entries m p es) = mset (filter (\<lambda>e. \<not> evictable p e) (take n ?s) @ drop n ?s)"
      "n = length es \<or> sizes (kept_entries m p es) \<le> m"
    using assms by (rule kept_entries_prefix [where m = m and p = p])
  show ?thesis using n(2) mset_eq_setD [OF n(1)] by (auto simp: evictable_def)
qed

lemma enforce_limit_preserves: "e \<in> set es \<Longrightarrow> p = Some (ce_key e) \<Longrightarrow> e \<in> set (kept_entries m p es)"
  using evict_loop_prefix [of "sort_key ce_last_access es" m p "sizes es"]
  by (auto simp: kept_entries_def enforce_size_limit_def sizes_def Let_def evictable_def)

lemma enforce_limit_oldest_first:
  assumes "distinct (map ce_key es)" "e \<in> set es" "e \<notin> set (kept_entries m p es)"
    and "k \<in> set (kept_entries m p es)" "p \<noteq> Some (ce_key k)"
  shows "ce_last_access e \<le> ce_last_access k"
proof -
  let ?s = "sort_key ce_last_access es"
  obtain n where n: "mset (kept_entries m p es) = mset (filter (\<lambda>e. \<not> evictable p e) (take n ?s) @ drop n ?s)"
    using assms(1) by (rule kept_entries_prefix [where m = m and p = p])
  note sk = mset_eq_setD [OF n]
  have "e \<in> set (take n ?s) \<or> e \<in> set (drop n ?s)" using assms(2) by (metis Un_iff append_take_drop_id set_append set_sort)
  then have et: "e \<in> set (take n ?s)" using assms(3) sk by auto
  have kd: "k \<in> set (drop n ?s)" using assms(4,5) sk by (auto simp: evictable_def)
  have "sorted (map ce_last_access (take n ?s @ drop n ?s))" by simp
  then show ?thesis using et kd unfolding map_append sorted_append by auto
qed

subsection \<open>Trimming durations\<close>

definition positive :: "remux_sample list \<Rightarrow> bool" where
  "positive ss \<longleftrightarrow> (\<forall>s \<in> set ss. rs_duration s \<noteq> 0)"

lemma positive_Cons: "positive (s # ss) \<longleftrightarrow> 1 \<le> unat (rs_duration s) \<and> positive ss"
  by (auto simp: positive_def Suc_le_eq unat_gt_0)

lemma positive_total: "positive ss \<Longrightarrow> length ss \<le> total_duration ss"
proof (induction ss)
  case (Cons s ss)
  then have "length ss \<le> total_duration ss" "1 \<le> unat (rs_duration s)" by (simp_all only: positive_Cons)
  then show ?case by simp
qed simp

lemma unat_sub_small: "k \<le> unat (d :: u32) \<Longrightarrow> unat (d - word_of_nat k) = unat d - k"
proof -
  assume k: "k \<le> unat d"
  have "unat d < 2 ^ 32" using unsigned_less [of d, where 'a = nat] by simp
  then have uk: "unat (word_of_nat k :: u32) = k" using k by (simp add: unsigned_of_nat take_bit_nat_eq_self)
  then have "word_of_nat k \<le> d" using k by (simp add: word_le_nat_alt)
  then show ?thesis by (simp add: unat_sub uk)
qed

lemma trim_arith:
  assumes "1 \<le> d" "n \<le> (t :: nat)"
  shows "d - min (d - 1) k + (t - min (k - min (d - 1) k) (t - n)) = d + t - min k (d + t - Suc n)"
proof -
  obtain d' e where de: "d = Suc d'" "t = n + e" using assms by (metis Suc_le_D One_nat_def le_Suc_ex)
  show ?thesis
  proof (cases "k \<le> d'")
    case False
    then obtain j where "k = d' + j" by (metis nat_le_linear le_Suc_ex)
    then show ?thesis by (auto simp: de min_def)
  qed (simp add: de)
qed

lemma trim_excess_total:
  "positive ss \<Longrightarrow> total_duration (trim_excess k ss) = total_duration ss - min k (total_duration ss - length ss) \<and>
    length (trim_excess k ss) = length ss \<and> map rs_range (trim_excess k ss) = map rs_range ss"
proof (induction k ss rule: trim_excess.induct)
  case (2 k s ss)
  have pos: "positive ss" "1 \<le> unat (rs_duration s)" using 2(2) by (simp_all only: positive_Cons)
  show ?case
  proof (cases "k = 0")
    case False
    define m where "m = min (unat (rs_duration s) - 1) k"
    have step: "trim_excess k (s # ss) = s\<lparr>rs_duration := rs_duration s - word_of_nat m\<rparr> # trim_excess (k - m) ss"
      using False by (simp add: m_def Let_def)
    have u: "unat (rs_duration s - word_of_nat m) = unat (rs_duration s) - m"
      by (rule unat_sub_small) (simp add: m_def)
    have IH: "total_duration (trim_excess (k - m) ss) = total_duration ss - min (k - m) (total_duration ss - length ss)"
        "length (trim_excess (k - m) ss) = length ss" "map rs_range (trim_excess (k - m) ss) = map rs_range ss"
      using 2(1) [OF False refl refl pos(1)] by (simp_all add: m_def)
    have upd: "rs_duration (s\<lparr>rs_duration := rs_duration s - word_of_nat m\<rparr>) = rs_duration s - word_of_nat m" by simp
    note arith = trim_arith [OF pos(2) positive_total [OF pos(1)], of k, folded m_def]
    have "total_duration (trim_excess k (s # ss)) =
        unat (rs_duration s) + total_duration ss - min k (unat (rs_duration s) + total_duration ss - Suc (length ss))"
      unfolding step by (simp only: total_duration_simps upd u IH(1) arith)
    then show ?thesis unfolding step using IH(2,3) by simp
  qed simp
qed simp

lemma trim_to_total_duration:
  assumes "positive ss"
  shows "total_duration (trim_to_total limit ss) =
      (if limit = 0 then total_duration ss else max (length ss) (min limit (total_duration ss)))"
    and "map rs_range (trim_to_total limit ss) = map rs_range ss"
proof -
  have rev: "total_duration (rev xs) = total_duration xs" "positive (rev xs) = positive xs" for xs
    by (simp_all add: total_duration_def positive_def sum_list_rev flip: rev_map)
  have "n \<le> t \<Longrightarrow> l < t \<Longrightarrow> t - min (t - l) (t - n) = max n l" for n t l :: nat by linarith
  then show "total_duration (trim_to_total limit ss) =
      (if limit = 0 then total_duration ss else max (length ss) (min limit (total_duration ss)))"
    using trim_excess_total [of "rev ss" "total_duration ss - limit"] positive_total [OF assms] assms
    by (simp add: trim_to_total_def rev)
  show "map rs_range (trim_to_total limit ss) = map rs_range ss"
    using trim_excess_total [of "rev ss" "total_duration ss - limit"] assms
    by (simp add: trim_to_total_def rev flip: rev_map)
qed

subsection \<open>PCM chunks\<close>

text \<open>Ranges that follow one another from \<open>a\<close> to \<open>b\<close>, none of them empty.\<close>

fun tiles :: "nat \<Rightarrow> nat \<Rightarrow> (nat \<times> nat) list \<Rightarrow> bool" where
  "tiles a b [] = (a = b)"
| "tiles a b ((x, y) # rs) = (x = a \<and> x < y \<and> tiles y b rs)"

definition pcm_end :: "nat \<Rightarrow> nat \<Rightarrow> nat \<Rightarrow> nat \<Rightarrow> nat" where
  "pcm_end bpf chunk a b =
    (let next_end = min (a + chunk) b; aligned_end = next_end - (next_end - a) mod bpf
     in if aligned_end = a then b else aligned_end)"

lemma pcm_loop_unfold:
  "a < b \<Longrightarrow> pcm_loop bpf chunk a b =
    plain_sample a (pcm_end bpf chunk a b) (word_of_nat (max ((pcm_end bpf chunk a b - a) div bpf) 1)) #
      pcm_loop bpf chunk (pcm_end bpf chunk a b) b"
  by (subst pcm_loop.simps) (simp only: Let_def pcm_end_def if_True)

lemma aligned_dvd: "(k :: nat) \<le> n \<Longrightarrow> m dvd n - (n - k) mod m - k"
proof -
  assume "k \<le> n"
  then have "n - (n - k) mod m - k = (n - k) - (n - k) mod m" by simp
  then show ?thesis by (simp only: minus_mod_eq_mult_div dvd_triv_left)
qed

lemma pcm_end_range:
  assumes "a < b"
  shows "a < pcm_end bpf chunk a b" "pcm_end bpf chunk a b \<le> b"
    "pcm_end bpf chunk a b = b \<or> bpf dvd pcm_end bpf chunk a b - a"
proof -
  define n where "n = min (a + chunk) b"
  have e: "pcm_end bpf chunk a b = (if n - (n - a) mod bpf = a then b else n - (n - a) mod bpf)"
    by (simp only: pcm_end_def n_def Let_def)
  have le: "(n - a) mod bpf \<le> n - a" "a \<le> n" "n \<le> b"
    using assms by (simp_all add: mod_less_eq_dividend n_def)
  then have al: "a \<le> n - (n - a) mod bpf" "n - (n - a) mod bpf \<le> b" by linarith+
  show "a < pcm_end bpf chunk a b" "pcm_end bpf chunk a b \<le> b" unfolding e using al assms by simp_all
  show "pcm_end bpf chunk a b = b \<or> bpf dvd pcm_end bpf chunk a b - a"
    unfolding e using aligned_dvd [OF le(2), of bpf] by metis
qed

lemma pcm_loop_tiles:
  assumes "a \<le> b"
  shows "tiles a b (map rs_range (pcm_loop bpf chunk a b)) \<and>
    (\<forall>r \<in> set (butlast (map rs_range (pcm_loop bpf chunk a b))). bpf dvd snd r - fst r)"
  using assms
proof (induction "b - a" arbitrary: a rule: less_induct)
  case less
  show ?case
  proof (cases "a < b")
    case True
    define c where "c = pcm_end bpf chunk a b"
    have c: "a < c" "c \<le> b" "c = b \<or> bpf dvd c - a"
      "pcm_loop bpf chunk a b = plain_sample a c (word_of_nat (max ((c - a) div bpf) 1)) # pcm_loop bpf chunk c b"
      unfolding c_def by (rule pcm_end_range [OF True] pcm_loop_unfold [OF True])+
    have IH: "tiles c b (map rs_range (pcm_loop bpf chunk c b)) \<and>
        (\<forall>r \<in> set (butlast (map rs_range (pcm_loop bpf chunk c b))). bpf dvd snd r - fst r)"
      using c(1,2) by (intro less.hyps) auto
    show ?thesis
    proof (cases "c = b")
      case True
      then show ?thesis using c(1) by (simp add: c(4) pcm_loop_empty plain_sample_def)
    next
      case False
      then have "map rs_range (pcm_loop bpf chunk c b) \<noteq> []" using IH by (intro notI) simp
      then show ?thesis using IH c(1) c(3) False unfolding c(4) by (simp add: plain_sample_def)
    qed
  next
    case False
    with less.prems show ?thesis by (simp add: pcm_loop_empty)
  qed
qed

subsection \<open>The byte order of samples\<close>

lemma chunks_Nil [simp]: "chunks n [] = []"
  by (subst chunks.simps) simp

lemma chunks_concat:
  "\<forall>c \<in> set cs. length c = n \<Longrightarrow> 0 < n \<Longrightarrow> chunks n (concat cs) = cs"
proof (induction cs)
  case (Cons c cs)
  then have "c @ concat cs \<noteq> []" by auto
  then show ?case using Cons by (subst chunks.simps) simp
qed simp

lemma chunks_step: "xs \<noteq> [] \<Longrightarrow> 0 < n \<Longrightarrow> chunks n xs = take n xs # chunks n (drop n xs)"
  by (subst chunks.simps) simp

lemma chunks_exact_parts:
  assumes "0 < n" "n dvd length xs"
  shows "concat (chunks n xs) = xs \<and> (\<forall>c \<in> set (chunks n xs). length c = n)"
  using assms(2)
proof (induction "length xs" arbitrary: xs rule: less_induct)
  case less
  show ?case
  proof (cases "xs = []")
    case True
    then show ?thesis by simp
  next
    case False
    then have n: "n \<le> length xs" using less.prems by (simp add: dvd_imp_le)
    have d: "n dvd length (drop n xs)" using less.prems by (simp only: length_drop dvd_diff_nat dvd_refl)
    have l: "length (drop n xs) < length xs" using assms(1) False by simp
    note IH = less.hyps [OF l d]
    note step = chunks_step [OF False assms(1)]
    have "concat (chunks n xs) = xs" by (simp only: step concat.simps IH append_take_drop_id)
    moreover have "\<forall>c \<in> set (chunks n xs). length c = n"
    proof
      fix c assume "c \<in> set (chunks n xs)"
      then have "c = take n xs \<or> c \<in> set (chunks n (drop n xs))" by (simp only: step set_simps insert_iff)
      then show "length c = n" using IH n by (metis length_take min_absorb2)
    qed
    ultimately show ?thesis by blast
  qed
qed

lemma swap_twice:
  assumes "pcm_to_alac_bytes pcm depth big = Inr out" "pcm_bytes_per_sample depth = Inr n" "n dvd length pcm"
  shows "pcm_to_alac_bytes out depth big = Inr pcm"
proof -
  have n: "0 < n" using assms(2) by (auto simp: pcm_bytes_per_sample_def split: if_splits)
  note parts = chunks_exact_parts [OF n assms(3)]
  then have all: "chunks_exact n pcm = chunks n pcm" by (simp add: chunks_exact_def)
  show ?thesis
  proof (cases "big = (depth = 20 \<or> depth = 24)")
    case True
    with assms(1,2) show ?thesis by (simp add: pcm_to_alac_bytes_def Let_def)
  next
    case False
    have swap: "pcm_to_alac_bytes p depth big = Inr (concat (map rev (chunks_exact n p)))" for p
      by (simp only: pcm_to_alac_bytes_def assms(2) Let_def sum.case False if_False)
    have out: "out = concat (map rev (chunks n pcm))" using assms(1) by (simp add: swap all)
    then have "chunks_exact n out = map rev (chunks n pcm)"
      using chunks_concat [of "map rev (chunks n pcm)" n] n parts by (simp add: chunks_exact_def)
    then have "concat (map rev (chunks_exact n out)) = pcm" using parts by (simp add: comp_def)
    then show ?thesis by (simp add: swap)
  qed
qed

subsection \<open>An AIFF offset past the end\<close>

lemma aiff_offset_panics:
  assumes "parse_aiff_pcm bytes = Inr info" "length bytes < pi_data_offset info"
    and "0xFFFF < unwrap_or (fp_sample_rate props) (pi_sample_rate info)"
  shows "remux_aiff codec bytes props = None"
  using assms by (simp add: remux_aiff_def remux_pcm_def Let_def)

end
