(* ===== verification/Media_Facts.thy ===== *)
theory Media_Facts
  imports Media
begin

text \<open>
  What the media endpoint guarantees: signatures bind path and expiry, only library resources are
  signed, ranges stay inside the file and the streamed body is exactly the requested part.
\<close>

subsection \<open>Signatures\<close>

lemma append_sep_eq:
  assumes "(d :: char) \<notin> set b" "d \<notin> set y"
  shows "a @ d # b = x @ d # y \<longleftrightarrow> a = x \<and> b = y"
proof -
  have "split_once d (rev (a @ d # b)) = Some (rev b, rev a)" "split_once d (rev (x @ d # y)) = Some (rev y, rev x)"
    using assms by (simp_all add: split_once_append)
  then show ?thesis by (metis option.inject prod.inject rev_rev_ident)
qed

lemma colon_notin_show: "CHR '':'' \<notin> set (show_nat n)"
  using show_nat_digits [of "CHR '':''" n] by (auto simp: is_digit_def byte_of_def)

lemma media_message_inject:
  "media_message p e = media_message p' e' \<longleftrightarrow> p = p' \<and> e = e'"
  using append_sep_eq [OF colon_notin_show [of e] colon_notin_show [of e'], of "''GET:'' @ p" "''GET:'' @ p'"]
  by (simp add: media_message_def)

lemma verify_iff:
  "verify_media_auth hmac ks now path q \<longleftrightarrow> now \<le> aq_exp q \<and>
    (\<exists>key. ks_get (aq_kid q) ks = Some key \<and>
      hex_decode (aq_sig q) = Some (hmac key (media_message path (aq_exp q))))"
  by (auto simp: verify_media_auth_def compute_media_signature_def split: option.split)

text \<open>The signature of one path and expiry accepted for another is a collision of the MAC.\<close>

lemma forged_is_collision:
  assumes "verify_media_auth hmac ks now path q" "ks_get (aq_kid q) ks = Some key"
    and "aq_sig q = hex_encode (compute_media_signature hmac key path' expiry)"
    and "path \<noteq> path' \<or> aq_exp q \<noteq> expiry"
  shows "\<exists>m m'. m \<noteq> m' \<and> hmac key m = hmac key m'"
proof -
  have "hmac key (media_message path (aq_exp q)) = hmac key (media_message path' expiry)"
    using assms(1-3) by (simp add: verify_iff hex_roundtrip compute_media_signature_def)
  moreover have "media_message path (aq_exp q) \<noteq> media_message path' expiry"
    using assms(4) by (simp add: media_message_inject)
  ultimately show ?thesis by blast
qed

subsection \<open>Signing requests\<close>

definition sign_expiry :: "nat \<Rightarrow> nat" where
  "sign_expiry now = min (now + media_url_ttl_secs) usize_max"

lemma sign_fold_None: "fold (sign_step sg url) ps None = None"
  by (induction ps) (simp_all add: sign_step_def)

lemma sign_fold:
  "fold (sign_step sg url) paths (Some m0) = Some m \<Longrightarrow>
    m p = (if p \<in> set paths \<and> sg p = Some True then Some (url p) else m0 p)"
proof (induction paths arbitrary: m0)
  case (Cons q paths)
  show ?case
  proof (cases "sg q")
    case None
    then have "sign_step sg url q (Some m0) = None" by (simp add: sign_step_def)
    then show ?thesis using Cons.prems by (simp add: sign_fold_None)
  next
    case (Some b)
    then have "sign_step sg url q (Some m0) = Some (if b then m0(q \<mapsto> url q) else m0)"
      by (simp add: sign_step_def)
    then have "m p = (if p \<in> set paths \<and> sg p = Some True then Some (url p)
        else (if b then m0(q \<mapsto> url q) else m0) p)"
      using Cons.prems by (intro Cons.IH) simp
    with Some show ?thesis by (cases b) auto
  qed
qed simp

lemma sign_urls_exact:
  assumes "ks_get kid ks = Some key" "sign_urls hmac fs lib ks base kid now paths = Some m"
  shows "m p = (if p \<in> set paths \<and> is_signable_media_path fs lib p = Some True
    then Some (build_signed_media_url hmac base p kid key (sign_expiry now)) else None)"
proof -
  have "fold (sign_step (is_signable_media_path fs lib)
      (\<lambda>path. build_signed_media_url hmac base path kid key (sign_expiry now))) paths (Some Map.empty) = Some m"
    using assms by (simp add: sign_urls_def sign_expiry_def Let_def)
  from sign_fold [OF this] show ?thesis by simp
qed

lemma sign_urls_no_key: "ks_get kid ks = None \<Longrightarrow> sign_urls hmac fs lib ks base kid now paths = Some Map.empty"
  by (simp add: sign_urls_def)

subsection \<open>Which paths are signed\<close>

lemma single_path_segment_iff:
  "single_path_segment path pre = Some seg \<longleftrightarrow>
    path = pre @ seg \<and> seg \<noteq> [] \<and> CHR ''/'' \<notin> set seg \<and> \<not> contains ''..'' seg"
  by (auto simp: single_path_segment_def strip_prefix_Some split: option.splits)

lemma split_three:
  "split_on d s = [a, b, c] \<longleftrightarrow> s = a @ d # b @ d # c \<and> d \<notin> set a \<and> d \<notin> set b \<and> d \<notin> set c"
proof
  assume split: "split_on d s = [a, b, c]"
  then have "s = a @ d # b @ d # c" using join_split_on [of d s] by simp
  moreover have "d \<notin> set a" "d \<notin> set b" "d \<notin> set c"
    using split split_on_pieces [of _ d s] by auto
  ultimately show "s = a @ d # b @ d # c \<and> d \<notin> set a \<and> d \<notin> set b \<and> d \<notin> set c" by blast
next
  assume "s = a @ d # b @ d # c \<and> d \<notin> set a \<and> d \<notin> set b \<and> d \<notin> set c"
  then show "split_on d s = [a, b, c]"
    using split_on_append [of d a "b @ d # c"] split_on_append [of d b c] split_on_notin [of d c] by simp
qed

definition hls_resource :: "string \<Rightarrow> bool" where
  "hls_resource r \<longleftrightarrow> r = ''index.m3u8'' \<or> r = ''init.mp4'' \<or> (prefix ''seg'' r \<and> suffix ''.m4s'' r)"

lemma hls_track_id_iff:
  "hls_track_id path = Some t \<longleftrightarrow>
    (\<exists>v r. path = ''/media/hls/'' @ t @ ''/'' @ v @ ''/'' @ r \<and> hls_resource r \<and>
       t \<noteq> [] \<and> v \<noteq> [] \<and> CHR ''/'' \<notin> set t \<and> CHR ''/'' \<notin> set v \<and> CHR ''/'' \<notin> set r \<and>
       \<not> contains ''..'' t \<and> \<not> contains ''..'' v)"
proof -
  have body: "(case split_on (CHR ''/'') rest of
            [track_id, variant, resource] \<Rightarrow>
              if track_id = [] \<or> variant = [] \<or> contains ''..'' track_id \<or> contains ''..'' variant then None
              else if resource = ''index.m3u8'' \<or> resource = ''init.mp4'' \<or>
                      (prefix ''seg'' resource \<and> suffix ''.m4s'' resource)
                   then Some track_id else None
          | _ \<Rightarrow> None) = Some t \<longleftrightarrow>
      (\<exists>v r. split_on (CHR ''/'') rest = [t, v, r] \<and> hls_resource r \<and> t \<noteq> [] \<and> v \<noteq> [] \<and>
        \<not> contains ''..'' t \<and> \<not> contains ''..'' v)" for rest
    by (auto simp: hls_resource_def split: list.split)
  show ?thesis
  proof (cases "strip_prefix ''/media/hls/'' path")
    case None
    then have "\<not> prefix ''/media/hls/'' path" by (simp add: strip_prefix_def split: if_splits)
    then show ?thesis using None by (auto simp: hls_track_id_def prefix_def)
  next
    case (Some rest)
    then have "path = ''/media/hls/'' @ rest" by (simp add: strip_prefix_Some)
    with Some body [of rest] show ?thesis by (auto simp: hls_track_id_def split_three)
  qed
qed

text \<open>A path that may be signed names a track, an album or a file of the library.\<close>

lemma signable_sound:
  assumes "is_signable_media_path fs lib path = Some True"
  shows "(\<exists>t \<in> set (lib_tracks lib). path = ''/media/tracks/'' @ tr_id t) \<or>
    (\<exists>a \<in> set (lib_albums lib). path = ''/media/art/'' @ al_id a) \<or>
    (\<exists>t \<in> set (lib_tracks lib). \<exists>v r. path = ''/media/hls/'' @ tr_id t @ ''/'' @ v @ ''/'' @ r \<and> hls_resource r) \<or>
    (\<exists>t \<in> set (lib_tracks lib). \<exists>raw. path = ''/media/file/'' @ raw \<and> percent_decode raw = Some (tr_file_path t) \<and>
      fs (tr_file_path t) \<noteq> None \<and> \<not> contains ''..'' (tr_file_path t))"
proof -
  have known: "is_known_track_id lib i \<Longrightarrow> \<exists>t \<in> set (lib_tracks lib). tr_id t = i"
    "is_known_album_id lib i \<Longrightarrow> \<exists>a \<in> set (lib_albums lib). al_id a = i"
    "is_known_track_file fs lib i \<Longrightarrow> fs i \<noteq> None \<and> (\<exists>t \<in> set (lib_tracks lib). tr_file_path t = i)" for i
    by (auto simp: is_known_track_id_def is_known_album_id_def is_known_track_file_def
        get_track_by_id_def get_album_by_id_def get_track_by_path_def dest: find_SomeD)
  show ?thesis
  proof (cases "single_path_segment path ''/media/tracks/''")
    case (Some i)
    with assms have "is_known_track_id lib i" by (simp add: is_signable_media_path_def split: if_splits)
    with Some known(1) show ?thesis by (auto simp: single_path_segment_iff)
  next
    case no_track: None
    show ?thesis
    proof (cases "single_path_segment path ''/media/art/''")
      case (Some i)
      with assms no_track have "is_known_album_id lib i" by (simp add: is_signable_media_path_def split: if_splits)
      with Some known(2) show ?thesis by (auto simp: single_path_segment_iff)
    next
      case no_art: None
      show ?thesis
      proof (cases "hls_track_id path")
        case (Some i)
        with assms no_track no_art have "is_known_track_id lib i"
          by (simp add: is_signable_media_path_def split: if_splits)
        with Some known(1) show ?thesis by (fastforce simp: hls_track_id_iff)
      next
        case None
        with assms no_track no_art obtain raw d where "strip_prefix ''/media/file/'' path = Some raw"
            "percent_decode raw = Some d" "is_valid_media_file_path d" "is_known_track_file fs lib d"
          by (auto simp: is_signable_media_path_def split: if_splits option.splits)
        with known(3) show ?thesis by (fastforce simp: strip_prefix_Some is_valid_media_file_path_def)
      qed
    qed
  qed
qed

subsection \<open>Percent decoding\<close>

text \<open>Every byte written as a percent sign and two hexadecimal digits is read back.\<close>

definition percent_encode :: "string \<Rightarrow> string" where
  "percent_encode s = concat (map (\<lambda>c. [CHR ''%'', hex_digit (byte_of c div 16), hex_digit (byte_of c mod 16)]) s)"

lemma hex_digit_not_plus: "n < 16 \<Longrightarrow> hex_digit n \<noteq> CHR ''+''"
  by (auto simp: hex_digit_def byte_of_eq_iff [symmetric]) (auto simp: byte_of_def)

lemma percent_bytes_encode: "percent_bytes (percent_encode s) = Some s"
proof (induction s)
  case (Cons c s)
  have b: "byte_of c div 16 < 16" using byte_of_less [of c] by auto
  have "\<not> is_cont (CHR ''%'')" by (simp add: is_cont_def byte_of_def)
  then have "\<not> (percent_encode s \<noteq> [] \<and> is_cont (hd (percent_encode s)))"
    by (cases s) (auto simp: percent_encode_def)
  moreover have "hex_pair (hex_digit (byte_of c div 16)) (hex_digit (byte_of c mod 16)) = Some (byte_of c)"
    using b hex_digit_not_plus [OF b] by (simp add: hex_pair_def)
  moreover have "percent_encode (c # s) =
      CHR ''%'' # hex_digit (byte_of c div 16) # hex_digit (byte_of c mod 16) # percent_encode s"
    by (simp add: percent_encode_def)
  ultimately show ?case using Cons by simp
qed (simp add: percent_encode_def)

lemma percent_roundtrip: "utf8_valid s \<Longrightarrow> percent_decode (percent_encode s) = Some s"
  by (simp add: percent_decode_def percent_bytes_encode)

lemma percent_bytes_plain: "CHR ''%'' \<notin> set s \<Longrightarrow> percent_bytes s = Some s"
proof (induction s rule: percent_bytes.induct)
  case (2 c s)
  then show ?case by (cases s; cases "tl s") auto
qed simp

lemma percent_decode_plain: "CHR ''%'' \<notin> set s \<Longrightarrow> utf8_valid s \<Longrightarrow> percent_decode s = Some s"
  by (simp add: percent_decode_def percent_bytes_plain)

text \<open>A percent sign followed by an ASCII and a two-byte character panics.\<close>

lemma percent_decode_panics: "percent_decode [CHR ''%'', CHR ''a'', chr 195, chr 169] = None"
  by (simp add: percent_decode_def is_cont_def)

lemma percent_decode_plus: "percent_decode ''%+f'' = Some [chr 15]"
  by (simp add: percent_decode_def hex_pair_def hex_val_def byte_of_def Let_def) (simp add: chr_def)

subsection \<open>Ranges and bodies\<close>

lemma parse_range_bounds:
  assumes "parse_range h len = Inr (Some (s, e))"
  shows "s \<le> e \<and> e < len"
  using assms by (auto simp: parse_range_def Let_def split: option.splits if_splits prod.splits)

lemma space_notin_range: "\<not> is_space (CHR ''b'')" "is_digit c \<Longrightarrow> \<not> is_space c" "\<not> is_space (CHR ''-'')"
  by (auto simp: is_space_def is_digit_def byte_of_def)

lemma dash_notin_show: "CHR ''-'' \<notin> set (show_nat n)"
  using show_nat_digits [of "CHR ''-''" n] by (auto simp: is_digit_def byte_of_def)

lemma last_show_digit: "is_digit (last (show_nat n))"
  by (meson last_in_set show_nat_digits show_nat_nonempty)

text \<open>The three forms of a range request.\<close>

lemma parse_range_closed:
  assumes "s \<le> e" "e < len" "len \<le> usize_max"
  shows "parse_range (Some (''bytes='' @ show_nat s @ ''-'' @ show_nat e)) len = Inr (Some (s, e))"
proof -
  have "trim (''bytes='' @ show_nat s @ ''-'' @ show_nat e) = ''bytes='' @ show_nat s @ ''-'' @ show_nat e"
    by (rule trim_id) (simp add: space_notin_range last_show_digit)
  moreover have "split_once (CHR ''-'') (show_nat s @ ''-'' @ show_nat e) = Some (show_nat s, show_nat e)"
    using split_once_append [OF dash_notin_show] by simp
  ultimately show ?thesis using assms by (simp add: parse_range_def parse_uint_show strip_prefix_append [of "''bytes=''", simplified])
qed

lemma parse_range_open:
  assumes "s < len" "len \<le> usize_max"
  shows "parse_range (Some (''bytes='' @ show_nat s @ ''-'')) len = Inr (Some (s, len - 1))"
proof -
  have "trim (''bytes='' @ show_nat s @ ''-'') = ''bytes='' @ show_nat s @ ''-''"
    by (rule trim_id) (simp add: space_notin_range)
  moreover have "split_once (CHR ''-'') (show_nat s @ ''-'') = Some (show_nat s, [])"
    using split_once_append [OF dash_notin_show, where b = "[]"] by simp
  ultimately show ?thesis using assms by (simp add: parse_range_def parse_uint_show strip_prefix_append [of "''bytes=''", simplified])
qed

lemma parse_range_suffix:
  assumes "0 < k" "0 < len" "k \<le> usize_max"
  shows "parse_range (Some (''bytes=-'' @ show_nat k)) len = Inr (Some (len - min k len, len - 1))"
proof -
  have "trim (''bytes=-'' @ show_nat k) = ''bytes=-'' @ show_nat k"
    by (rule trim_id) (simp add: space_notin_range last_show_digit)
  then show ?thesis using assms by (simp add: parse_range_def parse_uint_show strip_prefix_append [of "''bytes=''", simplified])
qed

lemma bytes_read_le: "0 < n \<Longrightarrow> bytes_read got data n \<le> n \<and> bytes_read got data n \<le> read_chunk_size"
  by (auto simp: bytes_read_def read_chunk_size_def)

lemma bytes_read_0: "bytes_read got data n = 0 \<longleftrightarrow> data = []"
  by (simp add: bytes_read_def)

lemma body_chunks_concat: "concat (body_chunks got data n) = take n data"
proof (induction got data n rule: body_chunks.induct)
  case (1 got data n)
  define m where "m = bytes_read got data n"
  show ?case
  proof (cases "n = 0 \<or> m = 0")
    case True
    then have "body_chunks got data n = []" unfolding m_def by (subst body_chunks.simps) simp
    then show ?thesis using True bytes_read_0 [of got data n] by (auto simp: m_def)
  next
    case False
    then have step: "body_chunks got data n = take m data # body_chunks got (drop m data) (n - m)"
      unfolding m_def by (subst body_chunks.simps) simp
    have "concat (body_chunks got (drop m data) (n - m)) = take (n - m) (drop m data)"
      using 1 False by (simp add: m_def)
    moreover have "m \<le> n" using False bytes_read_le [of n got data] by (simp add: m_def)
    ultimately show ?thesis using take_add [of m "n - m" data] by (simp add: step)
  qed
qed

lemma body_chunks_small: "c \<in> set (body_chunks got data n) \<Longrightarrow> length c \<le> read_chunk_size"
proof (induction got data n rule: body_chunks.induct)
  case (1 got data n)
  define m where "m = bytes_read got data n"
  have nz: "\<not> (n = 0 \<or> m = 0)"
  proof
    assume "n = 0 \<or> m = 0"
    then have "body_chunks got data n = []" unfolding m_def by (subst body_chunks.simps) simp
    with 1(2) show False by simp
  qed
  then have "body_chunks got data n = take m data # body_chunks got (drop m data) (n - m)"
    unfolding m_def by (subst body_chunks.simps) simp
  with 1 nz bytes_read_le [of n got data] show ?case by (auto simp: m_def)
qed

text \<open>The headers of a partial response describe the bytes sent.\<close>

lemma serve_body:
  assumes "fs path = Some data" "parse_range (Some r) (length data) = Inr (Some (s, e))"
  shows "rs_status (serve_path_with_range got fs False path ct (Some r) cc) = 206 \<and>
    concat (rs_body (serve_path_with_range got fs False path ct (Some r) cc)) = take (e - s + 1) (drop s data) \<and>
    length (take (e - s + 1) (drop s data)) = e - s + 1"
proof -
  have b: "s \<le> e" "e < length data" using parse_range_bounds [OF assms(2)] by auto
  have ins: "rs_body (insert_header h v x) = rs_body x" "rs_status (insert_header h v x) = rs_status x" for h v x
    by (simp_all add: insert_header_def)
  have "rs_body (serve_path_with_range got fs False path ct (Some r) cc) = body_chunks got (drop s data) (e - s + 1)"
    "rs_status (serve_path_with_range got fs False path ct (Some r) cc) = 206"
    using assms b by (auto simp: serve_path_with_range_def Let_def ins body_response_def split: option.split)
  with b show ?thesis by (simp add: body_chunks_concat)
qed

lemma serve_whole:
  assumes "fs path = Some data"
  shows "rs_status (serve_path_with_range got fs False path ct None cc) = 200 \<and>
    concat (rs_body (serve_path_with_range got fs False path ct None cc)) = data"
proof -
  have ins: "rs_body (insert_header h v x) = rs_body x" "rs_status (insert_header h v x) = rs_status x" for h v x
    by (simp_all add: insert_header_def)
  have "concat (body_chunks got data (length data - 1 + 1)) = data" if "data \<noteq> []"
    using that by (simp add: body_chunks_concat)
  then show ?thesis using assms
    by (auto simp: serve_path_with_range_def Let_def parse_range_def ins body_response_def split: option.split)
qed

text \<open>Without a valid signature nothing of the library is read.\<close>

lemma unsigned_refused:
  assumes "\<not> verify_media_auth hmac ks now uri q"
  shows "media_track_handler hmac got fs lib ks now uri i q rh head = body_response 403 []"
    "media_file_handler hmac got fs lib ks now uri p q rh head = Some (body_response 403 [])"
  using assms by (simp_all add: media_track_handler_def media_file_handler_def)

end
