(* ===== verification/Hls_Service.thy ===== *)
theory Hls_Service
  imports Hls_Limits Media_Facts
begin

text \<open>
  The cache and the handlers together: a request for a variant that is not cached generates it,
  brings the cache below its limit without touching the new variant, and answers with its files. The
  path of a variant is \<open>root/track/variant\<close>; the handlers get the variant percent-decoded, while
  \<open>hls_track_id\<close> looks at the path as it was sent.
\<close>

subsection \<open>The cache keeps one directory for a variant\<close>

definition cache_wf :: "hls_cache \<Rightarrow> bool" where
  "cache_wf c \<longleftrightarrow> distinct (map fst (hc_dirs c))"

lemma distinct_filter_fst: "distinct (map fst xs) \<Longrightarrow> distinct (map fst (filter P xs))"
  by (simp add: distinct_map inj_on_def)

lemma enforce_limit_wf: "cache_wf c \<Longrightarrow> cache_wf (enforce_limit p c)"
  by (simp add: cache_wf_def enforce_limit_def Let_def distinct_filter_fst)

lemma put_dir_wf: "cache_wf c \<Longrightarrow> cache_wf (put_dir key dir now c)"
  by (auto simp: cache_wf_def put_dir_def distinct_filter_fst)

lemma get_or_generate_wf: "cache_wf c \<Longrightarrow> cache_wf (snd (get_or_generate generate now key c))"
  by (auto simp: get_or_generate_def Let_def enforce_limit_wf put_dir_wf split: option.split sum.split)

subsection \<open>The limit\<close>

lemma hc_max_size_kept [simp]: "hc_max_size (enforce_limit p c) = hc_max_size c" "hc_max_size (put_dir key dir now c) = hc_max_size c"
  by (simp_all add: enforce_limit_def put_dir_def Let_def)

lemma collect_after_enforce:
  "collect_cache_entries (enforce_limit p c) = kept_entries (hc_max_size c) p (collect_cache_entries c)"
  by (auto simp: collect_cache_entries_def enforce_limit_def kept_entries_def Let_def filter_map o_def case_prod_beta
      intro!: arg_cong [of _ _ "map _"] filter_cong)

lemma collect_keys: "cache_wf c \<Longrightarrow> distinct (map ce_key (collect_cache_entries c))"
proof -
  have "map ce_key (collect_cache_entries c) = map fst (filter (\<lambda>(_, dir, _). file_exists dir ''index.m3u8'') (hc_dirs c))"
    by (auto simp: collect_cache_entries_def)
  then show "cache_wf c \<Longrightarrow> distinct (map ce_key (collect_cache_entries c))"
    by (simp add: cache_wf_def distinct_filter_fst)
qed

text \<open>What the limit promises: the rest fits or is the preserved entry alone, which is never removed, and
  what is removed was not accessed after anything else that stays.\<close>

definition limit_enforced :: "nat \<Rightarrow> (string \<times> string) option \<Rightarrow> cache_entry list \<Rightarrow> cache_entry list \<Rightarrow> bool" where
  "limit_enforced m p es es' \<longleftrightarrow>
    set es' \<subseteq> set es \<and> (sizes es' \<le> m \<or> (\<forall>e \<in> set es'. p = Some (ce_key e))) \<and>
    (\<forall>e \<in> set es. p = Some (ce_key e) \<longrightarrow> e \<in> set es') \<and>
    (\<forall>e \<in> set es - set es'. \<forall>k \<in> set es'. p = Some (ce_key k) \<or> ce_last_access e \<le> ce_last_access k)"

lemma enforce_limit_limits:
  assumes "cache_wf c"
  shows "limit_enforced (hc_max_size c) p (collect_cache_entries c) (collect_cache_entries (enforce_limit p c))"
  using enforce_limit_reached [OF collect_keys [OF assms]] enforce_limit_preserves [where es = "collect_cache_entries c"]
    enforce_limit_oldest_first [OF collect_keys [OF assms]]
  unfolding limit_enforced_def collect_after_enforce by (auto simp: kept_entries_def)

lemma enforce_limit_key [simp]: "map_of (hc_dirs (enforce_limit (Some key) c)) key = map_of (hc_dirs c) key"
proof -
  let ?r = "set (enforce_size_limit (hc_max_size c) (Some key) (collect_cache_entries c))"
  obtain n where "evict_loop (hc_max_size c) (Some key) (sizes (collect_cache_entries c)) (sort_key ce_last_access (collect_cache_entries c)) =
      map ce_key (filter (evictable (Some key)) (take n (sort_key ce_last_access (collect_cache_entries c))))"
    using evict_loop_prefix by blast
  then have "key \<notin> ?r" by (auto simp: enforce_size_limit_def Let_def evictable_def simp flip: sizes_def)
  then have "map_of (filter (\<lambda>(k, _). k \<notin> ?r) xs) key = map_of xs key" for xs :: "((string \<times> string) \<times> directory \<times> nat) list"
    by (induction xs) auto
  then show ?thesis by (simp add: enforce_limit_def Let_def)
qed

lemma enforce_limit_absent: "map_of (hc_dirs c) key = None \<Longrightarrow> map_of (hc_dirs (enforce_limit p c)) key = None"
  by (auto simp: enforce_limit_def Let_def map_of_eq_None_iff)

subsection \<open>A variant that is not cached\<close>

lemma generate_new:
  assumes "map_of (hc_dirs c) key = None" "generate () = Inr dir" "open_segments dir = Some n"
  shows "\<exists>c'. get_or_generate generate now key c = (Inr n, c') \<and>
    map_of (hc_dirs c') key = Some (touch_dir now dir, now) \<and>
    c' = enforce_limit (Some key) (put_dir key (touch_dir now dir) now (enforce_limit None c))"
  using assms by (simp add: get_or_generate_def Let_def enforce_limit_absent put_dir_def)

lemma generate_new_limit:
  assumes "cache_wf c" "map_of (hc_dirs c) key = None" "generate () = Inr dir" "open_segments dir = Some n"
    and "get_or_generate generate now key c = (r, c')" "es = collect_cache_entries c'"
  shows "r = Inr n \<and> map_of (hc_dirs c') key = Some (touch_dir now dir, now) \<and>
    (sizes es \<le> hc_max_size c \<or> (\<forall>e \<in> set es. ce_key e = key))"
proof -
  let ?c = "put_dir key (touch_dir now dir) now (enforce_limit None c)"
  obtain c2 where c2: "get_or_generate generate now key c = (Inr n, c2)"
      "map_of (hc_dirs c2) key = Some (touch_dir now dir, now)" "c2 = enforce_limit (Some key) ?c"
    using generate_new [of c key generate dir n now] assms(2-4) by blast
  have "distinct (map ce_key (collect_cache_entries ?c))"
    by (intro collect_keys put_dir_wf enforce_limit_wf assms(1))
  from enforce_limit_reached [OF this, of "hc_max_size c" "Some key"]
  have "sizes (collect_cache_entries c2) \<le> hc_max_size c \<or> (\<forall>e \<in> set (collect_cache_entries c2). ce_key e = key)"
    unfolding c2(3) collect_after_enforce by auto
  then show ?thesis using c2 assms(5,6) by auto
qed

lemma map_of_touch: "name \<noteq> ''.last_access'' \<Longrightarrow> read_file (touch_dir now dir) name = read_file dir name"
proof -
  assume "name \<noteq> ''.last_access''"
  then have "map_of (filter (\<lambda>f. fst f \<noteq> ''.last_access'') dir) name = map_of dir name"
    by (induction dir) auto
  with \<open>name \<noteq> ''.last_access''\<close> show ?thesis by (simp add: read_file_def touch_dir_def map_add_def split: option.split)
qed

lemma segment_index_name: "k \<le> usize_max \<Longrightarrow> segment_index (seg_name k) = Some k"
proof -
  assume "k \<le> usize_max"
  have "strip_prefix ''seg'' (seg_name k) = Some (show_nat k @ ''.m4s'')" by (simp add: strip_prefix_Some seg_name_def)
  moreover have "strip_suffix ''.m4s'' (show_nat k @ ''.m4s'') = Some (show_nat k)" by (simp only: strip_suffix_Some)
  ultimately show ?thesis using \<open>k \<le> usize_max\<close> by (simp add: segment_index_def parse_uint_show)
qed

text \<open>A signed request for a segment of a variant that is not cached.\<close>

definition segment_answer :: "u8 list \<Rightarrow> response" where
  "segment_answer data = bytes_response 200 False ''video/mp4'' (Some ''public, max-age=31536000, immutable'') data"

lemma segment_served:
  assumes "verify_media_auth hmac ks now uri q" "get_track_by_id lib track_id = Some tr"
    and "generate (tr_file_path tr) = write_hls_output mx t secs" "write_hls_output mx t secs = Inr dir"
    and "map_of (hc_dirs c) (track_id, variant) = None"
    and "k < length (split_into_segments t secs)" "k \<le> usize_max"
  shows "\<exists>data c'. hls_segment_handler hmac lib generate ks now uri track_id variant (seg_name k) q False c =
      (segment_answer data, c') \<and>
    suffix (concat (map (sample_bytes t) (chunk_samples t (split_into_segments t secs ! k)))) data"
proof -
  note dir = write_hls_output_dir [OF assms(4)]
  obtain data where data: "read_file dir (seg_name k) = Some data"
      "suffix (concat (map (sample_bytes t) (chunk_samples t (split_into_segments t secs ! k)))) data"
    using dir(2) assms(6) by blast
  obtain c' where c': "get_or_generate (\<lambda>_. generate (tr_file_path tr)) now (track_id, variant) c =
      (Inr (length (split_into_segments t secs)), c')" "map_of (hc_dirs c') (track_id, variant) = Some (touch_dir now dir, now)"
    using generate_new [of c "(track_id, variant)" "\<lambda>_. generate (tr_file_path tr)"] assms(3,4,5) dir(1) by fastforce
  have "seg_name k \<noteq> ''.last_access''" by (simp add: seg_name_def)
  then have "read_variant (track_id, variant) (seg_name k) c' = Some data"
    using c'(2) data(1) by (simp add: read_variant_def map_of_touch)
  then have "hls_segment_handler hmac lib generate ks now uri track_id variant (seg_name k) q False c = (segment_answer data, c')"
    using assms(1,2,6,7) c'(1)
    by (simp add: hls_segment_handler_def seg_name_other segment_index_name resolve_hls_segments_def segment_path_def
        media_response_def segment_answer_def)
  with data(2) show ?thesis by blast
qed

subsection \<open>FLAC durations\<close>

text \<open>Every sample of a FLAC file has a positive duration, so that trimming reaches the announced total,
  or one unit for each sample.\<close>

lemma flac_samples_positive: "positive (flac_samples bytes si starts)"
proof (induction bytes si starts rule: flac_samples.induct)
  case (2 bytes si start starts)
  have "max d 1 \<noteq> 0" for d :: u32 by (auto simp: max_def)
  with 2 show ?case by (auto simp: positive_def plain_sample_def Let_def)
qed (simp add: positive_def)

subsection \<open>The path of a variant\<close>

text \<open>\<open>variant_dir\<close>: the components of the URL are joined to the root of the cache as they are.\<close>

definition variant_dir :: "string \<Rightarrow> string \<Rightarrow> string \<Rightarrow> string" where
  "variant_dir cache_root track_id variant = cache_root @ ''/'' @ track_id @ ''/'' @ variant"

lemma percent_encode_chars:
  "c \<in> set (percent_encode s) \<Longrightarrow> c = CHR ''%'' \<or> (\<exists>n < 16. c = hex_digit n)"
proof -
  assume "c \<in> set (percent_encode s)"
  then obtain d where "c \<in> {CHR ''%'', hex_digit (byte_of d div 16), hex_digit (byte_of d mod 16)}"
    by (auto simp: percent_encode_def split: if_splits)
  moreover have "byte_of d div 16 < 16" "byte_of d mod 16 < 16" using byte_of_less [of d] by auto
  ultimately show ?thesis by blast
qed

lemma hex_digit_chars: "n < 16 \<Longrightarrow> hex_digit n \<notin> set [CHR ''/'', CHR ''.'', CHR ''?'', CHR ''#'', CHR 0x00]"
proof -
  assume "n < 16"
  moreover have "\<forall>n \<in> set [0..<16]. hex_digit n \<notin> set [CHR ''/'', CHR ''.'', CHR ''?'', CHR ''#'', CHR 0x00]"
    by code_simp
  ultimately show ?thesis by simp
qed

lemma percent_encode_safe: "set (percent_encode s) \<inter> set [CHR ''/'', CHR ''.'', CHR ''?'', CHR ''#'', CHR 0x00] = {}"
  using percent_encode_chars hex_digit_chars by fastforce

text \<open>Whatever the variant, a path that names it in percent-encoded form may be signed.\<close>

definition url_safe :: "string \<Rightarrow> bool" where
  "url_safe s \<longleftrightarrow> s \<noteq> [] \<and> set s \<inter> set [CHR ''/'', CHR ''?'', CHR ''#'', CHR 0x00] = {} \<and> \<not> contains ''..'' s"

lemma encoded_variant_signable:
  assumes "get_track_by_id lib track_id = Some tr" "url_safe track_id" "w \<noteq> []"
  shows "is_signable_media_path fs lib (''/media/hls/'' @ track_id @ ''/'' @ percent_encode w @ ''/init.mp4'') = Some True"
proof -
  let ?p = "''/media/hls/'' @ track_id @ ''/'' @ percent_encode w @ ''/init.mp4''"
  have ne: "percent_encode w \<noteq> []" using assms(3) by (cases w) (simp_all add: percent_encode_def)
  have "CHR ''.'' \<notin> set (percent_encode w)" using percent_encode_safe by auto
  then have "\<not> contains ''..'' (percent_encode w)" by (auto simp: contains_iff)
  then have "hls_track_id ?p = Some track_id"
    unfolding hls_track_id_iff using assms(2) ne percent_encode_safe [of w]
    by (intro exI [of _ "percent_encode w"] exI [of _ "''init.mp4''"]) (auto simp: url_safe_def hls_resource_def)
  moreover have "single_path_segment ?p ''/media/tracks/'' = None" "single_path_segment ?p ''/media/art/'' = None"
    by (simp_all add: single_path_segment_def strip_prefix_def)
  moreover have "CHR ''?'' \<notin> set ?p" "CHR ''#'' \<notin> set ?p" "CHR 0x00 \<notin> set ?p"
    using assms(2) percent_encode_safe [of w] by (auto simp: url_safe_def)
  ultimately show ?thesis using assms(1) by (simp add: is_signable_media_path_def is_known_track_id_def)
qed

end
