(* ===== verification/Persist.thy ===== *)
theory Persist
  imports Playlists Media
begin

text \<open>
  Saving and restoring the playback state: the table \<open>playback_state\<close> and its statements
  (\<open>kanade-db/src/repo.rs\<close>), \<open>DatabaseStatePersister::persist\<close> (\<open>kanade/src/persist.rs\<close>) and the
  restoration at start-up (\<open>kanade/src/main.rs\<close>). The queue column holds the list its JSON text
  encodes; \<open>updated_at\<close>, which nothing reads, is left out.
\<close>

subsection \<open>The table\<close>

record state_row =
  sr_node_id :: string
  sr_queue :: "string list"
  sr_current_index :: "int option"
  sr_volume :: int
  sr_shuffle :: int
  sr_repeat :: string
  sr_active_output_id :: "string option"
  sr_node_type :: string
  sr_device_id :: "string option"
  sr_disconnected_at :: "int option"

type_synonym state_table = "state_row list"

definition global_id :: string where
  "global_id = ''__global__''"

text \<open>\<open>INSERT ... ON CONFLICT(node_id) DO UPDATE\<close>: \<open>node_id\<close> is the primary key.\<close>

definition upsert_row :: "state_row \<Rightarrow> (state_row \<Rightarrow> state_row) \<Rightarrow> state_table \<Rightarrow> state_table" where
  "upsert_row new upd tbl =
    (if sr_node_id new \<in> set (map sr_node_id tbl)
     then update_first (\<lambda>r. sr_node_id r = sr_node_id new) upd tbl
     else tbl @ [new])"

definition node_type_name :: "node_type \<Rightarrow> string" where
  "node_type_name t = (case t of Remote \<Rightarrow> ''remote'' | Local \<Rightarrow> ''local'')"

definition save_node_state ::
  "string \<Rightarrow> string list \<Rightarrow> usize option \<Rightarrow> u8 \<Rightarrow> bool \<Rightarrow> string \<Rightarrow> node_type \<Rightarrow> string option \<Rightarrow> int option
    \<Rightarrow> state_table \<Rightarrow> state_table" where
  "save_node_state i paths ci vol shuf rep nt dev gone =
    (let new = \<lparr>sr_node_id = i, sr_queue = paths, sr_current_index = map_option i64_of_usize ci,
           sr_volume = uint vol, sr_shuffle = of_bool shuf, sr_repeat = rep, sr_active_output_id = None,
           sr_node_type = node_type_name nt, sr_device_id = dev, sr_disconnected_at = gone\<rparr>
     in upsert_row new (\<lambda>r. new\<lparr>sr_active_output_id := sr_active_output_id r\<rparr>))"

definition save_playback_state ::
  "string list \<Rightarrow> usize option \<Rightarrow> string option \<Rightarrow> bool \<Rightarrow> string \<Rightarrow> state_table \<Rightarrow> state_table" where
  "save_playback_state paths ci active shuf rep =
    upsert_row \<lparr>sr_node_id = global_id, sr_queue = paths, sr_current_index = map_option i64_of_usize ci,
        sr_volume = 50, sr_shuffle = of_bool shuf, sr_repeat = rep, sr_active_output_id = active,
        sr_node_type = ''remote'', sr_device_id = None, sr_disconnected_at = None\<rparr>
      (\<lambda>r. r\<lparr>sr_queue := paths, sr_current_index := map_option i64_of_usize ci, sr_active_output_id := active,
        sr_shuffle := of_bool shuf, sr_repeat := rep\<rparr>)"

text \<open>More ids than a statement may have variables make it fail; it is the last statement of a save.\<close>

definition prune_node_states_except :: "nat \<Rightarrow> string list \<Rightarrow> state_table \<Rightarrow> state_table" where
  "prune_node_states_except max_variables keep tbl =
    (if keep = [] then filter (\<lambda>r. \<not> sr_node_id r \<noteq> global_id) tbl
     else if max_variables < length keep then tbl
     else filter (\<lambda>r. \<not> (sr_node_id r \<noteq> global_id \<and> sr_node_id r \<notin> set keep)) tbl)"

subsection \<open>Reading it back\<close>

record saved_node_state =
  sv_node_id :: string
  sv_queue_file_paths :: "string list"
  sv_current_index :: "usize option"
  sv_active_output_id :: "string option"
  sv_volume :: u8
  sv_shuffle :: bool
  sv_repeat :: string
  sv_node_type :: node_type
  sv_device_id :: "string option"
  sv_disconnected_at :: "int option"

text \<open>\<open>usize::try_from\<close> and \<open>u8::try_from\<close> of an \<open>i64\<close>.\<close>

definition read_index :: "int option \<Rightarrow> string + usize option" where
  "read_index ci = (case ci of None \<Rightarrow> Inr None
     | Some k \<Rightarrow> if k < 0 then Inl ''invalid current_index'' else Inr (Some (nat k)))"

definition read_row :: "state_row \<Rightarrow> string + saved_node_state" where
  "read_row r =
    (case read_index (sr_current_index r) of
       Inl e \<Rightarrow> Inl e
     | Inr ci \<Rightarrow>
         if sr_volume r < 0 \<or> 255 < sr_volume r then Inl ''invalid volume''
         else Inr \<lparr>sv_node_id = sr_node_id r, sv_queue_file_paths = sr_queue r, sv_current_index = ci,
           sv_active_output_id = sr_active_output_id r, sv_volume = word_of_int (sr_volume r),
           sv_shuffle = (sr_shuffle r \<noteq> 0), sv_repeat = sr_repeat r,
           sv_node_type = (if sr_node_type r = ''local'' then Local else Remote),
           sv_device_id = sr_device_id r, sv_disconnected_at = sr_disconnected_at r\<rparr>)"

fun read_rows :: "state_row list \<Rightarrow> string + saved_node_state list" where
  "read_rows [] = Inr []"
| "read_rows (r # rs) = (case read_row r of Inl e \<Rightarrow> Inl e | Inr s \<Rightarrow> map_sum id (Cons s) (read_rows rs))"

text \<open>\<open>ORDER BY node_id\<close>\<close>

definition load_all_node_states :: "state_table \<Rightarrow> string + saved_node_state list" where
  "load_all_node_states tbl = read_rows (sort_key sr_node_id tbl)"

definition load_playback_state :: "state_table \<Rightarrow> string + saved_node_state option" where
  "load_playback_state tbl =
    (case find (\<lambda>r. sr_node_id r = global_id) tbl of
       None \<Rightarrow> Inr None
     | Some r \<Rightarrow> (case read_index (sr_current_index r) of
         Inl e \<Rightarrow> Inl e
       | Inr ci \<Rightarrow> Inr (Some \<lparr>sv_node_id = global_id, sv_queue_file_paths = sr_queue r, sv_current_index = ci,
           sv_active_output_id = sr_active_output_id r, sv_volume = 50, sv_shuffle = (sr_shuffle r \<noteq> 0),
           sv_repeat = sr_repeat r, sv_node_type = Remote, sv_device_id = None, sv_disconnected_at = None\<rparr>)))"

subsection \<open>The persister\<close>

definition repeat_name :: "repeat_mode \<Rightarrow> string" where
  "repeat_name r = (case r of Repeat_Off \<Rightarrow> ''off'' | Repeat_One \<Rightarrow> ''one'' | Repeat_All \<Rightarrow> ''all'')"

definition file_paths :: "track list \<Rightarrow> string list" where
  "file_paths ts = map tr_file_path ts"

definition save_node :: "node \<Rightarrow> state_table \<Rightarrow> state_table" where
  "save_node n = save_node_state (nd_id n) (file_paths (nd_queue n)) (nd_current_index n) (nd_volume n)
     (nd_shuffle n) (repeat_name (nd_repeat n)) (nd_node_type n) (nd_device_id n) (nd_disconnected_at n)"

text \<open>The statements in order; there is no transaction around them, and one that fails ends the run.\<close>

definition persist_statements :: "nat \<Rightarrow> playback_state \<Rightarrow> (state_table \<Rightarrow> state_table) list" where
  "persist_statements max_variables s =
    save_playback_state (file_paths (st_queue s)) (st_current_index s) (st_selected_node_id s)
      (st_shuffle s) (repeat_name (st_repeat s)) #
    map save_node (st_nodes s) @
    [prune_node_states_except max_variables (map nd_id (st_nodes s))]"

fun run_statements :: "(state_table \<Rightarrow> state_table) list \<Rightarrow> state_table \<Rightarrow> state_table" where
  "run_statements [] tbl = tbl"
| "run_statements (f # fs) tbl = run_statements fs (f tbl)"

text \<open>\<open>done\<close> statements succeed before one fails.\<close>

definition persist_until :: "nat \<Rightarrow> nat \<Rightarrow> playback_state \<Rightarrow> state_table \<Rightarrow> state_table" where
  "persist_until max_variables done s tbl = run_statements (take done (persist_statements max_variables s)) tbl"

definition persist :: "nat \<Rightarrow> playback_state \<Rightarrow> state_table \<Rightarrow> state_table" where
  "persist max_variables s tbl = run_statements (persist_statements max_variables s) tbl"

subsection \<open>Restoring at start-up\<close>

definition repeat_of_name :: "string \<Rightarrow> repeat_mode" where
  "repeat_of_name s = (if s = ''one'' then Repeat_One else if s = ''all'' then Repeat_All else Repeat_Off)"

text \<open>Tracks that are no longer in the library are dropped.\<close>

definition restore_queue :: "library \<Rightarrow> string list \<Rightarrow> track list" where
  "restore_queue lib paths = List.map_filter (get_track_by_path lib) paths"

definition index_within :: "nat \<Rightarrow> usize option \<Rightarrow> usize option" where
  "index_within len ci = (case ci of None \<Rightarrow> None | Some k \<Rightarrow> if k < len then Some k else None)"

definition restore_node :: "library \<Rightarrow> saved_node_state \<Rightarrow> node" where
  "restore_node lib s =
    (let inferred_device_id = strip_prefix ''local-'' (sv_node_id s);
         queue = restore_queue lib (sv_queue_file_paths s)
     in \<lparr>nd_id = sv_node_id s, nd_name = [], nd_connected = False, nd_status = Stopped,
         nd_position_secs = f64_zero, nd_volume = sv_volume s,
         nd_node_type = (if sv_node_type s = Local \<or> inferred_device_id \<noteq> None then Local else Remote),
         nd_queue = queue, nd_current_index = index_within (length queue) (sv_current_index s),
         nd_repeat = repeat_of_name (sv_repeat s), nd_shuffle = sv_shuffle s,
         nd_device_id = (case sv_device_id s of Some d \<Rightarrow> Some d | None \<Rightarrow> inferred_device_id),
         nd_disconnected_at = sv_disconnected_at s\<rparr>)"

text \<open>An unreadable row of a node empties the list of nodes, one of the global row ends the program.\<close>

definition restore :: "library \<Rightarrow> state_table \<Rightarrow> string + playback_state" where
  "restore lib tbl =
    (case load_playback_state tbl of
       Inl e \<Rightarrow> Inl e
     | Inr saved \<Rightarrow>
         let saved_nodes = (case load_all_node_states tbl of Inl _ \<Rightarrow> [] | Inr ns \<Rightarrow> ns);
             nodes = map (restore_node lib) (filter (\<lambda>s. sv_node_id s \<noteq> global_id) saved_nodes)
         in Inr (case saved of
              None \<Rightarrow> \<lparr>st_nodes = nodes, st_selected_node_id = None, st_queue = [], st_current_index = None,
                st_shuffle = False, st_repeat = Repeat_Off\<rparr>
            | Some g \<Rightarrow>
                let queue = restore_queue lib (sv_queue_file_paths g)
                in \<lparr>st_nodes = nodes, st_selected_node_id = sv_active_output_id g, st_queue = queue,
                    st_current_index = index_within (length queue) (sv_current_index g),
                    st_shuffle = sv_shuffle g, st_repeat = repeat_of_name (sv_repeat g)\<rparr>))"

end
