(* ===== verification/Persist_Facts.thy ===== *)
theory Persist_Facts
  imports Persist Core_Runs
begin

text \<open>
  Saving a state and restoring it gives the state back, its nodes at rest and in the order of their
  ids, as long as every queued track is still in the library; whatever the table holds, the restored
  indices are in range, but a run of statements cut short can leave a selection that names no node.
\<close>

subsection \<open>Rows of the table\<close>

definition state_row_of :: "string \<Rightarrow> state_table \<Rightarrow> state_row option" where
  "state_row_of i tbl = find (\<lambda>r. sr_node_id r = i) tbl"

definition row_ids :: "state_table \<Rightarrow> string list" where
  "row_ids tbl = map sr_node_id tbl"

lemma state_row_of_id: "state_row_of i tbl = Some r \<Longrightarrow> sr_node_id r = i \<and> r \<in> set tbl"
  by (auto simp: state_row_of_def dest: find_SomeD)

lemma state_row_of_None: "state_row_of i tbl = None \<longleftrightarrow> i \<notin> set (row_ids tbl)"
  by (auto simp: state_row_of_def row_ids_def find_None_iff)

lemma state_row_of_mem: "distinct (row_ids tbl) \<Longrightarrow> r \<in> set tbl \<Longrightarrow> state_row_of (sr_node_id r) tbl = Some r"
  by (induction tbl) (auto simp: state_row_of_def row_ids_def)

definition keeps_id :: "(state_row \<Rightarrow> state_row) \<Rightarrow> string \<Rightarrow> bool" where
  "keeps_id upd i \<longleftrightarrow> (\<forall>r. sr_node_id r = i \<longrightarrow> sr_node_id (upd r) = i)"

lemma row_ids_upsert:
  "keeps_id upd (sr_node_id new) \<Longrightarrow> row_ids (upsert_row new upd tbl) =
    (if sr_node_id new \<in> set (row_ids tbl) then row_ids tbl else row_ids tbl @ [sr_node_id new])"
  by (simp add: upsert_row_def row_ids_def keeps_id_def map_update_first)

lemma distinct_upsert:
  "keeps_id upd (sr_node_id new) \<Longrightarrow> distinct (row_ids tbl) \<Longrightarrow> distinct (row_ids (upsert_row new upd tbl))"
  by (simp add: row_ids_upsert)

lemma state_row_of_upsert:
  assumes "keeps_id upd (sr_node_id new)"
  shows "state_row_of i (upsert_row new upd tbl) =
    (if i = sr_node_id new then Some (case state_row_of i tbl of None \<Rightarrow> new | Some r \<Rightarrow> upd r) else state_row_of i tbl)"
proof (cases "sr_node_id new \<in> set (row_ids tbl)")
  case True
  then obtain r where r: "state_row_of (sr_node_id new) tbl = Some r" by (metis state_row_of_None option.exhaust)
  have upd: "upsert_row new upd tbl = update_first (\<lambda>r. sr_node_id r = sr_node_id new) upd tbl"
    using True by (simp add: upsert_row_def row_ids_def)
  show ?thesis
  proof (cases "i = sr_node_id new")
    case i: True
    have "state_row_of i (upsert_row new upd tbl) = map_option upd (state_row_of i tbl)"
      unfolding upd state_row_of_def i using assms by (intro find_update_first) (simp add: keeps_id_def)
    with r i show ?thesis by simp
  next
    case False
    have "state_row_of i (upsert_row new upd tbl) = state_row_of i tbl"
      unfolding upd state_row_of_def using assms False by (intro find_update_first_other) (auto simp: keeps_id_def)
    with False show ?thesis by simp
  qed
next
  case False
  then have "state_row_of (sr_node_id new) tbl = None" by (simp add: state_row_of_None)
  with False show ?thesis
    by (auto simp: upsert_row_def row_ids_def state_row_of_def find_append split: option.split)
qed

text \<open>The row a node is saved as.\<close>

definition node_row :: "node \<Rightarrow> state_row" where
  "node_row n = \<lparr>sr_node_id = nd_id n, sr_queue = file_paths (nd_queue n),
     sr_current_index = map_option i64_of_usize (nd_current_index n), sr_volume = uint (nd_volume n),
     sr_shuffle = of_bool (nd_shuffle n), sr_repeat = repeat_name (nd_repeat n), sr_active_output_id = None,
     sr_node_type = node_type_name (nd_node_type n), sr_device_id = nd_device_id n,
     sr_disconnected_at = nd_disconnected_at n\<rparr>"

lemma save_node_upsert: "save_node n = upsert_row (node_row n) (\<lambda>r. (node_row n)\<lparr>sr_active_output_id := sr_active_output_id r\<rparr>)"
  by (simp add: save_node_def save_node_state_def node_row_def Let_def)

lemma node_row_id [simp]: "sr_node_id (node_row n) = nd_id n"
  by (simp add: node_row_def)

lemma save_node_keeps: "keeps_id (\<lambda>r. (node_row n)\<lparr>sr_active_output_id := sr_active_output_id r\<rparr>) (nd_id n)"
  by (simp add: keeps_id_def)

text \<open>Two rows that differ at most in the output id, which only the global row uses.\<close>

definition same_node_row :: "state_row \<Rightarrow> state_row \<Rightarrow> bool" where
  "same_node_row r r' \<longleftrightarrow> r\<lparr>sr_active_output_id := None\<rparr> = r'\<lparr>sr_active_output_id := None\<rparr>"

lemma state_row_of_save_node:
  "\<exists>r. state_row_of (nd_id n) (save_node n tbl) = Some r \<and> same_node_row r (node_row n)"
  "i \<noteq> nd_id n \<Longrightarrow> state_row_of i (save_node n tbl) = state_row_of i tbl"
  by (simp_all add: save_node_upsert state_row_of_upsert save_node_keeps same_node_row_def split: option.split)

lemma state_row_of_save_nodes_other:
  "i \<notin> set (map nd_id ns) \<Longrightarrow> state_row_of i (run_statements (map save_node ns) tbl) = state_row_of i tbl"
  by (induction ns arbitrary: tbl) (simp_all add: state_row_of_save_node(2))

lemma state_row_of_save_nodes:
  "distinct (map nd_id ns) \<Longrightarrow> n \<in> set ns \<Longrightarrow>
    \<exists>r. state_row_of (nd_id n) (run_statements (map save_node ns) tbl) = Some r \<and> same_node_row r (node_row n)"
proof (induction ns arbitrary: tbl)
  case (Cons m ns)
  show ?case
  proof (cases "n = m")
    case True
    with Cons.prems(1) show ?thesis
      using state_row_of_save_node(1) [of m tbl] by (simp add: state_row_of_save_nodes_other)
  next
    case False
    with Cons show ?thesis by simp
  qed
qed simp

lemma run_statements_append: "run_statements (fs @ gs) tbl = run_statements gs (run_statements fs tbl)"
  by (induction fs arbitrary: tbl) simp_all

lemma row_ids_save_nodes:
  "set (row_ids (run_statements (map save_node ns) tbl)) = set (row_ids tbl) \<union> set (map nd_id ns)"
  by (induction ns arbitrary: tbl) (auto simp: save_node_upsert row_ids_upsert save_node_keeps)

lemma distinct_save_nodes: "distinct (row_ids tbl) \<Longrightarrow> distinct (row_ids (run_statements (map save_node ns) tbl))"
  by (induction ns arbitrary: tbl) (simp_all add: save_node_upsert distinct_upsert save_node_keeps)

lemma prune_filter:
  "length keep \<le> mv \<Longrightarrow> prune_node_states_except mv keep tbl = filter (\<lambda>r. sr_node_id r = global_id \<or> sr_node_id r \<in> set keep) tbl"
  by (auto simp: prune_node_states_except_def intro!: filter_cong)

lemma state_row_of_filter: "state_row_of i (filter (\<lambda>r. P (sr_node_id r)) tbl) = (if P i then state_row_of i tbl else None)"
  by (induction tbl) (auto simp: state_row_of_def)

subsection \<open>What a complete run leaves\<close>

definition global_row :: "playback_state \<Rightarrow> state_row \<Rightarrow> bool" where
  "global_row s r \<longleftrightarrow> sr_queue r = file_paths (st_queue s) \<and>
    sr_current_index r = map_option i64_of_usize (st_current_index s) \<and> sr_active_output_id r = st_selected_node_id s \<and>
    sr_shuffle r = of_bool (st_shuffle s) \<and> sr_repeat r = repeat_name (st_repeat s) \<and> sr_volume r \<in> {0..255}"

text \<open>The key is unique and every volume is a byte, as in every table these statements write.\<close>

definition table_ok :: "state_table \<Rightarrow> bool" where
  "table_ok tbl \<longleftrightarrow> distinct (row_ids tbl) \<and> (\<forall>r \<in> set tbl. sr_volume r \<in> {0..255})"

lemma persist_rows:
  assumes "table_ok tbl" "distinct (node_ids s)" "global_id \<notin> set (node_ids s)" "length (st_nodes s) \<le> mv"
  defines "t \<equiv> persist mv s tbl"
  shows "distinct (row_ids t)" "set (row_ids t) = insert global_id (set (node_ids s))"
    and "\<exists>r. state_row_of global_id t = Some r \<and> global_row s r"
    and "n \<in> set (st_nodes s) \<Longrightarrow> \<exists>r. state_row_of (nd_id n) t = Some r \<and> same_node_row r (node_row n)"
proof -
  define t1 where "t1 = save_playback_state (file_paths (st_queue s)) (st_current_index s) (st_selected_node_id s)
      (st_shuffle s) (repeat_name (st_repeat s)) tbl"
  define t2 where "t2 = run_statements (map save_node (st_nodes s)) t1"
  let ?keep = "\<lambda>i. i = global_id \<or> i \<in> set (node_ids s)"
  have t: "t = filter (\<lambda>r. ?keep (sr_node_id r)) t2"
    by (simp add: t_def persist_def persist_statements_def run_statements_append t1_def t2_def prune_filter node_ids_def assms(4))
  have d1: "distinct (row_ids t1)" and g1: "\<exists>r. state_row_of global_id t1 = Some r \<and> global_row s r"
    and i1: "set (row_ids t1) = insert global_id (set (row_ids tbl))"
    using assms(1) unfolding t1_def save_playback_state_def
    by (auto simp: table_ok_def distinct_upsert keeps_id_def state_row_of_upsert global_row_def row_ids_upsert
        dest: state_row_of_id split: option.split)
  have ns: "distinct (map nd_id (st_nodes s))" "global_id \<notin> set (map nd_id (st_nodes s))"
    using assms(2,3) by (simp_all add: node_ids_def)
  have d2: "distinct (row_ids t2)" unfolding t2_def using d1 by (rule distinct_save_nodes)
  then show "distinct (row_ids t)" by (simp add: t row_ids_def distinct_map_filter)
  have "set (row_ids t2) = insert global_id (set (row_ids tbl)) \<union> set (node_ids s)"
    by (simp only: t2_def row_ids_save_nodes i1 node_ids_def)
  then have "{i \<in> set (row_ids t2). ?keep i} = insert global_id (set (node_ids s))" by auto
  moreover have "set (row_ids t) = {i \<in> set (row_ids t2). ?keep i}" by (auto simp: t row_ids_def)
  ultimately show "set (row_ids t) = insert global_id (set (node_ids s))" by simp
  have "state_row_of global_id t2 = state_row_of global_id t1" unfolding t2_def using ns(2) by (rule state_row_of_save_nodes_other)
  with g1 show "\<exists>r. state_row_of global_id t = Some r \<and> global_row s r" by (simp add: t state_row_of_filter [of _ ?keep])
  assume n: "n \<in> set (st_nodes s)"
  have "\<exists>r. state_row_of (nd_id n) t2 = Some r \<and> same_node_row r (node_row n)"
    unfolding t2_def using ns(1) n by (rule state_row_of_save_nodes)
  moreover have "nd_id n \<in> set (node_ids s)" using n by (simp add: node_ids_def)
  ultimately show "\<exists>r. state_row_of (nd_id n) t = Some r \<and> same_node_row r (node_row n)" by (simp add: t state_row_of_filter [of _ ?keep])
qed

subsection \<open>Reading it back\<close>

definition queue_known :: "library \<Rightarrow> track list \<Rightarrow> bool" where
  "queue_known lib ts \<longleftrightarrow> (\<forall>t \<in> set ts. get_track_by_path lib (tr_file_path t) = Some t)"

lemma restore_queue_known: "queue_known lib ts \<Longrightarrow> restore_queue lib (file_paths ts) = ts"
  unfolding restore_queue_def file_paths_def queue_known_def by (induction ts) (simp_all add: map_filter_simps)

definition index_small :: "usize option \<Rightarrow> bool" where
  "index_small ci = pred_option (\<lambda>k. k < 2 ^ 63) ci"

lemma read_index_small: "index_small ci \<Longrightarrow> read_index (map_option i64_of_usize ci) = Inr ci"
  by (cases ci) (simp_all add: read_index_def index_small_def i64_of_usize_def)

lemma repeat_of_name_of [simp]: "repeat_of_name (repeat_name r) = r"
  by (cases r) (simp_all add: repeat_of_name_def repeat_name_def)

lemma index_within_same: "pred_option (\<lambda>k. k < len) ci \<Longrightarrow> index_within len ci = ci"
  by (cases ci) (simp_all add: index_within_def)

lemma index_within_range: "pred_option (\<lambda>k. k < len) (index_within len ci)"
  by (simp add: index_within_def split: option.split)

text \<open>A node as it comes back: disconnected and stopped, without its name and its position.\<close>

definition dormant :: "node \<Rightarrow> node" where
  "dormant n =
    (let inferred = strip_prefix ''local-'' (nd_id n)
     in n\<lparr>nd_name := [], nd_connected := False, nd_status := Stopped, nd_position_secs := f64_zero,
         nd_node_type := (if nd_node_type n = Local \<or> inferred \<noteq> None then Local else Remote),
         nd_device_id := (case nd_device_id n of Some d \<Rightarrow> Some d | None \<Rightarrow> inferred)\<rparr>)"

definition node_kept :: "library \<Rightarrow> node \<Rightarrow> bool" where
  "node_kept lib n \<longleftrightarrow> queue_known lib (nd_queue n) \<and> index_ok n \<and> index_small (nd_current_index n)"

lemma uint_u8: "\<not> uint (v :: u8) < 0" "\<not> 255 < uint (v :: u8)"
  using unsigned_less [of v, where 'a = int] by (simp_all add: not_less)

lemma read_row_fields:
  assumes "read_index (sr_current_index r) = Inr ci" "0 \<le> sr_volume r" "sr_volume r \<le> 255"
  shows "read_row r = Inr \<lparr>sv_node_id = sr_node_id r, sv_queue_file_paths = sr_queue r, sv_current_index = ci,
           sv_active_output_id = sr_active_output_id r, sv_volume = word_of_int (sr_volume r),
           sv_shuffle = (sr_shuffle r \<noteq> 0), sv_repeat = sr_repeat r,
           sv_node_type = (if sr_node_type r = ''local'' then Local else Remote),
           sv_device_id = sr_device_id r, sv_disconnected_at = sr_disconnected_at r\<rparr>"
  using assms by (simp add: read_row_def)

lemma read_node_row:
  assumes "same_node_row r (node_row n)" "node_kept lib n"
  shows "\<exists>sv. read_row r = Inr sv \<and> sv_node_id sv = nd_id n \<and> restore_node lib sv = dormant n"
proof -
  obtain a where r: "r = (node_row n)\<lparr>sr_active_output_id := a\<rparr>"
    using assms(1) by (cases r) (simp add: same_node_row_def node_row_def)
  have ci: "read_index (sr_current_index r) = Inr (nd_current_index n)"
    using assms(2) by (simp add: r node_row_def node_kept_def read_index_small)
  have vol: "0 \<le> sr_volume r" "sr_volume r \<le> 255"
    using uint_u8 [of "nd_volume n"] by (simp_all add: r node_row_def)
  have q: "restore_queue lib (file_paths (nd_queue n)) = nd_queue n"
      "index_within (length (nd_queue n)) (nd_current_index n) = nd_current_index n"
    using assms(2) by (simp_all add: node_kept_def restore_queue_known index_ok_def index_within_same)
  have nt: "node_type_name t = ''local'' \<longleftrightarrow> t = Local" for t by (cases t) (simp_all add: node_type_name_def)
  show ?thesis unfolding read_row_fields [OF ci vol]
    using q by (cases n, cases "nd_device_id n") (simp_all add: r node_row_def restore_node_def dormant_def Let_def nt)
qed

lemma read_rows_all:
  "(\<And>r. r \<in> set rs \<Longrightarrow> \<exists>sv. read_row r = Inr sv \<and> Q r sv) \<Longrightarrow> \<exists>svs. read_rows rs = Inr svs \<and> list_all2 Q rs svs"
proof (induction rs)
  case (Cons r rs)
  from Cons.prems [of r] obtain sv where "read_row r = Inr sv" "Q r sv" by auto
  moreover from Cons.IH Cons.prems obtain svs where "read_rows rs = Inr svs" "list_all2 Q rs svs" by auto
  ultimately show ?case by auto
qed simp

lemma find_distinct: "distinct (map f xs) \<Longrightarrow> x \<in> set xs \<Longrightarrow> find (\<lambda>y. f y = f x) xs = Some x"
  by (induction xs) auto

lemma map_sort_key: "map f (sort_key f xs) = sort (map f xs)"
  by (rule sym, rule properties_for_sort) simp_all

lemma restored_nodes:
  assumes "list_all2 (\<lambda>r sv. sv_node_id sv = sr_node_id r \<and> (sr_node_id r \<noteq> global_id \<longrightarrow> restore_node lib sv = g (sr_node_id r))) rs svs"
  shows "map (restore_node lib) (filter (\<lambda>s. sv_node_id s \<noteq> global_id) svs) = map g (filter (\<lambda>i. i \<noteq> global_id) (map sr_node_id rs))"
  using assms by (induction rule: list_all2_induct) auto

text \<open>What restoring needs of the state that was saved.\<close>

definition persistable :: "library \<Rightarrow> playback_state \<Rightarrow> bool" where
  "persistable lib s \<longleftrightarrow> state_wf s \<and> global_id \<notin> set (node_ids s) \<and> list_all (node_kept lib) (st_nodes s) \<and>
    queue_known lib (st_queue s) \<and> index_small (st_current_index s)"

definition dormant_state :: "playback_state \<Rightarrow> playback_state" where
  "dormant_state s = s\<lparr>st_nodes := map dormant (sort_key nd_id (st_nodes s))\<rparr>"

lemma sorted_ids_unique:
  assumes "distinct (row_ids t)" "set (row_ids t) = insert global_id (set is)" "distinct is" "global_id \<notin> set is"
  shows "filter (\<lambda>i. i \<noteq> global_id) (sort (row_ids t)) = sort is"
proof (rule sorted_distinct_set_unique)
  show "set (filter (\<lambda>i. i \<noteq> global_id) (sort (row_ids t))) = set (sort is)" using assms(2,4) by auto
qed (use assms(1,3) in \<open>simp_all add: sorted_filter [of "\<lambda>x. x", simplified]\<close>)

lemma persist_restore:
  assumes "table_ok tbl" "persistable lib s" "length (st_nodes s) \<le> mv"
  shows "restore lib (persist mv s tbl) = Inr (dormant_state s)"
proof -
  have wf: "distinct (node_ids s)" "global_id \<notin> set (node_ids s)" "top_index_ok s"
    and kept: "\<And>n. n \<in> set (st_nodes s) \<Longrightarrow> node_kept lib n"
    and top: "queue_known lib (st_queue s)" "index_small (st_current_index s)"
    using assms(2) by (auto simp: persistable_def state_wf_def list_all_iff)
  note rows = persist_rows [OF assms(1) wf(1,2) assms(3)]
  let ?t = "persist mv s tbl"
  define g where "g = (\<lambda>i. dormant (the (find_node s i)))"
  have g: "g (nd_id n) = dormant n" if "n \<in> set (st_nodes s)" for n
  proof -
    have "find_node s (nd_id n) = Some n" using wf(1) that unfolding find_node_def node_ids_def by (intro find_distinct)
    then show ?thesis by (simp add: g_def)
  qed
  obtain gr where gr: "state_row_of global_id ?t = Some gr" "global_row s gr" using rows(3) by blast
  let ?Q = "\<lambda>r sv. sv_node_id sv = sr_node_id r \<and> (sr_node_id r \<noteq> global_id \<longrightarrow> restore_node lib sv = g (sr_node_id r))"
  have ok: "\<exists>sv. read_row r = Inr sv \<and> ?Q r sv" if r: "r \<in> set (sort_key sr_node_id ?t)" for r
  proof (cases "sr_node_id r = global_id")
    case True
    then have "r = gr" using state_row_of_mem [OF rows(1), of r] r gr(1) by simp
    have "\<exists>sv. read_row gr = Inr sv \<and> sv_node_id sv = sr_node_id gr"
      using read_row_fields [of gr] gr(2) read_index_small [OF top(2)] by (simp add: global_row_def)
    with \<open>r = gr\<close> True show ?thesis by auto
  next
    case False
    then obtain n where n: "n \<in> set (st_nodes s)" "nd_id n = sr_node_id r"
      using r rows(2) by (force simp: row_ids_def node_ids_def)
    then have "same_node_row r (node_row n)"
      using rows(4) [OF n(1)] state_row_of_mem [OF rows(1), of r] r by simp
    from read_node_row [OF this kept [OF n(1)]] show ?thesis using g [OF n(1)] n(2) by auto
  qed
  obtain svs where svs: "load_all_node_states ?t = Inr svs" "list_all2 ?Q (sort_key sr_node_id ?t) svs"
    using read_rows_all [of "sort_key sr_node_id ?t" ?Q, OF ok] unfolding load_all_node_states_def by blast
  have ids: "map sr_node_id (sort_key sr_node_id ?t) = sort (row_ids ?t)" by (simp add: map_sort_key row_ids_def)
  have "map (restore_node lib) (filter (\<lambda>s. sv_node_id s \<noteq> global_id) svs) = map g (sort (node_ids s))"
    unfolding restored_nodes [OF svs(2)] ids sorted_ids_unique [OF rows(1,2) wf(1,2)] ..
  also have "\<dots> = map dormant (sort_key nd_id (st_nodes s))"
    unfolding node_ids_def map_sort_key [symmetric] by (simp add: g)
  finally have nodes: "map (restore_node lib) (filter (\<lambda>s. sv_node_id s \<noteq> global_id) svs) = map dormant (sort_key nd_id (st_nodes s))" .
  have "load_playback_state ?t = Inr (Some \<lparr>sv_node_id = global_id, sv_queue_file_paths = file_paths (st_queue s),
      sv_current_index = st_current_index s, sv_active_output_id = st_selected_node_id s, sv_volume = 50,
      sv_shuffle = st_shuffle s, sv_repeat = repeat_name (st_repeat s), sv_node_type = Remote, sv_device_id = None,
      sv_disconnected_at = None\<rparr>)"
    using gr read_index_small [OF top(2)] by (simp add: load_playback_state_def state_row_of_def global_row_def)
  then show ?thesis
    using wf(3) by (simp add: restore_def svs(1) nodes Let_def restore_queue_known [OF top(1)] top_index_ok_def
        index_within_same dormant_state_def)
qed

subsection \<open>What is restored is well formed\<close>

lemma restore_node_index: "index_ok (restore_node lib sv)"
  by (simp add: restore_node_def Let_def index_ok_def index_within_range)

lemma restore_indices: "restore lib tbl = Inr s \<Longrightarrow> indices_ok s \<and> top_index_ok s"
  by (auto simp: restore_def Let_def indices_ok_def top_index_ok_def list_all_iff restore_node_index
      index_within_range split: sum.splits option.splits)

lemma dormant_simps [simp]: "nd_id (dormant n) = nd_id n" "index_ok (dormant n) = index_ok n"
  by (simp_all add: dormant_def Let_def index_ok_def)

lemma dormant_state_wf: "state_wf s \<Longrightarrow> state_wf (dormant_state s)"
  by (auto simp: state_wf_def dormant_state_def node_ids_def selection_ok_def indices_ok_def top_index_ok_def
      list_all_iff distinct_map inj_on_def pred_option_def)

text \<open>The same, field by field.\<close>

definition comes_back :: "node \<Rightarrow> node \<Rightarrow> bool" where
  "comes_back n n' \<longleftrightarrow>
     nd_id n' = nd_id n \<and> nd_queue n' = nd_queue n \<and> nd_current_index n' = nd_current_index n \<and>
     nd_volume n' = nd_volume n \<and> nd_shuffle n' = nd_shuffle n \<and> nd_repeat n' = nd_repeat n \<and>
     nd_disconnected_at n' = nd_disconnected_at n \<and>
     \<not> nd_connected n' \<and> nd_status n' = Stopped \<and> nd_position_secs n' = f64_zero \<and> nd_name n' = [] \<and>
     (nd_node_type n' = Local \<longleftrightarrow> nd_node_type n = Local \<or> prefix ''local-'' (nd_id n)) \<and>
     nd_device_id n' = (case nd_device_id n of None \<Rightarrow> strip_prefix ''local-'' (nd_id n) | Some d \<Rightarrow> Some d)"

lemma dormant_comes_back: "comes_back n (dormant n)"
  by (cases "nd_device_id n") (simp_all add: comes_back_def dormant_def Let_def strip_prefix_def)

lemma dormant_state_fields:
  "list_all2 comes_back (sort_key nd_id (st_nodes s)) (st_nodes (dormant_state s)) \<and>
   st_selected_node_id (dormant_state s) = st_selected_node_id s \<and> st_queue (dormant_state s) = st_queue s \<and>
   st_current_index (dormant_state s) = st_current_index s \<and> st_shuffle (dormant_state s) = st_shuffle s \<and>
   st_repeat (dormant_state s) = st_repeat s"
  by (simp add: dormant_state_def list_all2_conv_all_nth dormant_comes_back)

text \<open>So a controller restored from what was saved is in a reachable state.\<close>

lemma restored_reachable:
  assumes "table_ok tbl" "persistable lib s" "length (st_nodes s) \<le> mv" "restore lib (persist mv s tbl) = Inr s'"
  shows "core_reachable (restore_state s' (core_new outs bs w))"
proof -
  have "state_wf s'" using assms persist_restore [OF assms(1-3)] by (auto simp: persistable_def dormant_state_wf)
  then have "core_reachable (core_exec (Op_RestoreState s') (core_new outs bs w))"
    by (intro core_reachable.step core_reachable.start) simp
  then show ?thesis by simp
qed

subsection \<open>A run cut short\<close>

text \<open>When only the first statement succeeds, the saved selection may name a node that was never saved.\<close>

lemma partial_persist:
  assumes "st_selected_node_id s = Some i" "i \<noteq> global_id" "index_small (st_current_index s)"
    and "restore lib (persist_until mv (Suc 0) s []) = Inr s'"
  shows "st_selected_node_id s' = Some i \<and> st_nodes s' = [] \<and> \<not> selection_ok s'"
proof -
  define r where "r = \<lparr>sr_node_id = global_id, sr_queue = file_paths (st_queue s), sr_current_index = map_option i64_of_usize (st_current_index s),
        sr_volume = 50, sr_shuffle = of_bool (st_shuffle s), sr_repeat = repeat_name (st_repeat s),
        sr_active_output_id = st_selected_node_id s, sr_node_type = ''remote'', sr_device_id = None, sr_disconnected_at = None\<rparr>"
  have t: "persist_until mv (Suc 0) s [] = [r]"
    by (simp add: persist_until_def persist_statements_def save_playback_state_def upsert_row_def r_def)
  have ci: "read_index (sr_current_index r) = Inr (st_current_index s)" using read_index_small [OF assms(3)] by (simp add: r_def)
  show ?thesis using assms(1,2,4) ci
    by (auto simp: t restore_def load_playback_state_def load_all_node_states_def read_row_def r_def Let_def
        selection_ok_def node_ids_def)
qed

end
