(* ===== verification/Mpd.thy ===== *)
theory Mpd
  imports Text NodeOutput Media
begin

text \<open>
  The MPD side of an output node (\<open>kanade-adapter-mpd\<close>): the client that sends commands and reads
  the reply (\<open>client.rs\<close>), the renderer that turns output calls into commands (\<open>renderer.rs\<close>), and the
  state sync that polls the status (\<open>state_sync.rs\<close>). The daemon is outside the model: a connection is
  what it will send, line by line, until it closes. Parameters: the hash of a file path, the MAC, and
  the text of a float.
\<close>

subsection \<open>A connection\<close>

text \<open>Each read gives a line or an I/O error; at the end of the stream it gives the empty line, for ever.\<close>

type_synonym 'e input = "('e + string) list"

definition read_line :: "'e input \<Rightarrow> ('e + string) \<times> 'e input" where
  "read_line s = (case s of [] \<Rightarrow> (Inr [], []) | x # xs \<Rightarrow> (x, xs))"

definition trim_end :: "string \<Rightarrow> string" where
  "trim_end s = rev (dropWhile is_space (rev s))"

subsection \<open>The client\<close>

partial_function (option) mpd_collect :: "string input \<Rightarrow> string list \<Rightarrow> (core_error + string list) option" where
  "mpd_collect s acc =
    (case read_line s of
       (Inl e, _) \<Rightarrow> Some (Inl (Output (''MPD read error: '' @ e)))
     | (Inr line, s) \<Rightarrow>
         let trimmed = trim_end line
         in if trimmed = ''OK'' then Some (Inr acc)
            else if prefix ''ACK'' trimmed then Some (Inl (Output (''MPD error: '' @ trimmed)))
            else mpd_collect s (acc @ [trimmed]))"

text \<open>
  Connecting may fail or time out; then the banner is read, whatever it is, and the commands are
  written. \<open>None\<close> stands for a call that does not return.
\<close>

record mpd_connection =
  mc_input :: "string input"
  mc_write_error :: "string option"

definition mpd_send :: "(string \<Rightarrow> core_error + mpd_connection) \<Rightarrow> string \<Rightarrow> (core_error + string list) option" where
  "mpd_send daemon commands =
    (case daemon commands of
       Inl e \<Rightarrow> Some (Inl e)
     | Inr conn \<Rightarrow> (case read_line (mc_input conn) of
         (Inl e, _) \<Rightarrow> Some (Inl (Output (''MPD banner read error: '' @ e)))
       | (Inr _, s) \<Rightarrow> (case mc_write_error conn of
           Some e \<Rightarrow> Some (Inl (Output (''MPD write error: '' @ e)))
         | None \<Rightarrow> mpd_collect s [])))"

subsection \<open>The renderer\<close>

record mpd_renderer =
  mr_base_url :: string
  mr_auth :: "(string \<times> u8 list) option"

definition mpd_renderer_new :: "string \<Rightarrow> mpd_renderer" where
  "mpd_renderer_new base = \<lparr>mr_base_url = trim_end_matches (CHR ''/'') base, mr_auth = None\<rparr>"

definition new_with_media_auth :: "string \<Rightarrow> string \<Rightarrow> u8 list \<Rightarrow> mpd_renderer" where
  "new_with_media_auth base kid key =
    \<lparr>mr_base_url = trim_end_matches (CHR ''/'') base, mr_auth = Some (kid, key)\<rparr>"

text \<open>The copies of the server's signing function that the renderer and the proxy carry.\<close>

definition client_signature :: "mac \<Rightarrow> u8 list \<Rightarrow> string \<Rightarrow> nat \<Rightarrow> u8 list" where
  "client_signature hmac key path expiry = hmac key (''GET:'' @ path @ '':'' @ show_nat expiry)"

definition media_uri_at :: "mac \<Rightarrow> (string \<Rightarrow> string) \<Rightarrow> mpd_renderer \<Rightarrow> string \<Rightarrow> nat \<Rightarrow> string" where
  "media_uri_at hmac id_of r value now =
    (if prefix ''http://'' value \<or> prefix ''https://'' value then value
     else
       let path = ''/media/tracks/'' @ id_of value
       in case mr_auth r of
            Some (kid, key) \<Rightarrow>
              let expiry = min (now + media_url_ttl_secs) usize_max
              in mr_base_url r @ path @ ''?kid='' @ kid @ ''&exp='' @ show_nat expiry @ ''&sig='' @
                   hex_encode (client_signature hmac key path expiry)
          | None \<Rightarrow> mr_base_url r @ path)"

text \<open>\<open>str::replace\<close> of a character.\<close>

definition replace_char :: "char \<Rightarrow> string \<Rightarrow> string \<Rightarrow> string" where
  "replace_char c r s = concat (map (\<lambda>x. if x = c then r else [x]) s)"

abbreviation "backslash \<equiv> CHR 0x5C"
abbreviation "dquote \<equiv> CHR 0x22"
abbreviation "newline \<equiv> CHR 0x0A"

definition quote_mpd_arg :: "string \<Rightarrow> string" where
  "quote_mpd_arg v = dquote # replace_char dquote [backslash, dquote] (replace_char backslash [backslash, backslash] v) @ [dquote]"

definition add_lines :: "(string \<Rightarrow> string) \<Rightarrow> string list \<Rightarrow> string" where
  "add_lines uri paths = concat (map (\<lambda>p. ''add '' @ quote_mpd_arg (uri p) @ [newline]) paths)"

fun mpd_commands :: "(string \<Rightarrow> string) \<Rightarrow> (f64 \<Rightarrow> string) \<Rightarrow> output_call \<Rightarrow> string" where
  "mpd_commands uri fmt Call_Play = ''play'' @ [newline]"
| "mpd_commands uri fmt Call_Pause = ''pause 1'' @ [newline]"
| "mpd_commands uri fmt Call_Stop = ''stop'' @ [newline]"
| "mpd_commands uri fmt (Call_Seek p) = ''seekcur '' @ fmt p @ [newline]"
| "mpd_commands uri fmt (Call_SetVolume v) = ''setvol '' @ show_nat (unat v) @ [newline]"
| "mpd_commands uri fmt (Call_SetQueue ps _) =
    ''command_list_begin'' @ [newline] @ ''clear'' @ [newline] @ add_lines uri ps @ ''command_list_end'' @ [newline]"
| "mpd_commands uri fmt (Call_Add ps) =
    ''command_list_begin'' @ [newline] @ add_lines uri ps @ ''command_list_end'' @ [newline]"
| "mpd_commands uri fmt (Call_Remove k) = ''delete '' @ show_nat k @ [newline]"
| "mpd_commands uri fmt (Call_MoveTrack i j) = ''move '' @ show_nat i @ '' '' @ show_nat j @ [newline]"

definition mpd_renderer_call ::
  "mac \<Rightarrow> (string \<Rightarrow> string) \<Rightarrow> (f64 \<Rightarrow> string) \<Rightarrow> (string \<Rightarrow> core_error + mpd_connection) \<Rightarrow> mpd_renderer \<Rightarrow> nat
    \<Rightarrow> output_call \<Rightarrow> (core_error + unit) option" where
  "mpd_renderer_call hmac id_of fmt daemon r now c =
    map_option (map_sum id (\<lambda>_. ())) (mpd_send daemon (mpd_commands (\<lambda>p. media_uri_at hmac id_of r p now) fmt c))"

text \<open>\<open>clear\<close> sends two commands and reads the reply of the first.\<close>

definition clear_commands :: string where
  "clear_commands = ''stop'' @ [newline] @ ''clear'' @ [newline]"

definition mpd_clear :: "(string \<Rightarrow> core_error + mpd_connection) \<Rightarrow> (core_error + unit) option" where
  "mpd_clear daemon = map_option (map_sum id (\<lambda>_. ())) (mpd_send daemon clear_commands)"

text \<open>
  The renderer as the audio output of a node. The daemon keeps a state: \<open>serve\<close> gives the connection
  that answers a text and the state after it. A call that does not return has no counterpart in an
  output; it is given an error and leaves the state, and what is claimed of the output excludes it.
\<close>

definition mpd_output ::
  "mac \<Rightarrow> (string \<Rightarrow> string) \<Rightarrow> (f64 \<Rightarrow> string) \<Rightarrow> (string \<Rightarrow> 'd \<Rightarrow> (core_error + mpd_connection) \<times> 'd)
    \<Rightarrow> mpd_renderer \<Rightarrow> nat \<Rightarrow> 'd audio_output" where
  "mpd_output hmac id_of fmt serve r now c d =
    (case mpd_renderer_call hmac id_of fmt (\<lambda>text. fst (serve text d)) r now c of
       Some result \<Rightarrow> (result, snd (serve (mpd_commands (\<lambda>p. media_uri_at hmac id_of r p now) fmt c) d))
     | None \<Rightarrow> (Inl (Output []), d))"

text \<open>What the daemon makes of \<open>clear\<close>; its result is only logged.\<close>

definition mpd_cleared :: "(string \<Rightarrow> 'd \<Rightarrow> (core_error + mpd_connection) \<times> 'd) \<Rightarrow> 'd \<Rightarrow> 'd" where
  "mpd_cleared serve d = (case mpd_clear (\<lambda>text. fst (serve text d)) of
     Some result \<Rightarrow> snd (serve clear_commands d) | None \<Rightarrow> d)"

subsection \<open>The state sync\<close>

text \<open>The status reply ends with \<open>OK\<close> only; an error of the daemon is one more line.\<close>

partial_function (option) status_lines :: "string input \<Rightarrow> string list \<Rightarrow> (string + string list \<times> string input) option" where
  "status_lines s acc =
    (case read_line s of
       (Inl e, _) \<Rightarrow> Some (Inl (''status read: '' @ e))
     | (Inr line, s) \<Rightarrow>
         let trimmed = trim_end line
         in if trimmed = ''OK'' then Some (Inr (acc, s)) else status_lines s (acc @ [trimmed]))"

definition status_map :: "string list \<Rightarrow> (string \<rightharpoonup> string)" where
  "status_map ls = fold (\<lambda>line m. case split_once (CHR '':'') line of
     None \<Rightarrow> m | Some (k, v) \<Rightarrow> m(trim k \<mapsto> trim v)) ls Map.empty"

record mpd_status =
  ms_elapsed :: f64
  ms_song :: "usize option"
  ms_volume :: u8
  ms_state :: playback_status

definition parse_status :: "(string \<Rightarrow> f64 option) \<Rightarrow> string list \<Rightarrow> mpd_status" where
  "parse_status parse_f64 ls =
    (let m = status_map ls
     in \<lparr>ms_elapsed = (case Option.bind (m ''elapsed'') parse_f64 of Some x \<Rightarrow> x | None \<Rightarrow> f64_zero),
         ms_song = Option.bind (m ''song'') parse_u64,
         ms_volume = (case Option.bind (m ''volume'') (parse_uint 255) of Some v \<Rightarrow> word_of_nat v | None \<Rightarrow> 0),
         ms_state = (if m ''state'' = Some ''play'' then Playing
           else if m ''state'' = Some ''pause'' then Paused else Stopped)\<rparr>)"

text \<open>The first node of the node's own state shows the daemon; the current index is the daemon's.\<close>

definition apply_status :: "mpd_status \<Rightarrow> playback_state \<Rightarrow> playback_state" where
  "apply_status st s =
    (let s = (case st_nodes s of
           [] \<Rightarrow> s
         | n # ns \<Rightarrow> s\<lparr>st_nodes := n\<lparr>nd_position_secs := ms_elapsed st, nd_status := ms_state st, nd_volume := ms_volume st\<rparr> # ns\<rparr>)
     in s\<lparr>st_current_index := ms_song st\<rparr>)"

text \<open>
  The sync task and the session task of a node run concurrently. A poll reads the status, and later
  updates the state and reports it with the generation it then finds; commands may come between.
\<close>

record 'w mpd_node =
  mn_device :: "'w node_device"
  mn_state :: playback_state
  mn_polled :: "mpd_status option"
  mn_reports :: "node_state_update list"

datatype node_step = Step_Poll | Step_Report | Step_Command node_command

fun node_exec :: "'w audio_output \<Rightarrow> ('w \<Rightarrow> mpd_status) \<Rightarrow> node_step \<Rightarrow> 'w mpd_node \<Rightarrow> 'w mpd_node" where
  "node_exec out status Step_Poll n = n\<lparr>mn_polled := Some (status (dv_world (mn_device n)))\<rparr>"
| "node_exec out status Step_Report n =
    (case mn_polled n of
       None \<Rightarrow> n
     | Some st \<Rightarrow>
         let s = apply_status st (mn_state n)
         in n\<lparr>mn_state := s, mn_polled := None,
              mn_reports := mn_reports n @ (case node_update s (mn_device n) of None \<Rightarrow> [] | Some u \<Rightarrow> [u])\<rparr>)"
| "node_exec out status (Step_Command cmd) n = n\<lparr>mn_device := execute_command out cmd (mn_device n)\<rparr>"

text \<open>The task ends only with \<open>Ok\<close>, which the loop never gives; every error waits longer, up to a limit.\<close>

definition sync_backoff :: "nat \<Rightarrow> nat" where
  "sync_backoff failures = ((\<lambda>b. min (b * 2) 30) ^^ failures) 1"

end
