(* ===== verification/Node_Proxy.thy ===== *)
theory Node_Proxy
  imports Mpd
begin

text \<open>
  The media proxy of a node (\<open>kanade-node/src/proxy.rs\<close>): MPD asks it for an unsigned URL of a track,
  and it answers with a redirect to the server signed with the key of the current session. What the
  server answers to a probe of a URL is a parameter, and so is what the credentials have become when a
  refresh has been waited for.
\<close>

record proxy_state =
  px_base_url :: string
  px_auth :: "(string \<times> u8 list) option"
  px_generation :: nat

definition proxy_update :: "string \<Rightarrow> (string \<times> u8 list) option \<Rightarrow> proxy_state option \<Rightarrow> proxy_state option" where
  "proxy_update base auth st =
    Some \<lparr>px_base_url = base, px_auth = auth,
          px_generation = (case st of Some s \<Rightarrow> usize_saturating_add (px_generation s) 1 | None \<Rightarrow> 1)\<rparr>"

definition proxy_base_url :: "string \<Rightarrow> string \<Rightarrow> string" where
  "proxy_base_url bind_addr base_url = (if base_url = [] then ''http://'' @ bind_addr else base_url)"

text \<open>\<open>now\<close> is \<open>None\<close> when the clock is before the epoch.\<close>

definition build_redirect_target ::
  "mac \<Rightarrow> nat option \<Rightarrow> proxy_state option \<Rightarrow> string \<Rightarrow> (string \<times> nat \<times> bool) option" where
  "build_redirect_target hmac now st track_path =
    (case st of
       None \<Rightarrow> None
     | Some s \<Rightarrow>
         (let base = trim_end_matches (CHR ''/'') (px_base_url s)
          in case px_auth s of
               Some (kid, key) \<Rightarrow> (case now of
                   None \<Rightarrow> None
                 | Some now \<Rightarrow>
                     let expiry = min (now + media_url_ttl_secs) usize_max
                     in Some (base @ track_path @ ''?kid='' @ kid @ ''&exp='' @ show_nat expiry @ ''&sig='' @
                          hex_encode (client_signature hmac key track_path expiry), px_generation s, True))
             | None \<Rightarrow> Some (base @ track_path, px_generation s, False)))"

definition wait_for_new_generation :: "proxy_state option list \<Rightarrow> nat \<Rightarrow> bool" where
  "wait_for_new_generation seen previous \<longleftrightarrow>
    (\<exists>st \<in> set seen. case st of Some s \<Rightarrow> px_generation s > previous | None \<Rightarrow> False)"

text \<open>\<open>split_whitespace\<close>\<close>

fun split_words :: "string \<Rightarrow> string \<Rightarrow> string list" where
  "split_words word [] = (if word = [] then [] else [word])"
| "split_words word (c # cs) =
    (if is_space c then (if word = [] then [] else [word]) @ split_words [] cs else split_words (word @ [c]) cs)"

definition split_whitespace :: "string \<Rightarrow> string list" where
  "split_whitespace s = split_words [] s"

datatype proxy_response = Proxy_Status nat | Proxy_Redirect string

text \<open>The header lines are read up to an empty one or the end of the stream; an I/O error drops the request.\<close>

fun drain_headers :: "string input \<Rightarrow> bool" where
  "drain_headers [] = True"
| "drain_headers (Inl e # s) = False"
| "drain_headers (Inr line # s) = (if trim line = [] then True else drain_headers s)"

text \<open>
  \<open>forbidden\<close> tells whether the server answers a probe with status 403; \<open>seen\<close> are the states the proxy
  sees while it waits for a new key, and \<open>later\<close> the state after the wait. \<open>None\<close> is a dropped request.
\<close>

definition track_request :: "string \<Rightarrow> nat + string" where
  "track_request line =
    (case split_whitespace line of
       _ # target # _ \<Rightarrow>
         (case strip_prefix ''/media/tracks/'' (hd (split_on (CHR ''?'') target)) of
            None \<Rightarrow> Inl 404 | Some track_id \<Rightarrow> Inr track_id)
     | _ \<Rightarrow> Inl 400)"

definition media_track_path :: "string \<Rightarrow> string" where
  "media_track_path track_id = ''/media/tracks/'' @ track_id"

definition proxy_redirect ::
  "mac \<Rightarrow> (string \<Rightarrow> bool) \<Rightarrow> nat option \<Rightarrow> proxy_state option \<Rightarrow> proxy_state option list \<Rightarrow> nat option
    \<Rightarrow> proxy_state option \<Rightarrow> (string \<Rightarrow> bool) \<Rightarrow> string \<Rightarrow> proxy_response" where
  "proxy_redirect hmac forbidden now st seen now' later forbidden' track_path =
    (case build_redirect_target hmac now st track_path of
       None \<Rightarrow> Proxy_Status 503
     | Some (url, generation, has_auth) \<Rightarrow>
         if has_auth \<and> forbidden url then
           (let url' = (if wait_for_new_generation seen generation
                  then (case build_redirect_target hmac now' later track_path of
                          Some (u, _, _) \<Rightarrow> u | None \<Rightarrow> url)
                  else url)
            in if forbidden' url' then Proxy_Status 503 else Proxy_Redirect url')
         else Proxy_Redirect url)"

definition proxy_handle_request ::
  "mac \<Rightarrow> (string \<Rightarrow> bool) \<Rightarrow> nat option \<Rightarrow> proxy_state option \<Rightarrow> proxy_state option list \<Rightarrow> nat option
    \<Rightarrow> proxy_state option \<Rightarrow> (string \<Rightarrow> bool) \<Rightarrow> string input \<Rightarrow> proxy_response option" where
  "proxy_handle_request hmac forbidden now st seen now' later forbidden' s =
    (case read_line s of
       (Inl e, _) \<Rightarrow> None
     | (Inr line, s) \<Rightarrow>
         if \<not> drain_headers s then None
         else Some (case track_request line of
           Inl status \<Rightarrow> Proxy_Status status
         | Inr track_id \<Rightarrow>
             proxy_redirect hmac forbidden now st seen now' later forbidden' (media_track_path track_id)))"

definition crlf :: string where
  "crlf = [CHR 0x0D, CHR 0x0A]"

definition status_reason :: "nat \<Rightarrow> string" where
  "status_reason status =
    (if status = 302 then ''Found'' else if status = 400 then ''Bad Request'' else if status = 404 then ''Not Found''
     else if status = 503 then ''Service Unavailable'' else ''Error'')"

definition write_response :: "proxy_response \<Rightarrow> string" where
  "write_response r =
    (let (status, location) = (case r of Proxy_Status n \<Rightarrow> (n, None) | Proxy_Redirect l \<Rightarrow> (302, Some l))
     in ''HTTP/1.1 '' @ show_nat status @ '' '' @ status_reason status @ crlf @
        (case location of Some l \<Rightarrow> ''Location: '' @ l @ crlf | None \<Rightarrow> []) @
        ''Content-Length: 0'' @ crlf @ ''Connection: close'' @ crlf @ crlf)"

end
