(* ===== verification/Node_Facts.thy ===== *)
theory Node_Facts
  imports Node_Proxy Media_Facts
begin

text \<open>
  What a node guarantees on its MPD side: when reading a reply returns, that quoted arguments are read
  back and make one line each, that the URL the proxy redirects to is one the server accepts, and which
  report an interleaving of the state sync with a command sends.
\<close>

subsection \<open>Reading a reply\<close>

definition ends_reply :: "string + string \<Rightarrow> bool" where
  "ends_reply x = (case x of Inl e \<Rightarrow> True | Inr line \<Rightarrow> trim_end line = ''OK'' \<or> prefix ''ACK'' (trim_end line))"

definition ends_status :: "string + string \<Rightarrow> bool" where
  "ends_status x = (case x of Inl e \<Rightarrow> True | Inr line \<Rightarrow> trim_end line = ''OK'')"

lemma trim_end_Nil [simp]: "trim_end [] = []"
  by (simp add: trim_end_def)

text \<open>A read that returns has seen an end; by induction on the number of reads.\<close>

lemma mpd_collect_ends:
  assumes "mpd_collect s acc = Some r"
  shows "\<exists>x \<in> set s. ends_reply x"
proof (rule mpd_collect.raw_induct [OF _ assms, where P = "\<lambda>s acc r. \<exists>x \<in> set s. ends_reply x"], goal_cases)
  case (1 collect s acc r)
  show ?case
  proof (cases s)
    case Nil
    with 1(2) 1(1) [of "[]" "acc @ [[]]" r] show ?thesis by (simp add: read_line_def)
  next
    case (Cons x xs)
    show ?thesis
    proof (cases "ends_reply x")
      case False
      then obtain line where x: "x = Inr line" "trim_end line \<noteq> ''OK''" "\<not> prefix ''ACK'' (trim_end line)"
        by (auto simp: ends_reply_def split: sum.splits)
      with 1(2) Cons have "collect xs (acc @ [trim_end line]) = Some r" by (simp add: read_line_def)
      from 1(1) [OF this] Cons show ?thesis by simp
    qed (use Cons in simp)
  qed
qed

lemma mpd_collect_step:
  "mpd_collect (Inr line # s) acc =
    (let trimmed = trim_end line
     in if trimmed = ''OK'' then Some (Inr acc)
        else if prefix ''ACK'' trimmed then Some (Inl (Output (''MPD error: '' @ trimmed)))
        else mpd_collect s (acc @ [trimmed]))"
  "mpd_collect (Inl e # s) acc = Some (Inl (Output (''MPD read error: '' @ e)))"
  by (simp_all add: mpd_collect.simps [of "x # s" for x] read_line_def)

lemma mpd_collect_returns: "\<exists>x \<in> set s. ends_reply x \<Longrightarrow> \<exists>r. mpd_collect s acc = Some r"
proof (induction s arbitrary: acc)
  case (Cons x s)
  then show ?case by (cases x) (auto simp: mpd_collect_step Let_def ends_reply_def)
qed simp

lemma mpd_collect_iff: "mpd_collect s acc = None \<longleftrightarrow> (\<forall>x \<in> set s. \<not> ends_reply x)"
  using mpd_collect_ends [of s acc] mpd_collect_returns [of s acc] by (cases "mpd_collect s acc") auto

text \<open>A call that does not return: the daemon closes the connection before it has answered.\<close>

lemma mpd_send_hangs:
  "mpd_send daemon cmds = None \<longleftrightarrow>
    (\<exists>conn. daemon cmds = Inr conn \<and> mc_write_error conn = None \<and>
      (\<forall>e. mc_input conn = [] \<or> hd (mc_input conn) \<noteq> Inl e) \<and> (\<forall>x \<in> set (tl (mc_input conn)). \<not> ends_reply x))"
proof (cases "daemon cmds")
  case (Inr conn)
  show ?thesis
  proof (cases "mc_input conn")
    case Nil
    then show ?thesis by (simp add: mpd_send_def Inr read_line_def mpd_collect_iff split: option.split)
  next
    case (Cons x xs)
    then show ?thesis by (cases x) (simp_all add: mpd_send_def Inr read_line_def mpd_collect_iff split: option.split)
  qed
qed (simp add: mpd_send_def)

text \<open>What a complete reply gives.\<close>

lemma mpd_collect_reply:
  "\<forall>l \<in> set ls. \<not> ends_reply (Inr l) \<Longrightarrow> trim_end ok = ''OK'' \<Longrightarrow>
    mpd_collect (map Inr ls @ Inr ok # rest) acc = Some (Inr (acc @ map trim_end ls))"
  by (induction ls arbitrary: acc) (simp_all add: mpd_collect_step Let_def ends_reply_def)

lemma status_lines_ends:
  assumes "status_lines s acc = Some r"
  shows "\<exists>x \<in> set s. ends_status x"
proof (rule status_lines.raw_induct [OF _ assms, where P = "\<lambda>s acc r. \<exists>x \<in> set s. ends_status x"], goal_cases)
  case (1 collect s acc r)
  show ?case
  proof (cases s)
    case Nil
    with 1(2) 1(1) [of "[]" "acc @ [[]]" r] show ?thesis by (simp add: read_line_def)
  next
    case (Cons x xs)
    show ?thesis
    proof (cases "ends_status x")
      case False
      then obtain line where x: "x = Inr line" "trim_end line \<noteq> ''OK''"
        by (auto simp: ends_status_def split: sum.splits)
      with 1(2) Cons have "collect xs (acc @ [trim_end line]) = Some r" by (simp add: read_line_def)
      from 1(1) [OF this] Cons show ?thesis by simp
    qed (use Cons in simp)
  qed
qed

text \<open>The daemon's error reply does not end a status poll.\<close>

lemma status_error_hangs:
  "\<forall>x \<in> set s. \<exists>line. x = Inr line \<and> prefix ''ACK'' (trim_end line) \<Longrightarrow> status_lines s acc = None"
  using status_lines_ends [of s acc] by (cases "status_lines s acc") (auto simp: ends_status_def)

subsection \<open>Arguments\<close>

text \<open>A quoted argument of the MPD protocol: a backslash takes the next character as it is.\<close>

fun unquote_body :: "string \<Rightarrow> (string \<times> string) option" where
  "unquote_body [] = None"
| "unquote_body (c # cs) =
    (if c = dquote then Some ([], cs)
     else if c = backslash then
       (case cs of [] \<Rightarrow> None | d # ds \<Rightarrow> map_option (map_prod (Cons d) id) (unquote_body ds))
     else map_option (map_prod (Cons c) id) (unquote_body cs))"

definition unquote :: "string \<Rightarrow> (string \<times> string) option" where
  "unquote s = (case s of c # cs \<Rightarrow> if c = dquote then unquote_body cs else None | [] \<Rightarrow> None)"

definition escape_char :: "char \<Rightarrow> string" where
  "escape_char c = (if c = backslash \<or> c = dquote then [backslash, c] else [c])"

lemma escape_chars:
  "replace_char dquote [backslash, dquote] (replace_char backslash [backslash, backslash] v) = concat (map escape_char v)"
  by (induction v) (auto simp: replace_char_def escape_char_def)

lemma quote_mpd_arg_eq: "quote_mpd_arg v = dquote # concat (map escape_char v) @ [dquote]"
  by (simp add: quote_mpd_arg_def escape_chars)

lemma unquote_quote: "unquote (quote_mpd_arg v @ rest) = Some (v, rest)"
proof -
  have "unquote_body (concat (map escape_char v) @ dquote # rest) = Some (v, rest)"
    by (induction v) (auto simp: escape_char_def)
  then show ?thesis by (simp add: unquote_def quote_mpd_arg_eq)
qed

lemma newline_quote: "newline \<in> set (quote_mpd_arg v) \<longleftrightarrow> newline \<in> set v"
  by (auto simp: quote_mpd_arg_eq escape_char_def split: if_splits)

lemma split_lines: "d \<notin> set l \<Longrightarrow> split_on d (l @ d # s) = l # split_on d s"
  by (rule split_on_append)

lemma add_lines_split:
  "\<forall>p \<in> set ps. newline \<notin> set (uri p) \<Longrightarrow>
    split_on newline (add_lines uri ps @ s) = map (\<lambda>p. ''add '' @ quote_mpd_arg (uri p)) ps @ split_on newline s"
proof (induction ps)
  case (Cons p ps)
  then have "newline \<notin> set (''add '' @ quote_mpd_arg (uri p))" by (simp add: newline_quote)
  from split_lines [OF this, of "add_lines uri ps @ s"] Cons show ?case by (simp add: add_lines_def)
qed (simp add: add_lines_def)

lemma set_queue_lines:
  assumes "\<forall>p \<in> set ps. newline \<notin> set (uri p)"
  shows "split_on newline (mpd_commands uri fmt (Call_SetQueue ps g)) =
    [''command_list_begin'', ''clear''] @ map (\<lambda>p. ''add '' @ quote_mpd_arg (uri p)) ps @ [''command_list_end'', '''']"
proof -
  have "newline \<notin> set ''command_list_begin''" "newline \<notin> set ''clear''" "newline \<notin> set ''command_list_end''" by simp_all
  note parts = this
  have "split_on newline (''command_list_end'' @ [newline]) = [''command_list_end'', '''']"
    using split_lines [OF parts(3), of "[]"] by simp
  then have "split_on newline (add_lines uri ps @ ''command_list_end'' @ [newline]) =
      map (\<lambda>p. ''add '' @ quote_mpd_arg (uri p)) ps @ [''command_list_end'', '''']"
    using add_lines_split [OF assms] by (simp only:)
  then show ?thesis
    using split_lines [OF parts(1), of "''clear'' @ [newline] @ add_lines uri ps @ ''command_list_end'' @ [newline]"]
      split_lines [OF parts(2), of "add_lines uri ps @ ''command_list_end'' @ [newline]"] by simp
qed

text \<open>What the daemon adds to its queue for a line of a command list.\<close>

definition added_uri :: "string \<Rightarrow> string option" where
  "added_uri line =
    (case Option.bind (strip_prefix ''add '' line) unquote of
       Some (uri, []) \<Rightarrow> Some uri | _ \<Rightarrow> None)"

lemma added_uri_add: "added_uri (''add '' @ quote_mpd_arg u) = Some u"
  using unquote_quote [of u "[]"]
  by (simp only: added_uri_def strip_prefix_append append_Nil2 bind.simps option.case prod.case list.case)

lemma set_queue_adds:
  assumes "\<forall>p \<in> set ps. newline \<notin> set (uri p)"
  shows "map added_uri (split_on newline (mpd_commands uri fmt (Call_SetQueue ps g))) =
    [None, None] @ map (\<lambda>p. Some (uri p)) ps @ [None, None]"
proof -
  have "added_uri ''command_list_begin'' = None" "added_uri ''clear'' = None" "added_uri ''command_list_end'' = None"
    "added_uri [] = None"
    by (simp_all add: added_uri_def strip_prefix_def)
  then show ?thesis unfolding set_queue_lines [OF assms] by (simp only: map_append list.map map_map comp_def added_uri_add)
qed

subsection \<open>A daemon that follows its protocol\<close>

text \<open>
  What a line does to the queue of the daemon: \<open>clear\<close> empties it, \<open>add\<close> appends a URL, \<open>delete\<close> and \<open>move\<close> edit by
  position and are refused out of range; no other line that the renderer sends changes it.
\<close>

definition deleted_at :: "string \<Rightarrow> nat option" where
  "deleted_at line = Option.bind (strip_prefix ''delete '' line) (parse_digits 0)"

definition moved_between :: "string \<Rightarrow> (nat \<times> nat) option" where
  "moved_between line =
    (case Option.bind (strip_prefix ''move '' line) (split_once (CHR '' '')) of
       None \<Rightarrow> None
     | Some (a, b) \<Rightarrow> (case (parse_digits 0 a, parse_digits 0 b) of (Some i, Some j) \<Rightarrow> Some (i, j) | _ \<Rightarrow> None))"

definition mpd_line :: "string \<Rightarrow> string list \<Rightarrow> string list" where
  "mpd_line line q =
    (if line = ''clear'' then []
     else case added_uri line of Some u \<Rightarrow> q @ [u]
     | None \<Rightarrow> (case deleted_at line of
         Some i \<Rightarrow> (if i < length q then take i q @ drop (Suc i) q else q)
       | None \<Rightarrow> (case moved_between line of
           Some (i, j) \<Rightarrow> (if i < length q \<and> j < length q
             then (let rest = take i q @ drop (Suc i) q in take j rest @ q ! i # drop j rest) else q)
         | None \<Rightarrow> q)))"

text \<open>
  The daemon, for as long as it has patience: it accepts the connection, sends a banner, executes the lines
  written, each as above, and answers; with an error or with data, but in a reply that ends.
\<close>

definition mpd_answers ::
  "(string \<Rightarrow> 'd \<Rightarrow> (core_error + mpd_connection) \<times> 'd) \<Rightarrow> ('d \<Rightarrow> string list) \<Rightarrow> ('d \<Rightarrow> nat) \<Rightarrow> bool" where
  "mpd_answers serve queue patience \<longleftrightarrow>
    (\<forall>text d. 0 < patience d \<longrightarrow>
      (\<exists>banner reply d'. serve text d = (Inr \<lparr>mc_input = Inr banner # reply, mc_write_error = None\<rparr>, d') \<and>
        (\<exists>x \<in> set reply. ends_reply x) \<and>
        queue d' = fold mpd_line (split_on newline text) (queue d) \<and> patience d \<le> Suc (patience d')))"

text \<open>The calls that can be written in lines: the URLs and the text of a position hold no newline.\<close>

fun one_line_each :: "(string \<Rightarrow> string) \<Rightarrow> (f64 \<Rightarrow> string) \<Rightarrow> output_call \<Rightarrow> bool" where
  "one_line_each uri fmt (Call_SetQueue ps g) \<longleftrightarrow> (\<forall>p \<in> set ps. newline \<notin> set (uri p))"
| "one_line_each uri fmt (Call_Add ps) \<longleftrightarrow> (\<forall>p \<in> set ps. newline \<notin> set (uri p))"
| "one_line_each uri fmt (Call_Seek x) \<longleftrightarrow> newline \<notin> set (fmt x)"
| "one_line_each uri fmt c \<longleftrightarrow> True"

lemma newline_show_nat: "newline \<notin> set (show_nat n)"
proof
  assume "newline \<in> set (show_nat n)"
  then have "is_digit newline" by (rule show_nat_digits)
  then show False by (simp add: is_digit_def byte_of_def)
qed

lemma space_show_nat: "CHR '' '' \<notin> set (show_nat n)"
proof
  assume "CHR '' '' \<in> set (show_nat n)"
  then have "is_digit (CHR '' '')" by (rule show_nat_digits)
  then show False by (simp add: is_digit_def byte_of_def)
qed

text \<open>The lines one by one.\<close>

lemma mpd_line_add: "mpd_line (''add '' @ quote_mpd_arg u) q = q @ [u]"
  by (simp only: mpd_line_def added_uri_add option.case) simp

lemma mpd_line_delete: "mpd_line (''delete '' @ show_nat i) q = (if i < length q then vec_remove i q else q)"
proof -
  have "added_uri (''delete '' @ s) = None" for s by (simp add: added_uri_def strip_prefix_def)
  moreover have "deleted_at (''delete '' @ show_nat i) = Some i"
    by (simp only: deleted_at_def strip_prefix_append bind.simps parse_digits_show)
  ultimately show ?thesis by (simp add: mpd_line_def vec_remove_def)
qed

lemma mpd_line_move: "mpd_line (''move '' @ show_nat i @ '' '' @ show_nat j) q =
    (if i < length q \<and> j < length q then vec_move i j q else q)"
proof -
  have "added_uri (''move '' @ s) = None" "deleted_at (''move '' @ s) = None" for s
    by (simp_all add: added_uri_def deleted_at_def strip_prefix_def)
  moreover have "split_once (CHR '' '') (show_nat i @ '' '' @ show_nat j) = Some (show_nat i, show_nat j)"
    using split_once_append [OF space_show_nat, of i "show_nat j"] by simp
  then have "moved_between (''move '' @ show_nat i @ '' '' @ show_nat j) = Some (i, j)"
    by (simp only: moved_between_def strip_prefix_append bind.simps option.case prod.case parse_digits_show)
  ultimately show ?thesis by (simp add: mpd_line_def vec_move_def vec_insert_def vec_remove_def Let_def)
qed

lemma mpd_line_other:
  "mpd_line [] q = q" "mpd_line ''command_list_begin'' q = q" "mpd_line ''command_list_end'' q = q"
  "mpd_line ''play'' q = q" "mpd_line ''pause 1'' q = q" "mpd_line ''stop'' q = q"
  "mpd_line (''seekcur '' @ s) q = q" "mpd_line (''setvol '' @ s) q = q"
  by (simp_all add: mpd_line_def added_uri_def deleted_at_def moved_between_def strip_prefix_def)

lemma mpd_line_clear: "mpd_line ''clear'' q = []"
  by (simp add: mpd_line_def)

lemma fold_adds: "fold mpd_line (map (\<lambda>p. ''add '' @ quote_mpd_arg (uri p)) ps) q = q @ map uri ps"
  by (induction ps arbitrary: q) (simp_all add: mpd_line_add del: append.simps)

lemma one_line: "newline \<notin> set l \<Longrightarrow> fold mpd_line (split_on newline (l @ [newline])) q = mpd_line l q"
  using split_lines [of newline l "[]"] by (simp add: mpd_line_other)

text \<open>The text of a call does to the daemon's queue what the call does to the list of an output.\<close>

lemma commands_effect:
  assumes "one_line_each uri fmt c"
  shows "fold mpd_line (split_on newline (mpd_commands uri fmt c)) q = apply_call (map_call uri c) q"
proof (cases c)
  case (Call_SetQueue ps g)
  with assms set_queue_lines [of ps uri fmt g] show ?thesis
    by (simp add: fold_adds mpd_line_other mpd_line_clear del: append.simps mpd_commands.simps)
next
  case (Call_Add ps)
  have begins: "split_on newline (''command_list_begin'' @ newline # s) = ''command_list_begin'' # split_on newline s"
    and ends: "split_on newline (''command_list_end'' @ [newline]) = [''command_list_end'', []]" for s
    using split_lines [of newline "''command_list_begin''" s] split_lines [of newline "''command_list_end''" "[]"] by simp_all
  from Call_Add assms have "split_on newline (mpd_commands uri fmt c) =
      ''command_list_begin'' # map (\<lambda>p. ''add '' @ quote_mpd_arg (uri p)) ps @ [''command_list_end'', []]"
    using begins [of "add_lines uri ps @ ''command_list_end'' @ [newline]"] add_lines_split [of ps uri] ends
    by (simp only: mpd_commands.simps one_line_each.simps append_Cons append_Nil)
  with Call_Add show ?thesis by (simp add: fold_adds mpd_line_other del: append.simps mpd_commands.simps)
next
  case (Call_Remove i)
  have "newline \<notin> set (''delete '' @ show_nat i)" by (simp add: newline_show_nat)
  from one_line [OF this] Call_Remove show ?thesis by (simp only: mpd_commands.simps append_assoc mpd_line_delete) simp
next
  case (Call_MoveTrack i j)
  have "newline \<notin> set (''move '' @ show_nat i @ '' '' @ show_nat j)" by (simp add: newline_show_nat)
  from one_line [OF this] Call_MoveTrack show ?thesis by (simp only: mpd_commands.simps append_assoc mpd_line_move) simp
next
  case (Call_Seek x)
  have "newline \<notin> set (''seekcur '' @ fmt x)" using assms Call_Seek by simp
  from one_line [OF this] Call_Seek show ?thesis by (simp only: mpd_commands.simps append_assoc mpd_line_other) simp
next
  case (Call_SetVolume v)
  have "newline \<notin> set (''setvol '' @ show_nat (unat v))" by (simp add: newline_show_nat)
  from one_line [OF this] Call_SetVolume show ?thesis by (simp only: mpd_commands.simps append_assoc mpd_line_other) simp
qed (use one_line [of "''play''"] one_line [of "''pause 1''"] one_line [of "''stop''"] in
    \<open>simp_all add: mpd_line_other\<close>)

text \<open>So the renderer of a node keeps the contract of a player, under the URLs it gives the files.\<close>

lemma mpd_returns:
  assumes "daemon text = Inr \<lparr>mc_input = Inr banner # reply, mc_write_error = None\<rparr>" "x \<in> set reply" "ends_reply x"
  shows "mpd_send daemon text \<noteq> None"
  using assms by (auto simp: mpd_send_hangs)

lemma mpd_answers_obtain:
  assumes "mpd_answers serve queue patience" "0 < patience d"
  obtains result d' where "mpd_send (\<lambda>text. fst (serve text d)) text = Some result" "snd (serve text d) = d'"
    "queue d' = fold mpd_line (split_on newline text) (queue d)" "patience d \<le> Suc (patience d')"
proof -
  from assms obtain banner reply d' x
    where d': "serve text d = (Inr \<lparr>mc_input = Inr banner # reply, mc_write_error = None\<rparr>, d')"
      "x \<in> set reply" "ends_reply x" "queue d' = fold mpd_line (split_on newline text) (queue d)"
      "patience d \<le> Suc (patience d')"
    unfolding mpd_answers_def by metis
  have "mpd_send (\<lambda>text. fst (serve text d)) text \<noteq> None"
    by (rule mpd_returns [OF _ d'(2,3)]) (simp add: d'(1))
  with d' that show ?thesis by fastforce
qed

lemma mpd_player:
  assumes "mpd_answers serve queue patience"
  shows "file_player (mpd_output hmac id_of fmt serve r now) queue patience (\<lambda>p. media_uri_at hmac id_of r p now)
    (one_line_each (\<lambda>p. media_uri_at hmac id_of r p now) fmt)"
proof
  fix d c
  let ?uri = "\<lambda>p. media_uri_at hmac id_of r p now"
  assume "0 < patience d" and one: "one_line_each ?uri fmt c"
  from mpd_answers_obtain [OF assms this(1), of "mpd_commands ?uri fmt c"] obtain result d'
    where "mpd_send (\<lambda>text. fst (serve text d)) (mpd_commands ?uri fmt c) = Some result"
      "snd (serve (mpd_commands ?uri fmt c) d) = d'" and d':
      "queue d' = fold mpd_line (split_on newline (mpd_commands ?uri fmt c)) (queue d)" "patience d \<le> Suc (patience d')" .
  then obtain r' where "mpd_output hmac id_of fmt serve r now c d = (r', d')"
    by (simp add: mpd_output_def mpd_renderer_call_def)
  with d' show "\<exists>r' w'. mpd_output hmac id_of fmt serve r now c d = (r', w') \<and>
      queue w' = apply_call (map_call ?uri c) (queue d) \<and> patience d \<le> Suc (patience w')"
    by (simp add: commands_effect [OF one])
qed

lemma mpd_cleared_queue:
  assumes "mpd_answers serve queue patience" "n < patience d"
  shows "queue (mpd_cleared serve d) = []" "n \<le> patience (mpd_cleared serve d)"
proof -
  have "0 < patience d" using assms(2) by simp
  from mpd_answers_obtain [OF assms(1) this, of clear_commands] obtain result d'
    where d': "mpd_send (\<lambda>text. fst (serve text d)) clear_commands = Some result" "snd (serve clear_commands d) = d'"
      "queue d' = fold mpd_line (split_on newline clear_commands) (queue d)" "patience d \<le> Suc (patience d')" .
  have "mpd_cleared serve d = d'" by (simp add: mpd_cleared_def mpd_clear_def d'(1,2))
  moreover have "split_on newline clear_commands = [''stop'', ''clear'', []]" by (simp add: clear_commands_def)
  ultimately show "queue (mpd_cleared serve d) = []" "n \<le> patience (mpd_cleared serve d)"
    using d'(3,4) assms(2) by (simp_all add: mpd_line_other mpd_line_clear)
qed

subsection \<open>Through the proxy to the server\<close>

lemma client_signature_server: "client_signature hmac key path expiry = compute_media_signature hmac key path expiry"
  by (simp add: client_signature_def compute_media_signature_def media_message_def)

text \<open>The renderer with a key, the proxy with a key and the server sign alike.\<close>

lemma renderer_url:
  "\<not> prefix ''http://'' v \<Longrightarrow> \<not> prefix ''https://'' v \<Longrightarrow>
    media_uri_at hmac id_of (new_with_media_auth base kid key) v now =
    build_signed_media_url hmac base (''/media/tracks/'' @ id_of v) kid key (min (now + media_url_ttl_secs) usize_max)"
  by (simp add: media_uri_at_def new_with_media_auth_def build_signed_media_url_def client_signature_server Let_def)

lemma redirect_target_url:
  "px_auth st = Some (kid, key) \<Longrightarrow> build_redirect_target hmac (Some now) (Some st) path =
    Some (build_signed_media_url hmac (px_base_url st) path kid key (min (now + media_url_ttl_secs) usize_max),
      px_generation st, True)"
  by (simp add: build_redirect_target_def build_signed_media_url_def client_signature_server Let_def)

lemma signed_query_accepted:
  "ks_get kid ks = Some key \<Longrightarrow>
    verify_media_auth hmac ks t path \<lparr>aq_kid = kid, aq_exp = expiry,
      aq_sig = hex_encode (compute_media_signature hmac key path expiry)\<rparr> \<longleftrightarrow> t \<le> expiry"
  by (simp add: verify_iff hex_roundtrip compute_media_signature_def)

lemma split_words_plain: "\<forall>c \<in> set w. \<not> is_space c \<Longrightarrow> is_space d \<Longrightarrow>
    split_words u (w @ d # s) = (if u @ w = [] then [] else [u @ w]) @ split_words [] s"
  by (induction w arbitrary: u) auto

lemma split_words_last: "\<forall>c \<in> set w. \<not> is_space c \<Longrightarrow> split_words u w = (if u @ w = [] then [] else [u @ w])"
  by (induction w arbitrary: u) auto

text \<open>The request line MPD sends for a URL of the proxy.\<close>

definition track_id_ok :: "string \<Rightarrow> bool" where
  "track_id_ok i \<longleftrightarrow> (\<forall>c \<in> set i. \<not> is_space c \<and> c \<noteq> CHR ''?'')"

definition get_line :: "string \<Rightarrow> string" where
  "get_line path = ''GET '' @ path @ '' HTTP/1.1'' @ crlf"

lemma track_request_path:
  assumes "track_id_ok i"
  shows "track_request (get_line (media_track_path i)) = Inr i"
proof -
  let ?p = "''/media/tracks/'' @ i"
  have sp: "is_space (CHR '' '')" by (simp add: is_space_def byte_of_def)
  have "\<forall>c \<in> set ''GET''. \<not> is_space c" "\<forall>c \<in> set ''/media/tracks/''. \<not> is_space c" by (simp_all add: is_space_def byte_of_def)
  then have g: "\<forall>c \<in> set ''GET''. \<not> is_space c" "\<forall>c \<in> set ?p. \<not> is_space c" using assms by (auto simp: track_id_ok_def)
  have "get_line ?p = ''GET'' @ CHR '' '' # ?p @ CHR '' '' # ''HTTP/1.1'' @ crlf" by (simp add: get_line_def)
  then have "split_whitespace (get_line ?p) = ''GET'' # ?p # split_words [] (''HTTP/1.1'' @ crlf)"
    using split_words_plain [OF g(1) sp, of "[]"] split_words_plain [OF g(2) sp, of "[]"] by (simp add: split_whitespace_def)
  moreover have "CHR ''?'' \<notin> set ?p" using assms by (auto simp: track_id_ok_def)
  then have "split_on (CHR ''?'') ?p = [?p]" by (rule split_on_notin)
  ultimately show ?thesis by (simp only: media_track_path_def track_request_def list.case list.sel strip_prefix_append option.case)
qed

text \<open>
  A request for a track of the queue is answered with a redirect, which the server accepts until it
  expires, unless the probe finds the key refused and no new one has come.
\<close>

lemma proxy_redirects:
  fixes now t :: nat and hmac :: mac
  assumes "px_auth st = Some (kid, key)" "ks_get kid ks = Some key" "track_id_ok i" "drain_headers headers"
  defines "path \<equiv> media_track_path i"
  defines "expiry \<equiv> min (now + media_url_ttl_secs) usize_max"
  defines "url \<equiv> build_signed_media_url hmac (px_base_url st) path kid key expiry"
  assumes "\<not> forbidden url"
  shows "proxy_handle_request hmac forbidden (Some now) (Some st) seen now' later forbidden' (Inr (get_line path) # headers) =
      Some (Proxy_Redirect url)"
    and "verify_media_auth hmac ks t path \<lparr>aq_kid = kid, aq_exp = expiry,
      aq_sig = hex_encode (compute_media_signature hmac key path expiry)\<rparr> \<longleftrightarrow> t \<le> expiry"
  using assms
  by (simp_all add: proxy_handle_request_def read_line_def track_request_path proxy_redirect_def redirect_target_url
      signed_query_accepted)

text \<open>A refused key is replaced once: the answer is then signed with the new one, unless that is refused too.\<close>

lemma proxy_refreshes:
  fixes now now' :: nat and hmac :: mac
  assumes "px_auth st = Some (kid, key)" "px_auth st' = Some (kid', key')" "px_generation st < px_generation st'"
    and "track_id_ok i" "drain_headers headers"
  defines "path \<equiv> media_track_path i"
  defines "url \<equiv> build_signed_media_url hmac (px_base_url st) path kid key (min (now + media_url_ttl_secs) usize_max)"
  defines "url' \<equiv> build_signed_media_url hmac (px_base_url st') path kid' key' (min (now' + media_url_ttl_secs) usize_max)"
  assumes "forbidden url" "Some st' \<in> set seen"
  shows "proxy_handle_request hmac forbidden (Some now) (Some st) seen (Some now') (Some st') forbidden'
      (Inr (get_line path) # headers) = Some (if forbidden' url' then Proxy_Status 503 else Proxy_Redirect url')"
proof -
  have "wait_for_new_generation seen (px_generation st)"
    using assms(3,10) by (force simp: wait_for_new_generation_def)
  then show ?thesis using assms
    by (simp add: proxy_handle_request_def read_line_def track_request_path proxy_redirect_def redirect_target_url)
qed

text \<open>An update always raises the generation until it saturates, so that a waiting request sees it.\<close>

lemma proxy_update_generation:
  "px_generation s < usize_max \<Longrightarrow> \<exists>s'. proxy_update base auth (Some s) = Some s' \<and> px_generation s < px_generation s'"
  by (simp add: proxy_update_def usize_saturating_add_def)

subsection \<open>The state sync and the commands\<close>

definition node_run :: "'w audio_output \<Rightarrow> ('w \<Rightarrow> mpd_status) \<Rightarrow> node_step list \<Rightarrow> 'w mpd_node \<Rightarrow> 'w mpd_node" where
  "node_run out status steps n = fold (node_exec out status) steps n"

lemma execute_set_queue:
  "out (Call_SetQueue ps g) (dv_world d) = (Inr (), w) \<Longrightarrow>
    execute_command out (Cmd_SetQueue ps g) d = d\<lparr>dv_world := w, dv_projection_generation := g\<rparr>"
  by (simp add: execute_command_def)

text \<open>
  A queue loaded while a poll is under way is reported with the song of the old queue and the
  generation of the new one; a poll after it reports the new song.
\<close>

lemma poll_around_set_queue:
  assumes "out (Call_SetQueue ps g) (dv_world (mn_device n)) = (Inr (), w)" "st_nodes (mn_state n) \<noteq> []"
  shows "\<exists>u. mn_reports (node_run out status [Step_Poll, Step_Command (Cmd_SetQueue ps g), Step_Report] n) = mn_reports n @ [u] \<and>
      nu_projection_generation u = g \<and> nu_mpd_song_index u = ms_song (status (dv_world (mn_device n)))"
    and "\<exists>u. mn_reports (node_run out status [Step_Command (Cmd_SetQueue ps g), Step_Poll, Step_Report] n) = mn_reports n @ [u] \<and>
      nu_projection_generation u = g \<and> nu_mpd_song_index u = ms_song (status w)"
proof -
  obtain m ms where m: "st_nodes (mn_state n) = m # ms" using assms(2) by (cases "st_nodes (mn_state n)") auto
  show "\<exists>u. mn_reports (node_run out status [Step_Poll, Step_Command (Cmd_SetQueue ps g), Step_Report] n) = mn_reports n @ [u] \<and>
      nu_projection_generation u = g \<and> nu_mpd_song_index u = ms_song (status (dv_world (mn_device n)))"
    using assms(1) m by (simp add: node_run_def execute_set_queue apply_status_def node_update_def Let_def)
  show "\<exists>u. mn_reports (node_run out status [Step_Command (Cmd_SetQueue ps g), Step_Poll, Step_Report] n) = mn_reports n @ [u] \<and>
      nu_projection_generation u = g \<and> nu_mpd_song_index u = ms_song (status w)"
    using assms(1) m by (simp add: node_run_def execute_set_queue apply_status_def node_update_def Let_def)
qed

lemma sync_backoff_limit: "sync_backoff n \<le> 30" "5 \<le> n \<Longrightarrow> sync_backoff n = 30"
proof -
  have "(\<lambda>b. min (b * 2) 30) = next_backoff" by (simp add: fun_eq_iff next_backoff_def)
  then have eq: "sync_backoff k = (next_backoff ^^ k) 1" for k by (simp only: sync_backoff_def)
  show "sync_backoff n \<le> 30" unfolding eq by (cases n) (simp_all add: next_backoff_def)
  show "5 \<le> n \<Longrightarrow> sync_backoff n = 30" unfolding eq by (rule backoff_fixed)
qed

end
