(* ===== verification/Library.thy ===== *)
theory Library
  imports Playlists Media
begin

text \<open>
  The library tables (\<open>kanade-db/src/repo.rs\<close>, \<open>schema.rs\<close>): tracks, albums and artists, and the full-text
  index the triggers keep beside the tracks. Each SQL statement is the list function it denotes, with
  the constraints of the schema as its errors; a statement that fails changes nothing. Parameters: the
  hash of a path (\<open>hash.rs\<close>, SHA-256), the row a bare column of a \<open>GROUP BY\<close> is taken from, the parser
  and rank of FTS5 queries, and the number of variables a statement may have. Rows that a query's
  \<open>ORDER BY\<close> leaves equal keep the order of the table.
\<close>

subsection \<open>The parent of a path\<close>

text \<open>\<open>Path::parent\<close> reads components from the back; empty ones and dots do not count, except a leading dot.\<close>

definition last_piece :: "string \<Rightarrow> string" where
  "last_piece s = rev (takeWhile (\<lambda>c. c \<noteq> CHR ''/'') (rev s))"

definition has_root :: "string \<Rightarrow> bool" where
  "has_root s = (s \<noteq> [] \<and> hd s = CHR ''/'')"

definition leading_dot :: "string \<Rightarrow> bool" where
  "leading_dot s = (s = ''.'' \<or> prefix ''./'' s)"

definition body_start :: "string \<Rightarrow> nat" where
  "body_start s = (if has_root s \<or> leading_dot s then 1 else 0)"

definition piece_size :: "string \<Rightarrow> nat" where
  "piece_size body = length (last_piece body) + (if CHR ''/'' \<in> set body then 1 else 0)"

lemma piece_size_positive: "body \<noteq> [] \<Longrightarrow> 0 < piece_size body"
  using hd_in_set [of "rev body"] by (auto simp: piece_size_def last_piece_def takeWhile_eq_Nil_iff)

function trim_right :: "nat \<Rightarrow> string \<Rightarrow> string" where
  "trim_right start s =
    (if length s \<le> start then s
     else let body = drop start s; c = last_piece body
          in if c = [] \<or> c = ''.'' then trim_right start (take (length s - piece_size body) s) else s)"
  by pat_completeness auto
termination
  by (relation "measure (\<lambda>(start, s). length s)") (auto intro!: diff_less piece_size_positive)

declare trim_right.simps [simp del]

definition path_parent :: "string \<Rightarrow> string option" where
  "path_parent p =
    (let start = body_start p; s = trim_right start p
     in if start < length s then Some (trim_right start (take (length s - piece_size (drop start s)) s))
        else if leading_dot p then Some [] else None)"

subsection \<open>Tables\<close>

record track_row =
  rw_rowid :: int
  rw_track :: track
  rw_mtime :: "int option"

record album_row =
  aw_id :: string
  aw_dir_path :: string
  aw_title :: "string option"
  aw_artwork_path :: "string option"

record fts_row =
  ft_rowid :: int
  ft_track_id :: string
  ft_title :: "string option"
  ft_album :: "string option"
  ft_artist :: "string option"
  ft_album_artist :: "string option"
  ft_composer :: "string option"
  ft_genre :: "string option"

record library_db =
  ld_tracks :: "track_row list"
  ld_albums :: "album_row list"
  ld_artists :: "artist list"
  ld_fts :: "fts_row list"

type_synonym 'a lib_io = "(library_db, string, 'a) io"

definition empty_library :: library_db where
  "empty_library = \<lparr>ld_tracks = [], ld_albums = [], ld_artists = [], ld_fts = []\<rparr>"

text \<open>A new row gets the largest row id in use plus one.\<close>

definition next_rowid :: "track_row list \<Rightarrow> int" where
  "next_rowid rows = foldr max (map rw_rowid rows) 0 + 1"

subsection \<open>The triggers of the full-text index\<close>

definition fts_of :: "track_row \<Rightarrow> fts_row" where
  "fts_of r = (let t = rw_track r
    in \<lparr>ft_rowid = rw_rowid r, ft_track_id = tr_id t, ft_title = tr_title t, ft_album = tr_album_title t,
        ft_artist = tr_artist t, ft_album_artist = tr_album_artist t, ft_composer = tr_composer t, ft_genre = tr_genre t\<rparr>)"

definition fts_delete :: "int \<Rightarrow> fts_row list \<Rightarrow> fts_row list" where
  "fts_delete rowid idx = filter (\<lambda>f. ft_rowid f \<noteq> rowid) idx"

definition fts_insert :: "fts_row \<Rightarrow> fts_row list \<Rightarrow> string + fts_row list" where
  "fts_insert f idx = (if ft_rowid f \<in> set (map ft_rowid idx) then Inl ''constraint failed'' else Inr (idx @ [f]))"

definition after_insert :: "track_row \<Rightarrow> fts_row list \<Rightarrow> string + fts_row list" where
  "after_insert new idx = fts_insert (fts_of new) idx"

definition after_delete :: "track_row \<Rightarrow> fts_row list \<Rightarrow> fts_row list" where
  "after_delete old idx = fts_delete (rw_rowid old) idx"

definition after_update :: "track_row \<Rightarrow> track_row \<Rightarrow> fts_row list \<Rightarrow> string + fts_row list" where
  "after_update old new idx = fts_insert (fts_of new) (fts_delete (rw_rowid old) idx)"

subsection \<open>Albums and artists\<close>

definition upsert_album :: "album_row \<Rightarrow> unit lib_io" where
  "upsert_album a = (\<lambda>db.
    if \<exists>b \<in> set (ld_albums db). aw_dir_path b = aw_dir_path a \<and> aw_id b \<noteq> aw_id a
    then (Inl ''UNIQUE constraint failed: albums.dir_path'', db)
    else if aw_id a \<in> set (map aw_id (ld_albums db))
    then (Inr (), db\<lparr>ld_albums := update_first (\<lambda>b. aw_id b = aw_id a)
        (\<lambda>b. b\<lparr>aw_dir_path := aw_dir_path a, aw_title := aw_title a, aw_artwork_path := aw_artwork_path a\<rparr>) (ld_albums db)\<rparr>)
    else (Inr (), db\<lparr>ld_albums := ld_albums db @ [a]\<rparr>))"

definition update_album_artwork :: "string \<Rightarrow> string option \<Rightarrow> unit lib_io" where
  "update_album_artwork dir art = modify (\<lambda>db. db\<lparr>ld_albums :=
     map (\<lambda>a. if aw_dir_path a = dir then a\<lparr>aw_artwork_path := art\<rparr> else a) (ld_albums db)\<rparr>)"

definition get_album_artwork_path :: "library_db \<Rightarrow> string \<Rightarrow> string option" where
  "get_album_artwork_path db i = Option.bind (find (\<lambda>a. aw_id a = i) (ld_albums db)) aw_artwork_path"

definition upsert_artist :: "artist \<Rightarrow> unit lib_io" where
  "upsert_artist a = (\<lambda>db.
    if \<exists>b \<in> set (ld_artists db). ar_name b = ar_name a \<and> ar_id b \<noteq> ar_id a
    then (Inl ''UNIQUE constraint failed: artists.name'', db)
    else if ar_id a \<in> set (map ar_id (ld_artists db))
    then (Inr (), db\<lparr>ld_artists := update_first (\<lambda>b. ar_id b = ar_id a) (\<lambda>b. b\<lparr>ar_name := ar_name a\<rparr>) (ld_artists db)\<rparr>)
    else (Inr (), db\<lparr>ld_artists := ld_artists db @ [a]\<rparr>))"

definition get_artist_by_id :: "library_db \<Rightarrow> string \<Rightarrow> artist option" where
  "get_artist_by_id db i = find (\<lambda>a. ar_id a = i) (ld_artists db)"

subsection \<open>Tracks\<close>

text \<open>SQLite stores a float that is not a number as NULL.\<close>

definition real_column :: "f64 option \<Rightarrow> f64 option" where
  "real_column d = (if d = Some NaN then None else d)"

definition track_by_path :: "string \<Rightarrow> library_db \<Rightarrow> track_row option" where
  "track_by_path p db = find (\<lambda>r. tr_file_path (rw_track r) = p) (ld_tracks db)"

text \<open>The constraints a written row is checked against: the unique id and the foreign key of its album.\<close>

definition row_error :: "track_row \<Rightarrow> library_db \<Rightarrow> string option" where
  "row_error new db =
    (if \<exists>r \<in> set (ld_tracks db). tr_id (rw_track r) = tr_id (rw_track new) \<and> rw_rowid r \<noteq> rw_rowid new
     then Some ''UNIQUE constraint failed: tracks.id''
     else case tr_album_id (rw_track new) of
       None \<Rightarrow> None
     | Some a \<Rightarrow> if a \<in> set (map aw_id (ld_albums db)) then None else Some ''FOREIGN KEY constraint failed'')"

definition store_track :: "track \<Rightarrow> int option \<Rightarrow> unit lib_io" where
  "store_track t mtime = (\<lambda>db.
    case track_by_path (tr_file_path t) db of
      None \<Rightarrow>
        (let new = \<lparr>rw_rowid = next_rowid (ld_tracks db), rw_track = t, rw_mtime = mtime\<rparr>
         in case row_error new db of
              Some e \<Rightarrow> (Inl e, db)
            | None \<Rightarrow> (case after_insert new (ld_fts db) of
                Inl e \<Rightarrow> (Inl e, db)
              | Inr idx \<Rightarrow> (Inr (), db\<lparr>ld_tracks := ld_tracks db @ [new], ld_fts := idx\<rparr>)))
    | Some old \<Rightarrow>
        (let new = old\<lparr>rw_track := t, rw_mtime := mtime\<rparr>
         in case row_error new db of
              Some e \<Rightarrow> (Inl e, db)
            | None \<Rightarrow> (case after_update old new (ld_fts db) of
                Inl e \<Rightarrow> (Inl e, db)
              | Inr idx \<Rightarrow> (Inr (), db\<lparr>ld_tracks := update_first (\<lambda>r. tr_file_path (rw_track r) = tr_file_path t) (\<lambda>_. new) (ld_tracks db),
                    ld_fts := idx\<rparr>))))"

text \<open>The album of the track's directory is written first; an error of that is ignored.\<close>

definition upsert_track_with_mtime :: "(string \<Rightarrow> string) \<Rightarrow> track \<Rightarrow> int option \<Rightarrow> unit lib_io" where
  "upsert_track_with_mtime id_of t mtime =
    (case path_parent (tr_file_path t) of
       None \<Rightarrow> store_track (t\<lparr>tr_album_id := None, tr_duration_secs := real_column (tr_duration_secs t)\<rparr>) mtime
     | Some dir \<Rightarrow>
         andDo (ignore_err (upsert_album \<lparr>aw_id = id_of dir, aw_dir_path = dir, aw_title = tr_album_title t, aw_artwork_path = None\<rparr>))
           (store_track (t\<lparr>tr_album_id := Some (id_of dir), tr_duration_secs := real_column (tr_duration_secs t)\<rparr>) mtime))"

definition upsert_track :: "(string \<Rightarrow> string) \<Rightarrow> track \<Rightarrow> unit lib_io" where
  "upsert_track id_of t = upsert_track_with_mtime id_of t None"

definition get_track_mtime :: "library_db \<Rightarrow> string \<Rightarrow> int option" where
  "get_track_mtime db p = Option.bind (track_by_path p db) rw_mtime"

text \<open>The delete trigger fires for each row.\<close>

definition delete_tracks :: "(track_row \<Rightarrow> bool) \<Rightarrow> library_db \<Rightarrow> library_db" where
  "delete_tracks p db = db\<lparr>ld_tracks := filter (\<lambda>r. \<not> p r) (ld_tracks db),
     ld_fts := fold after_delete (filter p (ld_tracks db)) (ld_fts db)\<rparr>"

definition delete_track :: "string \<Rightarrow> unit lib_io" where
  "delete_track path = modify (delete_tracks (\<lambda>r. tr_file_path (rw_track r) = path))"

definition purge_missing :: "nat \<Rightarrow> string list \<Rightarrow> nat lib_io" where
  "purge_missing max_variables known = (\<lambda>db.
    if known = [] then (Inr (length (ld_tracks db)), delete_tracks (\<lambda>_. True) db)
    else if max_variables < length known then (Inl ''too many SQL variables'', db)
    else (let gone = (\<lambda>r. tr_file_path (rw_track r) \<notin> set known)
          in (Inr (length (filter gone (ld_tracks db))), delete_tracks gone db)))"

definition get_all_track_paths :: "library_db \<Rightarrow> string list" where
  "get_all_track_paths db = sort (map (tr_file_path \<circ> rw_track) (ld_tracks db))"

subsection \<open>Queries\<close>

definition tracks_of :: "library_db \<Rightarrow> track list" where
  "tracks_of db = map rw_track (ld_tracks db)"

definition disc_order :: "track \<Rightarrow> nat option \<times> nat option \<times> string option" where
  "disc_order t = (map_option unat (tr_disc_number t), map_option unat (tr_track_number t), tr_title t)"

definition album_order :: "track \<Rightarrow> string option \<times> nat option \<times> nat option \<times> string option" where
  "album_order t = (tr_album_title t, disc_order t)"

definition artist_order :: "track \<Rightarrow> string option \<times> string option \<times> nat option \<times> nat option \<times> string option" where
  "artist_order t = (tr_artist t, album_order t)"

definition get_tracks_by_album_id :: "library_db \<Rightarrow> string \<Rightarrow> track list" where
  "get_tracks_by_album_id db i = sort_key disc_order (filter (\<lambda>t. tr_album_id t = Some i) (tracks_of db))"

text \<open>The text of an \<open>OFFSET\<close> without a \<open>LIMIT\<close> is not a statement of SQLite.\<close>

definition get_tracks :: "library_db \<Rightarrow> u32 option \<Rightarrow> u32 option \<Rightarrow> string + track list" where
  "get_tracks db offset cap =
    (let all = sort_key album_order (tracks_of db)
     in case (offset, cap) of
          (None, None) \<Rightarrow> Inr all
        | (None, Some n) \<Rightarrow> Inr (take (unat n) all)
        | (Some k, Some n) \<Rightarrow> Inr (take (unat n) (drop (unat k) all))
        | (Some k, None) \<Rightarrow> Inl ''near OFFSET: syntax error'')"

text \<open>The artist of an album: both columns come from one row of the group, which SQLite chooses.\<close>

definition artist_join :: "(track list \<Rightarrow> track) \<Rightarrow> library_db \<Rightarrow> string \<Rightarrow> string option" where
  "artist_join pick db i =
    (let rows = filter (\<lambda>t. tr_album_id t = Some i \<and> (tr_album_artist t \<noteq> None \<or> tr_artist t \<noteq> None)) (tracks_of db)
     in if rows = [] then None
        else case tr_album_artist (pick rows) of Some a \<Rightarrow> Some a | None \<Rightarrow> tr_artist (pick rows))"

definition row_to_album :: "(track list \<Rightarrow> track) \<Rightarrow> library_db \<Rightarrow> album_row \<Rightarrow> album" where
  "row_to_album pick db a = \<lparr>al_id = aw_id a, al_dir_path = aw_dir_path a, al_title = aw_title a,
     al_artist = artist_join pick db (aw_id a), al_artwork_path = aw_artwork_path a\<rparr>"

definition get_all_albums :: "(track list \<Rightarrow> track) \<Rightarrow> library_db \<Rightarrow> album list" where
  "get_all_albums pick db = map (row_to_album pick db) (sort_key aw_dir_path (ld_albums db))"

definition albums_where :: "(track list \<Rightarrow> track) \<Rightarrow> (track \<Rightarrow> bool) \<Rightarrow> library_db \<Rightarrow> album list" where
  "albums_where pick p db =
    map (row_to_album pick db)
      (sort_key (\<lambda>a. (aw_title a, aw_dir_path a))
        (filter (\<lambda>a. \<exists>t \<in> set (tracks_of db). tr_album_id t = Some (aw_id a) \<and> p t) (ld_albums db)))"

definition by_artist :: "string \<Rightarrow> track \<Rightarrow> bool" where
  "by_artist n t \<longleftrightarrow> tr_artist t = Some n \<or> tr_album_artist t = Some n"

definition get_all_artists :: "library_db \<Rightarrow> string list" where
  "get_all_artists db = sort (remdups (List.map_filter tr_artist (tracks_of db) @ List.map_filter tr_album_artist (tracks_of db)))"

definition get_tracks_by_artist :: "library_db \<Rightarrow> string \<Rightarrow> track list" where
  "get_tracks_by_artist db n = sort_key album_order (filter (by_artist n) (tracks_of db))"

definition get_albums_by_artist :: "(track list \<Rightarrow> track) \<Rightarrow> library_db \<Rightarrow> string \<Rightarrow> album list" where
  "get_albums_by_artist pick db n = albums_where pick (by_artist n) db"

definition get_all_genres :: "library_db \<Rightarrow> string list" where
  "get_all_genres db = sort (remdups (List.map_filter tr_genre (tracks_of db)))"

definition get_tracks_by_genre :: "library_db \<Rightarrow> string \<Rightarrow> track list" where
  "get_tracks_by_genre db g = sort_key artist_order (filter (\<lambda>t. tr_genre t = Some g) (tracks_of db))"

definition get_albums_by_genre :: "(track list \<Rightarrow> track) \<Rightarrow> library_db \<Rightarrow> string \<Rightarrow> album list" where
  "get_albums_by_genre pick db g = albums_where pick (\<lambda>t. tr_genre t = Some g) db"

subsection \<open>Full-text search\<close>

text \<open>What a query text means is FTS5's; a text it cannot parse is an error.\<close>

record fts_engine =
  fe_parse :: "string \<Rightarrow> (fts_row \<Rightarrow> bool) option"
  fe_rank :: "string \<Rightarrow> fts_row list \<Rightarrow> fts_row \<Rightarrow> int"

definition search :: "fts_engine \<Rightarrow> library_db \<Rightarrow> string \<Rightarrow> string + string list" where
  "search fts db query =
    (case fe_parse fts query of
       None \<Rightarrow> Inl ''fts5: syntax error''
     | Some m \<Rightarrow> Inr (map ft_track_id (sort_key (fe_rank fts query (ld_fts db)) (filter m (ld_fts db)))))"

definition search_tracks :: "fts_engine \<Rightarrow> nat \<Rightarrow> library_db \<Rightarrow> string \<Rightarrow> string + track list" where
  "search_tracks fts max_variables db query =
    (case search fts db query of
       Inl e \<Rightarrow> Inl e
     | Inr ids \<Rightarrow>
         if ids = [] then Inr []
         else if max_variables < length ids then Inl ''too many SQL variables''
         else Inr (sort_key album_order (filter (\<lambda>t. tr_id t \<in> set ids) (tracks_of db))))"

subsection \<open>What the other components see\<close>

definition library_of :: "(track list \<Rightarrow> track) \<Rightarrow> library_db \<Rightarrow> library" where
  "library_of pick db = \<lparr>lib_tracks = tracks_of db, lib_albums = map (row_to_album pick db) (ld_albums db)\<rparr>"

end
