(* ===== verification/Scanner.thy ===== *)
theory Scanner
  imports Library
begin

text \<open>
  The library scanner (\<open>kanade-scanner\<close>): the walk over the music directory (\<open>walker.rs\<close>), the track made
  of a file's tags (\<open>extractor.rs\<close>), and the scan that brings the library up to date (\<open>lib.rs\<close>). The
  directory is a tree; what the DSF, ID3 and lofty readers find in a file are parameters.
\<close>

subsection \<open>The walk\<close>

text \<open>A file carries its modification time in seconds, if it can be read; a directory its children, if
  it can be listed; anything else is a link or a device.\<close>

datatype fs_tree = Fs_File string "int option" | Fs_Dir string "fs_tree list option" | Fs_Other string

record audio_file_entry =
  fe_file_path :: string
  fe_dir_path :: string
  fe_mtime :: int

definition audio_extensions :: "string list" where
  "audio_extensions = [''flac'', ''mp3'', ''m4a'', ''aac'', ''ogg'', ''opus'', ''wav'', ''aiff'', ''aif'', ''wma'', ''ape'', ''dsf'']"

definition skip_dirs :: "string list" where
  "skip_dirs = [''.git'', ''.svn'', ''.hg'', ''node_modules'', ''@eaDir'', ''#recycle'', ''.stversions'', ''.Trash-0'',
     ''.Trash-1000'', ''$RECYCLE.BIN'', ''System Volume Information'']"

definition skip_prefixes :: "string list" where
  "skip_prefixes = [''.'', ''_'']"

definition should_skip_dir :: "string \<Rightarrow> bool" where
  "should_skip_dir name \<longleftrightarrow> name \<in> set skip_dirs \<or> (\<exists>p \<in> set skip_prefixes. prefix p name \<and> name \<noteq> ''.'')"

definition path_join :: "string \<Rightarrow> string \<Rightarrow> string" where
  "path_join dir name = (if dir = [] \<or> last dir = CHR ''/'' then dir @ name else dir @ CHR ''/'' # name)"

text \<open>
  \<open>to_lowercase\<close> of a name that is compared with ASCII names: besides the ASCII letters only the Kelvin
  sign becomes an ASCII letter.
\<close>

fun lowercase :: "string \<Rightarrow> string" where
  "lowercase [] = []"
| "lowercase (c # cs) =
    (case cs of
       d # e # rest \<Rightarrow>
         if byte_of c = 0xE2 \<and> byte_of d = 0x84 \<and> byte_of e = 0xAA then CHR ''k'' # lowercase rest
         else fold_case c # lowercase cs
     | _ \<Rightarrow> fold_case c # lowercase cs)"

definition file_entry :: "string \<Rightarrow> int option \<Rightarrow> audio_file_entry list" where
  "file_entry path modified =
    (case map_option lowercase (path_extension path) of
       None \<Rightarrow> []
     | Some ext \<Rightarrow>
         if ext \<in> set audio_extensions
         then [\<lparr>fe_file_path = path, fe_dir_path = (case path_parent path of None \<Rightarrow> [] | Some d \<Rightarrow> d),
                fe_mtime = (case modified of None \<Rightarrow> 0 | Some m \<Rightarrow> if m < 0 then 0 else m)\<rparr>]
         else [])"

fun walk_tree :: "string \<Rightarrow> fs_tree \<Rightarrow> audio_file_entry list" where
  "walk_tree dir (Fs_File name modified) = file_entry (path_join dir name) modified"
| "walk_tree dir (Fs_Dir name None) = []"
| "walk_tree dir (Fs_Dir name (Some children)) =
    (if should_skip_dir name then [] else concat (map (walk_tree (path_join dir name)) children))"
| "walk_tree dir (Fs_Other name) = []"

text \<open>The root is never skipped; \<open>None\<close> is a root that does not exist.\<close>

definition walk_audio_files :: "string \<Rightarrow> fs_tree option \<Rightarrow> audio_file_entry list" where
  "walk_audio_files music_dir tree =
    (case tree of
       Some (Fs_Dir _ (Some children)) \<Rightarrow> concat (map (walk_tree music_dir) children)
     | Some (Fs_File _ modified) \<Rightarrow> file_entry music_dir modified
     | _ \<Rightarrow> [])"

definition cover_filenames :: "string list" where
  "cover_filenames = concat (map (\<lambda>n. map (\<lambda>e. n @ CHR ''.'' # e) [''jpg'', ''jpeg'', ''png''])
     [''cover'', ''folder'', ''artwork'', ''album'', ''front''])"

text \<open>\<open>listing\<close> gives the names in a directory, \<open>None\<close> when it cannot be read.\<close>

definition find_cover_art :: "(string \<Rightarrow> string list option) \<Rightarrow> string \<Rightarrow> string option" where
  "find_cover_art listing dir =
    (case listing dir of
       None \<Rightarrow> None
     | Some names \<Rightarrow>
         (case find (\<lambda>n. n \<in> set cover_filenames) names of
            Some n \<Rightarrow> Some (path_join dir n)
          | None \<Rightarrow> map_option (path_join dir) (find (\<lambda>n. lowercase n \<in> set (map lowercase cover_filenames)) names)))"

subsection \<open>The track of a file\<close>

record id3_tag =
  i3_title :: "string option"
  i3_artist :: "string option"
  i3_album :: "string option"
  i3_track :: "u32 option"
  i3_genre :: "string option"
  i3_text_frame :: "string \<Rightarrow> string option"

record dsf_file =
  df_sample_count :: u64
  df_sampling_frequency :: u32
  df_id3_tag :: "id3_tag option"

datatype item_key = TrackTitle | TrackArtist | AlbumArtist | AlbumTitle | Composer | Genre | TrackNumber | DiscNumber

datatype audio_type = Type_Flac | Type_Mpeg | Type_Aac | Type_Mp4 | Type_Vorbis | Type_Opus | Type_Wav | Type_Aiff | Type_Ape | Type_Other

text \<open>The tag is the primary one, or else the first; the duration is in seconds.\<close>

record lofty_file =
  lf_file_type :: audio_type
  lf_tag :: "(item_key \<Rightarrow> string option) option"
  lf_duration_secs :: rat
  lf_sample_rate :: "u32 option"

definition dsd_rate_name :: "u32 \<Rightarrow> string option" where
  "dsd_rate_name rate =
    (if rate = 2822400 then Some ''DSD64'' else if rate = 5644800 then Some ''DSD128''
     else if rate = 11289600 then Some ''DSD256'' else if rate = 22579200 then Some ''DSD512'' else None)"

definition bare_track :: "(string \<Rightarrow> string) \<Rightarrow> string \<Rightarrow> track" where
  "bare_track id_of path = \<lparr>tr_id = id_of path, tr_file_path = path, tr_album_id = None, tr_title = None, tr_artist = None,
     tr_album_artist = None, tr_album_title = None, tr_composer = None, tr_genre = None, tr_track_number = None,
     tr_disc_number = None, tr_duration_secs = None, tr_format = None, tr_sample_rate = None\<rparr>"

definition parse_u32 :: "string \<Rightarrow> u32 option" where
  "parse_u32 s = map_option word_of_nat (parse_uint (2 ^ 32 - 1) s)"

definition dsf_track :: "(string \<Rightarrow> string) \<Rightarrow> string \<Rightarrow> dsf_file \<Rightarrow> track" where
  "dsf_track id_of path dsf =
    (let rate = df_sampling_frequency dsf;
         t = (bare_track id_of path)\<lparr>
           tr_duration_secs := (if 0 < df_sample_count dsf \<and> 0 < rate
             then Some (Fin (of_nat (unat (df_sample_count dsf)) / of_nat (unat rate))) else None),
           tr_format := (case dsd_rate_name rate of Some n \<Rightarrow> Some (''DSD ('' @ n @ '')'') | None \<Rightarrow> Some ''DSD''),
           tr_sample_rate := Some rate\<rparr>
     in case df_id3_tag dsf of
          None \<Rightarrow> t
        | Some tag \<Rightarrow> t\<lparr>tr_title := i3_title tag, tr_artist := i3_artist tag, tr_album_artist := i3_text_frame tag ''TPE2'',
            tr_album_title := i3_album tag, tr_track_number := i3_track tag,
            tr_disc_number := Option.bind (i3_text_frame tag ''TPOS'') parse_u32,
            tr_composer := i3_text_frame tag ''TCOM'', tr_genre := i3_genre tag\<rparr>)"

definition format_name :: "audio_type \<Rightarrow> string option" where
  "format_name t =
    (case t of Type_Flac \<Rightarrow> Some ''FLAC'' | Type_Mpeg \<Rightarrow> Some ''MP3'' | Type_Aac \<Rightarrow> Some ''AAC'' | Type_Mp4 \<Rightarrow> Some ''M4A''
     | Type_Vorbis \<Rightarrow> Some ''OGG'' | Type_Opus \<Rightarrow> Some ''OPUS'' | Type_Wav \<Rightarrow> Some ''WAV'' | Type_Aiff \<Rightarrow> Some ''AIFF''
     | Type_Ape \<Rightarrow> Some ''APE'' | Type_Other \<Rightarrow> None)"

definition lofty_track :: "(string \<Rightarrow> string) \<Rightarrow> string \<Rightarrow> lofty_file \<Rightarrow> string + track" where
  "lofty_track id_of path f =
    (case lf_tag f of
       None \<Rightarrow> Inl ''no tags found''
     | Some tag \<Rightarrow> Inr ((bare_track id_of path)\<lparr>
         tr_title := tag TrackTitle, tr_artist := tag TrackArtist, tr_album_artist := tag AlbumArtist,
         tr_album_title := tag AlbumTitle, tr_composer := tag Composer, tr_genre := tag Genre,
         tr_track_number := Option.bind (tag TrackNumber) parse_u32, tr_disc_number := Option.bind (tag DiscNumber) parse_u32,
         tr_duration_secs := (if 0 < lf_duration_secs f then Some (Fin (lf_duration_secs f)) else None),
         tr_format := format_name (lf_file_type f), tr_sample_rate := lf_sample_rate f\<rparr>))"

text \<open>The readers give an error for a file they cannot open or read.\<close>

record readers =
  rd_dsf :: "string \<Rightarrow> string + dsf_file"
  rd_lofty :: "string \<Rightarrow> string + lofty_file"

definition extract_track :: "(string \<Rightarrow> string) \<Rightarrow> readers \<Rightarrow> string \<Rightarrow> string + track" where
  "extract_track id_of rd path =
    (if map_option lowercase (path_extension path) = Some ''dsf''
     then map_sum id (dsf_track id_of path) (rd_dsf rd path)
     else case rd_lofty rd path of Inl e \<Rightarrow> Inl e | Inr f \<Rightarrow> lofty_track id_of path f)"

subsection \<open>The scan\<close>

record scan_progress =
  sp_scanned :: nat
  sp_added :: nat
  sp_updated :: nat
  sp_current_dir :: "string option"

record scan_result =
  sc_added :: nat
  sc_updated :: nat
  sc_removed :: nat

record scan_state =
  sn_db :: library_db
  sn_progress :: scan_progress
  sn_result :: scan_result
  sn_last_dir :: string
  sn_sent :: "scan_progress list"

type_synonym 'a scan_io = "(scan_state, string, 'a) io"

definition on_db :: "'a lib_io \<Rightarrow> 'a scan_io" where
  "on_db m = (\<lambda>s. case m (sn_db s) of (r, db) \<Rightarrow> (r, s\<lparr>sn_db := db\<rparr>))"

definition send_progress :: "scan_progress \<Rightarrow> scan_state \<Rightarrow> scan_state" where
  "send_progress p s = s\<lparr>sn_sent := sn_sent s @ [p]\<rparr>"

definition enter_dir :: "audio_file_entry \<Rightarrow> scan_state \<Rightarrow> scan_state" where
  "enter_dir e s =
    (if fe_dir_path e \<noteq> sn_last_dir s
     then (let p = (sn_progress s)\<lparr>sp_current_dir := Some (fe_dir_path e)\<rparr>
           in send_progress p (s\<lparr>sn_last_dir := fe_dir_path e, sn_progress := p\<rparr>))
     else s)"

definition count_written :: "bool \<Rightarrow> scan_state \<Rightarrow> scan_state" where
  "count_written is_new s =
    (let p = sn_progress s; r = sn_result s
     in if is_new then s\<lparr>sn_progress := p\<lparr>sp_added := sp_added p + 1\<rparr>, sn_result := r\<lparr>sc_added := sc_added r + 1\<rparr>\<rparr>
        else s\<lparr>sn_progress := p\<lparr>sp_updated := sp_updated p + 1\<rparr>, sn_result := r\<lparr>sc_updated := sc_updated r + 1\<rparr>\<rparr>)"

definition count_scanned :: "scan_state \<Rightarrow> scan_state" where
  "count_scanned s = s\<lparr>sn_progress := (sn_progress s)\<lparr>sp_scanned := sp_scanned (sn_progress s) + 1\<rparr>\<rparr>"

definition scan_entry :: "(string \<Rightarrow> string) \<Rightarrow> readers \<Rightarrow> audio_file_entry \<Rightarrow> unit scan_io" where
  "scan_entry id_of rd e =
    andDo (modify (enter_dir e))
     (andDo (reading (\<lambda>s.
        let stored = get_track_mtime (sn_db s) (fe_file_path e)
        in if stored = Some (fe_mtime e) then ret ()
           else case extract_track id_of rd (fe_file_path e) of
             Inl _ \<Rightarrow> ret ()
           | Inr t \<Rightarrow> andDo (on_db (upsert_track_with_mtime id_of t (Some (fe_mtime e))))
               (modify (count_written (stored = None)))))
      (modify count_scanned))"

text \<open>The directories in the order they are first seen.\<close>

definition seen_dirs :: "audio_file_entry list \<Rightarrow> string list" where
  "seen_dirs entries = rev (remdups (rev (map fe_dir_path entries)))"

definition set_artwork :: "(string \<Rightarrow> string list option) \<Rightarrow> string \<Rightarrow> unit scan_io" where
  "set_artwork listing dir =
    (case find_cover_art listing dir of
       None \<Rightarrow> ret () | Some art \<Rightarrow> ignore_err (on_db (update_album_artwork dir (Some art))))"

definition set_removed :: "nat \<Rightarrow> scan_state \<Rightarrow> scan_state" where
  "set_removed n s = s\<lparr>sn_result := (sn_result s)\<lparr>sc_removed := n\<rparr>\<rparr>"

definition scan_entries ::
  "(string \<Rightarrow> string) \<Rightarrow> nat \<Rightarrow> readers \<Rightarrow> (string \<Rightarrow> string list option) \<Rightarrow> audio_file_entry list \<Rightarrow> scan_result scan_io" where
  "scan_entries id_of mv rd listing entries =
    andDo (for_each entries (scan_entry id_of rd))
     (andThen (on_db (purge_missing mv (map fe_file_path entries))) (\<lambda>removed.
      andDo (modify (set_removed removed))
       (andDo (for_each (seen_dirs entries) (set_artwork listing))
        (reading (\<lambda>s. andDo (modify (send_progress \<lparr>sp_scanned = length entries, sp_added = sc_added (sn_result s),
            sp_updated = sc_updated (sn_result s), sp_current_dir = Some ''done''\<rparr>)) (ret (sn_result s)))))))"

definition scan_start :: "library_db \<Rightarrow> scan_state" where
  "scan_start db = \<lparr>sn_db = db,
     sn_progress = \<lparr>sp_scanned = 0, sp_added = 0, sp_updated = 0, sp_current_dir = None\<rparr>,
     sn_result = \<lparr>sc_added = 0, sc_updated = 0, sc_removed = 0\<rparr>, sn_last_dir = [], sn_sent = []\<rparr>"

text \<open>The world a scan sees: the tree below the root, the names in each directory and what the readers find.\<close>

record scan_world =
  sw_tree :: "fs_tree option"
  sw_listing :: "string \<Rightarrow> string list option"
  sw_readers :: readers

definition scan_dir :: "(string \<Rightarrow> string) \<Rightarrow> nat \<Rightarrow> string \<Rightarrow> scan_world \<Rightarrow> scan_result scan_io" where
  "scan_dir id_of mv music_dir w = scan_entries id_of mv (sw_readers w) (sw_listing w) (walk_audio_files music_dir (sw_tree w))"

definition scan_once :: "(string \<Rightarrow> string) \<Rightarrow> nat \<Rightarrow> string \<Rightarrow> scan_world \<Rightarrow> scan_result lib_io" where
  "scan_once id_of mv music_dir w db = (case scan_dir id_of mv music_dir w (scan_start db) of (r, s) \<Rightarrow> (r, sn_db s))"

text \<open>One scan at the start and one for each time the interval passes; errors are logged.\<close>

definition background_scan_loop :: "(string \<Rightarrow> string) \<Rightarrow> nat \<Rightarrow> string \<Rightarrow> scan_world \<Rightarrow> scan_world list \<Rightarrow> library_db \<Rightarrow> library_db" where
  "background_scan_loop id_of mv music_dir first later db =
    fold (\<lambda>w db. snd (scan_once id_of mv music_dir w db)) (first # later) db"

end
