(* ===== verification/Library_Facts.thy ===== *)
theory Library_Facts
  imports Library
begin

text \<open>
  The library keeps its keys unique, its foreign keys valid and its full-text index equal to the
  tracks, through every operation; a search therefore finds exactly the tracks that match. What the
  triggers owe the tables is the locale \<open>row_index\<close>.
\<close>

lemma notin_imageI: "(\<And>x. x \<in> A \<Longrightarrow> f x \<noteq> y) \<Longrightarrow> y \<notin> f ` A"
  by auto

subsection \<open>An index kept by triggers\<close>

definition synced :: "('r \<Rightarrow> int) \<Rightarrow> ('r \<Rightarrow> 'd) \<Rightarrow> ('i \<Rightarrow> 'd multiset) \<Rightarrow> 'r list \<Rightarrow> 'i \<Rightarrow> bool" where
  "synced rowid doc docs rows i \<longleftrightarrow> distinct (map rowid rows) \<and> docs i = image_mset doc (mset rows)"

locale row_index =
  fixes rowid :: "'r \<Rightarrow> int" and doc :: "'r \<Rightarrow> 'd" and docs :: "'i \<Rightarrow> 'd multiset"
    and ins :: "'r \<Rightarrow> 'i \<Rightarrow> 'e + 'i" and del :: "'r \<Rightarrow> 'i \<Rightarrow> 'i" and upd :: "'r \<Rightarrow> 'r \<Rightarrow> 'i \<Rightarrow> 'e + 'i"
  assumes ins_law: "\<lbrakk> synced rowid doc docs rows i; rowid r \<notin> set (map rowid rows) \<rbrakk>
      \<Longrightarrow> \<exists>j. ins r i = Inr j \<and> docs j = add_mset (doc r) (docs i)"
    and del_law: "\<lbrakk> synced rowid doc docs rows i; r \<in> set rows \<rbrakk> \<Longrightarrow> docs (del r i) = docs i - {#doc r#}"
    and upd_law: "\<lbrakk> synced rowid doc docs rows i; r \<in> set rows; rowid r' = rowid r \<rbrakk>
      \<Longrightarrow> \<exists>j. upd r r' i = Inr j \<and> docs j = add_mset (doc r') (docs i - {#doc r#})"
begin

lemma sync_append:
  assumes "synced rowid doc docs rows i" "rowid r \<notin> set (map rowid rows)"
  shows "\<exists>j. ins r i = Inr j \<and> synced rowid doc docs (rows @ [r]) j"
  using ins_law [OF assms] assms by (auto simp: synced_def)

lemma sync_replace:
  assumes "synced rowid doc docs (xs @ r # ys) i" "rowid r' = rowid r"
  shows "\<exists>j. upd r r' i = Inr j \<and> synced rowid doc docs (xs @ r' # ys) j"
  using upd_law [OF assms(1) _ assms(2)] assms by (auto simp: synced_def)

lemma sync_remove:
  assumes "synced rowid doc docs (xs @ r # ys) i"
  shows "synced rowid doc docs (xs @ ys) (del r i)"
  using del_law [OF assms] assms by (auto simp: synced_def)

lemma sync_filter_tail:
  assumes "synced rowid doc docs (xs @ ys) i"
  shows "synced rowid doc docs (xs @ filter (\<lambda>r. \<not> p r) ys) (fold del (filter p ys) i)"
  using assms
proof (induction ys arbitrary: xs i)
  case (Cons r ys)
  show ?case
  proof (cases "p r")
    case True
    with Cons.IH [OF sync_remove [OF Cons.prems]] show ?thesis by simp
  next
    case False
    with Cons.IH [of "xs @ [r]" i] Cons.prems show ?thesis by simp
  qed
qed simp

lemma sync_filter:
  "synced rowid doc docs rows i \<Longrightarrow> synced rowid doc docs (filter (\<lambda>r. \<not> p r) rows) (fold del (filter p rows) i)"
  using sync_filter_tail [of "[]" rows i p] by simp

end

lemma fts_rowid_of [simp]: "ft_rowid (fts_of r) = rw_rowid r"
  by (simp add: fts_of_def Let_def)

lemma fts_delete_mset:
  assumes "distinct (map rw_rowid rows)" "r \<in> set rows" "mset idx = image_mset fts_of (mset rows)"
  shows "mset (fts_delete (rw_rowid r) idx) = mset idx - {#fts_of r#}"
proof -
  obtain xs ys where rows: "rows = xs @ r # ys" using assms(2) by (meson split_list)
  have "filter (\<lambda>x. rw_rowid x \<noteq> rw_rowid r) xs = xs" "filter (\<lambda>x. rw_rowid x \<noteq> rw_rowid r) ys = ys"
    using assms(1) by (auto simp: rows filter_id_conv image_iff)
  then have "filter (\<lambda>x. rw_rowid x \<noteq> rw_rowid r) rows = xs @ ys" by (simp add: rows)
  then have "filter_mset (\<lambda>x. rw_rowid x \<noteq> rw_rowid r) (mset rows) = mset (xs @ ys)" by (metis mset_filter)
  then have "mset (fts_delete (rw_rowid r) idx) = image_mset fts_of (mset (xs @ ys))"
    by (simp add: fts_delete_def assms(3) filter_mset_image_mset)
  then show ?thesis by (simp add: assms(3) rows)
qed

lemma fts_fresh:
  assumes "rw_rowid r \<notin> set (map rw_rowid rows)" "mset idx = image_mset fts_of (mset rows)"
  shows "rw_rowid r \<notin> set (map ft_rowid idx)"
proof -
  have "set idx = fts_of ` set rows" using arg_cong [OF assms(2), of set_mset] by simp
  with assms(1) show ?thesis by (simp add: image_image)
qed

interpretation fts: row_index rw_rowid fts_of mset after_insert after_delete after_update
proof (unfold_locales, goal_cases)
  case (1 rows i r)
  then have "rw_rowid r \<notin> set (map ft_rowid i)" by (intro fts_fresh [of r rows]) (simp_all add: synced_def)
  then show ?case by (simp add: after_insert_def fts_insert_def)
next
  case (2 rows i r)
  then show ?case using fts_delete_mset [of rows r i] by (simp add: after_delete_def synced_def)
next
  case (3 rows i r r')
  then have "mset (fts_delete (rw_rowid r) i) = mset i - {#fts_of r#}"
    using fts_delete_mset [of rows r i] by (simp add: synced_def)
  moreover have "rw_rowid r' \<notin> set (map ft_rowid (fts_delete (rw_rowid r) i))" using 3(3) by (auto simp: fts_delete_def)
  ultimately show ?case by (simp add: after_update_def fts_insert_def)
qed

subsection \<open>The invariant\<close>

definition row_path :: "track_row \<Rightarrow> string" where
  "row_path r = tr_file_path (rw_track r)"

definition row_id :: "track_row \<Rightarrow> string" where
  "row_id r = tr_id (rw_track r)"

definition albums_ok :: "album_row list \<Rightarrow> bool" where
  "albums_ok as \<longleftrightarrow> distinct (map aw_id as) \<and> distinct (map aw_dir_path as)"

definition album_known :: "album_row list \<Rightarrow> track_row \<Rightarrow> bool" where
  "album_known as r \<longleftrightarrow> (\<forall>a. tr_album_id (rw_track r) = Some a \<longrightarrow> a \<in> set (map aw_id as))"

definition library_wf :: "library_db \<Rightarrow> bool" where
  "library_wf db \<longleftrightarrow> distinct (map row_path (ld_tracks db)) \<and> distinct (map row_id (ld_tracks db)) \<and>
    albums_ok (ld_albums db) \<and> list_all (album_known (ld_albums db)) (ld_tracks db) \<and>
    distinct (map ar_id (ld_artists db)) \<and> distinct (map ar_name (ld_artists db)) \<and>
    synced rw_rowid fts_of mset (ld_tracks db) (ld_fts db)"

lemma library_wf_empty: "library_wf empty_library"
  by (simp add: library_wf_def empty_library_def albums_ok_def synced_def)

lemma update_first_split:
  "find p xs = Some x \<Longrightarrow> \<exists>us vs. xs = us @ x # vs \<and> update_first p f xs = us @ f x # vs"
proof (induction xs)
  case (Cons y xs)
  then show ?case
  proof (cases "p y")
    case True
    with Cons.prems show ?thesis by (intro exI [of _ "[]"] exI [of _ xs]) simp
  next
    case False
    with Cons obtain us vs where "xs = us @ x # vs" "update_first p f xs = us @ f x # vs" by auto
    with False show ?thesis by (intro exI [of _ "y # us"] exI [of _ vs]) simp
  qed
qed simp

lemma find_present: "x \<in> set xs \<Longrightarrow> p x \<Longrightarrow> \<exists>y. find p xs = Some y \<and> p y \<and> y \<in> set xs"
  by (induction xs) auto

lemma find_key: "k \<in> set (map g xs) \<Longrightarrow> \<exists>y. find (\<lambda>x. g x = k) xs = Some y \<and> g y = k \<and> y \<in> set xs"
  by (induction xs) auto

text \<open>Writing an album keeps the keys and never forgets an id.\<close>

lemma upsert_album_albums:
  assumes "albums_ok (ld_albums db)"
  shows "\<exists>as. snd (upsert_album a db) = db\<lparr>ld_albums := as\<rparr> \<and> albums_ok as \<and>
    set (map aw_id (ld_albums db)) \<subseteq> set (map aw_id as)"
proof (cases "\<exists>b \<in> set (ld_albums db). aw_dir_path b = aw_dir_path a \<and> aw_id b \<noteq> aw_id a")
  case True
  then show ?thesis using assms by (intro exI [of _ "ld_albums db"]) (simp add: upsert_album_def)
next
  case False
  note other = this
  show ?thesis
  proof (cases "aw_id a \<in> set (map aw_id (ld_albums db))")
    case True
    let ?f = "\<lambda>b. b\<lparr>aw_dir_path := aw_dir_path a, aw_title := aw_title a, aw_artwork_path := aw_artwork_path a\<rparr>"
    from find_key [OF True] obtain b where b: "find (\<lambda>b. aw_id b = aw_id a) (ld_albums db) = Some b" "aw_id b = aw_id a" by blast
    from update_first_split [OF b(1), of ?f] obtain us vs where
      s: "ld_albums db = us @ b # vs" "update_first (\<lambda>b. aw_id b = aw_id a) ?f (ld_albums db) = us @ ?f b # vs" by blast
    have "aw_dir_path c \<noteq> aw_dir_path a" if c: "c \<in> set us \<union> set vs" for c
    proof
      assume "aw_dir_path c = aw_dir_path a"
      with other c have "aw_id c = aw_id b" by (auto simp: s(1) b(2))
      with assms c show False by (auto simp: s(1) albums_ok_def image_iff)
    qed
    then have "aw_dir_path a \<notin> aw_dir_path ` set us" "aw_dir_path a \<notin> aw_dir_path ` set vs"
      by (metis (no_types) UnI1 UnI2 imageE)+
    then have "albums_ok (us @ ?f b # vs)" using assms by (simp add: albums_ok_def s(1))
    then show ?thesis using other True
      by (intro exI [of _ "us @ ?f b # vs"]) (auto simp: upsert_album_def s(2), auto simp: s(1))
  next
    case False
    have "aw_dir_path a \<notin> aw_dir_path ` set (ld_albums db)" 
    proof
      assume "aw_dir_path a \<in> aw_dir_path ` set (ld_albums db)"
      then obtain b where b: "b \<in> set (ld_albums db)" "aw_dir_path b = aw_dir_path a" by auto
      with other have "aw_id b = aw_id a" by blast
      with b(1) False show False by (auto simp: image_iff)
    qed
    then have "albums_ok (ld_albums db @ [a])" using assms False by (auto simp: albums_ok_def)
    then show ?thesis using other False by (intro exI [of _ "ld_albums db @ [a]"]) (auto simp: upsert_album_def)
  qed
qed

lemma album_known_mono: "album_known as r \<Longrightarrow> set (map aw_id as) \<subseteq> set (map aw_id bs) \<Longrightarrow> album_known bs r"
  unfolding album_known_def by blast

lemma wf_albums:
  assumes "library_wf db" "albums_ok as" "set (map aw_id (ld_albums db)) \<subseteq> set (map aw_id as)"
  shows "library_wf (db\<lparr>ld_albums := as\<rparr>)"
proof -
  have "list_all (album_known (ld_albums db)) (ld_tracks db)" using assms(1) by (simp add: library_wf_def)
  then have "list_all (album_known as) (ld_tracks db)"
    by (rule list.pred_mono_strong) (rule album_known_mono [OF _ assms(3)])
  with assms(1,2) show ?thesis by (simp add: library_wf_def)
qed

lemma upsert_album_wf: "keeps library_wf (upsert_album a)"
  unfolding keeps_def
proof (intro allI impI)
  fix db assume wf: "library_wf db"
  then have "albums_ok (ld_albums db)" by (simp add: library_wf_def)
  from upsert_album_albums [OF this, of a] wf_albums [OF wf] show "library_wf (snd (upsert_album a db))" by auto
qed

lemma update_album_artwork_wf: "keeps library_wf (update_album_artwork dir art)"
  unfolding update_album_artwork_def
proof (rule keeps_modify)
  fix db assume wf: "library_wf db"
  let ?as = "map (\<lambda>a. if aw_dir_path a = dir then a\<lparr>aw_artwork_path := art\<rparr> else a) (ld_albums db)"
  have "map aw_id ?as = map aw_id (ld_albums db)" "map aw_dir_path ?as = map aw_dir_path (ld_albums db)" by auto
  with wf show "library_wf (db\<lparr>ld_albums := ?as\<rparr>)"
    by (intro wf_albums) (simp_all only: albums_ok_def library_wf_def subset_refl)
qed

subsection \<open>Writing a track\<close>

lemma next_rowid_fresh: "next_rowid rows \<notin> set (map rw_rowid rows)"
proof -
  have "k \<in> set ks \<Longrightarrow> k \<le> foldr max ks 0" for k :: int and ks by (induction ks) auto
  then have "k \<in> set (map rw_rowid rows) \<Longrightarrow> k < next_rowid rows" for k by (fastforce simp: next_rowid_def)
  then show ?thesis by blast
qed

lemma row_error_None:
  "row_error new db = None \<longleftrightarrow>
    (\<forall>r \<in> set (ld_tracks db). row_id r = row_id new \<longrightarrow> rw_rowid r = rw_rowid new) \<and> album_known (ld_albums db) new"
  by (auto simp: row_error_def row_id_def album_known_def split: option.splits)

lemma store_track_insert:
  fixes mtime :: "int option"
  assumes "library_wf db" "track_by_path (tr_file_path t) db = None"
  defines "new \<equiv> \<lparr>rw_rowid = next_rowid (ld_tracks db), rw_track = t, rw_mtime = mtime\<rparr>"
  assumes "row_error new db = None"
  shows "\<exists>idx. store_track t mtime db = (Inr (), db\<lparr>ld_tracks := ld_tracks db @ [new], ld_fts := idx\<rparr>) \<and>
    library_wf (db\<lparr>ld_tracks := ld_tracks db @ [new], ld_fts := idx\<rparr>)"
proof -
  have "synced rw_rowid fts_of mset (ld_tracks db) (ld_fts db)" using assms(1) by (simp add: library_wf_def)
  moreover have fresh: "rw_rowid new \<notin> set (map rw_rowid (ld_tracks db))" using next_rowid_fresh by (simp add: new_def)
  ultimately obtain idx where idx: "after_insert new (ld_fts db) = Inr idx" "synced rw_rowid fts_of mset (ld_tracks db @ [new]) idx"
    using fts.sync_append by blast
  have "row_path new \<notin> row_path ` set (ld_tracks db)"
    using assms(2) by (auto simp: track_by_path_def find_None_iff row_path_def new_def)
  moreover have "row_id new \<notin> row_id ` set (ld_tracks db)"
  proof (rule notin_imageI)
    fix r assume r: "r \<in> set (ld_tracks db)"
    with fresh have "rw_rowid r \<noteq> rw_rowid new" by (metis image_eqI set_map)
    with assms(4) r show "row_id r \<noteq> row_id new" unfolding row_error_None by blast
  qed
  ultimately have "library_wf (db\<lparr>ld_tracks := ld_tracks db @ [new], ld_fts := idx\<rparr>)"
    using assms(1,4) idx(2) by (simp add: library_wf_def row_error_None)
  moreover have "store_track t mtime db = (Inr (), db\<lparr>ld_tracks := ld_tracks db @ [new], ld_fts := idx\<rparr>)"
    using assms(2,4) idx(1) by (simp add: store_track_def new_def Let_def)
  ultimately show ?thesis by blast
qed

lemma store_track_replace:
  fixes mtime :: "int option"
  assumes "library_wf db" "track_by_path (tr_file_path t) db = Some old"
  defines "new \<equiv> old\<lparr>rw_track := t, rw_mtime := mtime\<rparr>"
  assumes "row_error new db = None"
  shows "\<exists>us vs idx. ld_tracks db = us @ old # vs \<and>
    store_track t mtime db = (Inr (), db\<lparr>ld_tracks := us @ new # vs, ld_fts := idx\<rparr>) \<and>
    library_wf (db\<lparr>ld_tracks := us @ new # vs, ld_fts := idx\<rparr>)"
proof -
  from update_first_split [OF assms(2) [unfolded track_by_path_def], of "\<lambda>_. new"] obtain us vs where
    s: "ld_tracks db = us @ old # vs"
      "update_first (\<lambda>r. tr_file_path (rw_track r) = tr_file_path t) (\<lambda>_. new) (ld_tracks db) = us @ new # vs" by blast
  have path: "row_path new = row_path old"
    using assms(2) by (auto simp: track_by_path_def row_path_def new_def dest: find_SomeD)
  have rowid: "rw_rowid new = rw_rowid old" by (simp add: new_def)
  have "synced rw_rowid fts_of mset (us @ old # vs) (ld_fts db)" using assms(1) by (simp add: library_wf_def s(1))
  from fts.sync_replace [OF this rowid] obtain idx where
    idx: "after_update old new (ld_fts db) = Inr idx" "synced rw_rowid fts_of mset (us @ new # vs) idx" by blast
  have ids: "row_id r \<noteq> row_id new" if "r \<in> set us \<union> set vs" for r
  proof
    assume "row_id r = row_id new"
    with assms(4) that have "rw_rowid r = rw_rowid old" by (auto simp: row_error_None s(1) rowid)
    with assms(1) that show False by (auto simp: library_wf_def s(1) synced_def image_iff)
  qed
  then have "row_id new \<notin> row_id ` set us" "row_id new \<notin> row_id ` set vs" by (metis (no_types) UnI1 UnI2 imageE)+
  then have "library_wf (db\<lparr>ld_tracks := us @ new # vs, ld_fts := idx\<rparr>)"
    using assms(1,4) idx(2) by (simp add: library_wf_def row_error_None s(1) path)
  moreover have "store_track t mtime db = (Inr (), db\<lparr>ld_tracks := us @ new # vs, ld_fts := idx\<rparr>)"
    using assms(2,4) idx(1) s(2) by (simp add: store_track_def new_def Let_def)
  ultimately show ?thesis using s(1) by blast
qed

lemma store_track_wf: "keeps library_wf (store_track t mtime)"
  unfolding keeps_def
proof (intro allI impI)
  fix db assume wf: "library_wf db"
  show "library_wf (snd (store_track t mtime db))"
  proof (cases "track_by_path (tr_file_path t) db")
    case None
    let ?new = "\<lparr>rw_rowid = next_rowid (ld_tracks db), rw_track = t, rw_mtime = mtime\<rparr>"
    show ?thesis
    proof (cases "row_error ?new db")
      case None
      with store_track_insert [OF wf \<open>track_by_path (tr_file_path t) db = None\<close>, of mtime] show ?thesis by auto
    qed (simp add: store_track_def None wf)
  next
    case (Some old)
    show ?thesis
    proof (cases "row_error (old\<lparr>rw_track := t, rw_mtime := mtime\<rparr>) db")
      case None
      with store_track_replace [OF wf Some, of mtime] show ?thesis by auto
    qed (simp add: store_track_def Some wf)
  qed
qed

lemma upsert_track_wf: "keeps library_wf (upsert_track_with_mtime id_of t mtime)"
  unfolding upsert_track_with_mtime_def
  by (auto intro!: keeps_option_case keeps_andDo keeps_ignore_err upsert_album_wf store_track_wf)

lemma delete_tracks_wf: "library_wf db \<Longrightarrow> library_wf (delete_tracks p db)"
  using fts.sync_filter [of "ld_tracks db" "ld_fts db" p]
  by (auto simp: library_wf_def delete_tracks_def list_all_iff distinct_map inj_on_def)

lemma purge_missing_wf: "keeps library_wf (purge_missing mv known)"
  by (simp add: keeps_def purge_missing_def Let_def delete_tracks_wf)

lemma delete_track_wf: "keeps library_wf (delete_track path)"
  unfolding delete_track_def by (rule keeps_modify) (rule delete_tracks_wf)

lemma upsert_artist_wf: "keeps library_wf (upsert_artist a)"
  unfolding keeps_def
proof (intro allI impI)
  fix db assume wf: "library_wf db"
  show "library_wf (snd (upsert_artist a db))"
  proof (cases "\<exists>b \<in> set (ld_artists db). ar_name b = ar_name a \<and> ar_id b \<noteq> ar_id a")
    case False
    note other = this
    have names: "b \<in> set (ld_artists db) \<Longrightarrow> ar_id b \<noteq> ar_id a \<Longrightarrow> ar_name b \<noteq> ar_name a" for b using other by blast
    show ?thesis
    proof (cases "ar_id a \<in> set (map ar_id (ld_artists db))")
      case True
      let ?f = "\<lambda>b. b\<lparr>ar_name := ar_name a\<rparr>"
      from find_key [OF True] obtain b where b: "find (\<lambda>b. ar_id b = ar_id a) (ld_artists db) = Some b" "ar_id b = ar_id a" by blast
      from update_first_split [OF b(1), of ?f] obtain us vs where
        s: "ld_artists db = us @ b # vs" "update_first (\<lambda>b. ar_id b = ar_id a) ?f (ld_artists db) = us @ ?f b # vs" by blast
      have dist: "distinct (map ar_id (us @ b # vs))" "distinct (map ar_name (us @ b # vs))" using wf by (simp_all add: library_wf_def s(1))
      have "c \<in> set us \<union> set vs \<Longrightarrow> ar_id c \<noteq> ar_id a" for c using dist(1) b(2) by (auto simp: image_iff)
      then have "ar_name a \<notin> ar_name ` set us" "ar_name a \<notin> ar_name ` set vs" using names by (fastforce simp: s(1))+
      with dist have "distinct (map ar_id (us @ ?f b # vs)) \<and> distinct (map ar_name (us @ ?f b # vs))" by simp
      with wf other True s(2) show ?thesis by (simp add: upsert_artist_def library_wf_def)
    next
      case False
      then have "ar_name a \<notin> ar_name ` set (ld_artists db)" using names by (fastforce simp: image_iff)
      with wf other False show ?thesis by (simp add: upsert_artist_def library_wf_def)
    qed
  qed (simp add: upsert_artist_def wf)
qed

subsection \<open>Reachable libraries\<close>

datatype library_op =
    Lib_UpsertTrack track "int option"
  | Lib_DeleteTrack string
  | Lib_PurgeMissing "string list"
  | Lib_UpsertAlbum album_row
  | Lib_AlbumArtwork string "string option"
  | Lib_UpsertArtist artist

fun library_exec :: "(string \<Rightarrow> string) \<Rightarrow> nat \<Rightarrow> library_op \<Rightarrow> library_db \<Rightarrow> library_db" where
  "library_exec id_of mv (Lib_UpsertTrack t m) = run (upsert_track_with_mtime id_of t m)"
| "library_exec id_of mv (Lib_DeleteTrack p) = run (delete_track p)"
| "library_exec id_of mv (Lib_PurgeMissing known) = run (purge_missing mv known)"
| "library_exec id_of mv (Lib_UpsertAlbum a) = run (upsert_album a)"
| "library_exec id_of mv (Lib_AlbumArtwork dir art) = run (update_album_artwork dir art)"
| "library_exec id_of mv (Lib_UpsertArtist a) = run (upsert_artist a)"

inductive library_reachable :: "(string \<Rightarrow> string) \<Rightarrow> nat \<Rightarrow> library_db \<Rightarrow> bool" for id_of mv where
  start: "library_reachable id_of mv empty_library"
| step: "library_reachable id_of mv db \<Longrightarrow> library_reachable id_of mv (library_exec id_of mv op db)"

lemma library_exec_wf: "library_wf db \<Longrightarrow> library_wf (library_exec id_of mv op db)"
  by (cases op) (auto intro: keeps_run upsert_track_wf delete_track_wf purge_missing_wf upsert_album_wf
      update_album_artwork_wf upsert_artist_wf)

lemma library_reachable_wf: "library_reachable id_of mv db \<Longrightarrow> library_wf db"
  by (induction rule: library_reachable.induct) (auto intro: library_wf_empty library_exec_wf)

lemma library_run_reachable: "library_reachable id_of mv (fold (library_exec id_of mv) ops empty_library)"
proof (induction ops rule: rev_induct)
  case Nil
  show ?case by (simp add: library_reachable.start)
next
  case (snoc op ops)
  then show ?case by (simp add: library_reachable.step)
qed

subsection \<open>Searching\<close>

lemma fts_rows: "library_wf db \<Longrightarrow> set (ld_fts db) = fts_of ` set (ld_tracks db)"
  unfolding library_wf_def synced_def by (metis set_image_mset set_mset_mset)

lemma fts_id_of: "ft_track_id (fts_of r) = row_id r"
  by (simp add: fts_of_def row_id_def Let_def)

lemma search_ids:
  assumes "library_wf db" "fe_parse fts q = Some m" "search fts db q = Inr ids" "r \<in> set (ld_tracks db)"
  shows "row_id r \<in> set ids \<longleftrightarrow> m (fts_of r)"
proof -
  have "set ids = ft_track_id ` {f \<in> set (ld_fts db). m f}"
    using assms(2,3) by (auto simp: search_def)
  also have "\<dots> = row_id ` {r \<in> set (ld_tracks db). m (fts_of r)}"
  proof -
    have "{f \<in> set (ld_fts db). m f} = fts_of ` {r \<in> set (ld_tracks db). m (fts_of r)}"
      by (auto simp: fts_rows [OF assms(1)])
    then show ?thesis by (simp only: image_image fts_id_of)
  qed
  finally have ids: "set ids = row_id ` {r \<in> set (ld_tracks db). m (fts_of r)}" .
  have "inj_on row_id (set (ld_tracks db))" using assms(1) by (simp add: library_wf_def distinct_map)
  with assms(4) show ?thesis unfolding ids by (auto dest: inj_onD)
qed

text \<open>A search gives the tracks that match, in the order of the albums.\<close>

lemma search_tracks_exact:
  assumes "library_wf db" "fe_parse fts q = Some m" "length (filter m (ld_fts db)) \<le> mv"
  shows "search_tracks fts mv db q =
    Inr (sort_key album_order (map rw_track (filter (\<lambda>r. m (fts_of r)) (ld_tracks db))))"
proof -
  obtain ids where ids: "search fts db q = Inr ids" "length ids \<le> mv"
    using assms(2,3) by (simp add: search_def)
  have "filter (\<lambda>t. tr_id t \<in> set ids) (tracks_of db) = map rw_track (filter (\<lambda>r. row_id r \<in> set ids) (ld_tracks db))"
    by (simp add: tracks_of_def filter_map comp_def row_id_def)
  also have "filter (\<lambda>r. row_id r \<in> set ids) (ld_tracks db) = filter (\<lambda>r. m (fts_of r)) (ld_tracks db)"
    by (rule filter_cong [OF refl]) (rule search_ids [OF assms(1,2) ids(1)])
  finally have rows: "filter (\<lambda>t. tr_id t \<in> set ids) (tracks_of db) =
    map rw_track (filter (\<lambda>r. m (fts_of r)) (ld_tracks db))" .
  show ?thesis
  proof (cases "ids = []")
    case True
    then have "filter (\<lambda>t. tr_id t \<in> set ids) (tracks_of db) = []" by simp
    with rows True ids show ?thesis by (simp add: search_tracks_def)
  next
    case False
    with rows ids show ?thesis by (simp add: search_tracks_def)
  qed
qed

subsection \<open>Pages\<close>

lemma pages_cover: "length xs \<le> m * n \<Longrightarrow> concat (map (\<lambda>k. take n (drop (k * n) xs)) [0..<m]) = xs"
proof (induction m arbitrary: xs)
  case (Suc m)
  have "map (\<lambda>k. take n (drop (k * n) xs)) [0..<Suc m] =
      take n xs # map (\<lambda>k. take n (drop (k * n) (drop n xs))) [0..<m]"
    by (subst upt_conv_Cons) (simp_all add: map_Suc_upt [symmetric] comp_def add.commute del: upt_Suc)
  with Suc.IH [of "drop n xs"] Suc.prems show ?case by (simp del: upt_Suc)
qed simp

definition page :: "library_db \<Rightarrow> nat \<Rightarrow> nat \<Rightarrow> track list" where
  "page db n k = (case get_tracks db (Some (word_of_nat (k * n))) (Some (word_of_nat n)) of Inl _ \<Rightarrow> [] | Inr ts \<Rightarrow> ts)"

lemma pages_exact:
  assumes "length (ld_tracks db) \<le> m * n" "m * n < 2 ^ 32" "0 < m"
  shows "Inr (concat (map (page db n) [0..<m])) = get_tracks db None None"
proof -
  have n: "n < 2 ^ 32" using assms(2,3) by (metis (no_types) One_nat_def Suc_leI le_less_trans mult.commute mult_le_mono1 nat_mult_1_right mult_1 )
  have "k * n < 2 ^ 32" if "k < m" for k
    using assms(2) that by (meson le_less_trans less_imp_le mult_le_mono1)
  then have u: "unat (word_of_nat (k * n) :: u32) = k * n" if "k < m" for k
    using that by (simp add: unsigned_of_nat take_bit_nat_eq_self del: of_nat_mult)
  have "unat (word_of_nat n :: u32) = n" using n by (simp add: unsigned_of_nat take_bit_nat_eq_self)
  with u have "page db n k = take n (drop (k * n) (sort_key album_order (tracks_of db)))" if "k < m" for k
    using that by (simp add: page_def get_tracks_def Let_def del: of_nat_mult)
  then have pages: "map (page db n) [0..<m] = map (\<lambda>k. take n (drop (k * n) (sort_key album_order (tracks_of db)))) [0..<m]"
    by simp
  have "length (sort_key album_order (tracks_of db)) \<le> m * n" using assms(1) by (simp add: tracks_of_def)
  then show ?thesis unfolding pages by (simp add: get_tracks_def pages_cover)
qed

subsection \<open>Ids that are hashes\<close>

text \<open>The row of each path, and the form a track is stored in.\<close>

definition library_view :: "library_db \<Rightarrow> string \<rightharpoonup> track \<times> int option" where
  "library_view db p = map_option (\<lambda>r. (rw_track r, rw_mtime r)) (track_by_path p db)"

definition stored :: "(string \<Rightarrow> string) \<Rightarrow> track \<Rightarrow> track" where
  "stored id_of t = t\<lparr>tr_album_id := map_option id_of (path_parent (tr_file_path t)),
     tr_duration_secs := real_column (tr_duration_secs t)\<rparr>"

text \<open>Every id is the hash of a path of \<open>U\<close>, on which the hash is taken to have no collision.\<close>

definition hashed :: "string set \<Rightarrow> (string \<Rightarrow> string) \<Rightarrow> library_db \<Rightarrow> bool" where
  "hashed U id_of db \<longleftrightarrow>
    (\<forall>r \<in> set (ld_tracks db). row_path r \<in> U \<and> row_id r = id_of (row_path r)) \<and>
    (\<forall>a \<in> set (ld_albums db). aw_dir_path a \<in> U \<and> aw_id a = id_of (aw_dir_path a))"

lemma upsert_album_ok:
  assumes "library_wf db" "hashed U id_of db" "inj_on id_of U" "aw_dir_path a \<in> U" "aw_id a = id_of (aw_dir_path a)"
  shows "\<exists>as. upsert_album a db = (Inr (), db\<lparr>ld_albums := as\<rparr>) \<and> library_wf (db\<lparr>ld_albums := as\<rparr>) \<and>
    hashed U id_of (db\<lparr>ld_albums := as\<rparr>) \<and> aw_id a \<in> set (map aw_id as)"
proof -
  have fst: "fst (upsert_album a db) = Inr ()"
    using assms(2,5) by (auto simp: upsert_album_def hashed_def)
  have "albums_ok (ld_albums db)" using assms(1) by (simp add: library_wf_def)
  from upsert_album_albums [OF this, of a] obtain as where
    as: "snd (upsert_album a db) = db\<lparr>ld_albums := as\<rparr>" "albums_ok as" "set (map aw_id (ld_albums db)) \<subseteq> set (map aw_id as)" by blast
  have same: "aw_dir_path b = aw_dir_path a" if "b \<in> set (ld_albums db)" "aw_id b = aw_id a" for b
    using that assms(2-5) by (auto simp: hashed_def dest: inj_onD)
  have "as = ld_albums (snd (upsert_album a db))" by (simp add: as(1))
  then have "set as \<subseteq> set (ld_albums db) \<union> {a} \<union>
      {b'. \<exists>b \<in> set (ld_albums db). aw_id b = aw_id a \<and> aw_id b' = aw_id b \<and> aw_dir_path b' = aw_dir_path a}"
    and mem: "aw_id a \<in> set (map aw_id as)"
  proof -
    assume eq: "as = ld_albums (snd (upsert_album a db))"
    have other: "\<not> (\<exists>b \<in> set (ld_albums db). aw_dir_path b = aw_dir_path a \<and> aw_id b \<noteq> aw_id a)"
      using assms(2,5) by (auto simp: hashed_def)
    let ?f = "\<lambda>b. b\<lparr>aw_dir_path := aw_dir_path a, aw_title := aw_title a, aw_artwork_path := aw_artwork_path a\<rparr>"
    show "set as \<subseteq> set (ld_albums db) \<union> {a} \<union>
        {b'. \<exists>b \<in> set (ld_albums db). aw_id b = aw_id a \<and> aw_id b' = aw_id b \<and> aw_dir_path b' = aw_dir_path a}"
    proof (cases "aw_id a \<in> set (map aw_id (ld_albums db))")
      case True
      from find_key [OF True] obtain b where b: "find (\<lambda>b. aw_id b = aw_id a) (ld_albums db) = Some b" "aw_id b = aw_id a" by blast
      from update_first_split [OF b(1), of ?f] obtain us vs where
        s: "ld_albums db = us @ b # vs" "update_first (\<lambda>b. aw_id b = aw_id a) ?f (ld_albums db) = us @ ?f b # vs" by blast
      have "as = us @ ?f b # vs" using eq other True s(2) by (simp add: upsert_album_def)
      then show ?thesis using b(2) by (auto simp: s(1))
    next
      case False
      with eq other show ?thesis by (auto simp: upsert_album_def)
    qed
    show "aw_id a \<in> set (map aw_id as)"
    proof (cases "aw_id a \<in> set (map aw_id (ld_albums db))")
      case False
      with eq other show ?thesis by (auto simp: upsert_album_def)
    qed (use as(3) in blast)
  qed
  then have "hashed U id_of (db\<lparr>ld_albums := as\<rparr>)" using assms(2,4,5) by (fastforce simp: hashed_def)
  moreover have "upsert_album a db = (Inr (), db\<lparr>ld_albums := as\<rparr>)" using fst as(1) by (simp add: prod_eq_iff)
  moreover have "library_wf (db\<lparr>ld_albums := as\<rparr>)" by (rule wf_albums) (use assms(1) as in auto)
  ultimately show ?thesis using mem by blast
qed

lemma view_albums [simp]: "library_view (db\<lparr>ld_albums := as\<rparr>) = library_view db"
  by (simp add: library_view_def track_by_path_def fun_eq_iff)

lemma find_path_mid:
  assumes "distinct (map row_path (us @ r # vs))" "row_path new = row_path r"
  shows "find (\<lambda>x. tr_file_path (rw_track x) = p) (us @ new # vs) =
    (if p = row_path r then Some new else find (\<lambda>x. tr_file_path (rw_track x) = p) (us @ r # vs))"
proof -
  have "find (\<lambda>x. tr_file_path (rw_track x) = row_path r) us = None"
    using assms(1) by (auto simp: find_None_iff row_path_def image_iff)
  then show ?thesis using assms(2) by (auto simp: find_append row_path_def split: option.split)
qed

lemma store_track_ok:
  assumes "library_wf db" "hashed U id_of db" "inj_on id_of U"
    and "tr_id t = id_of (tr_file_path t)" "tr_file_path t \<in> U"
    and "\<And>a. tr_album_id t = Some a \<Longrightarrow> a \<in> set (map aw_id (ld_albums db))"
  shows "\<exists>db'. store_track t mtime db = (Inr (), db') \<and> library_wf db' \<and> hashed U id_of db' \<and>
    library_view db' = (library_view db)(tr_file_path t \<mapsto> (t, mtime))"
proof -
  have paths: "row_path r = tr_file_path t" if "r \<in> set (ld_tracks db)" "row_id r = tr_id t" for r
    using that assms(2-5) by (auto simp: hashed_def dest: inj_onD)
  show ?thesis
  proof (cases "track_by_path (tr_file_path t) db")
    case None
    let ?new = "\<lparr>rw_rowid = next_rowid (ld_tracks db), rw_track = t, rw_mtime = mtime\<rparr>"
    have "row_path r \<noteq> tr_file_path t" if "r \<in> set (ld_tracks db)" for r
      using None that by (auto simp: track_by_path_def find_None_iff row_path_def)
    then have "row_error ?new db = None"
      using paths assms(6) by (fastforce simp: row_error_None row_id_def album_known_def)
    from store_track_insert [OF assms(1) None this] obtain idx where
      st: "store_track t mtime db = (Inr (), db\<lparr>ld_tracks := ld_tracks db @ [?new], ld_fts := idx\<rparr>)"
        "library_wf (db\<lparr>ld_tracks := ld_tracks db @ [?new], ld_fts := idx\<rparr>)" by blast
    have "library_view (db\<lparr>ld_tracks := ld_tracks db @ [?new], ld_fts := idx\<rparr>) = (library_view db)(tr_file_path t \<mapsto> (t, mtime))"
      using None by (auto simp: library_view_def track_by_path_def fun_eq_iff find_append split: option.split)
    moreover have "hashed U id_of (db\<lparr>ld_tracks := ld_tracks db @ [?new], ld_fts := idx\<rparr>)"
      using assms(2,4,5) by (simp add: hashed_def row_path_def row_id_def)
    ultimately show ?thesis using st by blast
  next
    case (Some old)
    let ?new = "old\<lparr>rw_track := t, rw_mtime := mtime\<rparr>"
    have old: "old \<in> set (ld_tracks db)" "row_path old = tr_file_path t"
      using Some by (auto simp: track_by_path_def row_path_def dest: find_SomeD)
    have "r = old" if "r \<in> set (ld_tracks db)" "row_id r = tr_id t" for r
    proof (rule inj_onD [of row_path "set (ld_tracks db)"])
      show "inj_on row_path (set (ld_tracks db))" using assms(1) by (simp add: library_wf_def distinct_map)
    qed (use paths [OF that] that(1) old in simp_all)
    then have "row_error ?new db = None"
      using assms(6) by (auto simp: row_error_None row_id_def album_known_def)
    from store_track_replace [OF assms(1) Some this] obtain us vs idx where
      s: "ld_tracks db = us @ old # vs"
        "store_track t mtime db = (Inr (), db\<lparr>ld_tracks := us @ ?new # vs, ld_fts := idx\<rparr>)"
        "library_wf (db\<lparr>ld_tracks := us @ ?new # vs, ld_fts := idx\<rparr>)" by blast
    have "distinct (map row_path (us @ old # vs))" using assms(1) by (simp add: library_wf_def s(1))
    moreover have "row_path ?new = row_path old" using old(2) by (simp add: row_path_def)
    ultimately have "library_view (db\<lparr>ld_tracks := us @ ?new # vs, ld_fts := idx\<rparr>) = (library_view db)(tr_file_path t \<mapsto> (t, mtime))"
      using find_path_mid [of us old vs ?new] old(2) by (auto simp: library_view_def track_by_path_def fun_eq_iff s(1))
    moreover have "hashed U id_of (db\<lparr>ld_tracks := us @ ?new # vs, ld_fts := idx\<rparr>)"
      using assms(2,4,5) by (simp add: hashed_def row_path_def row_id_def s(1))
    ultimately show ?thesis using s(2,3) by blast
  qed
qed

lemma upsert_track_ok:
  assumes "library_wf db" "hashed U id_of db" "inj_on id_of U"
    and "tr_id t = id_of (tr_file_path t)" "tr_file_path t \<in> U" "\<And>d. path_parent (tr_file_path t) = Some d \<Longrightarrow> d \<in> U"
  shows "\<exists>db'. upsert_track_with_mtime id_of t mtime db = (Inr (), db') \<and> library_wf db' \<and> hashed U id_of db' \<and>
    library_view db' = (library_view db)(tr_file_path t \<mapsto> (stored id_of t, mtime))"
proof (cases "path_parent (tr_file_path t)")
  case None
  with store_track_ok [OF assms(1-3), of "stored id_of t" mtime] assms(4,5) show ?thesis
    by (simp add: upsert_track_with_mtime_def stored_def)
next
  case (Some d)
  let ?a = "\<lparr>aw_id = id_of d, aw_dir_path = d, aw_title = tr_album_title t, aw_artwork_path = None\<rparr>"
  from upsert_album_ok [OF assms(1-3), of ?a] assms(6) [OF Some] obtain as where
    as: "upsert_album ?a db = (Inr (), db\<lparr>ld_albums := as\<rparr>)" "library_wf (db\<lparr>ld_albums := as\<rparr>)"
      "hashed U id_of (db\<lparr>ld_albums := as\<rparr>)" "id_of d \<in> set (map aw_id as)" by auto
  have "\<exists>db'. store_track (stored id_of t) mtime (db\<lparr>ld_albums := as\<rparr>) = (Inr (), db') \<and> library_wf db' \<and> hashed U id_of db' \<and>
      library_view db' = (library_view (db\<lparr>ld_albums := as\<rparr>))(tr_file_path (stored id_of t) \<mapsto> (stored id_of t, mtime))"
    by (rule store_track_ok [OF as(2,3) assms(3)]) (use assms(4,5) as(4) Some in \<open>simp_all add: stored_def\<close>)
  then show ?thesis using as(1) Some
    by (simp add: upsert_track_with_mtime_def andDo_def andThen_def ignore_err_def stored_def)
qed

lemma delete_tracks_hashed: "hashed U id_of db \<Longrightarrow> hashed U id_of (delete_tracks p db)"
  by (simp add: hashed_def delete_tracks_def)

lemma delete_tracks_view:
  "library_view (delete_tracks (\<lambda>r. P (tr_file_path (rw_track r))) db) p = (if P p then None else library_view db p)"
proof (cases "P p")
  case False
  then have "find (\<lambda>r. tr_file_path (rw_track r) = p) (filter (\<lambda>r. \<not> P (tr_file_path (rw_track r))) (ld_tracks db)) =
      find (\<lambda>r. tr_file_path (rw_track r) = p) (ld_tracks db)"
    by (intro find_filter) simp
  with False show ?thesis by (simp add: library_view_def track_by_path_def delete_tracks_def)
qed (auto simp: library_view_def track_by_path_def delete_tracks_def find_None_iff)

end
