(* ===== verification/Scanner_Facts.thy ===== *)
theory Scanner_Facts
  imports Scanner Library_Facts
begin

text \<open>
  What a scan leaves in the library: exactly the files the walk found, each with the track of its
  present tags unless its modification time is the stored one or its tags cannot be read; a second
  scan of the same directory changes nothing.
\<close>

subsection \<open>The walk lists the audio files outside skipped directories\<close>

inductive holds_file :: "string \<Rightarrow> fs_tree \<Rightarrow> string \<Rightarrow> int option \<Rightarrow> bool" where
  here: "holds_file dir (Fs_File name m) (path_join dir name) m"
| below: "\<not> should_skip_dir name \<Longrightarrow> c \<in> set children \<Longrightarrow> holds_file (path_join dir name) c path m \<Longrightarrow>
    holds_file dir (Fs_Dir name (Some children)) path m"

inductive_simps holds_file_simps:
  "holds_file dir (Fs_File name m) path m'" "holds_file dir (Fs_Dir name cs) path m'" "holds_file dir (Fs_Other name) path m'"

lemma walk_tree_iff: "e \<in> set (walk_tree dir t) \<longleftrightarrow> (\<exists>path m. holds_file dir t path m \<and> e \<in> set (file_entry path m))"
  by (induction dir t rule: walk_tree.induct) (auto simp: holds_file_simps)

lemma walk_iff:
  "e \<in> set (walk_audio_files dir (Some (Fs_Dir name (Some children)))) \<longleftrightarrow>
    (\<exists>c \<in> set children. \<exists>path m. holds_file dir c path m \<and> e \<in> set (file_entry path m))"
  by (auto simp: walk_audio_files_def walk_tree_iff)

lemma file_entry_path: "e \<in> set (file_entry path m) \<Longrightarrow> fe_file_path e = path \<and>
    (\<exists>ext. path_extension path = Some ext \<and> lowercase ext \<in> set audio_extensions)"
  by (cases "path_extension path") (simp_all add: file_entry_def split: if_splits)

subsection \<open>The track of a file\<close>

lemma dsf_track_path [simp]: "tr_file_path (dsf_track id_of p d) = p" "tr_id (dsf_track id_of p d) = id_of p"
  by (simp_all add: dsf_track_def bare_track_def Let_def split: option.split)

lemma extract_track_path: "extract_track id_of rd p = Inr t \<Longrightarrow> tr_file_path t = p \<and> tr_id t = id_of p"
  by (auto simp: extract_track_def lofty_track_def bare_track_def map_sum_def split: if_splits sum.splits option.splits)

subsection \<open>One file\<close>

text \<open>What becomes of the row of a file; a stored time equal to the file's leaves it alone.\<close>

definition scan_view :: "(string \<Rightarrow> string) \<Rightarrow> readers \<Rightarrow> audio_file_entry \<Rightarrow> (track \<times> int option) option \<Rightarrow> (track \<times> int option) option" where
  "scan_view id_of rd e row =
    (if Option.bind row snd = Some (fe_mtime e) then row
     else case extract_track id_of rd (fe_file_path e) of
       Inl _ \<Rightarrow> row | Inr t \<Rightarrow> Some (stored id_of t, Some (fe_mtime e)))"

lemma scan_view_idem: "scan_view id_of rd e (scan_view id_of rd e row) = scan_view id_of rd e row"
  by (auto simp: scan_view_def split: sum.split)

definition scan_ok :: "string set \<Rightarrow> (string \<Rightarrow> string) \<Rightarrow> scan_state \<Rightarrow> bool" where
  "scan_ok U id_of s \<longleftrightarrow> library_wf (sn_db s) \<and> hashed U id_of (sn_db s)"

definition entry_in :: "string set \<Rightarrow> audio_file_entry \<Rightarrow> bool" where
  "entry_in U e \<longleftrightarrow> fe_file_path e \<in> U \<and> (\<forall>d. path_parent (fe_file_path e) = Some d \<longrightarrow> d \<in> U)"

lemma sn_db_simps [simp]:
  "sn_db (enter_dir e s) = sn_db s" "sn_db (count_written b s) = sn_db s" "sn_db (count_scanned s) = sn_db s"
  "sn_db (send_progress p s) = sn_db s" "sn_db (set_removed n s) = sn_db s"
  by (simp_all add: enter_dir_def send_progress_def count_written_def count_scanned_def set_removed_def Let_def)

lemma get_track_mtime_view: "get_track_mtime db p = Option.bind (library_view db p) snd"
  by (cases "track_by_path p db") (simp_all add: get_track_mtime_def library_view_def)

lemma scan_entry_ok:
  assumes "scan_ok U id_of s" "inj_on id_of U" "entry_in U e"
  shows "\<exists>s'. scan_entry id_of rd e s = (Inr (), s') \<and> scan_ok U id_of s' \<and>
    library_view (sn_db s') = (library_view (sn_db s))(fe_file_path e := scan_view id_of rd e (library_view (sn_db s) (fe_file_path e)))"
proof (cases "get_track_mtime (sn_db s) (fe_file_path e) = Some (fe_mtime e)")
  case True
  then have "scan_view id_of rd e (library_view (sn_db s) (fe_file_path e)) = library_view (sn_db s) (fe_file_path e)"
    by (simp add: scan_view_def get_track_mtime_view)
  with True assms(1) show ?thesis
    by (simp add: scan_entry_def andDo_def andThen_def modify_def reading_def ret_def scan_ok_def)
next
  case False
  note changed = this
  show ?thesis
  proof (cases "extract_track id_of rd (fe_file_path e)")
    case (Inl err)
    with changed have "scan_view id_of rd e (library_view (sn_db s) (fe_file_path e)) = library_view (sn_db s) (fe_file_path e)"
      by (simp add: scan_view_def)
    with changed Inl assms(1) show ?thesis
      by (simp add: scan_entry_def andDo_def andThen_def modify_def reading_def ret_def scan_ok_def)
  next
    case (Inr t)
    note t = extract_track_path [OF Inr]
    have "\<exists>db'. upsert_track_with_mtime id_of t (Some (fe_mtime e)) (sn_db s) = (Inr (), db') \<and> library_wf db' \<and> hashed U id_of db' \<and>
        library_view db' = (library_view (sn_db s))(tr_file_path t \<mapsto> (stored id_of t, Some (fe_mtime e)))"
      by (rule upsert_track_ok) (use assms t in \<open>simp_all add: scan_ok_def entry_in_def\<close>)
    then obtain db' where db': "upsert_track_with_mtime id_of t (Some (fe_mtime e)) (sn_db s) = (Inr (), db')" "library_wf db'"
      "hashed U id_of db'" "library_view db' = (library_view (sn_db s))(fe_file_path e \<mapsto> (stored id_of t, Some (fe_mtime e)))"
      using t by auto
    have "scan_view id_of rd e (library_view (sn_db s) (fe_file_path e)) = Some (stored id_of t, Some (fe_mtime e))"
      using changed Inr by (simp add: scan_view_def get_track_mtime_view)
    with changed Inr db' show ?thesis
      by (simp add: scan_entry_def andDo_def andThen_def modify_def reading_def ret_def scan_ok_def on_db_def)
  qed
qed

subsection \<open>All files\<close>

lemma scan_files_ok:
  assumes "scan_ok U id_of s" "inj_on id_of U" "list_all (entry_in U) es" "distinct (map fe_file_path es)"
  shows "\<exists>s'. for_each es (scan_entry id_of rd) s = (Inr (), s') \<and> scan_ok U id_of s' \<and>
    (\<forall>p. library_view (sn_db s') p =
      (case find (\<lambda>e. fe_file_path e = p) es of
         None \<Rightarrow> library_view (sn_db s) p | Some e \<Rightarrow> scan_view id_of rd e (library_view (sn_db s) p)))"
  using assms
proof (induction es arbitrary: s)
  case (Cons e es)
  from scan_entry_ok [OF Cons.prems(1,2), of e rd] Cons.prems(3) obtain s1 where
    s1: "scan_entry id_of rd e s = (Inr (), s1)" "scan_ok U id_of s1"
      "library_view (sn_db s1) = (library_view (sn_db s))(fe_file_path e := scan_view id_of rd e (library_view (sn_db s) (fe_file_path e)))"
    by auto
  from Cons.IH [OF s1(2) Cons.prems(2)] Cons.prems(3,4) obtain s2 where
    s2: "for_each es (scan_entry id_of rd) s1 = (Inr (), s2)" "scan_ok U id_of s2"
      "\<forall>p. library_view (sn_db s2) p = (case find (\<lambda>e. fe_file_path e = p) es of
         None \<Rightarrow> library_view (sn_db s1) p | Some e \<Rightarrow> scan_view id_of rd e (library_view (sn_db s1) p))" by auto
  have "find (\<lambda>e'. fe_file_path e' = fe_file_path e) es = None"
    using Cons.prems(4) by (auto simp: find_None_iff image_iff)
  then have "library_view (sn_db s2) p = (case find (\<lambda>e. fe_file_path e = p) (e # es) of
      None \<Rightarrow> library_view (sn_db s) p | Some e \<Rightarrow> scan_view id_of rd e (library_view (sn_db s) p))" for p
    using s2(3) s1(3) by (auto split: option.split)
  with s1(1) s2(1,2) show ?case by (simp add: andDo_def andThen_def)
qed (simp add: ret_def)

lemma artwork_view: "library_view (snd (update_album_artwork dir art db)) = library_view db"
  by (simp add: update_album_artwork_def modify_def)

lemma artwork_hashed: "hashed U id_of db \<Longrightarrow> hashed U id_of (snd (update_album_artwork dir art db))"
  by (auto simp: update_album_artwork_def modify_def hashed_def)

lemma set_artwork_keeps:
  "keeps (\<lambda>s. scan_ok U id_of s \<and> library_view (sn_db s) = v) (set_artwork listing dir)"
  using update_album_artwork_wf
  by (auto simp: set_artwork_def keeps_def ret_def ignore_err_def on_db_def scan_ok_def artwork_view artwork_hashed
      split: option.split prod.split)
    (metis artwork_hashed artwork_view keepsD snd_conv)+

lemma set_artwork_total: "fst (set_artwork listing dir s) = Inr ()"
  by (simp add: set_artwork_def ret_def ignore_err_def split: option.split)

lemma for_each_total: "(\<And>x s. fst (f x s) = Inr ()) \<Longrightarrow> fst (for_each xs f s) = Inr ()"
proof (induction xs arbitrary: s)
  case (Cons x xs)
  then show ?case by (cases "f x s") (auto simp: andDo_def andThen_def split: sum.split dest: arg_cong [of _ _ fst])
qed (simp add: ret_def)

lemma purge_missing_view:
  assumes "length known \<le> mv"
  shows "\<exists>n db'. purge_missing mv known db = (Inr n, db') \<and>
    (\<forall>p. library_view db' p = (if p \<in> set known then library_view db p else None))"
proof (cases "known = []")
  case True
  then show ?thesis using delete_tracks_view [of "\<lambda>_. True" db] by (simp add: purge_missing_def)
next
  case False
  with assms show ?thesis using delete_tracks_view [of "\<lambda>p. p \<notin> set known" db] by (auto simp: purge_missing_def Let_def)
qed

lemma purge_missing_hashed: "hashed U id_of db \<Longrightarrow> hashed U id_of (snd (purge_missing mv known db))"
  by (simp add: purge_missing_def Let_def delete_tracks_hashed)

lemma sn_db_start: "sn_db (scan_start db) = db"
  by (simp add: scan_start_def)

text \<open>A scan succeeds, and afterwards each path has a row exactly when the walk found it and its row is
  the one \<open>scan_view\<close> gives.\<close>

lemma scan_once_exact:
  fixes w :: scan_world and dir :: string
  assumes "library_wf db" "hashed U id_of db" "inj_on id_of U"
  defines "entries \<equiv> walk_audio_files dir (sw_tree w)"
  assumes "list_all (entry_in U) entries" "distinct (map fe_file_path entries)" "length entries \<le> mv"
  shows "\<exists>res db'. scan_once id_of mv dir w db = (Inr res, db') \<and> library_wf db' \<and> hashed U id_of db' \<and>
    (\<forall>p. library_view db' p = (case find (\<lambda>e. fe_file_path e = p) entries of
       None \<Rightarrow> None | Some e \<Rightarrow> scan_view id_of (sw_readers w) e (library_view db p)))"
proof -
  have "scan_ok U id_of (scan_start db)" using assms(1,2) by (simp add: scan_ok_def scan_start_def)
  from scan_files_ok [OF this assms(3,5,6), of "sw_readers w"] obtain s1 where
    s1: "for_each entries (scan_entry id_of (sw_readers w)) (scan_start db) = (Inr (), s1)" "scan_ok U id_of s1"
      "\<forall>p. library_view (sn_db s1) p = (case find (\<lambda>e. fe_file_path e = p) entries of
         None \<Rightarrow> library_view db p | Some e \<Rightarrow> scan_view id_of (sw_readers w) e (library_view db p))"
    by (simp only: sn_db_start) blast
  have len: "length (map fe_file_path entries) \<le> mv" using assms(7) by simp
  from purge_missing_view [OF len, of "sn_db s1"] obtain n db1 where
    p: "purge_missing mv (map fe_file_path entries) (sn_db s1) = (Inr n, db1)"
      "\<forall>p. library_view db1 p = (if p \<in> set (map fe_file_path entries) then library_view (sn_db s1) p else None)" by blast
  have "library_wf db1" "hashed U id_of db1"
    using s1(2) keepsD [OF purge_missing_wf, of "sn_db s1" mv "map fe_file_path entries"]
      purge_missing_hashed [of U id_of "sn_db s1" mv "map fe_file_path entries"] by (simp_all add: scan_ok_def p(1))
  then have s2: "scan_ok U id_of (set_removed n (s1\<lparr>sn_db := db1\<rparr>)) \<and> library_view (sn_db (set_removed n (s1\<lparr>sn_db := db1\<rparr>))) = library_view db1"
    by (simp add: scan_ok_def)
  let ?art = "for_each (seen_dirs entries) (set_artwork (sw_listing w))"
  have "keeps (\<lambda>s. scan_ok U id_of s \<and> library_view (sn_db s) = library_view db1) ?art"
    by (rule keeps_for_each) (rule set_artwork_keeps)
  from keepsD [OF this s2] obtain s3 where
    s3: "?art (set_removed n (s1\<lparr>sn_db := db1\<rparr>)) = (Inr (), s3)" "scan_ok U id_of s3" "library_view (sn_db s3) = library_view db1"
    using for_each_total [of "set_artwork (sw_listing w)", OF set_artwork_total] by (metis prod.collapse)
  have "\<exists>res. scan_once id_of mv dir w db = (Inr res, sn_db s3)"
    using s1(1) p(1) s3(1)
    by (simp add: scan_once_def scan_dir_def scan_entries_def entries_def [symmetric] andDo_def andThen_def on_db_def
        modify_def reading_def ret_def)
  moreover have "library_view (sn_db s3) p = (case find (\<lambda>e. fe_file_path e = p) entries of
       None \<Rightarrow> None | Some e \<Rightarrow> scan_view id_of (sw_readers w) e (library_view db p))" for p
    using p(2) s1(3) s3(3) by (auto simp: find_None_iff split: option.split dest!: find_SomeD)
  ultimately show ?thesis using s3(2) by (auto simp: scan_ok_def)
qed

subsection \<open>Consequences\<close>

definition scannable :: "string set \<Rightarrow> nat \<Rightarrow> audio_file_entry list \<Rightarrow> bool" where
  "scannable U mv entries \<longleftrightarrow> list_all (entry_in U) entries \<and> distinct (map fe_file_path entries) \<and> length entries \<le> mv"

text \<open>The row of a file whose tags could be read has the file's time, and then no later scan reads them again.\<close>

definition readable :: "(string \<Rightarrow> string) \<Rightarrow> readers \<Rightarrow> audio_file_entry \<Rightarrow> bool" where
  "readable id_of rd e \<longleftrightarrow> \<not> isl (extract_track id_of rd (fe_file_path e))"

lemma scan_view_mtime: "readable id_of rd e \<Longrightarrow> Option.bind (scan_view id_of rd e row) snd = Some (fe_mtime e)"
  by (auto simp: readable_def scan_view_def isl_def split: sum.split)

lemma scan_view_current: "Option.bind row snd = Some (fe_mtime e) \<Longrightarrow> scan_view id_of rd e row = row"
  by (simp add: scan_view_def)

lemma find_entry: "distinct (map fe_file_path es) \<Longrightarrow> e \<in> set es \<Longrightarrow> find (\<lambda>e'. fe_file_path e' = fe_file_path e) es = Some e"
  by (induction es) auto

text \<open>Over files whose times are the stored ones, a scan writes and counts nothing.\<close>

definition current_entry :: "library_db \<Rightarrow> audio_file_entry \<Rightarrow> bool" where
  "current_entry db e \<longleftrightarrow> get_track_mtime db (fe_file_path e) = Some (fe_mtime e)"

lemma sn_result_simps [simp]: "sn_result (enter_dir e s) = sn_result s" "sn_result (count_scanned s) = sn_result s"
  "sn_result (send_progress p s) = sn_result s"
  by (simp_all add: enter_dir_def count_scanned_def send_progress_def Let_def)

lemma scan_files_current:
  "list_all (current_entry (sn_db s)) es \<Longrightarrow>
    \<exists>s'. for_each es (scan_entry id_of rd) s = (Inr (), s') \<and> sn_db s' = sn_db s \<and> sn_result s' = sn_result s"
proof (induction es arbitrary: s)
  case (Cons e es)
  have "scan_entry id_of rd e s = (Inr (), count_scanned (enter_dir e s))"
    using Cons.prems by (simp add: scan_entry_def current_entry_def andDo_def andThen_def modify_def reading_def ret_def)
  with Cons.IH [of "count_scanned (enter_dir e s)"] Cons.prems show ?case by (simp add: andDo_def andThen_def)
qed (simp add: ret_def)

lemma delete_none: "\<forall>r \<in> set (ld_tracks db). \<not> p r \<Longrightarrow> delete_tracks p db = db"
  by (simp add: delete_tracks_def filter_id_conv [THEN iffD2])

lemma purge_nothing:
  assumes "\<forall>r \<in> set (ld_tracks db). row_path r \<in> set known" "length known \<le> mv"
  shows "purge_missing mv known db = (Inr 0, db)"
proof (cases "known = []")
  case True
  with assms(1) have "ld_tracks db = []" by (cases "ld_tracks db") auto
  with True delete_none [of db "\<lambda>_. True"] show ?thesis by (simp add: purge_missing_def)
next
  case False
  have "\<forall>r \<in> set (ld_tracks db). \<not> tr_file_path (rw_track r) \<notin> set known" using assms(1) by (simp add: row_path_def)
  from delete_none [OF this] this False assms(2) show ?thesis by (simp add: purge_missing_def Let_def)
qed

definition untouched :: "library_db \<Rightarrow> scan_state \<Rightarrow> bool" where
  "untouched db s \<longleftrightarrow> ld_tracks (sn_db s) = ld_tracks db \<and> ld_fts (sn_db s) = ld_fts db \<and> ld_artists (sn_db s) = ld_artists db \<and>
    sn_result s = \<lparr>sc_added = 0, sc_updated = 0, sc_removed = 0\<rparr>"

lemma set_artwork_untouched: "keeps (untouched db) (set_artwork listing dir)"
  by (auto simp: set_artwork_def keeps_def ret_def ignore_err_def on_db_def untouched_def update_album_artwork_def
      modify_def split: option.split)

lemma scan_current:
  fixes w :: scan_world and dir :: string
  defines "entries \<equiv> walk_audio_files dir (sw_tree w)"
  assumes "list_all (current_entry db) entries" "length entries \<le> mv"
    and "\<forall>r \<in> set (ld_tracks db). row_path r \<in> set (map fe_file_path entries)"
  shows "\<exists>db'. scan_once id_of mv dir w db = (Inr \<lparr>sc_added = 0, sc_updated = 0, sc_removed = 0\<rparr>, db') \<and>
    ld_tracks db' = ld_tracks db \<and> ld_fts db' = ld_fts db \<and> ld_artists db' = ld_artists db"
proof -
  have "list_all (current_entry (sn_db (scan_start db))) entries" using assms(2) by (simp add: sn_db_start)
  from scan_files_current [OF this, of id_of "sw_readers w"] obtain s1 where
    s1: "for_each entries (scan_entry id_of (sw_readers w)) (scan_start db) = (Inr (), s1)" "sn_db s1 = db"
      "sn_result s1 = sn_result (scan_start db)" by (auto simp: sn_db_start)
  have purge: "purge_missing mv (map fe_file_path entries) db = (Inr 0, db)"
    using purge_nothing [OF assms(4)] assms(3) by simp
  let ?s2 = "set_removed 0 (s1\<lparr>sn_db := db\<rparr>)"
  let ?art = "for_each (seen_dirs entries) (set_artwork (sw_listing w))"
  have "untouched db ?s2" by (simp add: untouched_def s1(3) scan_start_def set_removed_def)
  moreover have "keeps (untouched db) ?art" by (rule keeps_for_each) (rule set_artwork_untouched)
  ultimately obtain s3 where s3: "?art ?s2 = (Inr (), s3)" "untouched db s3"
    using keepsD for_each_total [of "set_artwork (sw_listing w)", OF set_artwork_total] by (metis prod.collapse)
  have "scan_once id_of mv dir w db = (Inr (sn_result s3), sn_db s3)"
    using s1(1,2) purge s3(1)
    by (simp add: scan_once_def scan_dir_def scan_entries_def entries_def [symmetric] andDo_def andThen_def on_db_def
        modify_def reading_def ret_def)
  with s3(2) show ?thesis by (simp add: untouched_def)
qed

text \<open>
  A second scan of the same directory leaves every row as the first left it; even when the contents of the
  files have changed in between, it reads none of those again that the first could read.
\<close>

lemma scan_again:
  fixes w :: scan_world and dir :: string
  defines "entries \<equiv> walk_audio_files dir (sw_tree w)"
  assumes "library_wf db" "hashed U id_of db" "inj_on id_of U" "scannable U mv entries"
    and "scan_once id_of mv dir w db = (Inr res, db')" "sw_tree w' = sw_tree w"
  shows "\<exists>res' db''. scan_once id_of mv dir w' db' = (Inr res', db'') \<and>
    (\<forall>e \<in> set entries. readable id_of (sw_readers w) e \<longrightarrow>
      library_view db'' (fe_file_path e) = library_view db' (fe_file_path e)) \<and>
    (sw_readers w' = sw_readers w \<longrightarrow> library_view db'' = library_view db') \<and>
    (list_all (readable id_of (sw_readers w)) entries \<longrightarrow>
      res' = \<lparr>sc_added = 0, sc_updated = 0, sc_removed = 0\<rparr> \<and>
      ld_tracks db'' = ld_tracks db' \<and> ld_fts db'' = ld_fts db' \<and> ld_artists db'' = ld_artists db')"
proof -
  have sc: "list_all (entry_in U) entries" "distinct (map fe_file_path entries)" "length entries \<le> mv"
    using assms(5) by (simp_all add: scannable_def)
  have walk: "walk_audio_files dir (sw_tree w') = entries" by (simp add: entries_def assms(7))
  from scan_once_exact [OF assms(2-4) sc [unfolded entries_def]] assms(6) have one: "library_wf db'" "hashed U id_of db'"
    "\<forall>p. library_view db' p = (case find (\<lambda>e. fe_file_path e = p) entries of
       None \<Rightarrow> None | Some e \<Rightarrow> scan_view id_of (sw_readers w) e (library_view db p))" by (auto simp: entries_def)
  from scan_once_exact [OF one(1,2) assms(4), of dir w' mv] sc obtain res' db'' where
    two: "scan_once id_of mv dir w' db' = (Inr res', db'')"
      "\<forall>p. library_view db'' p = (case find (\<lambda>e. fe_file_path e = p) entries of
       None \<Rightarrow> None | Some e \<Rightarrow> scan_view id_of (sw_readers w') e (library_view db' p))" unfolding walk by blast
  have mtime: "Option.bind (library_view db' (fe_file_path e)) snd = Some (fe_mtime e)"
    if "e \<in> set entries" "readable id_of (sw_readers w) e" for e
    using one(3) that by (simp add: find_entry [OF sc(2)] scan_view_mtime)
  have kept: "library_view db'' (fe_file_path e) = library_view db' (fe_file_path e)"
    if "e \<in> set entries" "readable id_of (sw_readers w) e" for e
    using two(2) that by (simp add: find_entry [OF sc(2)] scan_view_current [OF mtime])
  have same: "library_view db'' = library_view db'" if "sw_readers w' = sw_readers w"
    using one(3) two(2) that by (intro ext) (simp add: scan_view_idem split: option.split)
  have no_writes: "res' = \<lparr>sc_added = 0, sc_updated = 0, sc_removed = 0\<rparr> \<and>
      ld_tracks db'' = ld_tracks db' \<and> ld_fts db'' = ld_fts db' \<and> ld_artists db'' = ld_artists db'"
    if "list_all (readable id_of (sw_readers w)) entries"
  proof -
    have "list_all (current_entry db') entries"
      using that mtime by (auto simp: list_all_iff current_entry_def get_track_mtime_view)
    moreover have "row_path r \<in> set (map fe_file_path entries)" if r: "r \<in> set (ld_tracks db')" for r
    proof -
      have "library_view db' (row_path r) \<noteq> None"
        using r by (auto simp: library_view_def track_by_path_def row_path_def find_None_iff)
      with one(3) obtain e where "find (\<lambda>e. fe_file_path e = row_path r) entries = Some e"
        by (metis option.case(1) option.exhaust)
      then have "e \<in> set entries" "fe_file_path e = row_path r" by (auto dest!: find_SomeD)
      then show ?thesis by (metis image_eqI set_map)
    qed
    ultimately show ?thesis using scan_current [of db' dir w' mv id_of] two(1) sc(3) unfolding walk by auto
  qed
  from two(1) kept same no_writes show ?thesis by blast
qed

text \<open>With more files than a statement has variables the scan fails before anything is removed.\<close>

lemma for_each_entries_db:
  assumes "scan_ok U id_of s" "inj_on id_of U" "list_all (entry_in U) es" "distinct (map fe_file_path es)"
  shows "fst (for_each es (scan_entry id_of rd) s) = Inr ()"
  using scan_files_ok [OF assms, of rd] by auto

lemma scan_too_many:
  assumes "library_wf db" "hashed U id_of db" "inj_on id_of U" "list_all (entry_in U) es" "distinct (map fe_file_path es)"
    and "mv < length es" "es = walk_audio_files dir (sw_tree w)"
  shows "fst (scan_once id_of mv dir w db) = Inl ''too many SQL variables''"
proof -
  have "scan_ok U id_of (scan_start db)" using assms(1,2) by (simp add: scan_ok_def sn_db_start)
  from for_each_entries_db [OF this assms(3-5), of "sw_readers w"] obtain s where
    s: "for_each es (scan_entry id_of (sw_readers w)) (scan_start db) = (Inr (), s)" by (metis prod.collapse)
  with assms(6) show ?thesis
    by (auto simp: scan_once_def scan_dir_def scan_entries_def assms(7) [symmetric] andDo_def andThen_def on_db_def
        purge_missing_def split: prod.split)
qed

text \<open>A music directory that cannot be listed, or is not there, empties the library.\<close>

lemma scan_unlisted:
  assumes "sw_tree w = None \<or> sw_tree w = Some (Fs_Dir name None)"
  shows "\<exists>res db'. scan_once id_of mv dir w db = (Inr res, db') \<and> ld_tracks db' = []"
proof -
  have "walk_audio_files dir (sw_tree w) = []" using assms by (auto simp: walk_audio_files_def)
  then show ?thesis
    by (simp add: scan_once_def scan_dir_def scan_entries_def andDo_def andThen_def on_db_def purge_missing_def
        delete_tracks_def modify_def reading_def ret_def seen_dirs_def)
qed

text \<open>What the media endpoint and the restored state look up is the row of the path.\<close>

lemma library_of_view: "get_track_by_path (library_of pick db) p = map_option fst (library_view db p)"
  by (simp add: get_track_by_path_def library_of_def tracks_of_def library_view_def track_by_path_def find_map
      option.map_comp comp_def)

lemma library_of_id:
  assumes "library_wf db" "hashed U id_of db"
  shows "is_known_track_id (library_of pick db) i \<longleftrightarrow> (\<exists>p. library_view db p \<noteq> None \<and> i = id_of p)"
proof -
  have "is_known_track_id (library_of pick db) i \<longleftrightarrow> (\<exists>r \<in> set (ld_tracks db). row_id r = i)"
    by (auto simp: is_known_track_id_def get_track_by_id_def library_of_def tracks_of_def find_None_iff row_id_def)
  also have "\<dots> \<longleftrightarrow> (\<exists>r \<in> set (ld_tracks db). i = id_of (row_path r))"
    using assms(2) by (auto simp: hashed_def)
  also have "\<dots> \<longleftrightarrow> (\<exists>p. library_view db p \<noteq> None \<and> i = id_of p)"
    by (auto simp: library_view_def track_by_path_def row_path_def find_None_iff dest: find_SomeD)
  finally show ?thesis .
qed

lemma on_db_wf: "keeps library_wf m \<Longrightarrow> keeps (\<lambda>s. library_wf (sn_db s)) (on_db m)"
  by (simp add: keeps_def on_db_def split_beta)

lemma scan_once_wf: "keeps library_wf (scan_once id_of mv dir w)"
proof -
  have mod: "keeps (\<lambda>s. library_wf (sn_db s)) (modify f)" if "\<And>s. sn_db (f s) = sn_db s" for f
    using that by (simp add: keeps_def modify_def)
  have "keeps (\<lambda>s. library_wf (sn_db s)) (scan_dir id_of mv dir w)"
    unfolding scan_dir_def scan_entries_def scan_entry_def set_artwork_def
    by (auto intro!: keeps_intros on_db_wf mod upsert_track_wf purge_missing_wf update_album_artwork_wf simp: Let_def
        split: option.split)
  then show ?thesis by (simp add: keeps_def scan_once_def split_beta sn_db_start)
qed

lemma background_scan_wf:
  assumes "library_wf db"
  shows "library_wf (background_scan_loop id_of mv dir first later db)"
proof -
  have "library_wf (fold (\<lambda>w db. snd (scan_once id_of mv dir w db)) ws db)" for ws
    using assms
  proof (induction ws arbitrary: db)
    case (Cons w ws)
    show ?case using Cons.IH [OF keepsD [OF scan_once_wf Cons.prems]] by simp
  qed simp
  then show ?thesis unfolding background_scan_loop_def by blast
qed

end
