(* ===== verification/Artwork.thy ===== *)
theory Artwork
  imports Library
begin

text \<open>
  Artwork of an album (\<open>kanade-adapter-ws/src/server.rs\<close>): the file the scanner found, or the picture
  inside the first track, which the lofty crate reads except for DSF files, whose ID3 tag is parsed
  here byte by byte. A result \<open>None\<close> of a parser stands for a panic, \<open>Some None\<close> for no picture.
  Parameters: the pictures lofty finds, and its canonical name of a MIME type.
\<close>

unbundle bit_operations_syntax

subsection \<open>Pictures\<close>

record picture =
  pc_type :: u8
  pc_mime :: "string option"
  pc_data :: "u8 list"

definition cover_front :: u8 where
  "cover_front = 3"

subsection \<open>The picture frame of an ID3 tag\<close>

definition string_of :: "u8 list \<Rightarrow> string" where
  "string_of bs = map (\<lambda>b. chr (unat b)) bs"

text \<open>\<open>memchr(0, _)\<close>: what stands before and after the first zero byte.\<close>

fun split_nul :: "u8 list \<Rightarrow> (u8 list \<times> u8 list) option" where
  "split_nul [] = None"
| "split_nul (b # bs) = (if b = 0 then Some ([], bs) else map_option (map_prod (Cons b) id) (split_nul bs))"

definition parse_apic_data :: "(string \<Rightarrow> string) \<Rightarrow> u8 list \<Rightarrow> u8 \<Rightarrow> picture option option" where
  "parse_apic_data canonical data version =
    (case data of
       [] \<Rightarrow> Some None
     | encoding # data \<Rightarrow>
         (case split_nul data of
            None \<Rightarrow> Some None
          | Some (mime, data) \<Rightarrow>
              if \<not> utf8_valid (string_of mime) then Some None
              else (case data of
                [] \<Rightarrow> None
              | pic_type # data \<Rightarrow>
                  (case split_nul data of
                     None \<Rightarrow> Some None
                   | Some (desc, data) \<Rightarrow>
                       let pic_data = (if (version = 1 \<or> version = 2) \<and> data \<noteq> [] then tl data else data)
                       in if pic_data = [] then Some None
                          else Some (Some \<lparr>pc_type = pic_type, pc_mime = Some (canonical (string_of mime)), pc_data = pic_data\<rparr>)))))"

text \<open>Four size bytes, seven bits each in version 4 and eight bits each in the others.\<close>

definition id3_size :: "u8 \<Rightarrow> u8 list \<Rightarrow> nat" where
  "id3_size version bs =
    (let s = (if version = 4 then 7 else 8); w = (\<lambda>k. ucast (bs ! k) :: u64)
     in unat (push_bit (3 * s) (w 0) OR push_bit (2 * s) (w 1) OR push_bit s (w 2) OR w 3))"

definition frame_skip :: "u8 \<Rightarrow> u8 list \<Rightarrow> nat" where
  "frame_skip version frame =
    10 + id3_size version (take 4 (drop 4 frame)) + (if version = 4 \<and> bit (frame ! 9) 0 then 4 else 0)"

function find_apic_frame :: "(string \<Rightarrow> string) \<Rightarrow> u8 list \<Rightarrow> u8 \<Rightarrow> picture option option" where
  "find_apic_frame canonical data version =
    (if length data < 10 then Some None
     else
       let frame_id = take 4 data; frame_size = id3_size version (take 4 (drop 4 data))
       in if frame_id = [0, 0, 0, 0] then Some None
          else if length data < 10 + frame_size then Some None
          else if \<not> utf8_valid (string_of frame_id) then Some None
          else if string_of frame_id = ''APIC'' then parse_apic_data canonical (take frame_size (drop 10 data)) version
          else find_apic_frame canonical (drop (frame_skip version data) data) version)"
  by pat_completeness auto
termination
  by (relation "measure (\<lambda>(canonical, data, version). length data)") (auto simp: frame_skip_def)

declare find_apic_frame.simps [simp del]

definition parse_id3v2_apic :: "(string \<Rightarrow> string) \<Rightarrow> u8 list \<Rightarrow> picture option option" where
  "parse_id3v2_apic canonical data =
    (if length data < 10 \<or> string_of (take 3 data) \<noteq> ''ID3'' then Some None
     else
       let version = data ! 3; flags = data ! 5; size = id3_size version (take 4 (drop 6 data));
           has_footer = (version = 4 \<and> bit flags 4);
           total_size = 10 + size + (if has_footer then 10 else 0)
       in if length data < total_size then Some None
          else find_apic_frame canonical (take size (drop 10 data)) version)"

text \<open>The offset of the tag is a little-endian number at byte 20 of a DSF file.\<close>

definition le_u64 :: "u8 list \<Rightarrow> nat" where
  "le_u64 bs = foldr (\<lambda>b n. unat b + 256 * n) bs 0"

definition extract_dsf_picture :: "(string \<Rightarrow> string) \<Rightarrow> file_system \<Rightarrow> string \<Rightarrow> picture option option" where
  "extract_dsf_picture canonical fs path =
    (case fs path of
       None \<Rightarrow> Some None
     | Some bytes \<Rightarrow>
         if length bytes < 28 then Some None
         else
           let tag = drop (le_u64 (take 8 (drop 20 bytes))) bytes
           in if length tag < 3 \<or> string_of (take 3 tag) \<noteq> ''ID3'' then Some None
              else parse_id3v2_apic canonical tag)"

text \<open>A picture of the front cover is preferred to the first one.\<close>

definition extract_embedded_picture ::
  "(string \<Rightarrow> string) \<Rightarrow> (string \<Rightarrow> picture list option) \<Rightarrow> file_system \<Rightarrow> string \<Rightarrow> picture option option" where
  "extract_embedded_picture canonical lofty fs path =
    (if suffix ''.dsf'' (map fold_case path) then extract_dsf_picture canonical fs path
     else case lofty path of
       None \<Rightarrow> Some None
     | Some ps \<Rightarrow> Some (case find (\<lambda>p. pc_type p = cover_front) ps of
         Some p \<Rightarrow> Some p | None \<Rightarrow> (case ps of [] \<Rightarrow> None | p # _ \<Rightarrow> Some p)))"

subsection \<open>The handler\<close>

datatype art_result = Art_FilePath string | Art_Embedded string "u8 list"

definition find_artwork ::
  "(string \<Rightarrow> string) \<Rightarrow> (string \<Rightarrow> picture list option) \<Rightarrow> file_system \<Rightarrow> (string \<Rightarrow> bool) \<Rightarrow> library_db \<Rightarrow> string
    \<Rightarrow> (string + art_result) option" where
  "find_artwork canonical lofty fs path_exists db album_id =
    (let embedded = (case get_tracks_by_album_id db album_id of
           [] \<Rightarrow> Some (Inl ''no artwork found'')
         | t # _ \<Rightarrow> map_option (\<lambda>p. case p of
             None \<Rightarrow> Inl ''no artwork found''
           | Some p \<Rightarrow> Inr (Art_Embedded (case pc_mime p of Some m \<Rightarrow> m | None \<Rightarrow> ''image/jpeg'') (pc_data p)))
             (extract_embedded_picture canonical lofty fs (tr_file_path t)))
     in case get_album_artwork_path db album_id of
          Some path \<Rightarrow> if path_exists path then Some (Inr (Art_FilePath path)) else embedded
        | None \<Rightarrow> embedded)"

text \<open>A panic inside the blocking task is a join error.\<close>

definition media_art_handler ::
  "mac \<Rightarrow> (nat \<Rightarrow> nat) \<Rightarrow> (string \<Rightarrow> string) \<Rightarrow> (string \<Rightarrow> picture list option) \<Rightarrow> file_system \<Rightarrow> (string \<Rightarrow> bool)
    \<Rightarrow> library_db \<Rightarrow> key_store \<Rightarrow> nat \<Rightarrow> string \<Rightarrow> string \<Rightarrow> media_auth_query \<Rightarrow> bool \<Rightarrow> response" where
  "media_art_handler hmac got canonical lofty fs path_exists db ks now uri_path album_id q is_head =
    (if \<not> verify_media_auth hmac ks now uri_path q then body_response 403 []
     else case find_artwork canonical lofty fs path_exists db album_id of
       None \<Rightarrow> simple_response 500 ''db error''
     | Some (Inl _) \<Rightarrow> simple_response 404 ''Artwork Not Found''
     | Some (Inr (Art_FilePath p)) \<Rightarrow>
         serve_path_with_range got fs is_head p (content_type_for_path p) None (Some ''public, max-age=86400'')
     | Some (Inr (Art_Embedded mime data)) \<Rightarrow> bytes_response 200 is_head mime (Some ''public, max-age=86400'') data)"

end
