(* ===== verification/Artwork_Facts.thy ===== *)
theory Artwork_Facts
  imports Artwork
begin

text \<open>
  Which pictures the ID3 parser finds: the one of an ID3v2.4 tag written by the standard, whatever frames
  stand before it; never one of an ID3v2.3 tag of 128 bytes or more at the end of a file, whose size is
  read with eight bits a byte; and exactly which frames make it panic.
\<close>

unbundle bit_operations_syntax

subsection \<open>Sizes\<close>

lemma byte_bit:
  assumes "s \<le> 8" 
  shows "bit (push_bit k (ucast (word_of_nat (take_bit s (drop_bit k n)) :: u8) :: u64)) i \<longleftrightarrow> i < 64 \<and> k \<le> i \<and> i < k + s \<and> bit n i"
proof (cases "k \<le> i")
  case True
  then obtain j where i: "i = k + j" using le_Suc_ex by blast
  show ?thesis using assms unfolding i
    by (auto simp: bit_push_bit_iff bit_ucast_iff bit_of_nat_iff bit_take_bit_iff bit_drop_bit_eq)
qed (simp add: bit_push_bit_iff)

lemma high: "n < 2 ^ k \<Longrightarrow> bit (n::nat) i \<Longrightarrow> i < k"
  by (metis bit_take_bit_iff take_bit_nat_eq_self)

lemma or4:
  assumes "s \<le> 8" "0 < s" "n < 2 ^ (4 * s)"
  defines "b \<equiv> \<lambda>k. ucast (word_of_nat (take_bit s (drop_bit (k * s) n)) :: u8) :: u64"
  shows "push_bit (3 * s) (b 3) OR push_bit (2 * s) (b 2) OR push_bit s (b 1) OR b 0 = word_of_nat n"
proof (rule bit_word_eqI)
  fix i assume i: "i < LENGTH(64)"
  have 0: "bit (b 0) i = (i < s \<and> bit n i)" using byte_bit [OF assms(1), of 0 n i] i by (simp add: b_def)
  have 1: "bit (push_bit s (b 1)) i = (s \<le> i \<and> i < s + s \<and> bit n i)" using byte_bit [OF assms(1), of s n i] i by (simp add: b_def)
  have 2: "bit (push_bit (2 * s) (b 2)) i = (2 * s \<le> i \<and> i < 2 * s + s \<and> bit n i)" using byte_bit [OF assms(1), of "2 * s" n i] i by (simp add: b_def)
  have 3: "bit (push_bit (3 * s) (b 3)) i = (3 * s \<le> i \<and> i < 3 * s + s \<and> bit n i)" using byte_bit [OF assms(1), of "3 * s" n i] i by (simp add: b_def)
  have h: "bit n i \<Longrightarrow> i < 4 * s" by (rule high [OF assms(3)])
  have "bit (push_bit (3 * s) (b 3) OR push_bit (2 * s) (b 2) OR push_bit s (b 1) OR b 0) i \<longleftrightarrow> bit n i"
    unfolding bit_or_iff 0 1 2 3 using h by linarith
  then show "bit (push_bit (3 * s) (b 3) OR push_bit (2 * s) (b 2) OR push_bit s (b 1) OR b 0) i = bit (word_of_nat n :: u64) i"
    using i by (simp add: bit_of_nat_iff)
qed
definition size_bytes :: "nat \<Rightarrow> nat \<Rightarrow> u8 list" where
  "size_bytes s n = map (\<lambda>k. word_of_nat (take_bit s (drop_bit (k * s) n))) [3, 2, 1, 0]"

lemma length_size_bytes [simp]: "length (size_bytes s n) = 4"
  by (simp add: size_bytes_def)

text \<open>A size written as it is read comes back; seven bits a byte is the form of the standard.\<close>

lemma size_bytes_read:
  assumes "s = (if version = 4 then 7 else 8)" "n < 2 ^ (4 * s)"
  shows "id3_size version (size_bytes s n) = n"
proof -
  have "id3_size version (size_bytes s n) = unat (word_of_nat n :: u64)"
    using or4 [of s n] assms by (simp add: id3_size_def size_bytes_def Let_def)
  also have "\<dots> = n"
  proof -
    have "n < 2 ^ 64" using assms by (rule_tac less_le_trans [of n "2 ^ (4 * s)"]) (auto intro: power_increasing)
    then show ?thesis by (simp add: unsigned_of_nat take_bit_nat_eq_self)
  qed
  finally show ?thesis .
qed

text \<open>Read with eight bits a byte, a size of 128 or more in the standard's form is too large.\<close>

lemma size_bytes_misread:
  assumes "128 \<le> n" "n < 2 ^ 28" "version \<noteq> 4"
  shows "n < id3_size version (size_bytes 7 n)"
proof -
  define a where "a = n div 2 ^ 21 mod 128"
  define b where "b = n div 2 ^ 14 mod 128"
  define c where "c = n div 2 ^ 7 mod 128"
  define d where "d = n mod 128"
  let ?m = "((a * 256 + b) * 256 + c) * 256 + d"
  have lt: "a < 128" "b < 128" "c < 128" "d < 128" by (simp_all add: a_def b_def c_def d_def)
  have n: "n = a * 2097152 + b * 16384 + c * 128 + d"
  proof -
    have "n div 2 ^ 14 = n div 128 div 128" "n div 2 ^ 21 = n div 128 div 128 div 128" by (simp_all add: div_mult2_eq [symmetric])
    moreover have "n div 128 div 128 div 128 < 128" using assms(2) by (simp add: div_mult2_eq [symmetric])
    ultimately have "a = n div 128 div 128 div 128" "b = n div 128 div 128 mod 128" "c = n div 128 mod 128"
      by (simp_all add: a_def b_def c_def)
    moreover have "k = 128 * (k div 128) + k mod 128" for k :: nat by simp
    note this [of n] this [of "n div 128"] this [of "n div 128 div 128"]
    ultimately show "n = a * 2097152 + b * 16384 + c * 128 + d" unfolding d_def by linarith
  qed
  have split: "(x * 256 + y) div 256 = x" "(x * 256 + y) mod 256 = y" if "y < 128" for x y :: nat using that by simp_all
  have powers: "(2 :: nat) ^ 8 = 256" "(2 :: nat) ^ 16 = 256 * 256" "(2 :: nat) ^ 24 = 256 * 256 * 256" by simp_all
  have "a mod 256 = a" using lt by simp
  then have "?m div 2 ^ 24 mod 256 = a" "?m div 2 ^ 16 mod 256 = b" "?m div 2 ^ 8 mod 256 = c" "?m mod 256 = d"
    by (simp_all only: powers div_mult2_eq split [OF lt(4)] split [OF lt(3)] split [OF lt(2)])
  then have "size_bytes 8 ?m = map word_of_nat [a, b, c, d]"
    by (simp add: size_bytes_def take_bit_eq_mod drop_bit_eq_div)
  moreover have "size_bytes 7 n = map word_of_nat [a, b, c, d]"
    by (simp add: size_bytes_def take_bit_eq_mod drop_bit_eq_div a_def b_def c_def d_def)
  moreover have "?m < 2 ^ 32" using lt by simp
  then have "id3_size version (size_bytes 8 ?m) = ?m" using assms(3) by (intro size_bytes_read) simp_all
  moreover have "0 < a \<or> 0 < b \<or> 0 < c" using assms(1) lt(4) unfolding n by (cases "a = 0 \<and> b = 0 \<and> c = 0") auto
  then have "n < ?m" unfolding n by auto
  ultimately show ?thesis by simp
qed

subsection \<open>Tags and frames\<close>

definition ascii :: "string \<Rightarrow> u8 list" where
  "ascii s = map (\<lambda>c. word_of_nat (byte_of c)) s"

definition frame_bytes :: "string \<Rightarrow> u8 list \<Rightarrow> u8 list" where
  "frame_bytes name body = ascii name @ size_bytes 7 (length body) @ [0, 0] @ body"

definition apic_body :: "u8 \<Rightarrow> u8 list \<Rightarrow> u8 \<Rightarrow> u8 list \<Rightarrow> u8 list \<Rightarrow> u8 list" where
  "apic_body enc mime pic_type desc pic = enc # mime @ 0 # pic_type # desc @ 0 # pic"

definition tag_bytes :: "u8 \<Rightarrow> u8 list \<Rightarrow> u8 list" where
  "tag_bytes version frames = ascii ''ID3'' @ [version, 0, 0] @ size_bytes 7 (length frames) @ frames"

lemma length_frame_bytes: "length (frame_bytes name body) = length name + 6 + length body"
  by (simp add: frame_bytes_def ascii_def)

lemma length_apic_body: "length (apic_body enc mime pic_type desc pic) = length mime + length desc + length pic + 4"
  by (simp add: apic_body_def)

text \<open>A frame of some other kind that can stand before the picture.\<close>

definition other_frame :: "string \<times> u8 list \<Rightarrow> bool" where
  "other_frame f \<longleftrightarrow> length (fst f) = 4 \<and> utf8_valid (fst f) \<and> fst f \<noteq> ''APIC'' \<and> ascii (fst f) \<noteq> [0, 0, 0, 0] \<and>
    length (snd f) < 2 ^ 28"

lemma string_of_ascii [simp]: "string_of (ascii s) = s"
proof -
  have "chr (unat (word_of_nat (byte_of c) :: u8)) = c" for c
    using byte_of_less [of c] by (simp add: unsigned_of_nat take_bit_nat_eq_self)
  then show ?thesis by (induction s) (simp_all add: string_of_def ascii_def)
qed

lemma length_ascii [simp]: "length (ascii s) = length s"
  by (simp add: ascii_def)

lemma split_nul_append: "0 \<notin> set xs \<Longrightarrow> split_nul (xs @ 0 # ys) = Some (xs, ys)"
  by (induction xs) auto

lemma apic_body_read:
  assumes "0 \<notin> set mime" "0 \<notin> set desc" "pic \<noteq> []" "utf8_valid (string_of mime)" "version = 3 \<or> version = 4"
  shows "parse_apic_data canonical (apic_body enc mime pic_type desc pic) version =
    Some (Some \<lparr>pc_type = pic_type, pc_mime = Some (canonical (string_of mime)), pc_data = pic\<rparr>)"
  using assms by (auto simp: parse_apic_data_def apic_body_def split_nul_append Let_def)

lemma frame_fields:
  assumes "length name = 4" "length body < 2 ^ 28"
  shows "take 4 (frame_bytes name body @ rest) = ascii name"
    and "id3_size 4 (take 4 (drop 4 (frame_bytes name body @ rest))) = length body"
    and "drop 10 (frame_bytes name body @ rest) = body @ rest"
    and "frame_skip 4 (frame_bytes name body @ rest) = 10 + length body"
    and "10 + length body \<le> length (frame_bytes name body @ rest)"
proof -
  have size: "take 4 (drop 4 (frame_bytes name body @ rest)) = size_bytes 7 (length body)"
    using assms(1) by (simp add: frame_bytes_def)
  show "take 4 (frame_bytes name body @ rest) = ascii name" using assms(1) by (simp add: frame_bytes_def)
  show "id3_size 4 (take 4 (drop 4 (frame_bytes name body @ rest))) = length body"
    unfolding size using assms(2) by (intro size_bytes_read) simp_all
  then show "frame_skip 4 (frame_bytes name body @ rest) = 10 + length body"
    using assms(1) by (simp add: frame_skip_def) (simp add: frame_bytes_def nth_append)
  show "drop 10 (frame_bytes name body @ rest) = body @ rest" using assms(1) by (simp add: frame_bytes_def)
  show "10 + length body \<le> length (frame_bytes name body @ rest)" using assms(1) by (simp add: frame_bytes_def)
qed

lemma skip_other_frame:
  assumes "other_frame f"
  shows "find_apic_frame canonical (frame_bytes (fst f) (snd f) @ rest) 4 = find_apic_frame canonical rest 4"
proof -
  have f: "length (fst f) = 4" "length (snd f) < 2 ^ 28" using assms by (simp_all add: other_frame_def)
  note fields = frame_fields [OF f, of rest]
  have "drop (10 + length (snd f)) (frame_bytes (fst f) (snd f) @ rest) =
      drop (length (snd f)) (drop 10 (frame_bytes (fst f) (snd f) @ rest))"
    by (simp only: drop_drop add.commute)
  also have "\<dots> = rest" unfolding fields(3) by simp
  finally have "drop (10 + length (snd f)) (frame_bytes (fst f) (snd f) @ rest) = rest" .
  then show ?thesis
    using assms fields by (subst find_apic_frame.simps) (simp add: Let_def other_frame_def not_less)
qed

lemma find_picture:
  assumes "\<forall>f \<in> set fs. other_frame f" "length body < 2 ^ 28"
  shows "find_apic_frame canonical (concat (map (\<lambda>f. frame_bytes (fst f) (snd f)) fs) @ frame_bytes ''APIC'' body @ rest) 4 =
    parse_apic_data canonical body 4"
  using assms(1)
proof (induction fs)
  case Nil
  have l: "length ''APIC'' = 4" by simp
  note fields = frame_fields [OF l assms(2), of rest]
  have "utf8_valid ''APIC''" by (simp add: byte_of_def)
  moreover have "ascii ''APIC'' \<noteq> [0, 0, 0, 0]" by (simp add: ascii_def byte_of_def)
  moreover have "take (length body) (body @ rest) = body" by simp
  ultimately show ?case using fields
    by (simp add: find_apic_frame.simps [of _ "frame_bytes ''APIC'' body @ rest"] Let_def not_less
        del: utf8_valid.simps take_append drop_append)
next
  case (Cons f fs)
  then show ?case
    using skip_other_frame [of f canonical "concat (map (\<lambda>f. frame_bytes (fst f) (snd f)) fs) @ frame_bytes ''APIC'' body @ rest"]
    by simp
qed

lemma tag_fields:
  "string_of (take 3 (tag_bytes version frames @ rest)) = ''ID3''" "(tag_bytes version frames @ rest) ! 3 = version"
  "(tag_bytes version frames @ rest) ! 5 = 0" "take 4 (drop 6 (tag_bytes version frames @ rest)) = size_bytes 7 (length frames)"
  "drop 10 (tag_bytes version frames @ rest) = frames @ rest" "length (tag_bytes version frames) = 10 + length frames"
  by (simp_all add: tag_bytes_def nth_append)

text \<open>The picture of a tag of version 4 is found, whatever other frames stand before it and after.\<close>

lemma v4_picture_found:
  assumes "\<forall>f \<in> set fs. other_frame f" "0 \<notin> set mime" "0 \<notin> set desc" "pic \<noteq> []" "utf8_valid (string_of mime)"
    and "length (concat (map (\<lambda>f. frame_bytes (fst f) (snd f)) fs) @ frame_bytes ''APIC'' (apic_body enc mime pic_type desc pic) @ rest) < 2 ^ 28"
  shows "parse_id3v2_apic canonical (tag_bytes 4 (concat (map (\<lambda>f. frame_bytes (fst f) (snd f)) fs) @
      frame_bytes ''APIC'' (apic_body enc mime pic_type desc pic) @ rest) @ after) =
    Some (Some \<lparr>pc_type = pic_type, pc_mime = Some (canonical (string_of mime)), pc_data = pic\<rparr>)"
proof -
  let ?b = "apic_body enc mime pic_type desc pic"
  let ?f = "concat (map (\<lambda>f. frame_bytes (fst f) (snd f)) fs) @ frame_bytes ''APIC'' ?b @ rest"
  have size: "id3_size 4 (size_bytes 7 (length ?f)) = length ?f" using assms(6) by (intro size_bytes_read) simp_all
  have "length ?b < 2 ^ 28" using assms(6) by (simp add: frame_bytes_def)
  then have "find_apic_frame canonical ?f 4 =
      Some (Some \<lparr>pc_type = pic_type, pc_mime = Some (canonical (string_of mime)), pc_data = pic\<rparr>)"
    using find_picture [OF assms(1), of ?b canonical rest] apic_body_read [OF assms(2-5), of 4] by simp
  then show ?thesis unfolding parse_id3v2_apic_def Let_def tag_fields(1-5) size by (simp add: tag_fields(6))
qed

text \<open>A tag of version 3 that ends its file is not read when it is 128 bytes long or longer.\<close>

lemma v3_tag_unread:
  assumes "128 \<le> length frames" "length frames < 2 ^ 28"
  shows "parse_id3v2_apic canonical (tag_bytes 3 frames) = Some None"
  using size_bytes_misread [OF assms, of 3] tag_fields(1-5) [of 3 frames "[]"]
  by (simp add: parse_id3v2_apic_def Let_def tag_fields(6))

text \<open>The frames that make the parser panic: those that end right after the MIME type.\<close>

lemma split_nul_Some: "split_nul xs = Some (a, b) \<longleftrightarrow> xs = a @ 0 # b \<and> 0 \<notin> set a"
proof (induction xs arbitrary: a)
  case (Cons x xs)
  show ?case
  proof (cases "x = 0")
    case True
    then show ?thesis by (cases a) auto
  next
    case False
    have "split_nul (x # xs) = Some (a, b) \<longleftrightarrow> (\<exists>a'. a = x # a' \<and> split_nul xs = Some (a', b))"
      using False by (auto simp: map_prod_def)
    also have "\<dots> \<longleftrightarrow> x # xs = a @ 0 # b \<and> 0 \<notin> set a" using False by (cases a) (auto simp: Cons.IH)
    finally show ?thesis .
  qed
qed simp

lemma apic_panics:
  "parse_apic_data canonical data version = None \<longleftrightarrow>
    (\<exists>enc mime. data = enc # mime @ [0] \<and> 0 \<notin> set mime \<and> utf8_valid (string_of mime))"
proof (cases data)
  case (Cons enc xs)
  have "parse_apic_data canonical data version = None \<longleftrightarrow>
      (\<exists>mime. split_nul xs = Some (mime, []) \<and> utf8_valid (string_of mime))"
  proof (cases "split_nul xs")
    case (Some p)
    obtain mime ys where p: "p = (mime, ys)" by (cases p)
    show ?thesis
    proof (cases ys)
      case (Cons t zs)
      then have "parse_apic_data canonical data version \<noteq> None"
        by (simp add: parse_apic_data_def \<open>data = enc # xs\<close> Some p Let_def split: option.split prod.split)
      with Some p Cons show ?thesis by simp
    qed (simp add: parse_apic_data_def \<open>data = enc # xs\<close> Some p)
  qed (simp add: parse_apic_data_def Cons)
  also have "\<dots> \<longleftrightarrow> (\<exists>enc' mime. data = enc' # mime @ [0] \<and> 0 \<notin> set mime \<and> utf8_valid (string_of mime))"
    by (auto simp: split_nul_Some Cons)
  finally show ?thesis .
qed (simp add: parse_apic_data_def)

end
