(* ===== verification/Schema.thy ===== *)
theory Schema
  imports Prelude
begin

text \<open>
  The schema of the database and its migrations (\<open>kanade-db/src/schema.rs\<close>): a database is the columns
  of its tables and its version. A batch runs its statements in order and stops at the first that
  fails; the statements before it stay. Of an index only the column it needs matters, and of the
  triggers and the data statements nothing but that they do not fail.
\<close>

datatype sql =
    Create_Table string "string list"
  | Create_Index string string
  | Add_Column string string
  | Clear_Column string string
  | Other_Statement

record schema_db =
  sd_tables :: "(string \<times> string list) list"
  sd_version :: int

definition has_column :: "string \<Rightarrow> string \<Rightarrow> schema_db \<Rightarrow> bool" where
  "has_column t c db \<longleftrightarrow> (case map_of (sd_tables db) t of None \<Rightarrow> False | Some cs \<Rightarrow> c \<in> set cs)"

text \<open>Creating a table or an index that exists does nothing; adding a column that exists is an error.\<close>

fun execute_sql :: "sql \<Rightarrow> schema_db \<Rightarrow> (string + unit) \<times> schema_db" where
  "execute_sql (Create_Table t cs) db =
    (Inr (), if map_of (sd_tables db) t = None then db\<lparr>sd_tables := sd_tables db @ [(t, cs)]\<rparr> else db)"
| "execute_sql (Create_Index t c) db = (if has_column t c db then Inr () else Inl ''no such column'', db)"
| "execute_sql (Clear_Column t c) db = (if has_column t c db then Inr () else Inl ''no such column'', db)"
| "execute_sql (Add_Column t c) db =
    (if map_of (sd_tables db) t = None then (Inl ''no such table'', db)
     else if has_column t c db then (Inl ''duplicate column name'', db)
     else (Inr (), db\<lparr>sd_tables := map (\<lambda>(u, cs). if u = t then (u, cs @ [c]) else (u, cs)) (sd_tables db)\<rparr>))"
| "execute_sql Other_Statement db = (Inr (), db)"

fun execute_batch :: "sql list \<Rightarrow> schema_db \<Rightarrow> (string + unit) \<times> schema_db" where
  "execute_batch [] db = (Inr (), db)"
| "execute_batch (q # qs) db =
    (case execute_sql q db of (Inl e, db) \<Rightarrow> (Inl e, db) | (Inr _, db) \<Rightarrow> execute_batch qs db)"

definition schema_sql :: "sql list" where
  "schema_sql =
    [Other_Statement, Other_Statement,
     Create_Table ''artists'' [''id'', ''name''],
     Create_Table ''albums'' [''id'', ''dir_path'', ''title'', ''artwork_path''],
     Create_Table ''tracks'' [''file_path'', ''id'', ''album_id'', ''title'', ''track_number'', ''disc_number'', ''duration_secs'',
       ''format'', ''sample_rate'', ''artist'', ''album_artist'', ''album_title'', ''composer'', ''genre'', ''mtime''],
     Create_Index ''tracks'' ''album_id'', Create_Index ''tracks'' ''artist'', Create_Index ''tracks'' ''mtime'',
     Create_Table ''tracks_fts'' [''track_id'', ''title'', ''album'', ''artist'', ''album_artist'', ''composer'', ''genre''],
     Other_Statement, Other_Statement, Other_Statement]"

definition migrations :: "(int \<times> sql list) list" where
  "migrations =
    [(1, [Add_Column ''tracks'' ''mtime'']),
     (2, [Add_Column ''tracks'' ''genre'', Clear_Column ''tracks'' ''mtime'']),
     (3, [Add_Column ''tracks'' ''album_artist'', Clear_Column ''tracks'' ''mtime'']),
     (4, [Add_Column ''albums'' ''artwork_path'', Clear_Column ''tracks'' ''mtime'']),
     (5, [Add_Column ''tracks'' ''disc_number'', Clear_Column ''tracks'' ''mtime'']),
     (6, [Create_Table ''playback_state'' [''node_id'', ''queue'', ''current_index'', ''volume'', ''shuffle'', ''repeat'', ''updated_at'']]),
     (7, [Add_Column ''playback_state'' ''active_output_id'', Clear_Column ''playback_state'' ''active_output_id'']),
     (8, [Create_Table ''playlists'' [''id'', ''name'', ''description'', ''kind'', ''smart_filter'', ''created_at'', ''updated_at''],
          Create_Table ''playlist_tracks'' [''playlist_id'', ''position'', ''track_id''],
          Create_Index ''playlist_tracks'' ''track_id'', Create_Index ''playlists'' ''name'']),
     (9, [Add_Column ''playback_state'' ''node_type'', Add_Column ''playback_state'' ''device_id'',
          Add_Column ''playback_state'' ''disconnected_at''])]"

definition schema_version :: int where
  "schema_version = 9"

text \<open>The version is read once; a migration that fails is recorded like one that succeeds.\<close>

definition apply_migration :: "int \<Rightarrow> int \<times> sql list \<Rightarrow> schema_db \<Rightarrow> schema_db" where
  "apply_migration current m db =
    (if fst m \<le> current then db else (snd (execute_batch (snd m) db))\<lparr>sd_version := fst m\<rparr>)"

definition apply_migrations :: "schema_db \<Rightarrow> schema_db" where
  "apply_migrations db = fold (apply_migration (sd_version db)) migrations db"

definition apply_schema :: "schema_db \<Rightarrow> (string + unit) \<times> schema_db" where
  "apply_schema db =
    (case execute_batch schema_sql db of (Inl e, db) \<Rightarrow> (Inl e, db) | (Inr _, db) \<Rightarrow> (Inr (), apply_migrations db))"

subsection \<open>What migrating guarantees\<close>

definition new_file :: schema_db where
  "new_file = \<lparr>sd_tables = [], sd_version = 0\<rparr>"

text \<open>The columns the statements of the program name.\<close>

definition required_columns :: "(string \<times> string) list" where
  "required_columns = concat (map (\<lambda>(t, cs). map (Pair t) cs)
    [(''artists'', [''id'', ''name'']), (''albums'', [''id'', ''dir_path'', ''title'', ''artwork_path'']),
     (''tracks'', [''file_path'', ''id'', ''album_id'', ''title'', ''track_number'', ''disc_number'', ''duration_secs'', ''format'',
        ''sample_rate'', ''artist'', ''album_artist'', ''album_title'', ''composer'', ''genre'', ''mtime'']),
     (''playback_state'', [''node_id'', ''queue'', ''current_index'', ''active_output_id'', ''volume'', ''shuffle'', ''repeat'',
        ''node_type'', ''device_id'', ''disconnected_at'', ''updated_at'']),
     (''playlists'', [''id'', ''name'', ''description'', ''kind'', ''smart_filter'', ''created_at'', ''updated_at'']),
     (''playlist_tracks'', [''playlist_id'', ''position'', ''track_id''])])"

definition up_to_date :: "schema_db \<Rightarrow> bool" where
  "up_to_date db \<longleftrightarrow> sd_version db = schema_version \<and> list_all (\<lambda>(t, c). has_column t c db) required_columns"

text \<open>Columns and tables are never lost, and every column a batch that succeeds adds is there.\<close>

lemma execute_sql_keeps: "has_column t c db \<Longrightarrow> has_column t c (snd (execute_sql q db))"
proof (cases q)
  case (Create_Table u cs)
  then show "has_column t c db \<Longrightarrow> ?thesis" by (auto simp: has_column_def map_add_def split: option.splits)
next
  case (Add_Column u d)
  have "map_of (map (\<lambda>(v, cs). if v = u then (v, cs @ [d]) else (v, cs)) xs) t =
      map_option (\<lambda>cs. if t = u then cs @ [d] else cs) (map_of xs t)" for xs :: "(string \<times> string list) list"
    by (induction xs) auto
  with Add_Column show "has_column t c db \<Longrightarrow> ?thesis" by (auto simp: has_column_def split: option.splits)
qed simp_all

lemma execute_batch_keeps: "has_column t c db \<Longrightarrow> has_column t c (snd (execute_batch qs db))"
proof (induction qs arbitrary: db)
  case (Cons q qs)
  from execute_sql_keeps [OF Cons.prems, of q] Cons.IH show ?case
    by (cases "execute_sql q db") (auto split: sum.split)
qed simp

lemma apply_migrations_keep:
  assumes "has_column t c db"
  shows "has_column t c (apply_migrations db)"
proof -
  have version: "has_column t c (db\<lparr>sd_version := v\<rparr>) = has_column t c db" for db v by (simp add: has_column_def)
  have "has_column t c db \<Longrightarrow> has_column t c (fold (apply_migration k) ms db)" for k ms db
    by (induction ms arbitrary: db) (simp_all add: apply_migration_def version execute_batch_keeps)
  with assms show ?thesis by (simp add: apply_migrations_def)
qed

text \<open>The database file each earlier version of the program left.\<close>

definition older_tables :: "(string \<times> string list) list" where
  "older_tables =
    [(''artists'', [''id'', ''name'']), (''albums'', [''id'', ''dir_path'', ''title'']),
     (''tracks'', [''file_path'', ''id'', ''album_id'', ''title'', ''track_number'', ''duration_secs'', ''format'', ''sample_rate'',
        ''artist'', ''album_title'', ''composer''])]"

definition older_file :: "nat \<Rightarrow> schema_db" where
  "older_file k = fold (apply_migration 0) (take k migrations) \<lparr>sd_tables = older_tables, sd_version = 0\<rparr>"

lemma new_file_migrates: "up_to_date (snd (apply_schema new_file))"
  by code_simp

lemma older_files_migrate:
  "up_to_date (snd (apply_schema (older_file 1)))"
    "up_to_date (snd (apply_schema (older_file 2)))"
    "up_to_date (snd (apply_schema (older_file 3)))"
    "up_to_date (snd (apply_schema (older_file 4)))"
    "up_to_date (snd (apply_schema (older_file 5)))"
    "up_to_date (snd (apply_schema (older_file 6)))"
    "up_to_date (snd (apply_schema (older_file 7)))"
    "up_to_date (snd (apply_schema (older_file 8)))"
    "up_to_date (snd (apply_schema (older_file 9)))"
  by code_simp+

lemma every_version_migrates: "1 \<le> k \<Longrightarrow> k \<le> 9 \<Longrightarrow> up_to_date (snd (apply_schema (older_file k)))"
proof -
  assume "1 \<le> k" "k \<le> 9"
  then have "k = 1 \<or> k = 2 \<or> k = 3 \<or> k = 4 \<or> k = 5 \<or> k = 6 \<or> k = 7 \<or> k = 8 \<or> k = 9" by arith
  then show ?thesis by (elim disjE) (simp_all only: older_files_migrate)
qed

lemma older_files_accepted:
  "list_all (\<lambda>k. fst (apply_schema (older_file k)) = Inr ()) [1..<10]"
  by code_simp

lemma every_version_accepted: "1 \<le> k \<Longrightarrow> k \<le> 9 \<Longrightarrow> fst (apply_schema (older_file k)) = Inr ()"
  using older_files_accepted unfolding list_all_iff by auto

text \<open>Without the column of migration 1 the base schema already fails, so that no migration is reached.\<close>

lemma first_version_stuck: "fst (apply_schema (older_file 0)) = Inl ''no such column''"
  by code_simp

text \<open>A run of migration 9 that is cut short is not finished at the next start, yet recorded as done.\<close>

definition cut_short :: "nat \<Rightarrow> schema_db" where
  "cut_short n = snd (execute_batch (take n (snd (migrations ! 8))) (older_file 8))"

lemma cut_short_states:
  "sd_version (cut_short 1) = 8" "sd_version (cut_short 2) = 8"
  "sd_version (snd (apply_schema (cut_short 1))) = 9" "sd_version (snd (apply_schema (cut_short 2))) = 9"
  "\<not> up_to_date (snd (apply_schema (cut_short 1)))" "\<not> up_to_date (snd (apply_schema (cut_short 2)))"
  by code_simp+

lemma interrupted_migration:
  assumes "0 < n" "n < 3"
  shows "sd_version (cut_short n) = 8 \<and> sd_version (snd (apply_schema (cut_short n))) = 9 \<and>
    \<not> up_to_date (snd (apply_schema (cut_short n)))"
proof -
  have "n = 1 \<or> n = 2" using assms by linarith
  then show ?thesis by (elim disjE) (simp_all only: cut_short_states not_False_eq_True simp_thms)
qed

end
