(* ===== verification/Requests.thy ===== *)
theory Requests
  imports Library NodeOutput
begin

text \<open>
  The messages of a user interface (\<open>kanade-adapter-ws/src/server.rs\<close>, \<open>command.rs\<close>): playlist commands,
  which act on the database, commands to the controller, and requests with their responses. Each
  request opens the database of its own; one that cannot be opened, or a query that fails, is answered
  with the empty list. The tables are the library's and the playlists', which share the tracks.
\<close>

subsection \<open>Requests and responses\<close>

datatype ws_request =
    Req_GetAlbums
  | Req_GetAlbumTracks string
  | Req_GetTracks "u32 option" "u32 option"
  | Req_GetArtists
  | Req_GetArtistAlbums string
  | Req_GetArtistTracks string
  | Req_GetGenres
  | Req_GetGenreAlbums string
  | Req_GetGenreTracks string
  | Req_Search string
  | Req_GetQueue
  | Req_SignUrls "string list"
  | Req_GetPlaylists
  | Req_GetPlaylist string
  | Req_GetPlaylistTracks string

datatype (plugins only: code size) ws_response =
    Res_Albums "album list"
  | Res_AlbumTracks "track list"
  | Res_Tracks "track list"
  | Res_Artists "string list"
  | Res_ArtistAlbums "album list"
  | Res_ArtistTracks "track list"
  | Res_Genres "string list"
  | Res_GenreAlbums "album list"
  | Res_GenreTracks "track list"
  | Res_SearchResults "track list"
  | Res_Queue "track list" "usize option"
  | Res_SignedUrls "string \<rightharpoonup> string"
  | Res_Playlists "playlist list"
  | Res_PlaylistDetails "playlist option"
  | Res_PlaylistTracks string "track list"

record 'w ui_state =
  ui_session :: "'w session"
  ui_library :: library_db
  ui_playlists :: playlist_db
  ui_keys :: key_store

text \<open>What the answers depend on besides the state; \<open>ue_opens\<close> tells whether the database can be opened.\<close>

record ui_env =
  ue_hmac :: mac
  ue_fs :: file_system
  ue_pick :: "track list \<Rightarrow> track"
  ue_fts :: fts_engine
  ue_max_variables :: nat
  ue_id_of :: "string \<Rightarrow> string"
  ue_media_base_url :: string
  ue_opens :: bool

text \<open>\<open>.ok()\<close> and \<open>unwrap_or_default()\<close>.\<close>

definition listed :: "ui_env \<Rightarrow> 'e + 'a list \<Rightarrow> 'a list" where
  "listed env r = (if ue_opens env then (case r of Inl _ \<Rightarrow> [] | Inr xs \<Rightarrow> xs) else [])"

text \<open>The playlist tables with the tracks they are joined with.\<close>

definition playlist_tables :: "'w ui_state \<Rightarrow> playlist_db" where
  "playlist_tables s = (ui_playlists s)\<lparr>pd_tracks := tracks_of (ui_library s)\<rparr>"

definition handle_request :: "ui_env \<Rightarrow> nat \<Rightarrow> string \<Rightarrow> ws_request \<Rightarrow> 'w ui_state \<Rightarrow> ws_response option" where
  "handle_request env now kid req s =
    (let db = ui_library s; pick = ue_pick env; ok = (\<lambda>x. listed env (Inr x :: string + _)) in
     case req of
       Req_GetAlbums \<Rightarrow> Some (Res_Albums (listed env (Inr (get_all_albums pick db) :: string + _)))
     | Req_GetAlbumTracks i \<Rightarrow> Some (Res_AlbumTracks (ok (get_tracks_by_album_id db i)))
     | Req_GetArtists \<Rightarrow> Some (Res_Artists (listed env (Inr (get_all_artists db) :: string + _)))
     | Req_GetArtistAlbums n \<Rightarrow> Some (Res_ArtistAlbums (listed env (Inr (get_albums_by_artist pick db n) :: string + _)))
     | Req_GetArtistTracks n \<Rightarrow> Some (Res_ArtistTracks (ok (get_tracks_by_artist db n)))
     | Req_GetGenres \<Rightarrow> Some (Res_Genres (listed env (Inr (get_all_genres db) :: string + _)))
     | Req_GetGenreAlbums g \<Rightarrow> Some (Res_GenreAlbums (listed env (Inr (get_albums_by_genre pick db g) :: string + _)))
     | Req_GetGenreTracks g \<Rightarrow> Some (Res_GenreTracks (ok (get_tracks_by_genre db g)))
     | Req_Search q \<Rightarrow> Some (Res_SearchResults (listed env (search_tracks (ue_fts env) (ue_max_variables env) db q)))
     | Req_GetTracks offset cap \<Rightarrow> Some (Res_Tracks (listed env (get_tracks db offset cap)))
     | Req_GetQueue \<Rightarrow>
         (let st = co_state (se_core (ui_session s))
          in Some (case selected_node st of
               Some n \<Rightarrow> Res_Queue (nd_queue n) (nd_current_index n)
             | None \<Rightarrow> Res_Queue (st_queue st) (st_current_index st)))
     | Req_SignUrls paths \<Rightarrow>
         map_option Res_SignedUrls (sign_urls (ue_hmac env) (ue_fs env)
           (if ue_opens env then library_of pick db else \<lparr>lib_tracks = [], lib_albums = []\<rparr>)
           (ui_keys s) (ue_media_base_url env) kid now paths)
     | Req_GetPlaylists \<Rightarrow> Some (Res_Playlists (listed env (fst (get_all_playlists (playlist_tables s)))))
     | Req_GetPlaylist i \<Rightarrow> Some (Res_PlaylistDetails
         (if ue_opens env then (case fst (get_playlist i (playlist_tables s)) of Inl _ \<Rightarrow> None | Inr p \<Rightarrow> p) else None))
     | Req_GetPlaylistTracks i \<Rightarrow> Some (Res_PlaylistTracks i (listed env (fst (get_playlist_tracks i (playlist_tables s))))))"

subsection \<open>Commands\<close>

definition generate_playlist_id :: "(string \<Rightarrow> string) \<Rightarrow> nat \<Rightarrow> string \<Rightarrow> string" where
  "generate_playlist_id id_of now_ns name = id_of (''playlist:'' @ name @ '':'' @ show_nat now_ns)"

definition create_playlist :: "(string \<Rightarrow> string) \<Rightarrow> int \<Rightarrow> nat \<Rightarrow> string \<Rightarrow> string option \<Rightarrow> playlist_kind \<Rightarrow> playlist db_io" where
  "create_playlist id_of now now_ns name descr kind =
    create_playlist_with_id now (generate_playlist_id id_of now_ns name) name descr kind"

fun playlist_operation :: "(string \<Rightarrow> string) \<Rightarrow> int \<Rightarrow> nat \<Rightarrow> ws_command \<Rightarrow> unit db_io" where
  "playlist_operation id_of now now_ns (Ws_CreatePlaylist name descr kind) =
    andDo (create_playlist id_of now now_ns name descr kind) (ret ())"
| "playlist_operation id_of now now_ns (Ws_UpdatePlaylist i name descr kind) = update_playlist now i name descr kind"
| "playlist_operation id_of now now_ns (Ws_DeletePlaylist i) = delete_playlist i"
| "playlist_operation id_of now now_ns (Ws_SetPlaylistTracks i ts) = set_playlist_tracks now i ts"
| "playlist_operation id_of now now_ns (Ws_AppendPlaylistTracks i ts) = append_playlist_tracks now i ts"
| "playlist_operation id_of now now_ns (Ws_RemovePlaylistTrack i k) = remove_playlist_track now i k"
| "playlist_operation id_of now now_ns (Ws_MovePlaylistTrack i a b) = move_playlist_track now i a b"
| "playlist_operation id_of now now_ns _ = ret ()"

text \<open>Errors are only logged.\<close>

definition dispatch_playlist_command :: "ui_env \<Rightarrow> int \<Rightarrow> nat \<Rightarrow> ws_command \<Rightarrow> 'w ui_state \<Rightarrow> 'w ui_state" where
  "dispatch_playlist_command env now now_ns cmd s =
    (if ue_opens env
     then s\<lparr>ui_playlists := run (playlist_operation (ue_id_of env) now now_ns cmd) (playlist_tables s)\<rparr>
     else s)"

datatype client_message =
    Msg_Command ws_command
  | Msg_Request nat ws_request
  | Msg_NodeStateUpdate node_state_update
  | Msg_NodeRegistration node_registration

text \<open>
  The new state and the response sent, with the id of its request; \<open>uuid\<close> is the id a new local session
  would get. A panic of a request is \<open>None\<close>.
\<close>

definition handle_ui_client_message ::
  "ui_env \<Rightarrow> nat \<Rightarrow> nat \<Rightarrow> string \<Rightarrow> string \<Rightarrow> client_message \<Rightarrow> 'w ui_state \<Rightarrow> ('w ui_state \<times> (nat \<times> ws_response) option) option" where
  "handle_ui_client_message env now now_ns uuid kid msg s =
    (case msg of
       Msg_Command cmd \<Rightarrow>
         if is_playlist_command cmd then Some (dispatch_playlist_command env (int now) now_ns cmd s, None)
         else Some (s\<lparr>ui_session := dispatch_command uuid kid cmd (ui_session s)\<rparr>, None)
     | Msg_Request i req \<Rightarrow> map_option (\<lambda>r. (s, Some (i, r))) (handle_request env now kid req s)
     | Msg_NodeStateUpdate _ \<Rightarrow> Some (s, None)
     | Msg_NodeRegistration _ \<Rightarrow> Some (s, None))"

end
