(* ===== verification/Requests_Facts.thy ===== *)
theory Requests_Facts
  imports Requests Library_Facts Playlists_Facts
begin

text \<open>
  What a user interface sees of the database: a track edit of a normal playlist is answered at the next
  request for its tracks, pages of tracks make up the library, and an offset without a limit gives
  nothing.
\<close>

subsection \<open>Edits keep the row of the playlist\<close>

definition row_and_tracks :: "string \<Rightarrow> track list \<Rightarrow> playlist_db \<Rightarrow> bool" where
  "row_and_tracks i ts db \<longleftrightarrow> normal_row i db \<and> pd_tracks db = ts"

lemma keeps_transaction: "keeps P m \<Longrightarrow> keeps P (transaction m)"
  by (auto simp: keeps_def transaction_def split: prod.splits sum.splits)

lemma keeps_entries: "keeps (row_and_tracks i ts) (modify (\<lambda>db. db\<lparr>pd_entries := f db\<rparr>))"
  by (rule keeps_modify) (simp add: row_and_tracks_def normal_row_def find_row_def)

lemma find_changed:
  assumes "\<And>r. pr_id (f r) = pr_id r"
  shows "find (\<lambda>r. pr_id r = i) (map f rs) = map_option f (find (\<lambda>r. pr_id r = i) rs)"
  by (induction rs) (auto simp: assms)

lemma keeps_touch: "keeps (row_and_tracks i ts) (touch_playlist now j)"
  unfolding touch_playlist_def update_row_def
  by (rule keeps_modify) (auto simp: row_and_tracks_def normal_row_def find_row_def find_changed split: option.splits)

lemma keeps_insert_from: "keeps (row_and_tracks i ts) (insert_from j pos us)"
proof (induction us arbitrary: pos)
  case (Cons u us)
  then show ?case by (auto simp: insert_entry_def intro!: keeps_intros keeps_entries)
qed (simp add: keeps_ret)

lemma keeps_move_down: "keeps (row_and_tracks i ts) (move_down j k)"
  unfolding move_down_def by (intro keeps_intros keeps_entries)

lemma keeps_normal_edit: "keeps (row_and_tracks i ts) m \<Longrightarrow> keeps (row_and_tracks i ts) (normal_playlist j m)"
  unfolding normal_playlist_def existing_playlist_def get_playlist_def
  by (auto intro!: keeps_intros keeps_transaction split: option.split sum.split)

lemmas keeps_edits = keeps_intros keeps_normal_edit keeps_insert_from keeps_move_down keeps_touch keeps_entries

lemma edits_keep_row:
  "keeps (row_and_tracks i us) (set_playlist_tracks now j ts)" "keeps (row_and_tracks i us) (append_playlist_tracks now j ts)"
  "keeps (row_and_tracks i us) (remove_playlist_track now j k)" "keeps (row_and_tracks i us) (move_playlist_track now j a b)"
  unfolding set_playlist_tracks_def append_playlist_tracks_def remove_playlist_track_def move_playlist_track_def delete_entries_def Let_def
  by (intro keeps_edits)+

subsection \<open>A command and the next request\<close>

text \<open>The list of track ids a command asks for, when it is an edit of playlist \<open>i\<close> that succeeds.\<close>

fun edit_of :: "ws_command \<Rightarrow> string \<Rightarrow> string list \<Rightarrow> string list option" where
  "edit_of (Ws_SetPlaylistTracks j ts) i ids = (if j = i then Some ts else None)"
| "edit_of (Ws_AppendPlaylistTracks j ts) i ids = (if j = i then Some (ids @ ts) else None)"
| "edit_of (Ws_RemovePlaylistTrack j k) i ids =
    (if j = i \<and> k < 2 ^ 63 then Some (if k < length ids then vec_remove k ids else ids) else None)"
| "edit_of (Ws_MovePlaylistTrack j a b) i ids =
    (if j = i \<and> a < length ids then Some (vec_move a (min b (length ids - 1)) ids) else None)"
| "edit_of _ i ids = None"

lemma edit_effect:
  assumes "normal_row i db" "positions_ok i db" "edit_of cmd i (playlist_ids i db) = Some ids"
  shows "is_playlist_command cmd \<and> becomes i ids db (run (playlist_operation id_of now now_ns cmd) db) \<and>
    row_and_tracks i (pd_tracks db) (run (playlist_operation id_of now now_ns cmd) db)"
proof -
  have db: "row_and_tracks i (pd_tracks db) db" using assms(1) by (simp add: row_and_tracks_def)
  note kept = keeps_run [OF edits_keep_row(1) db] keeps_run [OF edits_keep_row(2) db]
    keeps_run [OF edits_keep_row(3) db] keeps_run [OF edits_keep_row(4) db]
  show ?thesis
  proof (cases "(cmd, i, playlist_ids i db)" rule: edit_of.cases)
    case (1 j ts)
    with assms kept(1) set_tracks_refines [OF assms(1), of now ts] show ?thesis by (auto simp: run_def split: if_splits)
  next
    case (2 j ts)
    with assms kept(2) append_tracks_refines [OF assms(1,2), of now ts] show ?thesis by (auto simp: run_def split: if_splits)
  next
    case (3 j k)
    with assms(3) have k: "j = i" "k < 2 ^ 63" "ids = (if k < length (playlist_ids i db) then vec_remove k (playlist_ids i db) else playlist_ids i db)"
      by (simp_all split: if_splits)
    with 3 kept(3) remove_track_refines [OF assms(1,2) k(2), of now] show ?thesis by (auto simp: run_def)
  next
    case (4 j a b)
    with assms(3) have a: "j = i" "a < length (playlist_ids i db)" "ids = vec_move a (min b (length (playlist_ids i db) - 1)) (playlist_ids i db)"
      by (simp_all split: if_splits)
    with 4 kept(4) move_track_refines [OF assms(1,2) a(2), of now b] show ?thesis by (auto simp: run_def)
  qed (use assms(3) in simp_all)
qed

lemma normal_tracks_of_ids:
  "normal_playlist_tracks i db = List.map_filter (\<lambda>tid. find (\<lambda>t. tr_id t = tid) (pd_tracks db)) (playlist_ids i db)"
  by (simp add: normal_playlist_tracks_def playlist_ids_def List.map_filter_def comp_def filter_map split_beta)

lemma request_tracks:
  assumes "normal_row i db"
  shows "fst (get_playlist_tracks i db) = Inr (normal_playlist_tracks i db)"
proof -
  obtain r where "find_row i db = Some r" "pr_kind r = ''normal''" using assms by (auto simp: normal_row_def split: option.splits)
  then show ?thesis
    by (simp add: get_playlist_tracks_def existing_playlist_def get_playlist_def andThen_def reading_def ret_def row_to_playlist_def Let_def)
qed

lemma edit_seen:
  assumes "ue_opens env" "normal_row i (playlist_tables s)" "positions_ok i (playlist_tables s)"
    and "edit_of cmd i (playlist_ids i (playlist_tables s)) = Some ids"
  shows "\<exists>s'. handle_ui_client_message env now now_ns uuid kid (Msg_Command cmd) s = Some (s', None) \<and>
    handle_request env later kid (Req_GetPlaylistTracks i) s' = Some (Res_PlaylistTracks i
      (List.map_filter (\<lambda>tid. find (\<lambda>t. tr_id t = tid) (tracks_of (ui_library s))) ids)) \<and>
    ui_session s' = ui_session s \<and> ui_library s' = ui_library s"
proof -
  let ?db = "run (playlist_operation (ue_id_of env) (int now) now_ns cmd) (playlist_tables s)"
  let ?s = "s\<lparr>ui_playlists := ?db\<rparr>"
  note eff = edit_effect [OF assms(2-4), of "ue_id_of env" "int now" now_ns]
  then have db: "becomes i ids (playlist_tables s) ?db" "normal_row i ?db" "pd_tracks ?db = tracks_of (ui_library s)"
    by (simp_all add: row_and_tracks_def playlist_tables_def)
  then have "playlist_tables ?s = ?db" by (simp add: playlist_tables_def)
  moreover have "fst (get_playlist_tracks i ?db) =
      Inr (List.map_filter (\<lambda>tid. find (\<lambda>t. tr_id t = tid) (tracks_of (ui_library s))) ids)"
    using request_tracks [OF db(2)] db(1,3) by (simp add: normal_tracks_of_ids becomes_def)
  ultimately have "handle_request env later kid (Req_GetPlaylistTracks i) ?s = Some (Res_PlaylistTracks i
      (List.map_filter (\<lambda>tid. find (\<lambda>t. tr_id t = tid) (tracks_of (ui_library s))) ids))"
    using assms(1) by (simp add: handle_request_def Let_def listed_def)
  moreover have "handle_ui_client_message env now now_ns uuid kid (Msg_Command cmd) s = Some (?s, None)"
    using eff assms(1) by (simp add: handle_ui_client_message_def dispatch_playlist_command_def)
  ultimately show ?thesis by auto
qed

subsection \<open>Pages\<close>

definition tracks_answer :: "ws_response option \<Rightarrow> track list" where
  "tracks_answer r = (case r of Some (Res_Tracks ts) \<Rightarrow> ts | _ \<Rightarrow> [])"

lemma page_requests:
  assumes "ue_opens env" "length (ld_tracks (ui_library s)) \<le> m * n" "m * n < 2 ^ 32" "0 < m"
  shows "concat (map (\<lambda>k. tracks_answer (handle_request env now kid (Req_GetTracks (Some (word_of_nat (k * n))) (Some (word_of_nat n))) s)) [0..<m]) =
    tracks_answer (handle_request env now kid (Req_GetTracks None None) s)"
proof -
  have page: "tracks_answer (handle_request env now kid (Req_GetTracks (Some (word_of_nat (k * n))) (Some (word_of_nat n))) s) = page (ui_library s) n k" for k
    using assms(1) by (simp add: handle_request_def Let_def tracks_answer_def listed_def page_def del: of_nat_mult split: sum.split)
  have "tracks_answer (handle_request env now kid (Req_GetTracks None None) s) = concat (map (page (ui_library s) n) [0..<m])"
    using assms(1) pages_exact [OF assms(2-4)] by (simp add: handle_request_def Let_def tracks_answer_def listed_def get_tracks_def)
  then show ?thesis by (simp only: page)
qed

text \<open>An offset alone is answered with no tracks at all.\<close>

lemma offset_alone: "handle_request env now kid (Req_GetTracks (Some k) None) s = Some (Res_Tracks [])"
  by (simp add: handle_request_def Let_def listed_def get_tracks_def)

end
