(* ===== verification/Connections.thy ===== *)
theory Connections
  imports Requests
begin

text \<open>
  The WebSocket server with all its connections (\<open>kanade-adapter-ws/src/server.rs\<close>: \<open>handle_ws_connection\<close>,
  \<open>run_ui_mode\<close> and \<open>run_node_mode\<close>, and the cleanup tasks of \<open>kanade/src/main.rs\<close>). The connections share the
  controller, the owners of local sessions, the database and the media keys. One event is one turn of the
  loop of a connection, or of a task, run to its end before the next; the turns of the connections come in
  any order. Whether what a turn writes to its socket is written is part of the event.
\<close>

subsection \<open>Frames and messages\<close>

text \<open>A text that is no message is \<open>Frame_Text None\<close>; the end of the stream counts as \<open>Frame_Close\<close>.\<close>

datatype ws_frame = Frame_Text "client_message option" | Frame_Ping | Frame_Pong | Frame_Binary | Frame_Close | Frame_Error

datatype (plugins only: code size) server_message =
    Srv_State playback_state
  | Srv_MediaAuth string
  | Srv_Response nat ws_response

fun first_message :: "ws_frame list \<Rightarrow> client_message option" where
  "first_message [] = None"
| "first_message (Frame_Text m # fs) = m"
| "first_message (Frame_Close # fs) = None"
| "first_message (Frame_Error # fs) = None"
| "first_message (f # fs) = first_message fs"

subsection \<open>The server\<close>

text \<open>A connection of a user interface is named by its media key, one of a node by its connection id.\<close>

record ui_conn =
  uc_local_node_id :: "string option"
  uc_last_seen :: nat
  uc_written :: "server_message list"

record node_conn =
  nc_node_id :: string
  nc_rotation :: key_rotation
  nc_acks :: "node_registration_ack list"
  nc_last_seen :: nat
  nc_open :: bool

text \<open>\<open>sv_issued\<close> and \<open>sv_retired\<close> are histories: the key ids ever made, and those of node connections that ended.\<close>

record 'w server =
  sv_core :: "'w core"
  sv_owners :: owners
  sv_library :: library_db
  sv_playlists :: playlist_db
  sv_keys :: key_store
  sv_uis :: "string \<rightharpoonup> ui_conn"
  sv_nodes :: "string \<rightharpoonup> node_conn"
  sv_issued :: "string set"
  sv_retired :: "string set"

definition server_new :: "'w core \<Rightarrow> library_db \<Rightarrow> playlist_db \<Rightarrow> 'w server" where
  "server_new c lib pls = \<lparr>sv_core = c, sv_owners = Map.empty, sv_library = lib, sv_playlists = pls, sv_keys = Map.empty,
     sv_uis = Map.empty, sv_nodes = Map.empty, sv_issued = {}, sv_retired = {}\<rparr>"

definition session_of :: "ui_conn \<Rightarrow> 'w server \<Rightarrow> 'w session" where
  "session_of u s = \<lparr>se_core = sv_core s, se_owners = sv_owners s, se_local_node_id = uc_local_node_id u\<rparr>"

definition ui_view :: "ui_conn \<Rightarrow> 'w server \<Rightarrow> 'w ui_state" where
  "ui_view u s = \<lparr>ui_session = session_of u s, ui_library = sv_library s, ui_playlists = sv_playlists s, ui_keys = sv_keys s\<rparr>"

definition put_session :: "'w session \<Rightarrow> 'w server \<Rightarrow> 'w server" where
  "put_session se s = s\<lparr>sv_core := se_core se, sv_owners := se_owners se\<rparr>"

definition new_key :: "string \<Rightarrow> u8 list \<Rightarrow> nat \<Rightarrow> 'w server \<Rightarrow> 'w server" where
  "new_key kid key now s = s\<lparr>sv_keys := ks_generate kid key now (sv_keys s), sv_issued := insert kid (sv_issued s)\<rparr>"

definition revoke_key :: "string \<Rightarrow> 'w server \<Rightarrow> 'w server" where
  "revoke_key kid s = s\<lparr>sv_keys := ks_revoke kid (sv_keys s)\<rparr>"

subsection \<open>User interfaces\<close>

text \<open>A panic ends the task of the connection at once, without what follows its loop.\<close>

definition ui_message ::
  "ui_env \<Rightarrow> nat \<Rightarrow> nat \<Rightarrow> string \<Rightarrow> string \<Rightarrow> bool \<Rightarrow> client_message \<Rightarrow> ui_conn \<Rightarrow> 'w server \<Rightarrow> 'w server" where
  "ui_message env now now_ns uuid conn sent msg u s =
    (case handle_ui_client_message env now now_ns uuid conn msg (ui_view u s) of
       None \<Rightarrow> s\<lparr>sv_uis := (sv_uis s)(conn := None)\<rparr>
     | Some (v, reply) \<Rightarrow>
         let u = u\<lparr>uc_local_node_id := se_local_node_id (ui_session v),
               uc_written := uc_written u @ (case reply of Some (i, r) \<Rightarrow> if sent then [Srv_Response i r] else [] | None \<Rightarrow> [])\<rparr>
         in (put_session (ui_session v) s)\<lparr>sv_library := ui_library v, sv_playlists := ui_playlists v,
               sv_uis := (sv_uis s)(conn \<mapsto> u)\<rparr>)"

text \<open>The snapshot and the key are sent first; if either cannot be, the key is revoked.\<close>

definition ui_open ::
  "ui_env \<Rightarrow> nat \<Rightarrow> nat \<Rightarrow> string \<Rightarrow> string \<Rightarrow> u8 list \<Rightarrow> bool \<Rightarrow> bool \<Rightarrow> client_message \<Rightarrow> 'w server \<Rightarrow> 'w server" where
  "ui_open env now now_ns uuid kid key hello sent msg s =
    (let s = new_key kid key now s;
         u = \<lparr>uc_local_node_id = None, uc_last_seen = now, uc_written = [Srv_State (co_state (sv_core s)), Srv_MediaAuth kid]\<rparr>
     in if \<not> hello then revoke_key kid s else ui_message env now now_ns uuid kid sent msg u s)"

definition ui_leave :: "nat \<Rightarrow> string \<Rightarrow> ui_conn \<Rightarrow> 'w server \<Rightarrow> 'w server" where
  "ui_leave now conn u s = (put_session (end_session now conn (session_of u s)) s)\<lparr>sv_uis := (sv_uis s)(conn := None)\<rparr>"

definition put_ui :: "string \<Rightarrow> ui_conn \<Rightarrow> 'w server \<Rightarrow> 'w server" where
  "put_ui conn u s = s\<lparr>sv_uis := (sv_uis s)(conn \<mapsto> u)\<rparr>"

datatype (plugins only: code size) ui_turn =
    Turn_Ping | Turn_Frame ws_frame | Turn_State playback_state | Turn_Lagged | Turn_Closed

fun ui_step :: "ui_env \<Rightarrow> nat \<Rightarrow> nat \<Rightarrow> string \<Rightarrow> string \<Rightarrow> bool \<Rightarrow> ui_turn \<Rightarrow> ui_conn \<Rightarrow> 'w server \<Rightarrow> 'w server" where
  "ui_step env now now_ns uuid conn sent Turn_Ping u s =
    (if heartbeat_expired (uc_last_seen u) now \<or> \<not> sent then ui_leave now conn u s else s)"
| "ui_step env now now_ns uuid conn sent (Turn_Frame f) u s =
    (let u' = u\<lparr>uc_last_seen := now\<rparr>
     in case f of
          Frame_Text (Some msg) \<Rightarrow> ui_message env now now_ns uuid conn sent msg u' s
        | Frame_Text None \<Rightarrow> put_ui conn u' s
        | Frame_Close \<Rightarrow> ui_leave now conn u s
        | Frame_Error \<Rightarrow> ui_leave now conn u s
        | _ \<Rightarrow> put_ui conn u' s)"
| "ui_step env now now_ns uuid conn sent (Turn_State st) u s =
    (if sent then put_ui conn (u\<lparr>uc_written := uc_written u @ [Srv_State st]\<rparr>) s else ui_leave now conn u s)"
| "ui_step env now now_ns uuid conn sent Turn_Lagged u s = s"
| "ui_step env now now_ns uuid conn sent Turn_Closed u s = ui_leave now conn u s"

subsection \<open>Nodes\<close>

definition put_node :: "string \<Rightarrow> node_conn \<Rightarrow> 'w server \<Rightarrow> 'w server" where
  "put_node conn n s = s\<lparr>sv_nodes := (sv_nodes s)(conn \<mapsto> n)\<rparr>"

text \<open>The ack tells the node a key and its id, when it registers and at each rotation.\<close>

definition key_ack :: "ui_env \<Rightarrow> string \<Rightarrow> string \<Rightarrow> u8 list \<Rightarrow> node_registration_ack" where
  "key_ack env i kid key = \<lparr>na_node_id = i, na_media_base_url = ue_media_base_url env,
     na_media_auth_key = Some (hex_encode key), na_media_auth_key_id = Some kid\<rparr>"

definition node_open ::
  "ui_env \<Rightarrow> nat \<Rightarrow> string \<Rightarrow> string \<Rightarrow> u8 list \<Rightarrow> string \<Rightarrow> 'w audio_output \<Rightarrow> bool \<Rightarrow> node_registration \<Rightarrow> 'w server \<Rightarrow> 'w server" where
  "node_open env now uuid kid key conn out sent r s =
    (let s = new_key kid key now s; i = registration_id (registration_name uuid r) r
     in if \<not> sent then revoke_key kid s
        else put_node conn \<lparr>nc_node_id = i, nc_rotation = start_rotation kid, nc_acks = [key_ack env i kid key],
                 nc_last_seen = now, nc_open = True\<rparr>
               (s\<lparr>sv_core := open_connection uuid conn out r (sv_core s)\<rparr>))"

text \<open>After the loop the keys of the connection are revoked; the node itself is given a grace period.\<close>

definition node_leave :: "string \<Rightarrow> node_conn \<Rightarrow> 'w server \<Rightarrow> 'w server" where
  "node_leave conn n s = put_node conn (n\<lparr>nc_open := False\<rparr>)
     (s\<lparr>sv_keys := end_rotation (nc_rotation n, sv_keys s), sv_retired := sv_retired s \<union> set (kr_issued (nc_rotation n))\<rparr>)"

definition node_rotate :: "ui_env \<Rightarrow> nat \<Rightarrow> string \<Rightarrow> u8 list \<Rightarrow> bool \<Rightarrow> string \<Rightarrow> node_conn \<Rightarrow> 'w server \<Rightarrow> 'w server" where
  "node_rotate env now kid key sent conn n s =
    (case rotate_key kid key now sent (nc_rotation n, sv_keys s) of (r, ks) \<Rightarrow>
       let s = s\<lparr>sv_keys := ks, sv_issued := insert kid (sv_issued s)\<rparr>; n = n\<lparr>nc_rotation := r\<rparr>
       in if sent then put_node conn (n\<lparr>nc_acks := nc_acks n @ [key_ack env (nc_node_id n) kid key]\<rparr>) s
          else node_leave conn n s)"

datatype node_turn = Node_Ping | Node_Rotate string "u8 list" | Node_Command | Node_No_Commands | Node_Frame ws_frame

fun node_step :: "ui_env \<Rightarrow> nat \<Rightarrow> string \<Rightarrow> bool \<Rightarrow> node_turn \<Rightarrow> node_conn \<Rightarrow> 'w server \<Rightarrow> 'w server" where
  "node_step env now conn sent Node_Ping n s =
    (if heartbeat_expired (nc_last_seen n) now \<or> \<not> sent then node_leave conn n s else s)"
| "node_step env now conn sent (Node_Rotate kid key) n s = node_rotate env now kid key sent conn n s"
| "node_step env now conn sent Node_Command n s = (if sent then s else node_leave conn n s)"
| "node_step env now conn sent Node_No_Commands n s = node_leave conn n s"
| "node_step env now conn sent (Node_Frame f) n s =
    (let n' = n\<lparr>nc_last_seen := now\<rparr>
     in case f of
          Frame_Text (Some (Msg_NodeStateUpdate u)) \<Rightarrow>
            put_node conn n' (s\<lparr>sv_core := connection_update (nc_node_id n) conn u (sv_core s)\<rparr>)
        | Frame_Close \<Rightarrow> node_leave conn n s
        | Frame_Error \<Rightarrow> node_leave conn n s
        | _ \<Rightarrow> put_node conn n' s)"

text \<open>The end of the grace period, and the tasks that revoke a replaced key after the overlap.\<close>

definition node_gone :: "string \<Rightarrow> node_conn \<Rightarrow> 'w server \<Rightarrow> 'w server" where
  "node_gone conn n s = s\<lparr>sv_core := close_connection (nc_node_id n) conn (sv_core s), sv_nodes := (sv_nodes s)(conn := None)\<rparr>"

definition revoke_due :: "nat \<Rightarrow> node_conn \<Rightarrow> string list" where
  "revoke_due now n = map snd (filter (\<lambda>(at_time, kid). at_time \<le> now) (kr_revoke_at (nc_rotation n)))"

definition run_revocations :: "nat \<Rightarrow> string \<Rightarrow> node_conn \<Rightarrow> 'w server \<Rightarrow> 'w server" where
  "run_revocations now conn n s =
    put_node conn (n\<lparr>nc_rotation := (nc_rotation n)\<lparr>kr_revoke_at :=
        filter (\<lambda>(at_time, kid). now < at_time) (kr_revoke_at (nc_rotation n))\<rparr>\<rparr>)
      (s\<lparr>sv_keys := fold ks_revoke (revoke_due now n) (sv_keys s)\<rparr>)"

subsection \<open>Events\<close>

definition handle_ws_connection ::
  "ui_env \<Rightarrow> nat \<Rightarrow> nat \<Rightarrow> string \<Rightarrow> ws_frame list \<Rightarrow> string \<Rightarrow> u8 list \<Rightarrow> string \<Rightarrow> 'w audio_output \<Rightarrow> bool \<Rightarrow> bool
    \<Rightarrow> 'w server \<Rightarrow> 'w server" where
  "handle_ws_connection env now now_ns uuid frames kid key conn out hello sent s =
    (case first_message frames of
       None \<Rightarrow> s
     | Some (Msg_NodeRegistration r) \<Rightarrow> node_open env now uuid kid key conn out hello r s
     | Some (Msg_NodeStateUpdate u) \<Rightarrow> s
     | Some msg \<Rightarrow> ui_open env now now_ns uuid kid key hello sent msg s)"

datatype (plugins only: code size) 'w server_event =
    Ev_Connect "ws_frame list" string "u8 list" string "'w audio_output" bool bool
  | Ev_Ui string bool ui_turn
  | Ev_Node string bool node_turn
  | Ev_Node_Gone string
  | Ev_Revoke string
  | Ev_Clean_Keys
  | Ev_Clean_Nodes

text \<open>Nodes that have been away for half a minute are forgotten.\<close>

definition node_max_age :: int where
  "node_max_age = 30"

fun server_exec :: "ui_env \<Rightarrow> nat \<Rightarrow> nat \<Rightarrow> string \<Rightarrow> 'w server_event \<Rightarrow> 'w server \<Rightarrow> 'w server" where
  "server_exec env now now_ns uuid (Ev_Connect frames kid key conn out hello sent) s =
    handle_ws_connection env now now_ns uuid frames kid key conn out hello sent s"
| "server_exec env now now_ns uuid (Ev_Ui conn sent t) s =
    (case sv_uis s conn of None \<Rightarrow> s | Some u \<Rightarrow> ui_step env now now_ns uuid conn sent t u s)"
| "server_exec env now now_ns uuid (Ev_Node conn sent t) s =
    (case sv_nodes s conn of None \<Rightarrow> s | Some n \<Rightarrow> if nc_open n then node_step env now conn sent t n s else s)"
| "server_exec env now now_ns uuid (Ev_Node_Gone conn) s =
    (case sv_nodes s conn of None \<Rightarrow> s | Some n \<Rightarrow> if nc_open n then s else node_gone conn n s)"
| "server_exec env now now_ns uuid (Ev_Revoke conn) s =
    (case sv_nodes s conn of None \<Rightarrow> s | Some n \<Rightarrow> run_revocations now conn n s)"
| "server_exec env now now_ns uuid Ev_Clean_Keys s = s\<lparr>sv_keys := ks_cleanup_expired now key_max_age (sv_keys s)\<rparr>"
| "server_exec env now now_ns uuid Ev_Clean_Nodes s =
    s\<lparr>sv_core := cleanup_disconnected_nodes (int now) node_max_age (sv_core s)\<rparr>"

end
