(* ===== verification/Connections_Facts.thy ===== *)
theory Connections_Facts
  imports Connections
begin

text \<open>
  What holds of the server after any events: the controller is in a reachable state, a local session
  belongs to at most one connection, and the keys of the nodes follow their connections.
\<close>

subsection \<open>Commands\<close>

text \<open>What a command must respect: the session it claims is free, its indices are in range.\<close>

definition command_ok :: "string \<Rightarrow> string \<Rightarrow> ws_command \<Rightarrow> 'w session \<Rightarrow> bool" where
  "command_ok uuid conn cmd s \<longleftrightarrow> claimable uuid conn cmd s \<and>
    (case cmd of
       Ws_LocalSessionStart name did \<Rightarrow> can_start uuid did (co_state (se_core s))
     | Ws_LocalSessionUpdate ts idx pos st vol rep shuf \<Rightarrow>
         (case se_local_node_id s of None \<Rightarrow> True | Some i \<Rightarrow> update_in_range i ts idx (co_state (se_core s)))
     | Ws_ReplaceAndPlay ts k \<Rightarrow> k < length ts
     | _ \<Rightarrow> True)"

lemma dispatch_reachable:
  assumes "core_reachable (se_core s)" "command_ok uuid conn cmd s"
  shows "core_reachable (se_core (dispatch_command uuid conn cmd s))"
proof -
  note step = core_reachable.step [OF assms(1)]
  have "core_reachable (se_core (execute uuid conn cmd s))"
  proof (cases cmd)
    case (Ws_LocalSessionStart name did)
    then have "core_reachable (core_exec (Op_LocalStart uuid name did) (se_core s))"
      using assms by (intro core_reachable.step) (simp_all add: command_ok_def)
    then have "core_reachable (se_core (start_session uuid name did conn s))"
      by (simp add: start_session_def Let_def split_beta)
    then show ?thesis using assms(1) by (cases did) (simp_all add: Ws_LocalSessionStart)
  next
    case Ws_LocalSessionStop
    have "core_reachable (run (local_session_stop i) (se_core s))" for i
      using core_reachable.step [OF assms(1), of "Op_LocalStop i"] by simp
    then show ?thesis using assms(1) by (simp add: Ws_LocalSessionStop stop_session_def split: option.split)
  next
    case (Ws_LocalSessionUpdate ts idx pos st vol rep shuf)
    have "core_reachable (run (local_session_update i ts idx pos st vol rep shuf) (se_core s))"
      if "se_local_node_id s = Some i" for i
      using core_reachable.step [OF assms(1), of "Op_LocalUpdate i ts idx pos st vol rep shuf"] that assms(2)
      by (simp add: command_ok_def Ws_LocalSessionUpdate)
    then show ?thesis using assms(1)
      by (auto simp: Ws_LocalSessionUpdate update_session_def run_def Let_def split: option.split prod.split)
  next
    case (Ws_ReplaceAndPlay ts k)
    then show ?thesis using step [of "Op_SetQueue ts (Some k)"] assms(2) by (simp add: command_ok_def)
  next
    case Ws_Play then show ?thesis using step [of Op_Play] by simp
  next
    case Ws_Pause then show ?thesis using step [of Op_Pause] by simp
  next
    case Ws_Stop then show ?thesis using step [of Op_Stop] by simp
  next
    case Ws_Next then show ?thesis using step [of Op_Next] by simp
  next
    case Ws_Previous then show ?thesis using step [of Op_Previous] by simp
  next
    case (Ws_Seek p) then show ?thesis using step [of "Op_Seek p"] by simp
  next
    case (Ws_SetVolume v) then show ?thesis using step [of "Op_SetVolume v"] by simp
  next
    case (Ws_SetRepeat r) then show ?thesis using step [of "Op_SetRepeat r"] by simp
  next
    case (Ws_SetShuffle b) then show ?thesis using step [of "Op_SetShuffle b"] by simp
  next
    case (Ws_SelectNode i) then show ?thesis using step [of "Op_SelectNode i"] by simp
  next
    case (Ws_AddToQueue t) then show ?thesis using step [of "Op_AddToQueue t"] by simp
  next
    case (Ws_AddTracksToQueue ts) then show ?thesis using step [of "Op_AddTracks ts"] by simp
  next
    case (Ws_PlayIndex k) then show ?thesis using step [of "Op_PlayIndex k"] by simp
  next
    case (Ws_RemoveFromQueue k) then show ?thesis using step [of "Op_RemoveFromQueue k"] by simp
  next
    case (Ws_MoveInQueue i j) then show ?thesis using step [of "Op_MoveInQueue i j"] by simp
  next
    case Ws_ClearQueue then show ?thesis using step [of Op_ClearQueue] by simp
  next
    case (Ws_Handoff a b) then show ?thesis using step [of "Op_Handoff a b"] by simp
  qed (use assms(1) in simp_all)
  then show ?thesis using assms(1) by (simp add: dispatch_command_def)
qed

text \<open>A command makes no other connection an owner.\<close>

lemma release_gives_none: "release_owner n conn ow m = Some other \<Longrightarrow> ow m = Some other"
  by (simp add: release_owner_def split: if_splits)

lemma start_gives_none:
  assumes "se_owners (start_session uuid name did conn s) m = Some other" "other \<noteq> conn"
  shows "se_owners s m = Some other"
proof -
  obtain nid c where l: "local_session_start uuid name did (se_core s) = (nid, c)"
    by (cases "local_session_start uuid name did (se_core s)")
  show ?thesis
    using assms by (auto simp: start_session_def l Let_def claim_owner_apply split: if_splits option.splits dest: release_gives_none)
qed

lemma dispatch_gives_none:
  assumes "se_owners (dispatch_command uuid conn cmd s) m = Some other" "other \<noteq> conn"
  shows "se_owners s m = Some other"
proof -
  have "se_owners s m = Some other" if ex: "se_owners (execute uuid conn cmd s) m = Some other"
  proof (cases cmd)
    case (Ws_LocalSessionStart name did)
    then show ?thesis using ex start_gives_none [OF _ assms(2)] by (cases did) (auto split: if_splits)
  next
    case (Ws_LocalSessionUpdate ts idx pos st vol rep shuf)
    show ?thesis
    proof (cases "se_local_node_id s")
      case (Some nid)
      obtain r c where "local_session_update nid ts idx pos st vol rep shuf (se_core s) = (r, c)"
        by (cases "local_session_update nid ts idx pos st vol rep shuf (se_core s)")
      with ex Some show ?thesis
        by (auto simp: Ws_LocalSessionUpdate update_session_def Let_def split: if_splits dest: release_gives_none)
    qed (use ex in \<open>simp add: Ws_LocalSessionUpdate update_session_def\<close>)
  next
    case Ws_LocalSessionStop
    then show ?thesis using ex
      by (cases "se_local_node_id s") (auto simp: stop_session_def split: if_splits dest: release_gives_none)
  qed (use ex in simp_all)
  with assms(1) show ?thesis by (simp add: dispatch_command_def split: if_splits)
qed

lemma dispatch_others:
  assumes "claimable uuid conn cmd s" "other \<noteq> conn"
  shows "se_owners (dispatch_command uuid conn cmd s) m = Some other \<longleftrightarrow> se_owners s m = Some other"
  using others_keep_sessions [OF assms(1) _ assms(2)] dispatch_gives_none [OF _ assms(2)] by blast

subsection \<open>Reachable servers\<close>

text \<open>
  What is asked of an event: ids made by \<open>Uuid::new_v4\<close> are new, and a command is sensible.
\<close>

fun message_ok :: "string \<Rightarrow> string \<Rightarrow> client_message \<Rightarrow> 'w session \<Rightarrow> bool" where
  "message_ok uuid conn (Msg_Command cmd) se = command_ok uuid conn cmd se"
| "message_ok uuid conn _ se = True"

fun event_ok :: "string \<Rightarrow> 'w server_event \<Rightarrow> 'w server \<Rightarrow> bool" where
  "event_ok uuid (Ev_Connect frames kid key conn out hello sent) s \<longleftrightarrow>
    kid \<notin> sv_issued s \<and> sv_nodes s conn = None \<and>
    pred_option (\<lambda>msg. message_ok uuid kid msg \<lparr>se_core = sv_core s, se_owners = sv_owners s, se_local_node_id = None\<rparr>)
      (first_message frames)"
| "event_ok uuid (Ev_Ui conn sent (Turn_Frame (Frame_Text (Some msg)))) s \<longleftrightarrow>
    pred_option (\<lambda>u. message_ok uuid conn msg (session_of u s)) (sv_uis s conn)"
| "event_ok uuid (Ev_Node conn sent (Node_Rotate kid key)) s \<longleftrightarrow> kid \<notin> sv_issued s"
| "event_ok uuid ev s \<longleftrightarrow> True"

inductive server_reachable :: "ui_env \<Rightarrow> 'w server \<Rightarrow> bool" for env :: ui_env where
  start: "core_reachable c \<Longrightarrow> server_reachable env (server_new c lib pls)"
| step: "server_reachable env s \<Longrightarrow> event_ok uuid ev s \<Longrightarrow> server_reachable env (server_exec env now now_ns uuid ev s)"

inductive_cases server_reachable_cases: "server_reachable env s"

subsection \<open>Sessions\<close>

definition sessions_ok :: "'w server \<Rightarrow> bool" where
  "sessions_ok s \<longleftrightarrow> core_reachable (sv_core s) \<and>
     (\<forall>conn u. sv_uis s conn = Some u \<longrightarrow> session_ok conn (session_of u s)) \<and>
     (\<forall>m conn. sv_owners s m = Some conn \<longrightarrow> conn \<in> sv_issued s) \<and> dom (sv_uis s) \<subseteq> sv_issued s"

lemma session_of_fields [simp]:
  "se_core (session_of u s) = sv_core s" "se_owners (session_of u s) = sv_owners s"
  "se_local_node_id (session_of u s) = uc_local_node_id u"
  by (simp_all add: session_of_def)

lemma session_ok_cong:
  "se_owners a = se_owners b \<Longrightarrow> se_local_node_id a = se_local_node_id b \<Longrightarrow> session_ok conn a = session_ok conn b"
  by (simp add: session_ok_def)

text \<open>A turn of one connection leaves the others as they are.\<close>

lemma sessions_turn:
  assumes ok: "sessions_ok s" and core: "core_reachable (sv_core s')"
    and others: "\<And>m other. other \<noteq> conn \<Longrightarrow> sv_owners s' m = Some other \<longleftrightarrow> sv_owners s m = Some other"
    and conn: "sv_uis s' = (sv_uis s)(conn := x)" "conn \<in> sv_issued s" "sv_issued s' = sv_issued s"
    and own: "\<And>u. x = Some u \<Longrightarrow> session_ok conn (session_of u s')"
  shows "sessions_ok s'"
  unfolding sessions_ok_def
proof (intro conjI allI impI)
  show "session_ok c (session_of u s')" if "sv_uis s' c = Some u" for c u
  proof (cases "c = conn")
    case False
    then have "session_ok c (session_of u s)" using that conn(1) ok by (simp add: sessions_ok_def)
    with others [OF False] show ?thesis by (simp add: session_ok_def)
  qed (use that conn(1) own in simp)
  show "c \<in> sv_issued s'" if "sv_owners s' m = Some c" for m c
    using that others [of c m] conn(2,3) ok by (cases "c = conn") (auto simp: sessions_ok_def)
  show "dom (sv_uis s') \<subseteq> sv_issued s'" using ok conn by (cases x) (auto simp: sessions_ok_def)
qed (rule core)

lemma sessions_same:
  assumes "sessions_ok s" "core_reachable (sv_core s')" "sv_owners s' = sv_owners s" "sv_uis s' = sv_uis s"
    "sv_issued s \<subseteq> sv_issued s'"
  shows "sessions_ok s'"
  using assms session_ok_cong [of "session_of u s'" "session_of u s" for u]
  by (auto simp: sessions_ok_def)

lemma message_effect:
  assumes "handle_ui_client_message env now now_ns uuid conn msg v = Some (v', r)"
  shows "ui_session v' = ui_session v \<or>
    (\<exists>cmd. msg = Msg_Command cmd \<and> ui_session v' = dispatch_command uuid conn cmd (ui_session v))"
  using assms
  by (cases msg) (auto simp: handle_ui_client_message_def dispatch_playlist_command_def split: if_splits option.splits)

lemma sessions_message:
  assumes ok: "sessions_ok s" "conn \<in> sv_issued s" and msg: "message_ok uuid conn msg (session_of u s)"
    and own: "session_ok conn (session_of u s)"
  shows "sessions_ok (ui_message env now now_ns uuid conn sent msg u s)"
proof (cases "handle_ui_client_message env now now_ns uuid conn msg (ui_view u s)")
  case None
  then have "ui_message env now now_ns uuid conn sent msg u s = s\<lparr>sv_uis := (sv_uis s)(conn := None)\<rparr>"
    by (simp add: ui_message_def)
  moreover have "sessions_ok (s\<lparr>sv_uis := (sv_uis s)(conn := None)\<rparr>)"
    by (rule sessions_turn [OF ok(1) _ _ _ ok(2), of _ None]) (use ok(1) in \<open>simp_all add: sessions_ok_def\<close>)
  ultimately show ?thesis by simp
next
  case (Some vr)
  obtain v r where vr: "vr = (v, r)" by (cases vr)
  define se where "se = ui_session v"
  have eff: "se = session_of u s \<or> (\<exists>cmd. msg = Msg_Command cmd \<and> se = dispatch_command uuid conn cmd (session_of u s))"
    using message_effect [OF Some [unfolded vr]] by (simp add: se_def ui_view_def)
  have reach: "core_reachable (se_core (session_of u s))" using ok(1) by (simp add: sessions_ok_def)
  have "core_reachable (se_core se) \<and> session_ok conn se \<and>
      (\<forall>m other. other \<noteq> conn \<longrightarrow> se_owners se m = Some other \<longleftrightarrow> sv_owners s m = Some other)"
    using eff
  proof (elim disjE exE conjE)
    fix cmd
    assume cmd: "msg = Msg_Command cmd" and se: "se = dispatch_command uuid conn cmd (session_of u s)"
    have "command_ok uuid conn cmd (session_of u s)" using msg cmd by simp
    moreover from this have "claimable uuid conn cmd (session_of u s)" by (simp add: command_ok_def)
    ultimately show ?thesis
      using dispatch_reachable [OF reach] session_ok_dispatch [OF own] dispatch_others unfolding se
      by (metis session_of_fields(2))
  qed (use reach own in simp)
  then have core: "core_reachable (se_core se)" and se_ok: "session_ok conn se"
    and others: "\<And>m other. other \<noteq> conn \<Longrightarrow> se_owners se m = Some other \<longleftrightarrow> sv_owners s m = Some other" by blast+
  define s' where "s' = ui_message env now now_ns uuid conn sent msg u s"
  obtain u' where s': "sv_core s' = se_core se" "sv_owners s' = se_owners se" "sv_issued s' = sv_issued s"
    "sv_uis s' = (sv_uis s)(conn \<mapsto> u')" "uc_local_node_id u' = se_local_node_id se"
    by (simp add: s'_def ui_message_def Some vr Let_def put_session_def se_def)
  have "sessions_ok s'"
  proof (rule sessions_turn [OF ok(1) _ _ s'(4) ok(2) s'(3)])
    show "core_reachable (sv_core s')" using core s'(1) by simp
    show "sv_owners s' m = Some other \<longleftrightarrow> sv_owners s m = Some other" if "other \<noteq> conn" for m other
      using others [OF that] s'(2) by metis
    show "session_ok conn (session_of x s')" if "Some u' = Some x" for x
      using se_ok s'(2,5) that session_ok_cong [of "session_of x s'" se] by simp
  qed
  then show ?thesis by (simp add: s'_def)
qed

lemma sessions_leave:
  assumes ok: "sessions_ok s" and u: "sv_uis s conn = Some u"
  shows "sessions_ok (ui_leave now conn u s)"
proof -
  have core: "core_reachable (run (local_session_disconnect (int now) i) (sv_core s))" for i
    using core_reachable.step [of "sv_core s" "Op_LocalDisconnect (int now) i"] ok by (simp add: sessions_ok_def)
  have "conn \<in> sv_issued s" using ok u by (auto simp: sessions_ok_def)
  then show ?thesis
    by (intro sessions_turn [OF ok, of _ conn None])
      (use core ok in \<open>auto simp: ui_leave_def put_session_def end_session_def release_owner_def sessions_ok_def split: option.split\<close>)
qed

lemma sessions_ui_step:
  assumes ok: "sessions_ok s" and u: "sv_uis s conn = Some u"
    and msg: "\<And>m. t = Turn_Frame (Frame_Text (Some m)) \<Longrightarrow> message_ok uuid conn m (session_of u s)"
  shows "sessions_ok (ui_step env now now_ns uuid conn sent t u s)"
proof -
  have conn: "conn \<in> sv_issued s" "session_ok conn (session_of u s)" using ok u by (auto simp: sessions_ok_def)
  have put: "sessions_ok (put_ui conn u' s)" if "uc_local_node_id u' = uc_local_node_id u" for u'
    by (rule sessions_turn [OF ok, of _ conn "Some u'"])
      (use ok conn that session_ok_cong [of "session_of u' (put_ui conn u' s)" "session_of u s"] in \<open>auto simp: put_ui_def sessions_ok_def\<close>)
  have seen: "session_of (u\<lparr>uc_last_seen := now\<rparr>) s = session_of u s" by (simp add: session_of_def)
  have message: "sessions_ok (ui_message env now now_ns uuid conn sent m (u\<lparr>uc_last_seen := now\<rparr>) s)"
    if "t = Turn_Frame (Frame_Text (Some m))" for m
    using sessions_message [OF ok conn(1), of uuid m "u\<lparr>uc_last_seen := now\<rparr>"] msg [OF that] conn(2) by (simp add: seen)
  show ?thesis
  proof (cases t)
    case (Turn_Frame f)
    then show ?thesis using put message sessions_leave [OF ok u]
      by (cases f) (auto simp: Let_def split: option.split)
  qed (use put sessions_leave [OF ok u] ok in \<open>simp_all\<close>)
qed

lemma sessions_node:
  assumes ok: "sessions_ok s"
  shows "sessions_ok (put_node conn n s)" "sessions_ok (revoke_key kid s)" "sessions_ok (new_key kid key now s)"
    "sessions_ok (s\<lparr>sv_nodes := ns\<rparr>)" "sessions_ok (s\<lparr>sv_keys := ks\<rparr>)" "sessions_ok (s\<lparr>sv_retired := rs\<rparr>)"
    "sessions_ok (s\<lparr>sv_issued := insert kid (sv_issued s)\<rparr>)"
    "core_reachable c \<Longrightarrow> sessions_ok (s\<lparr>sv_core := c\<rparr>)"
  by (rule sessions_same [OF ok]; use ok in \<open>auto simp: put_node_def revoke_key_def new_key_def sessions_ok_def\<close>)+

lemma open_connection_reachable:
  assumes "core_reachable c"
  shows "core_reachable (open_connection uuid conn out r c)"
proof -
  define i where "i = registration_id (registration_name uuid r) r"
  define ops where "ops = [Op_RegisterOutput i conn out, Op_AddNode (default_node\<lparr>nd_id := i, nd_name := registration_name uuid r\<rparr>),
    Op_SyncConnected i]"
  have "core_reachable (core_run ops c)"
    by (rule core_run_reachable [OF assms]) (simp add: ops_def index_ok_def default_node_def)
  then have c: "core_reachable (core_run ops c)" "core_reachable (run (stop_node i) (core_run ops c))"
    using core_reachable.step [of "core_run ops c" "Op_StopNode i"] by simp_all
  then show ?thesis by (auto simp: open_connection_def i_def [symmetric] ops_def Let_def split: option.split)
qed

lemma connection_reachable:
  assumes "core_reachable c"
  shows "core_reachable (connection_update i conn u c)" "core_reachable (close_connection i conn c)"
proof -
  show "core_reachable (connection_update i conn u c)" using assms
      core_reachable.step [OF assms, of "Op_SyncNodeState i (nu_status u) (nu_position_secs u) (nu_volume u) (nu_mpd_song_index u) (nu_projection_generation u)"]
    by (simp add: connection_update_def)
  show "core_reachable (close_connection i conn c)"
    using assms core_run_reachable [OF assms, of "[Op_UnregisterOutput i conn, Op_NodeDisconnected i]"]
    by (simp add: close_connection_def)
qed

lemma sessions_node_leave: "sessions_ok s \<Longrightarrow> sessions_ok (node_leave conn n s)"
  unfolding node_leave_def by (rule sessions_node(1), rule sessions_same [of s]) (simp_all add: sessions_ok_def)

lemma sessions_node_step:
  assumes ok: "sessions_ok s"
  shows "sessions_ok (node_step env now conn sent t n s)"
proof -
  have core: "core_reachable (sv_core s)" using ok by (simp add: sessions_ok_def)
  have rotate: "sessions_ok (node_rotate env now kid key sent conn n s)" for kid key
  proof -
    have "sessions_ok (s\<lparr>sv_keys := ks, sv_issued := insert kid (sv_issued s)\<rparr>)" for ks
      by (rule sessions_same [OF ok]) (use ok in \<open>auto simp: sessions_ok_def\<close>)
    then show ?thesis by (simp add: node_rotate_def Let_def sessions_node(1) sessions_node_leave split: prod.split)
  qed
  show ?thesis
  proof (cases t)
    case (Node_Frame f)
    then show ?thesis
      by (cases f) (simp_all add: Let_def ok sessions_node(1) sessions_node(8) sessions_node_leave connection_reachable core
          split: option.split client_message.split)
  qed (use rotate ok in \<open>simp_all add: sessions_node_leave\<close>)
qed

lemma sessions_connect:
  assumes ok: "sessions_ok s" and ev: "event_ok uuid (Ev_Connect frames kid key conn out hello sent) s"
  shows "sessions_ok (handle_ws_connection env now now_ns uuid frames kid key conn out hello sent s)"
proof -
  have new: "kid \<notin> sv_issued s" using ev by simp
  have key: "sessions_ok (new_key kid key now s)" using ok by (rule sessions_node(3))
  have ui: "sessions_ok (ui_open env now now_ns uuid kid key hello sent msg s)" if "first_message frames = Some msg" for msg
  proof -
    let ?u = "\<lparr>uc_local_node_id = None, uc_last_seen = now,
      uc_written = [Srv_State (co_state (sv_core (new_key kid key now s))), Srv_MediaAuth kid]\<rparr>"
    have se: "session_of ?u (new_key kid key now s) = \<lparr>se_core = sv_core s, se_owners = sv_owners s, se_local_node_id = None\<rparr>"
      by (simp add: session_of_def new_key_def)
    have "sv_owners s m \<noteq> Some kid" for m using ok new by (auto simp: sessions_ok_def)
    then have "session_ok kid (session_of ?u (new_key kid key now s))" unfolding se by (simp add: session_ok_def)
    moreover have "message_ok uuid kid msg (session_of ?u (new_key kid key now s))" unfolding se using ev that by simp
    ultimately have "sessions_ok (ui_message env now now_ns uuid kid sent msg ?u (new_key kid key now s))"
      by (intro sessions_message [OF key]) (simp_all add: new_key_def)
    with key show ?thesis by (simp add: ui_open_def Let_def sessions_node(2))
  qed
  have node: "sessions_ok (node_open env now uuid kid key conn out hello r s)" for r
  proof -
    have "core_reachable (sv_core (new_key kid key now s))" using key by (simp add: sessions_ok_def)
    then show ?thesis using key
      by (simp add: node_open_def Let_def sessions_node(1,2,8) open_connection_reachable)
  qed
  show ?thesis unfolding handle_ws_connection_def
    using ui node ok by (auto split: option.split client_message.split)
qed

lemma sessions_exec:
  assumes ok: "sessions_ok s" and ev: "event_ok uuid ev s"
  shows "sessions_ok (server_exec env now now_ns uuid ev s)"
proof (cases ev)
  case (Ev_Connect frames kid key conn out hello sent)
  with ev show ?thesis by (simp only: server_exec.simps sessions_connect [OF ok])
next
  case (Ev_Ui conn sent t)
  show ?thesis
  proof (cases "sv_uis s conn")
    case (Some u)
    have "message_ok uuid conn m (session_of u s)" if "t = Turn_Frame (Frame_Text (Some m))" for m
      using ev Some by (simp add: Ev_Ui that)
    with Some show ?thesis by (simp add: Ev_Ui sessions_ui_step [OF ok Some])
  qed (simp add: Ev_Ui ok)
next
  case (Ev_Node_Gone conn)
  then show ?thesis
    using sessions_same [OF ok, of "node_gone conn n s" for n] connection_reachable(2) ok
    by (auto simp: node_gone_def sessions_ok_def split: option.split)
next
  case (Ev_Revoke conn)
  then show ?thesis
    by (simp add: run_revocations_def ok sessions_node(1,5) split: option.split)
next
  case Ev_Clean_Nodes
  have "core_reachable (sv_core s)" using ok by (simp add: sessions_ok_def)
  from core_reachable.step [OF this, of "Op_Cleanup (int now) node_max_age"] show ?thesis
    by (simp add: Ev_Clean_Nodes sessions_node(8) [OF ok])
qed (use ok in \<open>simp_all add: sessions_node_step sessions_node(5) split: option.split\<close>)

lemma server_sessions: "server_reachable env s \<Longrightarrow> sessions_ok s"
proof (induction rule: server_reachable.induct)
  case (start c lib pls)
  then show ?case by (simp add: sessions_ok_def server_new_def)
qed (rule sessions_exec)

text \<open>Two open connections never have the same local session.\<close>

lemma one_owner:
  assumes "server_reachable env s" "sv_uis s c = Some u" "sv_uis s c' = Some u'"
    and "uc_local_node_id u = Some m" "uc_local_node_id u' = Some m"
  shows "c = c'"
proof -
  have "session_ok c (session_of u s)" "session_ok c' (session_of u' s)"
    using server_sessions [OF assms(1)] assms(2,3) by (simp_all add: sessions_ok_def)
  then have "sv_owners s m = Some c" "sv_owners s m = Some c'"
    using assms(4,5) session_okD [of c "session_of u s" m] session_okD [of c' "session_of u' s" m] by simp_all
  then show ?thesis by simp
qed

subsection \<open>The keys of nodes\<close>

definition issued_by :: "node_conn \<Rightarrow> string set" where
  "issued_by n = set (kr_issued (nc_rotation n))"

definition rotation_ok :: "node_conn \<Rightarrow> bool" where
  "rotation_ok n \<longleftrightarrow> kr_issued (nc_rotation n) \<noteq> [] \<and> kr_active (nc_rotation n) = last (kr_issued (nc_rotation n)) \<and>
     map na_media_auth_key_id (nc_acks n) = map Some (kr_issued (nc_rotation n)) \<and>
    snd ` set (kr_revoke_at (nc_rotation n)) \<subseteq> issued_by n - {kr_active (nc_rotation n)}"

lemma rotation_okD: "rotation_ok n \<Longrightarrow> kr_active (nc_rotation n) \<in> issued_by n"
  by (simp add: rotation_ok_def issued_by_def)

lemma rotation_ok_cong: "nc_rotation n' = nc_rotation n \<Longrightarrow> nc_acks n' = nc_acks n \<Longrightarrow> rotation_ok n' = rotation_ok n"
  by (simp add: rotation_ok_def issued_by_def)

definition keys_ok :: "'w server \<Rightarrow> bool" where
  "keys_ok s \<longleftrightarrow>
     (\<forall>c n. sv_nodes s c = Some n \<longrightarrow> rotation_ok n \<and> issued_by n \<subseteq> sv_issued s) \<and>
     (\<forall>c c' n n'. sv_nodes s c = Some n \<longrightarrow> sv_nodes s c' = Some n' \<longrightarrow> c \<noteq> c' \<longrightarrow> issued_by n \<inter> issued_by n' = {}) \<and>
     sv_retired s \<subseteq> sv_issued s \<and> sv_retired s \<inter> dom (sv_keys s) = {}"

lemma keys_okD:
  "keys_ok s \<Longrightarrow> sv_nodes s c = Some n \<Longrightarrow> rotation_ok n"
  "keys_ok s \<Longrightarrow> sv_nodes s c = Some n \<Longrightarrow> issued_by n \<subseteq> sv_issued s"
  "keys_ok s \<Longrightarrow> sv_retired s \<inter> dom (sv_keys s) = {}"
  by (simp_all add: keys_ok_def)

lemma keys_ok_cong:
  "sv_nodes s' = sv_nodes s \<Longrightarrow> sv_keys s' = sv_keys s \<Longrightarrow> sv_issued s' = sv_issued s \<Longrightarrow> sv_retired s' = sv_retired s \<Longrightarrow>
    keys_ok s' = keys_ok s"
  by (simp add: keys_ok_def)

lemma dom_ks [simp]:
  "dom (ks_generate kid key now ks) = insert kid (dom ks)" "dom (ks_revoke kid ks) = dom ks - {kid}"
  by (auto simp: ks_generate_def ks_revoke_def)

lemma dom_revoke_all: "dom (fold ks_revoke kids ks) = dom ks - set kids"
  by (induction kids arbitrary: ks) auto

lemma dom_cleanup: "dom (ks_cleanup_expired now age ks) \<subseteq> dom ks"
  by (auto simp: ks_cleanup_expired_def split: option.splits)

lemma end_rotation_dom: "dom (end_rotation (r, ks)) = dom ks - set (kr_issued r)"
  by (simp add: end_rotation_def dom_revoke_all)

definition held :: "'w server \<Rightarrow> string \<Rightarrow> string set" where
  "held s conn = (case sv_nodes s conn of None \<Rightarrow> {} | Some n \<Rightarrow> issued_by n)"

text \<open>A turn of one node connection, in which \<open>new\<close> keys may have been made.\<close>

lemma keys_turn:
  assumes ok: "keys_ok s" and nodes: "sv_nodes s' = (sv_nodes s)(conn \<mapsto> n)"
    and n: "rotation_ok n" "issued_by n \<subseteq> held s conn \<union> new"
    and new: "new \<inter> sv_issued s = {}" "sv_issued s' = sv_issued s \<union> new"
    and retired: "sv_retired s' \<subseteq> sv_issued s'" "sv_retired s' \<inter> dom (sv_keys s') = {}"
  shows "keys_ok s'"
proof -
  have old: "held s conn \<subseteq> sv_issued s" using ok by (auto simp: held_def keys_ok_def split: option.split)
  have apart: "issued_by n \<inter> issued_by n' = {}" if "sv_nodes s c = Some n'" "c \<noteq> conn" for c n'
  proof -
    have "issued_by n' \<subseteq> sv_issued s" using ok that(1) by (simp add: keys_ok_def)
    moreover have "held s conn \<inter> issued_by n' = {}"
    proof (cases "sv_nodes s conn")
      case (Some m)
      moreover have "issued_by m \<inter> issued_by n' = {}" using ok that Some unfolding keys_ok_def by metis
      ultimately show ?thesis by (simp add: held_def)
    qed (simp add: held_def)
    ultimately show ?thesis using n(2) new(1) by blast
  qed
  have "rotation_ok m \<and> issued_by m \<subseteq> sv_issued s'" if "sv_nodes s' c = Some m" for c m
    using that nodes keys_okD(1,2) [OF ok, of c m] n old new(2) by (cases "c = conn") auto
  moreover have "issued_by m \<inter> issued_by m' = {}" if "sv_nodes s' c = Some m" "sv_nodes s' c' = Some m'" "c \<noteq> c'" for c c' m m'
  proof -
    consider "c = conn" | "c' = conn" | "c \<noteq> conn" "c' \<noteq> conn" by blast
    then show ?thesis
    proof cases
      case 3
      then show ?thesis using ok that nodes by (simp add: keys_ok_def)
    qed (use that nodes apart in auto)
  qed
  ultimately show ?thesis using retired by (simp add: keys_ok_def)
qed

lemma keys_fewer:
  assumes ok: "keys_ok s" and "\<And>c n. sv_nodes s' c = Some n \<Longrightarrow> sv_nodes s c = Some n"
    and "sv_issued s \<subseteq> sv_issued s'" "sv_retired s' = sv_retired s" "sv_retired s \<inter> dom (sv_keys s') = {}"
  shows "keys_ok s'"
proof -
  have "issued_by n \<inter> issued_by n' = {}" if "sv_nodes s' c = Some n" "sv_nodes s' c' = Some n'" "c \<noteq> c'" for c c' n n'
    using ok assms(2) that unfolding keys_ok_def by metis
  moreover have "rotation_ok n \<and> issued_by n \<subseteq> sv_issued s'" if "sv_nodes s' c = Some n" for c n
    using ok assms(2) [OF that] assms(3) by (auto simp: keys_ok_def)
  ultimately show ?thesis using ok assms(3-5) by (auto simp: keys_ok_def)
qed

lemma ui_message_keys:
  "sv_nodes (ui_message env now now_ns uuid conn sent msg u s) = sv_nodes s"
  "sv_keys (ui_message env now now_ns uuid conn sent msg u s) = sv_keys s"
  "sv_issued (ui_message env now now_ns uuid conn sent msg u s) = sv_issued s"
  "sv_retired (ui_message env now now_ns uuid conn sent msg u s) = sv_retired s"
  by (simp_all add: ui_message_def put_session_def Let_def split: option.split prod.split)

lemma ui_message_keys_ok: "keys_ok (ui_message env now now_ns uuid conn sent msg u s) = keys_ok s"
  by (rule keys_ok_cong) (rule ui_message_keys)+

lemma ui_step_keys:
  "sv_nodes (ui_step env now now_ns uuid conn sent t u s) = sv_nodes s \<and>
   sv_keys (ui_step env now now_ns uuid conn sent t u s) = sv_keys s \<and>
   sv_issued (ui_step env now now_ns uuid conn sent t u s) = sv_issued s \<and>
   sv_retired (ui_step env now now_ns uuid conn sent t u s) = sv_retired s"
proof (cases t)
  case (Turn_Frame f)
  then show ?thesis
    by (cases f) (simp_all add: Let_def ui_message_keys put_ui_def ui_leave_def put_session_def split: option.split)
qed (simp_all add: put_ui_def ui_leave_def put_session_def)

lemma keys_new:
  assumes "keys_ok s" "kid \<notin> sv_issued s"
  shows "keys_ok (new_key kid key now s)"
  by (rule keys_fewer [OF assms(1)]) (use assms in \<open>auto simp: new_key_def keys_ok_def\<close>)

lemma keys_revoke: "keys_ok s \<Longrightarrow> keys_ok (revoke_key kid s)"
  by (rule keys_fewer [of s]) (simp_all add: revoke_key_def keys_ok_def, blast)

lemma keys_connect:
  assumes ok: "keys_ok s" and ev: "event_ok uuid (Ev_Connect frames kid key conn out hello sent) s"
  shows "keys_ok (handle_ws_connection env now now_ns uuid frames kid key conn out hello sent s)"
proof -
  have new: "kid \<notin> sv_issued s" and conn: "sv_nodes s conn = None" using ev by simp_all
  have key: "keys_ok (new_key kid key now s)" using ok new by (rule keys_new)
  have ui: "keys_ok (ui_open env now now_ns uuid kid key hello sent msg s)" for msg
    using key keys_revoke [OF key, of kid] by (simp add: ui_open_def Let_def ui_message_keys_ok)
  have node: "keys_ok (node_open env now uuid kid key conn out hello r s)" for r
  proof (cases hello)
    case True
    let ?s = "node_open env now uuid kid key conn out True r s"
    have "sv_nodes ?s = (sv_nodes s)(conn \<mapsto> \<lparr>nc_node_id = registration_id (registration_name uuid r) r,
        nc_rotation = start_rotation kid, nc_acks = [key_ack env (registration_id (registration_name uuid r) r) kid key],
        nc_last_seen = now, nc_open = True\<rparr>)"
      by (simp add: node_open_def put_node_def new_key_def Let_def)
    then have "keys_ok ?s"
      by (rule keys_turn [OF ok, of _ _ _ "{kid}"])
        (use new ok in \<open>auto simp: rotation_ok_def issued_by_def start_rotation_def key_ack_def node_open_def put_node_def new_key_def
          Let_def keys_ok_def\<close>)
    with True show ?thesis by simp
  qed (use key in \<open>simp add: node_open_def Let_def keys_revoke\<close>)
  show ?thesis unfolding handle_ws_connection_def using ui node ok by (auto split: option.split client_message.split)
qed

lemma keys_leave:
  assumes ok: "keys_ok s" and n: "sv_nodes s conn = Some n'" "rotation_ok n" "issued_by n = issued_by n'"
  shows "keys_ok (node_leave conn n s)"
proof (rule keys_turn [OF ok, where new = "{}"])
  show "sv_nodes (node_leave conn n s) = (sv_nodes s)(conn \<mapsto> n\<lparr>nc_open := False\<rparr>)"
    by (simp add: node_leave_def put_node_def)
  show "issued_by (n\<lparr>nc_open := False\<rparr>) \<subseteq> held s conn \<union> {}" using n by (simp add: held_def issued_by_def)
  have "issued_by n' \<subseteq> sv_issued s" using ok n(1) by (simp add: keys_ok_def)
  then show "sv_retired (node_leave conn n s) \<subseteq> sv_issued (node_leave conn n s)"
    using ok n(3) by (auto simp: node_leave_def put_node_def keys_ok_def issued_by_def)
  show "sv_retired (node_leave conn n s) \<inter> dom (sv_keys (node_leave conn n s)) = {}"
    using ok by (auto simp: node_leave_def put_node_def keys_ok_def end_rotation_dom)
  show "rotation_ok (n\<lparr>nc_open := False\<rparr>)" using n(2) rotation_ok_cong [of "n\<lparr>nc_open := False\<rparr>" n] by simp
qed (simp_all add: node_leave_def put_node_def)

lemma keys_rotate:
  assumes ok: "keys_ok s" and n: "sv_nodes s conn = Some n" and new: "kid \<notin> sv_issued s"
  shows "keys_ok (node_rotate env now kid key sent conn n s)"
proof -
  have kid: "kid \<notin> issued_by n" using keys_okD(2) [OF ok n] new by blast
  define t where "t = s\<lparr>sv_keys := snd (rotate_key kid key now sent (nc_rotation n, sv_keys s)), sv_issued := insert kid (sv_issued s)\<rparr>"
  have t: "keys_ok t"
    by (rule keys_fewer [OF ok]) (use ok new in \<open>auto simp: t_def rotate_key_def keys_ok_def Let_def\<close>)
  let ?n = "n\<lparr>nc_rotation := fst (rotate_key kid key now sent (nc_rotation n, sv_keys s))\<rparr>"
  let ?m = "?n\<lparr>nc_acks := nc_acks n @ [key_ack env (nc_node_id n) kid key]\<rparr>"
  have rot: "node_rotate env now kid key sent conn n s = (if sent then put_node conn ?m t else node_leave conn ?n t)"
    by (simp add: node_rotate_def t_def Let_def split: prod.split)
  show ?thesis
  proof (cases sent)
    case True
    have "keys_ok (put_node conn ?m t)"
    proof (rule keys_turn [OF ok, where new = "{kid}"])
      show "sv_nodes (put_node conn ?m t) = (sv_nodes s)(conn \<mapsto> ?m)" by (simp add: put_node_def t_def)
      have "kr_active (nc_rotation n) \<noteq> kid" using rotation_okD [OF keys_okD(1) [OF ok n]] kid by auto
      then show "rotation_ok ?m" using keys_okD(1) [OF ok n] rotation_okD [OF keys_okD(1) [OF ok n]] kid True
        by (auto simp: rotation_ok_def issued_by_def rotate_key_def key_ack_def Let_def)
      show "issued_by ?m \<subseteq> held s conn \<union> {kid}" using n True
        by (auto simp: held_def issued_by_def rotate_key_def Let_def)
    qed (use new t in \<open>auto simp: put_node_def t_def keys_ok_def\<close>)
    with True rot show ?thesis by simp
  next
    case False
    have "nc_rotation ?n = nc_rotation n" using False by (simp add: rotate_key_def Let_def)
    then have "keys_ok (node_leave conn ?n t)"
      using keys_okD(1) [OF ok n] n rotation_ok_cong [of ?n n] by (intro keys_leave [OF t, where n' = n]) (simp_all add: issued_by_def t_def)
    with False rot show ?thesis by simp
  qed
qed

lemma keys_put:
  assumes ok: "keys_ok s" and n: "sv_nodes s conn = Some n" and r: "nc_rotation n' = nc_rotation n" "nc_acks n' = nc_acks n"
  shows "keys_ok (put_node conn n' (s\<lparr>sv_core := c\<rparr>))" "keys_ok (put_node conn n' s)"
proof -
  have n': "rotation_ok n'" "issued_by n' \<subseteq> held s conn \<union> {}"
    using keys_okD(1) [OF ok n] rotation_ok_cong [OF r] n r(1) by (simp_all add: issued_by_def held_def)
  show "keys_ok (put_node conn n' (s\<lparr>sv_core := c\<rparr>))" "keys_ok (put_node conn n' s)"
    by (rule keys_turn [OF ok _ n']; use ok in \<open>simp add: put_node_def keys_ok_def\<close>)+
qed

lemma keys_node_step:
  assumes ok: "keys_ok s" and n: "sv_nodes s conn = Some n" and ev: "event_ok uuid (Ev_Node conn sent t) s"
  shows "keys_ok (node_step env now conn sent t n s)"
proof -
  have leave: "keys_ok (node_leave conn n s)" by (rule keys_leave [OF ok n keys_okD(1) [OF ok n] refl])
  show ?thesis
  proof (cases t)
    case (Node_Rotate kid key)
    with ev show ?thesis by (simp add: keys_rotate [OF ok n])
  next
    case (Node_Frame f)
    then show ?thesis using leave
      by (cases f) (simp_all add: Let_def keys_put [OF ok n] split: option.split client_message.split)
  qed (use leave ok in simp_all)
qed

lemma keys_exec:
  assumes ok: "keys_ok s" and ev: "event_ok uuid ev s"
  shows "keys_ok (server_exec env now now_ns uuid ev s)"
proof (cases ev)
  case (Ev_Connect frames kid key conn out hello sent)
  with ev show ?thesis by (simp only: server_exec.simps keys_connect [OF ok])
next
  case (Ev_Ui conn sent t)
  have "keys_ok (ui_step env now now_ns uuid conn sent t u s)" for u
    using ok keys_ok_cong [of "ui_step env now now_ns uuid conn sent t u s" s]
      ui_step_keys [of env now now_ns uuid conn sent t u s] by simp
  with ok show ?thesis by (simp add: Ev_Ui split: option.split)
next
  case (Ev_Node conn sent t)
  have "keys_ok (node_step env now conn sent t n s)" if "sv_nodes s conn = Some n" for n
    using keys_node_step [OF ok that] ev unfolding Ev_Node by blast
  with ok show ?thesis by (simp add: Ev_Node split: option.split)
next
  case (Ev_Node_Gone conn)
  have "keys_ok (node_gone conn n s)" for n
    by (rule keys_fewer [OF ok]) (simp_all add: node_gone_def keys_okD(3) [OF ok] split: if_splits)
  then show ?thesis using ok by (simp add: Ev_Node_Gone split: option.split)
next
  case (Ev_Revoke conn)
  show ?thesis
  proof (cases "sv_nodes s conn")
    case (Some n)
    have retired: "sv_retired s \<subseteq> sv_issued s" "sv_retired s \<inter> dom (sv_keys s) = {}" using ok by (simp_all add: keys_ok_def)
    have "keys_ok (run_revocations now conn n s)"
    proof (rule keys_turn [OF ok, where new = "{}"])
      show "rotation_ok (n\<lparr>nc_rotation := (nc_rotation n)\<lparr>kr_revoke_at :=
          filter (\<lambda>(at_time, kid). now < at_time) (kr_revoke_at (nc_rotation n))\<rparr>\<rparr>)"
        using keys_okD(1) [OF ok Some] by (auto simp: rotation_ok_def issued_by_def)
      show "sv_retired (run_revocations now conn n s) \<inter> dom (sv_keys (run_revocations now conn n s)) = {}"
        using retired(2) by (simp add: run_revocations_def put_node_def dom_revoke_all) blast
      have "held s conn = issued_by n" by (simp add: held_def Some)
      then show "issued_by (n\<lparr>nc_rotation := (nc_rotation n)\<lparr>kr_revoke_at :=
          filter (\<lambda>(at_time, kid). now < at_time) (kr_revoke_at (nc_rotation n))\<rparr>\<rparr>) \<subseteq> held s conn \<union> {}"
        by (simp add: issued_by_def)
    qed (use retired(1) in \<open>simp_all add: run_revocations_def put_node_def\<close>)
    with Some show ?thesis by (simp add: Ev_Revoke)
  qed (simp add: Ev_Revoke ok)
next
  case Ev_Clean_Keys
  have "sv_retired s \<inter> dom (ks_cleanup_expired now key_max_age (sv_keys s)) = {}"
    using keys_okD(3) [OF ok] dom_cleanup [of now key_max_age "sv_keys s"] by blast
  then show ?thesis by (intro keys_fewer [OF ok]) (simp_all add: Ev_Clean_Keys)
next
  case Ev_Clean_Nodes
  then show ?thesis using ok by (simp add: keys_ok_def)
qed

lemma server_keys: "server_reachable env s \<Longrightarrow> keys_ok s"
proof (induction rule: server_reachable.induct)
  case (start c lib pls)
  then show ?case by (simp add: keys_ok_def server_new_def)
qed (rule keys_exec)

text \<open>A key of a node connection that has ended signs nothing any more.\<close>

lemma retired_refused:
  assumes "server_reachable env s" "aq_kid q \<in> sv_retired s"
  shows "\<not> verify_media_auth hmac (sv_keys s) now path q"
proof -
  have "sv_keys s (aq_kid q) = None" using server_keys [OF assms(1)] assms(2) by (auto simp: keys_ok_def)
  then show ?thesis by (simp add: verify_media_auth_def ks_get_def)
qed

text \<open>The delayed revocations spare the active key of every connection.\<close>

lemma active_spared:
  assumes reach: "server_reachable env s" and n: "sv_nodes s c = Some n" "sv_nodes s c' = Some n'"
  shows "kr_active (nc_rotation n') \<notin> set (revoke_due now n)"
proof
  assume due: "kr_active (nc_rotation n') \<in> set (revoke_due now n)"
  have ok: "keys_ok s" by (rule server_keys [OF reach])
  have "kr_active (nc_rotation n') \<in> issued_by n - {kr_active (nc_rotation n)}"
    using due keys_okD(1) [OF ok n(1)] by (auto simp: revoke_due_def rotation_ok_def)
  moreover have "kr_active (nc_rotation n') \<in> issued_by n'" by (rule rotation_okD [OF keys_okD(1) [OF ok n(2)]])
  moreover have "issued_by n \<inter> issued_by n' = {}" if "c \<noteq> c'"
    using ok n that unfolding keys_ok_def by metis
  ultimately show False using n by (cases "c = c'") auto
qed

text \<open>A node that reads the last ack sent to it has the key in use.\<close>

lemma last_ack_active:
  assumes "server_reachable env s" "sv_nodes s c = Some n"
  shows "nc_acks n \<noteq> [] \<and> na_media_auth_key_id (last (nc_acks n)) = Some (kr_active (nc_rotation n))"
proof -
  have r: "rotation_ok n" using keys_okD(1) [OF server_keys [OF assms(1)] assms(2)] .
  then have acks: "map na_media_auth_key_id (nc_acks n) = map Some (kr_issued (nc_rotation n))" "kr_issued (nc_rotation n) \<noteq> []"
    by (simp_all add: rotation_ok_def)
  then have "nc_acks n \<noteq> []" by auto
  then have "na_media_auth_key_id (last (nc_acks n)) = last (map na_media_auth_key_id (nc_acks n))" by (simp add: last_map)
  also have "\<dots> = Some (kr_active (nc_rotation n))" using acks r by (simp add: last_map rotation_ok_def)
  finally show ?thesis using \<open>nc_acks n \<noteq> []\<close> by simp
qed

text \<open>The keys of a connection whose loop ends are retired.\<close>

lemma left_retired: "issued_by n \<subseteq> sv_retired (node_leave conn n s)"
  by (simp add: node_leave_def put_node_def issued_by_def)

end
