(* ===== verification/Http_Server.thy ===== *)
theory Http_Server
  imports Artwork Node_Proxy
begin

text \<open>
  The plain media server (\<open>kanade-server-http/src/media_server.rs\<close>): one request for each connection, no
  signatures, and responses written by hand. Its range parser, content types, percent decoding and
  picture readers are the code of the signed endpoint over again, and are taken from there. A connection
  is what the client sends, line by line, and how many writes it takes before it breaks (a write that fails is taken to write nothing); a file that
  has been opened may turn out to be no regular file, and reading it may fail at a position.
\<close>

subsection \<open>Connections and files\<close>

record conn =
  cn_written :: "u8 list"
  cn_writes :: nat

type_synonym 'a conn_io = "(conn, string, 'a) io"

record open_file =
  of_bytes :: "u8 list"
  of_regular :: bool
  of_bad :: "nat \<Rightarrow> bool"

definition write_all :: "string \<Rightarrow> u8 list \<Rightarrow> unit conn_io" where
  "write_all what bs c =
    (if cn_writes c = 0 then (Inl (what @ '': Broken pipe''), c)
     else (Inr (), c\<lparr>cn_written := cn_written c @ bs, cn_writes := cn_writes c - 1\<rparr>))"

text \<open>\<open>he_db\<close> is \<open>None\<close> when the database cannot be opened; \<open>he_files\<close> are the regular files as the checks and
  the picture readers see them, \<open>he_open\<close> what opening a path for serving gives.\<close>

record http_env =
  he_db :: "library_db option"
  he_files :: file_system
  he_open :: "string \<Rightarrow> open_file option"
  he_exists :: "string \<Rightarrow> bool"
  he_canonical :: "string \<Rightarrow> string"
  he_pictures :: "string \<Rightarrow> picture list option"
  he_got :: "nat \<Rightarrow> nat"

subsection \<open>Responses\<close>

definition header_line :: "string \<times> string \<Rightarrow> string" where
  "header_line h = fst h @ '': '' @ snd h @ crlf"

definition response_head :: "nat \<Rightarrow> string \<Rightarrow> (string \<times> string) list \<Rightarrow> string" where
  "response_head status reason headers =
    ''HTTP/1.1 '' @ show_nat status @ '' '' @ reason @ crlf @
    ''Access-Control-Allow-Origin: *'' @ crlf @ ''Access-Control-Allow-Headers: Range'' @ crlf @
    concat (map header_line headers) @ crlf"

definition write_response_headers :: "nat \<Rightarrow> string \<Rightarrow> (string \<times> string) list \<Rightarrow> unit conn_io" where
  "write_response_headers status reason headers = write_all ''write headers'' (bytes_of (response_head status reason headers))"

definition write_simple_response :: "nat \<Rightarrow> string \<Rightarrow> string \<Rightarrow> unit conn_io" where
  "write_simple_response status reason body =
    andDo (write_response_headers status reason
        [(''Content-Length'', show_nat (length body)), (''Content-Type'', ''text/plain; charset=utf-8'')])
      (if body = [] then ret () else write_all ''write body'' (bytes_of body))"

definition serve_bytes :: "bool \<Rightarrow> string \<Rightarrow> u8 list \<Rightarrow> unit conn_io" where
  "serve_bytes is_head content_type data =
    andDo (write_response_headers 200 ''OK''
        [(''Content-Type'', content_type), (''Content-Length'', show_nat (length data)), (''Cache-Control'', ''public, max-age=86400'')])
      (if is_head then ret () else write_all ''write body'' data)"

function send_body :: "(nat \<Rightarrow> nat) \<Rightarrow> open_file \<Rightarrow> nat \<Rightarrow> nat \<Rightarrow> unit conn_io" where
  "send_body got f pos remaining c =
    (if remaining = 0 then (Inr (), c)
     else if of_bad f pos then (Inl ''read body: I/O error'', c)
     else
       let n = bytes_read got (drop pos (of_bytes f)) remaining
       in if n = 0 then (Inr (), c)
          else case write_all ''write body'' (take n (drop pos (of_bytes f))) c of
            (Inl e, c') \<Rightarrow> (Inl e, c')
          | (Inr _, c') \<Rightarrow> send_body got f (pos + n) (remaining - n) c')"
  by pat_completeness auto
termination
  by (relation "measure (\<lambda>(got, f, pos, remaining, c). remaining)") auto

declare send_body.simps [simp del]

definition serve_file_with_range :: "(nat \<Rightarrow> nat) \<Rightarrow> bool \<Rightarrow> open_file \<Rightarrow> string \<Rightarrow> string option \<Rightarrow> unit conn_io" where
  "serve_file_with_range got is_head f content_type rng =
    (let total_len = length (of_bytes f)
     in if \<not> of_regular f then fail ''not a regular file''
        else case parse_range rng total_len of
          Inl _ \<Rightarrow> write_response_headers 416 ''Range Not Satisfiable''
            [(''Content-Range'', ''bytes */'' @ show_nat total_len), (''Content-Length'', ''0'')]
        | Inr r \<Rightarrow>
            let (start, end', status, reason) = (case r of
                  Some (s, e) \<Rightarrow> (s, e, 206, ''Partial Content'')
                | None \<Rightarrow> (0, total_len - 1, 200, ''OK''));
                content_length = (if total_len = 0 then 0 else end' - start + 1);
                headers = [(''Content-Type'', content_type), (''Accept-Ranges'', ''bytes''),
                    (''Content-Length'', show_nat content_length)] @
                  (if status = 206
                   then [(''Content-Range'', ''bytes '' @ show_nat start @ ''-'' @ show_nat end' @ ''/'' @ show_nat total_len)]
                   else [])
            in andDo (write_response_headers status reason headers)
                 (if is_head \<or> content_length = 0 then ret () else send_body got f start content_length))"

definition serve_static_file :: "http_env \<Rightarrow> bool \<Rightarrow> string \<Rightarrow> string \<Rightarrow> unit conn_io" where
  "serve_static_file env is_head path content_type =
    (case he_open env path of
       None \<Rightarrow> fail ''open file: I/O error''
     | Some f \<Rightarrow> serve_file_with_range (he_got env) is_head f content_type None)"

text \<open>An error of serving is answered with a response of its own, whatever has been written before.\<close>

definition or_respond :: "unit conn_io \<Rightarrow> unit conn_io" where
  "or_respond m c =
    (case m c of
       (Inr _, c) \<Rightarrow> (Inr (), c)
     | (Inl e, c) \<Rightarrow>
         andDo (if contains ''open file:'' e then write_simple_response 404 ''Not Found'' []
                else write_simple_response 500 ''Internal Server Error'' []) (fail e) c)"

subsection \<open>The three kinds of paths\<close>

definition http_library :: "http_env \<Rightarrow> library" where
  "http_library env = \<lparr>lib_tracks = (case he_db env of None \<Rightarrow> [] | Some db \<Rightarrow> tracks_of db), lib_albums = []\<rparr>"

text \<open>The query of a path, from its first question mark on, is cut off.\<close>

definition without_query :: "string \<Rightarrow> string" where
  "without_query s = hd (split_on (CHR ''?'') s)"

definition http_serve_track :: "http_env \<Rightarrow> bool \<Rightarrow> string \<Rightarrow> string option \<Rightarrow> unit conn_io" where
  "http_serve_track env is_head track_id rng =
    (case get_track_by_id (http_library env) (without_query track_id) of
       None \<Rightarrow> write_simple_response 404 ''Track Not Found'' []
     | Some t \<Rightarrow> (case he_open env (tr_file_path t) of
         None \<Rightarrow> andDo (write_simple_response 404 ''File Not Found'' []) (fail ''open file: I/O error'')
       | Some f \<Rightarrow> serve_file_with_range (he_got env) is_head f (content_type_for_path (tr_file_path t)) rng))"

definition http_serve_artwork :: "http_env \<Rightarrow> bool \<Rightarrow> string \<Rightarrow> unit conn_io" where
  "http_serve_artwork env is_head album_id =
    (case (case he_db env of
             None \<Rightarrow> Some (Inl ''cannot open the database'')
           | Some db \<Rightarrow> find_artwork (he_canonical env) (he_pictures env) (he_files env) (he_exists env) db (without_query album_id)) of
       Some (Inr (Art_FilePath path)) \<Rightarrow> or_respond (serve_static_file env is_head path (content_type_for_path path))
     | Some (Inr (Art_Embedded mime data)) \<Rightarrow> serve_bytes is_head mime data
     | Some (Inl _) \<Rightarrow> write_simple_response 404 ''Artwork Not Found'' []
     | None \<Rightarrow> andDo (write_simple_response 500 ''Internal Server Error'' ''db error'') (fail ''db join: panic''))"

definition http_is_known_track_file :: "http_env \<Rightarrow> string \<Rightarrow> bool" where
  "http_is_known_track_file env p \<longleftrightarrow>
    p \<noteq> [] \<and> CHR 0x00 \<notin> set p \<and> \<not> contains ''..'' p \<and> is_known_track_file (he_files env) (http_library env) p"

definition http_serve_file :: "http_env \<Rightarrow> bool \<Rightarrow> string \<Rightarrow> string option \<Rightarrow> unit conn_io" where
  "http_serve_file env is_head decoded rng =
    (if decoded = [] \<or> contains ''..'' decoded then write_simple_response 400 ''Bad Request'' []
     else if \<not> http_is_known_track_file env decoded then write_simple_response 404 ''Not Found'' []
     else case he_open env decoded of
       None \<Rightarrow> write_simple_response 404 ''Not Found'' []
     | Some f \<Rightarrow> or_respond (serve_file_with_range (he_got env) is_head f (content_type_for_path decoded) rng))"

text \<open>A panic, of the percent decoding, is \<open>None\<close>: the connection is closed.\<close>

definition http_respond :: "http_env \<Rightarrow> bool \<Rightarrow> string \<Rightarrow> string option \<Rightarrow> conn \<Rightarrow> ((string + unit) \<times> conn) option" where
  "http_respond env is_head path rng c =
    (case strip_prefix ''/media/tracks/'' path of
       Some track_id \<Rightarrow> Some (http_serve_track env is_head track_id rng c)
     | None \<Rightarrow> (case strip_prefix ''/media/art/'' path of
         Some album_id \<Rightarrow> Some (http_serve_artwork env is_head album_id c)
       | None \<Rightarrow> (case strip_prefix ''/media/file/'' path of
           Some raw \<Rightarrow> map_option (\<lambda>decoded. http_serve_file env is_head decoded rng c) (percent_decode raw)
         | None \<Rightarrow> Some (write_simple_response 404 ''Not Found'' [] c))))"

subsection \<open>A connection\<close>

text \<open>The headers up to an empty line or the end of the stream; of several ranges the last counts.\<close>

fun read_range_header :: "string option \<Rightarrow> string input \<Rightarrow> string + string option" where
  "read_range_header rng [] = Inr rng"
| "read_range_header rng (Inl e # s) = Inl (''read header: '' @ e)"
| "read_range_header rng (Inr line # s) =
    (let trimmed = trim line
     in if trimmed = [] then Inr rng
        else read_range_header
          (if prefix ''range:'' (to_ascii_lowercase trimmed) then Some (trim (drop 6 trimmed)) else rng) s)"

definition handle_connection :: "http_env \<Rightarrow> string input \<Rightarrow> conn \<Rightarrow> ((string + unit) \<times> conn) option" where
  "handle_connection env s c =
    (case read_line s of
       (Inl e, _) \<Rightarrow> Some (fail (''read request line: '' @ e) c)
     | (Inr line, s) \<Rightarrow>
         if trim line = [] then Some (ret () c)
         else case split_whitespace line of
           method' # path # _ \<Rightarrow> (case read_range_header None s of
               Inl e \<Rightarrow> Some (fail e c)
             | Inr rng \<Rightarrow>
                 if method' = ''OPTIONS'' then Some (write_simple_response 204 ''No Content'' [] c)
                 else if method' \<noteq> ''GET'' \<and> method' \<noteq> ''HEAD'' then Some (write_simple_response 405 ''Method Not Allowed'' [] c)
                 else http_respond env (method' = ''HEAD'') path rng c)
         | _ \<Rightarrow> Some (write_simple_response 400 ''Bad Request'' [] c))"

definition is_expected_disconnect :: "string \<Rightarrow> bool" where
  "is_expected_disconnect e \<longleftrightarrow> contains ''Broken pipe'' e \<or> contains ''Connection reset'' e"

end
