(* ===== verification/Http_Facts.thy ===== *)
theory Http_Facts
  imports Http_Server Media_Facts
begin

text \<open>
  The plain media server answers a request for a healthy file as the signed endpoint does, with the same
  status, headers and bytes; it never serves a file outside the library; and a read error in the middle
  of a file makes it write a second response into the body of the first.
\<close>

subsection \<open>Bodies\<close>

lemma send_body_ok:
  assumes "\<forall>p. \<not> of_bad f p" "remaining \<le> cn_writes c"
  shows "\<exists>k \<le> remaining. send_body got f pos remaining c =
    (Inr (), c\<lparr>cn_written := cn_written c @ take remaining (drop pos (of_bytes f)), cn_writes := cn_writes c - k\<rparr>)"
  using assms
proof (induction got f pos remaining c rule: send_body.induct)
  case (1 got f pos remaining c)
  define n where "n = bytes_read got (drop pos (of_bytes f)) remaining"
  show ?case
  proof (cases "remaining = 0 \<or> n = 0")
    case True
    then have "take remaining (drop pos (of_bytes f)) = []" by (auto simp: n_def bytes_read_0)
    with True 1(2) show ?thesis by (intro exI [of _ 0]) (auto simp: send_body.simps [of got f pos remaining] n_def Let_def)
  next
    case False
    let ?c = "c\<lparr>cn_written := cn_written c @ take n (drop pos (of_bytes f)), cn_writes := cn_writes c - 1\<rparr>"
    have n: "0 < n" "n \<le> remaining" using False bytes_read_le [of remaining got "drop pos (of_bytes f)"] by (auto simp: n_def)
    have w: "write_all ''write body'' (take n (drop pos (of_bytes f))) c = (Inr (), ?c)"
      using False 1(3) by (simp add: write_all_def)
    have "\<exists>k \<le> remaining - n. send_body got f (pos + n) (remaining - n) ?c = (Inr (), ?c\<lparr>cn_written := cn_written ?c @
        take (remaining - n) (drop (pos + n) (of_bytes f)), cn_writes := cn_writes ?c - k\<rparr>)"
      by (rule 1(1) [OF _ _ n_def _ w [symmetric] refl]) (use False 1(2,3) n in auto)
    then obtain k where k: "k \<le> remaining - n"
      "send_body got f (pos + n) (remaining - n) ?c = (Inr (), ?c\<lparr>cn_written := cn_written ?c @
        take (remaining - n) (drop (pos + n) (of_bytes f)), cn_writes := cn_writes ?c - k\<rparr>)" by blast
    have "take n (drop pos (of_bytes f)) @ take (remaining - n) (drop (pos + n) (of_bytes f)) = take remaining (drop pos (of_bytes f))"
      using take_add [of n "remaining - n" "drop pos (of_bytes f)"] n(2) by (simp add: add.commute)
    then have "send_body got f pos remaining c =
        (Inr (), c\<lparr>cn_written := cn_written c @ take remaining (drop pos (of_bytes f)), cn_writes := cn_writes c - (k + 1)\<rparr>)"
      using False 1(2) w k(2) by (simp add: send_body.simps [of got f pos remaining] n_def [symmetric] Let_def)
    with k(1) n show ?thesis by (intro exI [of _ "k + 1"]) auto
  qed
qed

lemma header_value_digits: "header_value_ok (show_nat n)"
  by (auto simp: header_value_ok_def list_all_iff is_digit_def dest!: show_nat_digits)

lemma header_value_append: "header_value_ok (a @ b) \<longleftrightarrow> header_value_ok a \<and> header_value_ok b"
  by (simp add: header_value_ok_def)

lemma header_values:
  "header_value_ok (''bytes '' @ show_nat s @ ''-'' @ show_nat e @ ''/'' @ show_nat n)" "header_value_ok (''bytes */'' @ show_nat n)"
  "header_value_ok ''bytes''" "header_value_ok ''0''" "header_value_ok (content_type_for_path p)"
  by (simp_all only: header_value_append header_value_digits)
    (simp_all add: header_value_ok_def content_type_for_path_def byte_of_def split: option.split)

subsection \<open>One response for both servers\<close>

text \<open>What is written is the response \<open>r\<close>, with some of its headers.\<close>

definition writes_response :: "response \<Rightarrow> conn \<Rightarrow> conn \<Rightarrow> bool" where
  "writes_response r c c' \<longleftrightarrow> (\<exists>reason headers.
    cn_written c' = cn_written c @ bytes_of (response_head (rs_status r) reason headers) @ concat (rs_body r) \<and>
    (\<forall>h \<in> set headers. rs_headers r (to_ascii_lowercase (fst h)) = Some (snd h)))"

lemma lower_names:
  "to_ascii_lowercase ''Content-Type'' = ''content-type''" "to_ascii_lowercase ''Content-Length'' = ''content-length''"
  "to_ascii_lowercase ''Accept-Ranges'' = ''accept-ranges''" "to_ascii_lowercase ''Content-Range'' = ''content-range''"
  by code_simp+

lemma header_values_simp:
  "header_value_ok (''bytes '' @ show_nat s @ ''-'' @ show_nat e @ ''/'' @ show_nat n) = True"
  "header_value_ok (''bytes */'' @ show_nat n) = True" "header_value_ok ''bytes''" "header_value_ok ''0''"
  "header_value_ok ''*''" "header_value_ok ''Range''" "header_value_ok (show_nat n)"
  using header_values header_value_digits by (simp_all add: header_value_ok_def byte_of_def)

lemmas header_forms = header_values_simp header_values_simp [simplified append.simps]

lemma range_refused:
  assumes "fs path = Some data" "parse_range rng (length data) = Inl u"
  shows "rs_status (serve_path_with_range got fs h path ct rng None) = 416"
    "rs_body (serve_path_with_range got fs h path ct rng None) = []"
    "rs_headers (serve_path_with_range got fs h path ct rng None) ''content-range'' = Some (''bytes */'' @ show_nat (length data))"
    "rs_headers (serve_path_with_range got fs h path ct rng None) ''content-length'' = Some ''0''"
  using assms by (simp_all add: serve_path_with_range_def Let_def insert_header_def body_response_def header_forms)

text \<open>The part of the file served, and its status.\<close>

definition served_part :: "string option \<Rightarrow> nat \<Rightarrow> (nat \<times> nat) option" where
  "served_part rng n =
    (case parse_range rng n of Inl _ \<Rightarrow> None | Inr (Some (s, e)) \<Rightarrow> Some (s, e - s + 1)
     | Inr None \<Rightarrow> Some (0, n))"

lemma range_served:
  fixes h :: bool and got :: "nat \<Rightarrow> nat"
  assumes "fs path = Some data" "parse_range rng (length data) = Inr r" "header_value_ok ct"
    and "served_part rng (length data) = Some (s, n)"
  defines "resp \<equiv> serve_path_with_range got fs h path ct rng None"
  shows "rs_status resp = (if r = None then 200 else 206)"
    "concat (rs_body resp) = (if h then [] else take n (drop s data))"
    "rs_headers resp ''content-type'' = Some ct" "rs_headers resp ''accept-ranges'' = Some ''bytes''"
    "rs_headers resp ''content-length'' = Some (show_nat n)"
    "r \<noteq> None \<Longrightarrow> rs_headers resp ''content-range'' =
      Some (''bytes '' @ show_nat (fst (the r)) @ ''-'' @ show_nat (snd (the r)) @ ''/'' @ show_nat (length data))"
proof -
  have nonempty: "r \<noteq> None \<Longrightarrow> data \<noteq> []" using assms(2) by (auto simp: parse_range_def split: option.splits)
  note defs = resp_def serve_path_with_range_def served_part_def insert_header_def body_response_def Let_def body_chunks_concat
    header_forms
  show "rs_status resp = (if r = None then 200 else 206)" using assms nonempty by (auto simp: defs split: option.splits)
  show "concat (rs_body resp) = (if h then [] else take n (drop s data))"
    using assms nonempty by (auto simp: defs split: option.splits)
  show "rs_headers resp ''content-type'' = Some ct" using assms nonempty by (auto simp: defs split: option.splits)
  show "rs_headers resp ''accept-ranges'' = Some ''bytes''" using assms nonempty by (auto simp: defs split: option.splits)
  show "rs_headers resp ''content-length'' = Some (show_nat n)" using assms nonempty by (auto simp: defs split: option.splits)
  show "r \<noteq> None \<Longrightarrow> rs_headers resp ''content-range'' =
      Some (''bytes '' @ show_nat (fst (the r)) @ ''-'' @ show_nat (snd (the r)) @ ''/'' @ show_nat (length data))"
    using assms nonempty by (auto simp: defs split: option.splits)
qed

lemma serve_file_matches:
  assumes "fs path = Some (of_bytes f)" "of_regular f" "\<forall>p. \<not> of_bad f p" "length (of_bytes f) < cn_writes c" "header_value_ok ct"
  shows "\<exists>c'. serve_file_with_range got h f ct rng c = (Inr (), c') \<and>
    writes_response (serve_path_with_range got fs h path ct rng None) c c'"
proof (cases "parse_range rng (length (of_bytes f))")
  case (Inl u)
  note refused = range_refused [of fs path "of_bytes f" rng u got h ct, OF assms(1) Inl]
  let ?hs = "[(''Content-Range'', ''bytes */'' @ show_nat (length (of_bytes f))), (''Content-Length'', ''0'')]"
  have w: "serve_file_with_range got h f ct rng c =
      write_all ''write headers'' (bytes_of (response_head 416 ''Range Not Satisfiable'' ?hs)) c"
    using Inl assms(2) by (simp only: serve_file_with_range_def write_response_headers_def Let_def sum.case if_False not_True_eq_False)
  have "writes_response (serve_path_with_range got fs h path ct rng None) c
      (c\<lparr>cn_written := cn_written c @ bytes_of (response_head 416 ''Range Not Satisfiable'' ?hs), cn_writes := cn_writes c - 1\<rparr>)"
    unfolding writes_response_def refused(1,2)
    by (rule exI [of _ "''Range Not Satisfiable''"], rule exI [of _ ?hs])
      (simp add: lower_names refused(3,4) del: append.simps)
  with w assms(4) show ?thesis by (simp add: write_all_def)
next
  case (Inr r)
  obtain s n where part: "served_part rng (length (of_bytes f)) = Some (s, n)"
    using Inr by (cases r) (auto simp: served_part_def)
  note served = range_served [of fs path "of_bytes f" rng r ct s n got h, OF assms(1) Inr assms(5) part]
  let ?hs = "[(''Content-Type'', ct), (''Accept-Ranges'', ''bytes''), (''Content-Length'', show_nat n)] @
    (if r = None then [] else [(''Content-Range'', ''bytes '' @ show_nat (fst (the r)) @ ''-'' @ show_nat (snd (the r)) @ ''/'' @ show_nat (length (of_bytes f)))])"
  let ?reason = "if r = None then ''OK'' else ''Partial Content''"
  let ?head = "bytes_of (response_head (if r = None then 200 else 206) ?reason ?hs)"
  have nonempty: "r \<noteq> None \<Longrightarrow> of_bytes f \<noteq> []" using Inr by (auto simp: parse_range_def split: option.splits)
  have n: "n \<le> length (of_bytes f)" "n = 0 \<longleftrightarrow> of_bytes f = []"
    using part Inr nonempty parse_range_bounds [of rng "length (of_bytes f)"] by (auto simp: served_part_def split: option.splits)
  have w: "serve_file_with_range got h f ct rng c =
      andDo (write_all ''write headers'' ?head) (if h \<or> n = 0 then ret () else send_body got f s n) c"
    using Inr assms(2) part nonempty n(2)
    by (cases r) (auto simp: serve_file_with_range_def write_response_headers_def served_part_def Let_def)
  let ?c = "c\<lparr>cn_written := cn_written c @ ?head, cn_writes := cn_writes c - 1\<rparr>"
  have "\<exists>c'. (if h \<or> n = 0 then ret () else send_body got f s n) d = (Inr (), c') \<and>
      cn_written c' = cn_written d @ (if h then [] else take n (drop s (of_bytes f)))"
    if "n \<le> cn_writes d" for d
    using send_body_ok [of f n d got s] assms(3) n that by (auto simp: ret_def)
  moreover have "n \<le> cn_writes ?c" using assms(4) n(1) by simp
  ultimately obtain c' where c': "(if h \<or> n = 0 then ret () else send_body got f s n) ?c = (Inr (), c')"
    "cn_written c' = cn_written ?c @ (if h then [] else take n (drop s (of_bytes f)))" by blast
  have "serve_file_with_range got h f ct rng c = (Inr (), c')"
    unfolding w using c'(1) assms(4) by (simp add: andDo_def andThen_def write_all_def)
  moreover have "writes_response (serve_path_with_range got fs h path ct rng None) c c'"
    unfolding writes_response_def served(1,2)
    by (rule exI [of _ ?reason], rule exI [of _ ?hs])
      (use c'(2) served(3-6) in \<open>auto simp: lower_names simp del: append.simps\<close>)
  ultimately show ?thesis by blast
qed

subsection \<open>Requests for a track\<close>

lemma trim_Nil: "trim s = [] \<Longrightarrow> \<forall>c \<in> set s. is_space c"
proof -
  assume "trim s = []"
  then have "\<forall>c \<in> set (dropWhile is_space s). is_space c" by (simp add: trim_def)
  then have "dropWhile is_space s = []" by (metis hd_dropWhile hd_in_set)
  then show ?thesis by simp
qed

lemma split_words_space: "\<forall>c \<in> set s. is_space c \<Longrightarrow> split_words [] s = []"
  by (induction s) auto

lemma request_line: "split_whitespace line = w # ws \<Longrightarrow> trim line \<noteq> []"
  using split_words_space [of line] trim_Nil [of line] by (auto simp: split_whitespace_def)

definition healthy :: "open_file \<Rightarrow> conn \<Rightarrow> bool" where
  "healthy f c \<longleftrightarrow> of_regular f \<and> (\<forall>p. \<not> of_bad f p) \<and> length (of_bytes f) < cn_writes c"

lemma handle_track_request:
  assumes "split_whitespace line = m # (''/media/tracks/'' @ i) # ws" "m = ''GET'' \<or> m = ''HEAD''" "read_range_header None s = Inr rng"
  shows "handle_connection env (Inr line # s) c = Some (http_serve_track env (m = ''HEAD'') i rng c)"
  using assms(2,3) request_line [OF assms(1)]
  by (auto simp: handle_connection_def read_line_def assms(1) http_respond_def simp del: append.simps)

lemma without_query_plain: "CHR ''?'' \<notin> set s \<Longrightarrow> without_query s = s"
  by (induction s) (auto simp: without_query_def split: list.splits)

lemma track_request_matches:
  assumes "split_whitespace line = m # (''/media/tracks/'' @ i) # ws" "m = ''GET'' \<or> m = ''HEAD''" "read_range_header None s = Inr rng"
    and "CHR ''?'' \<notin> set i" "get_track_by_id (http_library env) i = Some t" "lib_tracks lib = lib_tracks (http_library env)"
    and "he_open env (tr_file_path t) = Some f" "he_files env (tr_file_path t) = Some (of_bytes f)" "healthy f c"
    and "verify_media_auth hmac ks now uri q"
  shows "\<exists>c'. handle_connection env (Inr line # s) c = Some (Inr (), c') \<and>
    writes_response (media_track_handler hmac (he_got env) (he_files env) lib ks now uri i q rng (m = ''HEAD'')) c c'"
proof -
  have "get_track_by_id lib i = Some t" using assms(5,6) by (simp add: get_track_by_id_def)
  moreover have "http_serve_track env (m = ''HEAD'') i rng c =
      serve_file_with_range (he_got env) (m = ''HEAD'') f (content_type_for_path (tr_file_path t)) rng c"
    using assms(4,5,7) by (simp add: http_serve_track_def without_query_plain)
  moreover have "\<exists>c'. serve_file_with_range (he_got env) (m = ''HEAD'') f (content_type_for_path (tr_file_path t)) rng c = (Inr (), c') \<and>
      writes_response (serve_path_with_range (he_got env) (he_files env) (m = ''HEAD'') (tr_file_path t)
        (content_type_for_path (tr_file_path t)) rng None) c c'"
    using assms(8,9) by (intro serve_file_matches) (simp_all add: healthy_def header_values)
  ultimately show ?thesis using assms(10) handle_track_request [OF assms(1-3)] by (simp add: media_track_handler_def)
qed

subsection \<open>Nothing but the library\<close>

definition served_paths :: "http_env \<Rightarrow> string set" where
  "served_paths env = (case he_db env of None \<Rightarrow> {} | Some db \<Rightarrow>
     tr_file_path ` set (tracks_of db) \<union> {p. \<exists>a \<in> set (ld_albums db). aw_artwork_path a = Some p})"

lemma known_track_served:
  "get_track_by_id (http_library env) i = Some t \<Longrightarrow> tr_file_path t \<in> served_paths env"
  "get_track_by_path (http_library env) p = Some t \<Longrightarrow> p \<in> served_paths env"
  by (auto simp: get_track_by_id_def get_track_by_path_def http_library_def served_paths_def dest: find_SomeD split: option.splits)

lemma artwork_served:
  assumes "he_db env = Some db" "find_artwork canonical pics fs ex db i = Some (Inr (Art_FilePath p))"
  shows "p \<in> served_paths env"
proof -
  have "get_album_artwork_path db i = Some p"
    using assms(2) by (auto simp: find_artwork_def Let_def split: option.splits if_splits list.splits)
  then show ?thesis using assms(1)
    by (auto simp: get_album_artwork_path_def served_paths_def bind_eq_Some_conv dest!: find_SomeD)
qed

lemma library_only:
  assumes "\<And>p. p \<in> served_paths env \<Longrightarrow> opened p = he_open env p"
  shows "handle_connection (env\<lparr>he_open := opened\<rparr>) s c = handle_connection env s c"
proof -
  let ?e = "env\<lparr>he_open := opened\<rparr>"
  have lib: "http_library ?e = http_library env" by (simp add: http_library_def)
  have track: "http_serve_track ?e h i rng = http_serve_track env h i rng" for h i rng
    using assms known_track_served(1) by (fastforce simp: http_serve_track_def lib split: option.splits)
  have art: "http_serve_artwork ?e h i = http_serve_artwork env h i" for h i
  proof (cases "he_db env")
    case (Some db)
    show ?thesis
    proof (cases "\<exists>p. find_artwork (he_canonical env) (he_pictures env) (he_files env) (he_exists env) db (without_query i) = Some (Inr (Art_FilePath p))")
      case True
      then obtain p where p: "find_artwork (he_canonical env) (he_pictures env) (he_files env) (he_exists env) db (without_query i) = Some (Inr (Art_FilePath p))" by blast
      then have "opened p = he_open env p" using assms artwork_served [OF Some p] by blast
      with p Some show ?thesis by (simp add: http_serve_artwork_def serve_static_file_def split: option.split)
    next
      case False
      with Some show ?thesis by (auto simp: http_serve_artwork_def split: option.splits sum.splits art_result.splits)
    qed
  qed (simp add: http_serve_artwork_def)
  have files: "http_serve_file ?e h p rng = http_serve_file env h p rng" for h p rng
  proof (cases "http_is_known_track_file env p")
    case True
    then have "opened p = he_open env p"
      using assms known_track_served(2) by (auto simp: http_is_known_track_file_def is_known_track_file_def)
    then show ?thesis by (simp add: http_serve_file_def http_is_known_track_file_def lib split: option.split)
  qed (auto simp: http_serve_file_def http_is_known_track_file_def lib)
  have "http_respond ?e = http_respond env"
    by (intro ext) (simp add: http_respond_def track art files split: option.split)
  then show ?thesis by (simp only: handle_connection_def)
qed

subsection \<open>A read error\<close>

text \<open>The headers promise the whole file; when its first read fails, what follows is another response.\<close>

lemma second_response:
  assumes "http_is_known_track_file env p" "he_open env p = Some f" "of_regular f" "of_bytes f \<noteq> []" "of_bad f 0" "2 \<le> cn_writes c"
  shows "\<exists>c'. http_serve_file env False p None c = (Inl ''read body: I/O error'', c') \<and>
    cn_written c' = cn_written c @
      bytes_of (response_head 200 ''OK'' [(''Content-Type'', content_type_for_path p), (''Accept-Ranges'', ''bytes''),
        (''Content-Length'', show_nat (length (of_bytes f)))]) @
      bytes_of (response_head 500 ''Internal Server Error'' [(''Content-Length'', ''0''), (''Content-Type'', ''text/plain; charset=utf-8'')])"
proof -
  let ?hs = "[(''Content-Type'', content_type_for_path p), (''Accept-Ranges'', ''bytes''), (''Content-Length'', show_nat (length (of_bytes f)))]"
  let ?c = "c\<lparr>cn_written := cn_written c @ bytes_of (response_head 200 ''OK'' ?hs), cn_writes := cn_writes c - 1\<rparr>"
  have "serve_file_with_range (he_got env) False f (content_type_for_path p) None c = (Inl ''read body: I/O error'', ?c)"
    using assms(3-6) by (simp add: serve_file_with_range_def parse_range_def Let_def andDo_def andThen_def write_response_headers_def
        write_all_def send_body.simps del: append.simps)
  moreover have "show_nat 0 = ''0''" by code_simp
  moreover have "\<not> contains ''open file:'' ''read body: I/O error''" by code_simp
  moreover have "p \<noteq> []" "\<not> contains ''..'' p" using assms(1) by (simp_all add: http_is_known_track_file_def)
  ultimately show ?thesis using assms(1,2,6)
    by (simp add: http_serve_file_def or_respond_def andDo_def andThen_def write_simple_response_def write_response_headers_def
        write_all_def ret_def fail_def del: append.simps contains.simps)
qed

end
