(* ===== verification/Lastfm.thy ===== *)
theory Lastfm
  imports Plugin Text "HOL-Library.Char_ord" "HOL-Library.List_Lexorder"
begin

text \<open>
  The Last.fm plugin (\<open>kanade-plugin-lastfm\<close>): the signed requests of the client (\<open>client.rs\<close>), and the
  scrobbler (\<open>lib.rs\<close>), which starts a task for every event. The tasks share the time the current track
  started and the list of scrobbles to send again; between two waits a task runs undisturbed, and any
  other task may run in between. MD5 is a parameter, and so is what the service replies.
\<close>

subsection \<open>Requests\<close>

record scrobble_track =
  sk_artist :: string
  sk_title :: string
  sk_album :: "string option"
  sk_album_artist :: "string option"
  sk_duration_secs :: "u32 option"
  sk_track_number :: "u32 option"

datatype lastfm_error = Lf_Http string | Lf_Api u32 string | Lf_InvalidSession | Lf_Config string | Lf_Xml string

record lastfm_client =
  lc_api_key :: string
  lc_secret :: string
  lc_session_key :: string

text \<open>A \<open>BTreeMap\<close> of strings is a list of pairs sorted by their keys.\<close>

fun btree_insert :: "string \<Rightarrow> string \<Rightarrow> (string \<times> string) list \<Rightarrow> (string \<times> string) list" where
  "btree_insert k v [] = [(k, v)]"
| "btree_insert k v ((a, b) # ps) =
    (if k < a then (k, v) # (a, b) # ps else if k = a then (k, v) # ps else (a, b) # btree_insert k v ps)"

definition insert_some :: "string \<Rightarrow> string option \<Rightarrow> (string \<times> string) list \<Rightarrow> (string \<times> string) list" where
  "insert_some k v ps = (case v of None \<Rightarrow> ps | Some v \<Rightarrow> btree_insert k v ps)"

definition show_u32 :: "u32 \<Rightarrow> string" where
  "show_u32 n = show_nat (unat n)"

definition show_i64 :: "int \<Rightarrow> string" where
  "show_i64 n = (if n < 0 then CHR ''-'' # show_nat (nat (- n)) else show_nat (nat n))"

definition optional_params :: "string \<Rightarrow> scrobble_track \<Rightarrow> (string \<times> string) list \<Rightarrow> (string \<times> string) list" where
  "optional_params idx t ps =
    insert_some (''trackNumber'' @ idx) (map_option show_u32 (sk_track_number t))
      (insert_some (''duration'' @ idx) (map_option show_u32 (sk_duration_secs t))
        (insert_some (''albumArtist'' @ idx) (sk_album_artist t) (insert_some (''album'' @ idx) (sk_album t) ps)))"

definition now_playing_params :: "lastfm_client \<Rightarrow> scrobble_track \<Rightarrow> (string \<times> string) list" where
  "now_playing_params c t =
    optional_params [] t
      (btree_insert ''sk'' (lc_session_key c) (btree_insert ''api_key'' (lc_api_key c)
        (btree_insert ''track'' (sk_title t) (btree_insert ''artist'' (sk_artist t)
          (btree_insert ''method'' ''track.updateNowPlaying'' [])))))"

definition scrobble_params :: "lastfm_client \<Rightarrow> scrobble_track \<Rightarrow> int \<Rightarrow> (string \<times> string) list" where
  "scrobble_params c t timestamp =
    optional_params ''[0]'' t
      (btree_insert ''sk'' (lc_session_key c) (btree_insert ''api_key'' (lc_api_key c)
        (btree_insert ''timestamp[0]'' (show_i64 timestamp) (btree_insert ''track[0]'' (sk_title t)
          (btree_insert ''artist[0]'' (sk_artist t) (btree_insert ''method'' ''track.scrobble'' []))))))"

definition sign_payload :: "(string \<times> string) list \<Rightarrow> string" where
  "sign_payload params = concat (map (\<lambda>(k, v). if k = ''format'' \<or> k = ''api_sig'' then [] else k @ v) params)"

definition lastfm_sign :: "(string \<Rightarrow> string) \<Rightarrow> lastfm_client \<Rightarrow> (string \<times> string) list \<Rightarrow> string" where
  "lastfm_sign md5 c params = md5 (sign_payload params @ lc_secret c)"

definition signed_params :: "(string \<Rightarrow> string) \<Rightarrow> lastfm_client \<Rightarrow> (string \<times> string) list \<Rightarrow> (string \<times> string) list" where
  "signed_params md5 c params = btree_insert ''api_sig'' (lastfm_sign md5 c params) params"

subsection \<open>Replies\<close>

text \<open>Of a reply only what decides the result: a message that something was ignored is logged.\<close>

record lfm_response =
  lr_status :: string
  lr_error :: "(u32 \<times> string) option"
  lr_accepted :: "u32 option option"

definition ensure_ok :: "lfm_response \<Rightarrow> lastfm_error + unit" where
  "ensure_ok r =
    (if lr_status r = ''ok'' then Inr ()
     else case lr_error r of
       Some (code, message) \<Rightarrow> if code = 9 \<or> code = 29 then Inl Lf_InvalidSession else Inl (Lf_Api code message)
     | None \<Rightarrow> Inl (Lf_Api 0 ''Last.fm request failed without error details''))"

text \<open>A \<open>scrobbles\<close> node that counts none, or has no count, is an error.\<close>

definition scrobble_result :: "lfm_response \<Rightarrow> lastfm_error + unit" where
  "scrobble_result r =
    (case ensure_ok r of
       Inl e \<Rightarrow> Inl e
     | Inr _ \<Rightarrow> (case lr_accepted r of
         None \<Rightarrow> Inr ()
       | Some accepted \<Rightarrow>
           if (case accepted of None \<Rightarrow> 0 | Some n \<Rightarrow> n) = 0 then Inl (Lf_Api 0 ''Scrobble was not accepted'') else Inr ()))"

text \<open>\<open>send\<close> posts the form and parses the reply.\<close>

definition client_update_now_playing ::
  "(string \<Rightarrow> string) \<Rightarrow> ((string \<times> string) list \<Rightarrow> lastfm_error + lfm_response) \<Rightarrow> lastfm_client \<Rightarrow> scrobble_track \<Rightarrow> lastfm_error + unit" where
  "client_update_now_playing md5 send c t =
    (case send (signed_params md5 c (now_playing_params c t)) of Inl e \<Rightarrow> Inl e | Inr r \<Rightarrow> ensure_ok r)"

definition client_scrobble ::
  "(string \<Rightarrow> string) \<Rightarrow> ((string \<times> string) list \<Rightarrow> lastfm_error + lfm_response) \<Rightarrow> lastfm_client \<Rightarrow> scrobble_track \<Rightarrow> int \<Rightarrow> lastfm_error + unit" where
  "client_scrobble md5 send c t timestamp =
    (case send (signed_params md5 c (scrobble_params c t timestamp)) of Inl e \<Rightarrow> Inl e | Inr r \<Rightarrow> scrobble_result r)"

subsection \<open>The scrobbler\<close>

text \<open>\<open>duration as u32\<close> cuts and saturates.\<close>

definition f64_as_u32 :: "f64 \<Rightarrow> u32" where
  "f64_as_u32 d =
    (case d of NaN \<Rightarrow> 0 | NegInf \<Rightarrow> 0 | PosInf \<Rightarrow> - 1
     | Fin r \<Rightarrow> if r < 0 then 0 else if 2 ^ 32 - 1 \<le> r then - 1 else word_of_int \<lfloor>r\<rfloor>)"

definition from_track :: "track \<Rightarrow> scrobble_track" where
  "from_track t = \<lparr>sk_artist = (case tr_artist t of Some a \<Rightarrow> a | None \<Rightarrow> ''Unknown Artist''),
     sk_title = (case tr_title t of Some n \<Rightarrow> n | None \<Rightarrow> ''Unknown Track''), sk_album = tr_album_title t,
     sk_album_artist = tr_album_artist t, sk_duration_secs = map_option f64_as_u32 (tr_duration_secs t),
     sk_track_number = tr_track_number t\<rparr>"

type_synonym scrobble = "scrobble_track \<times> int"

text \<open>
  What is left of a task. A track change notes the time, takes a batch of the pending scrobbles, sends
  them one by one and puts the failed ones back, and announces the track; a scrobble point reads the
  time, sends the scrobble and, if that fails, queues it.
\<close>

datatype lastfm_task =
    Task_Start track
  | Task_Drain track
  | Task_Flush track "scrobble list" "scrobble list"
  | Task_NowPlaying track
  | Task_Point track
  | Task_Send scrobble
  | Task_Queue scrobble

text \<open>\<open>lf_accepted\<close> records the scrobbles whose sending succeeded, \<open>lf_announced\<close> the tracks announced.\<close>

record lastfm =
  lf_started :: "(string \<times> int) option"
  lf_pending :: "scrobble list"
  lf_tasks :: "lastfm_task list"
  lf_accepted :: "scrobble list"
  lf_announced :: "scrobble_track list"

definition lastfm_new :: lastfm where
  "lastfm_new = \<lparr>lf_started = None, lf_pending = [], lf_tasks = [], lf_accepted = [], lf_announced = []\<rparr>"

definition lastfm_on_event :: "playback_event \<Rightarrow> lastfm \<Rightarrow> lastfm" where
  "lastfm_on_event e s =
    (case e of
       TrackChanged _ t \<Rightarrow> s\<lparr>lf_tasks := lf_tasks s @ [Task_Start t]\<rparr>
     | ScrobblePoint t \<Rightarrow> s\<lparr>lf_tasks := lf_tasks s @ [Task_Point t]\<rparr>
     | _ \<Rightarrow> s)"

definition scrobble_time :: "(string \<times> int) option \<Rightarrow> int \<Rightarrow> track \<Rightarrow> int" where
  "scrobble_time started now t = (case started of Some (i, at_time) \<Rightarrow> if i = tr_id t then at_time else now | None \<Rightarrow> now)"

definition flush_batch :: nat where
  "flush_batch = 50"

text \<open>One step of a task, up to its next wait; \<open>ok\<close> tells whether the request it sends succeeds.\<close>

fun run_task :: "int \<Rightarrow> bool \<Rightarrow> lastfm_task \<Rightarrow> lastfm \<Rightarrow> lastfm_task option \<times> lastfm" where
  "run_task now ok (Task_Start t) s = (Some (Task_Drain t), s\<lparr>lf_started := Some (tr_id t, now)\<rparr>)"
| "run_task now ok (Task_Drain t) s =
    (Some (if lf_pending s = [] then Task_NowPlaying t else Task_Flush t (take flush_batch (lf_pending s)) []),
     s\<lparr>lf_pending := drop flush_batch (lf_pending s)\<rparr>)"
| "run_task now ok (Task_Flush t (e # es) failed) s =
    (if ok then (Some (Task_Flush t es failed), s\<lparr>lf_accepted := lf_accepted s @ [e]\<rparr>)
     else (Some (Task_Flush t es (failed @ [e])), s))"
| "run_task now ok (Task_Flush t [] failed) s =
    (Some (Task_NowPlaying t), if failed = [] then s else s\<lparr>lf_pending := failed @ lf_pending s\<rparr>)"
| "run_task now ok (Task_NowPlaying t) s = (None, if ok then s\<lparr>lf_announced := lf_announced s @ [from_track t]\<rparr> else s)"
| "run_task now ok (Task_Point t) s = (Some (Task_Send (from_track t, scrobble_time (lf_started s) now t)), s)"
| "run_task now ok (Task_Send e) s = (if ok then (None, s\<lparr>lf_accepted := lf_accepted s @ [e]\<rparr>) else (Some (Task_Queue e), s))"
| "run_task now ok (Task_Queue e) s = (None, s\<lparr>lf_pending := lf_pending s @ [e]\<rparr>)"

text \<open>The scheduler picks a task, or an event arrives.\<close>

datatype lastfm_step = Lf_Event playback_event | Lf_Run nat int bool

fun lastfm_exec :: "lastfm_step \<Rightarrow> lastfm \<Rightarrow> lastfm" where
  "lastfm_exec (Lf_Event e) s = lastfm_on_event e s"
| "lastfm_exec (Lf_Run k now ok) s =
    (if k < length (lf_tasks s)
     then (case run_task now ok (lf_tasks s ! k) s of
       (None, s') \<Rightarrow> s'\<lparr>lf_tasks := take k (lf_tasks s) @ drop (Suc k) (lf_tasks s)\<rparr>
     | (Some t, s') \<Rightarrow> s'\<lparr>lf_tasks := (lf_tasks s)[k := t]\<rparr>)
     else s)"

text \<open>A batch sent by a task that nothing interrupts.\<close>

definition flush_pending_scrobbles :: "(scrobble \<Rightarrow> bool) \<Rightarrow> scrobble list \<Rightarrow> scrobble list" where
  "flush_pending_scrobbles ok pending =
    filter (\<lambda>e. \<not> ok e) (take flush_batch pending) @ drop flush_batch pending"

end
