(* ===== verification/Lastfm_Facts.thy ===== *)
theory Lastfm_Facts
  imports Lastfm
begin

text \<open>
  Every scrobble the bridge reports is, however the tasks interleave, in exactly one place: accepted, in
  the list to send again, or in the hands of one task. The list empties as long as fewer than a batch
  of it is refused for good; a whole batch that is refused for good blocks all that stand behind it.
\<close>

subsection \<open>The signature of a request\<close>

lemma sign_payload_skips: "k = ''format'' \<or> k = ''api_sig'' \<Longrightarrow> sign_payload (btree_insert k v ps) = sign_payload ps"
  by (induction k v ps rule: btree_insert.induct) (auto simp: sign_payload_def)

text \<open>The signature sent with a request is the one of the request that is sent.\<close>

lemma signature_of_form: "lastfm_sign md5 c (signed_params md5 c ps) = lastfm_sign md5 c ps"
  by (simp add: lastfm_sign_def signed_params_def sign_payload_skips)

definition keys_sorted :: "(string \<times> string) list \<Rightarrow> bool" where
  "keys_sorted ps \<longleftrightarrow> sorted_wrt (<) (map fst ps)"

lemma btree_insert_keys: "fst ` set (btree_insert k v ps) = insert k (fst ` set ps)"
  by (induction k v ps rule: btree_insert.induct) auto

lemma btree_insert_sorted: "keys_sorted ps \<Longrightarrow> keys_sorted (btree_insert k v ps)"
proof (induction k v ps rule: btree_insert.induct)
  case (2 k v a b ps)
  have "c \<in> fst ` set (btree_insert k v ps) \<Longrightarrow> c = k \<or> c \<in> fst ` set ps" for c by (simp add: btree_insert_keys)
  with 2 show ?case by (fastforce simp: keys_sorted_def)
qed (simp add: keys_sorted_def)

lemma btree_insert_map_of: "keys_sorted ps \<Longrightarrow> map_of (btree_insert k v ps) = (map_of ps)(k \<mapsto> v)"
proof (induction k v ps rule: btree_insert.induct)
  case (2 k v a b ps)
  have "k \<notin> fst ` set ps" if "k < a" using 2(2) that by (auto simp: keys_sorted_def)
  with 2 show ?case by (auto simp: keys_sorted_def fun_eq_iff)
qed simp

lemma insert_some_sorted: "keys_sorted ps \<Longrightarrow> keys_sorted (insert_some k v ps)"
  by (simp add: insert_some_def btree_insert_sorted split: option.split)

lemma insert_some_map_of: "keys_sorted ps \<Longrightarrow> map_of (insert_some k v ps) = (case v of None \<Rightarrow> map_of ps | Some x \<Rightarrow> (map_of ps)(k \<mapsto> x))"
  by (simp add: insert_some_def btree_insert_map_of split: option.split)

lemma optional_params_sorted: "keys_sorted ps \<Longrightarrow> keys_sorted (optional_params idx t ps)"
  by (simp add: optional_params_def insert_some_sorted)

lemma keys_sorted_Nil [simp]: "keys_sorted []"
  by (simp add: keys_sorted_def)

lemma scrobble_form:
  "keys_sorted (signed_params md5 c (scrobble_params c t ts))"
  "keys_sorted (signed_params md5 c (now_playing_params c t))"
  by (simp_all add: signed_params_def scrobble_params_def now_playing_params_def optional_params_sorted btree_insert_sorted
      del: btree_insert.simps)

lemma scrobble_fields:
  "map_of (scrobble_params c t ts) =
    (let m = [''method'' \<mapsto> ''track.scrobble'', ''artist[0]'' \<mapsto> sk_artist t, ''track[0]'' \<mapsto> sk_title t,
           ''timestamp[0]'' \<mapsto> show_i64 ts, ''api_key'' \<mapsto> lc_api_key c, ''sk'' \<mapsto> lc_session_key c];
         opt = (\<lambda>k v m. case v of None \<Rightarrow> m | Some x \<Rightarrow> m(k \<mapsto> x))
     in opt ''trackNumber[0]'' (map_option show_u32 (sk_track_number t)) (opt ''duration[0]'' (map_option show_u32 (sk_duration_secs t))
          (opt ''albumArtist[0]'' (sk_album_artist t) (opt ''album[0]'' (sk_album t) m))))"
  by (simp add: scrobble_params_def optional_params_def insert_some_map_of insert_some_sorted btree_insert_map_of
      btree_insert_sorted Let_def del: btree_insert.simps split: option.split)

subsection \<open>No scrobble is lost or duplicated\<close>

fun task_account :: "lastfm_task \<Rightarrow> scrobble_track multiset" where
  "task_account (Task_Flush t es failed) = image_mset fst (mset es) + image_mset fst (mset failed)"
| "task_account (Task_Point t) = {#from_track t#}"
| "task_account (Task_Send e) = {#fst e#}"
| "task_account (Task_Queue e) = {#fst e#}"
| "task_account _ = {#}"

definition scrobble_account :: "lastfm \<Rightarrow> scrobble_track multiset" where
  "scrobble_account s = image_mset fst (mset (lf_accepted s)) + image_mset fst (mset (lf_pending s)) +
    sum_list (map task_account (lf_tasks s))"

fun step_points :: "lastfm_step \<Rightarrow> track list" where
  "step_points (Lf_Event (ScrobblePoint t)) = [t]"
| "step_points _ = []"

lemma run_task_account:
  "run_task now ok t s = (r, s') \<Longrightarrow> lf_tasks s' = lf_tasks s \<and>
    image_mset fst (mset (lf_accepted s')) + image_mset fst (mset (lf_pending s')) + (case r of None \<Rightarrow> {#} | Some t' \<Rightarrow> task_account t') =
    image_mset fst (mset (lf_accepted s)) + image_mset fst (mset (lf_pending s)) + task_account t"
proof (cases "(now, ok, t, s)" rule: run_task.cases)
  case (2 now' ok' t' u)
  have "mset (take flush_batch (lf_pending s)) + mset (drop flush_batch (lf_pending s)) = mset (lf_pending s)"
    by (metis append_take_drop_id mset_append)
  then have "image_mset fst (mset (take flush_batch (lf_pending s))) + image_mset fst (mset (drop flush_batch (lf_pending s))) =
      image_mset fst (mset (lf_pending s))" by (metis image_mset_union)
  moreover assume "run_task now ok t s = (r, s')"
  ultimately show ?thesis using 2 by (auto simp: ac_simps split: if_splits)
qed (auto simp: ac_simps split: if_splits)

lemma exec_account: "scrobble_account (lastfm_exec st s) = scrobble_account s + mset (map from_track (step_points st))"
proof (cases st)
  case (Lf_Event e)
  then show ?thesis by (cases e) (simp_all add: lastfm_on_event_def scrobble_account_def)
next
  case (Lf_Run k now ok)
  show ?thesis
  proof (cases "k < length (lf_tasks s)")
    case True
    obtain us t vs where tasks: "lf_tasks s = us @ t # vs" "length us = k"
      using id_take_nth_drop [OF True] True by (metis length_take min.absorb4)
    obtain r s' where r: "run_task now ok t s = (r, s')" by (cases "run_task now ok t s")
    have "lastfm_exec st s = s'\<lparr>lf_tasks := us @ (case r of None \<Rightarrow> [] | Some t' \<Rightarrow> [t']) @ vs\<rparr>"
      using True tasks r by (auto simp: Lf_Run nth_append list_update_append split: option.split)
    with run_task_account [OF r] tasks show ?thesis
      by (auto simp: scrobble_account_def Lf_Run ac_simps split: option.splits)
  qed (simp add: Lf_Run)
qed

lemma run_account:
  "scrobble_account (fold lastfm_exec ss s) = scrobble_account s + mset (map from_track (concat (map step_points ss)))"
  by (induction ss arbitrary: s) (simp_all add: exec_account ac_simps)

lemma new_account: "scrobble_account lastfm_new = {#}"
  by (simp add: scrobble_account_def lastfm_new_def)

text \<open>With the bridge: no track is accepted twice, for each id is reported once.\<close>

fun step_event :: "lastfm_step \<Rightarrow> playback_event list" where
  "step_event (Lf_Event e) = [e]"
| "step_event _ = []"

lemma points_ids: "map tr_id (concat (map step_points ss)) = scrobbled_ids (concat (map step_event ss))"
proof (induction ss)
  case (Cons st ss)
  then show ?case by (cases st rule: step_points.cases) auto
qed simp

lemma accepted_once:
  assumes "concat (map step_event ss) = bridge_events prev snaps"
  shows "\<exists>ts. map tr_id ts = scrobbled_ids (bridge_events prev snaps) \<and> distinct (map tr_id ts) \<and>
    scrobble_account (fold lastfm_exec ss lastfm_new) = mset (map from_track ts) \<and>
    image_mset fst (mset (lf_accepted (fold lastfm_exec ss lastfm_new))) \<subseteq># mset (map from_track ts)"
proof -
  let ?ts = "concat (map step_points ss)"
  have "map tr_id ?ts = scrobbled_ids (bridge_events prev snaps)" unfolding points_ids assms ..
  moreover from this have "distinct (map tr_id ?ts)" using bridge_scrobbles_fresh by metis
  moreover have "scrobble_account (fold lastfm_exec ss lastfm_new) = mset (map from_track ?ts)"
    by (simp only: run_account new_account add_0)
  ultimately show ?thesis by (intro exI [of _ ?ts]) (metis (no_types) add.assoc mset_subset_eq_add_left scrobble_account_def)
qed

subsection \<open>Sending again\<close>

text \<open>A track change whose task runs alone, every request answered by \<open>ok\<close>.\<close>

definition alone :: "track \<Rightarrow> int \<Rightarrow> (scrobble \<Rightarrow> bool) \<Rightarrow> scrobble list \<Rightarrow> lastfm_step list" where
  "alone t now ok pending =
    [Lf_Event (TrackChanged None t), Lf_Run 0 now True, Lf_Run 0 now True] @
    map (\<lambda>e. Lf_Run 0 now (ok e)) (take flush_batch pending) @
    (if pending = [] then [] else [Lf_Run 0 now True]) @ [Lf_Run 0 now True]"

lemma flush_runs:
  "lf_tasks s = [Task_Flush t es failed] \<Longrightarrow>
    fold lastfm_exec (map (\<lambda>e. Lf_Run 0 now (ok e)) es) s =
      s\<lparr>lf_tasks := [Task_Flush t [] (failed @ filter (\<lambda>e. \<not> ok e) es)], lf_accepted := lf_accepted s @ filter ok es\<rparr>"
proof (induction es arbitrary: s failed)
  case (Cons e es)
  show ?case
  proof (cases "ok e")
    case True
    then show ?thesis using Cons.prems Cons.IH [of "s\<lparr>lf_accepted := lf_accepted s @ [e], lf_tasks := [Task_Flush t es failed]\<rparr>" failed] by simp
  next
    case False
    then show ?thesis using Cons.prems Cons.IH [of "s\<lparr>lf_tasks := [Task_Flush t es (failed @ [e])]\<rparr>" "failed @ [e]"] by simp
  qed
qed simp

lemma alone_flushes:
  assumes "lf_tasks s = []"
  shows "lf_pending (fold lastfm_exec (alone t now ok (lf_pending s)) s) = flush_pending_scrobbles ok (lf_pending s)"
    and "lf_tasks (fold lastfm_exec (alone t now ok (lf_pending s)) s) = []"
proof -
  have "lf_pending (fold lastfm_exec (alone t now ok (lf_pending s)) s) = flush_pending_scrobbles ok (lf_pending s) \<and>
    lf_tasks (fold lastfm_exec (alone t now ok (lf_pending s)) s) = []"
  proof (cases "lf_pending s = []")
    case True
    with assms show ?thesis by (simp add: alone_def lastfm_on_event_def flush_pending_scrobbles_def)
  next
    case False
    let ?s = "s\<lparr>lf_started := Some (tr_id t, now), lf_pending := drop flush_batch (lf_pending s),
      lf_tasks := [Task_Flush t (take flush_batch (lf_pending s)) []]\<rparr>"
    have "fold lastfm_exec [Lf_Event (TrackChanged None t), Lf_Run 0 now True, Lf_Run 0 now True] s = ?s"
      using assms False by (simp add: lastfm_on_event_def)
    then show ?thesis using False flush_runs [of ?s t "take flush_batch (lf_pending s)" "[]" now ok]
      by (simp add: alone_def flush_pending_scrobbles_def)
  qed
  then show "lf_pending (fold lastfm_exec (alone t now ok (lf_pending s)) s) = flush_pending_scrobbles ok (lf_pending s)"
    "lf_tasks (fold lastfm_exec (alone t now ok (lf_pending s)) s) = []" by simp_all
qed

fun track_changes :: "track list \<Rightarrow> int \<Rightarrow> (scrobble \<Rightarrow> bool) \<Rightarrow> lastfm \<Rightarrow> lastfm" where
  "track_changes [] now ok s = s"
| "track_changes (t # ts) now ok s = track_changes ts now ok (fold lastfm_exec (alone t now ok (lf_pending s)) s)"

lemma track_changes_flush:
  "lf_tasks s = [] \<Longrightarrow> lf_pending (track_changes ts now ok s) = (flush_pending_scrobbles ok ^^ length ts) (lf_pending s)"
proof (induction ts arbitrary: s)
  case (Cons t ts)
  then show ?case using alone_flushes [OF Cons.prems, of t now ok] by (simp add: funpow_swap1)
qed simp

text \<open>While fewer than a batch is refused, each track change makes the list shorter or leaves only the refused.\<close>

lemma flush_filter: "filter (\<lambda>e. \<not> ok e) (flush_pending_scrobbles ok ps) = filter (\<lambda>e. \<not> ok e) ps"
proof -
  have "filter (\<lambda>e. \<not> ok e) ps = filter (\<lambda>e. \<not> ok e) (take flush_batch ps) @ filter (\<lambda>e. \<not> ok e) (drop flush_batch ps)"
    by (metis append_take_drop_id filter_append)
  then show ?thesis by (simp add: flush_pending_scrobbles_def)
qed

lemma flush_progress:
  assumes "length (filter (\<lambda>e. \<not> ok e) ps) < flush_batch" "\<exists>e \<in> set ps. ok e"
  shows "length (filter ok (flush_pending_scrobbles ok ps)) < length (filter ok ps)"
proof -
  have "filter ok ps = filter ok (take flush_batch ps) @ filter ok (drop flush_batch ps)"
    by (metis append_take_drop_id filter_append)
  moreover have "filter ok (flush_pending_scrobbles ok ps) = filter ok (drop flush_batch ps)"
    by (simp add: flush_pending_scrobbles_def)
  moreover have "filter ok (take flush_batch ps) \<noteq> []"
  proof
    assume none: "filter ok (take flush_batch ps) = []"
    then have "filter (\<lambda>e. \<not> ok e) (take flush_batch ps) = take flush_batch ps" by (auto simp: filter_empty_conv filter_id_conv)
    moreover have "length (filter (\<lambda>e. \<not> ok e) (take flush_batch ps)) \<le> length (filter (\<lambda>e. \<not> ok e) ps)"
      by (metis append_take_drop_id filter_append le_add1 length_append)
    ultimately have "take flush_batch ps = ps" using assms(1) by (auto simp: min_def split: if_splits)
    with none assms(2) show False by (auto simp: filter_empty_conv)
  qed
  ultimately show ?thesis by simp
qed

lemma flushes_drain:
  "length (filter (\<lambda>e. \<not> ok e) ps) < flush_batch \<Longrightarrow> length (filter ok ps) \<le> n \<Longrightarrow>
    (flush_pending_scrobbles ok ^^ n) ps = filter (\<lambda>e. \<not> ok e) ps"
proof (induction n arbitrary: ps)
  case 0
  then show ?case by (auto simp: filter_empty_conv filter_id_conv)
next
  case (Suc n)
  show ?case
  proof (cases "\<exists>e \<in> set ps. ok e")
    case True
    from flush_progress [OF Suc.prems(1) True] Suc.prems(2) have "length (filter ok (flush_pending_scrobbles ok ps)) \<le> n" by linarith
    with Suc.IH [of "flush_pending_scrobbles ok ps"] Suc.prems(1) show ?thesis by (simp add: flush_filter funpow_swap1)
  next
    case False
    then have "filter (\<lambda>e. \<not> ok e) (take flush_batch ps) = take flush_batch ps" "filter (\<lambda>e. \<not> ok e) ps = ps" "filter ok ps = []"
      by (auto simp: filter_id_conv filter_empty_conv dest: in_set_takeD)
    moreover from this(1) have "flush_pending_scrobbles ok ps = ps" by (simp add: flush_pending_scrobbles_def)
    ultimately have "flush_pending_scrobbles ok ps = ps" "filter (\<lambda>e. \<not> ok e) ps = ps" "filter ok ps = []" by simp_all
    with Suc.IH [of ps] Suc.prems(1) show ?thesis by (simp add: funpow_swap1)
  qed
qed

lemma pending_drained:
  assumes "lf_tasks s = []" "length (filter (\<lambda>e. \<not> ok e) (lf_pending s)) < flush_batch" "length (lf_pending s) \<le> length ts"
  shows "lf_pending (track_changes ts now ok s) = filter (\<lambda>e. \<not> ok e) (lf_pending s)"
proof -
  have "length (filter ok (lf_pending s)) \<le> length ts" using assms(3) length_filter_le le_trans by blast
  with flushes_drain [OF assms(2)] show ?thesis by (simp add: track_changes_flush [OF assms(1)])
qed

text \<open>A batch at the front that is always refused is all that is ever sent again.\<close>

lemma pending_blocked:
  assumes "lf_tasks s = []" "\<forall>e \<in> set (take flush_batch (lf_pending s)). \<not> ok e"
  shows "lf_pending (track_changes ts now ok s) = lf_pending s"
proof -
  have "flush_pending_scrobbles ok (lf_pending s) = lf_pending s"
    using assms(2) by (metis (mono_tags) append_take_drop_id filter_True flush_pending_scrobbles_def)
  then have "(flush_pending_scrobbles ok ^^ n) (lf_pending s) = lf_pending s" for n by (induction n) simp_all
  then show ?thesis by (simp add: track_changes_flush [OF assms(1)])
qed

text \<open>A scrobble the service ignores, which counts as not accepted, fails and is sent again each time.\<close>

lemma ignored_fails: "lr_accepted r = Some (Some 0) \<Longrightarrow> \<exists>e. scrobble_result r = Inl e"
  by (auto simp: scrobble_result_def ensure_ok_def split: sum.split option.split)

text \<open>A scrobble point of the track last changed to has the time of that change.\<close>

lemma point_has_start_time: "lf_started s = Some (tr_id t, at_time) \<Longrightarrow>
    run_task now ok (Task_Point t) s = (Some (Task_Send (from_track t, at_time)), s)"
  by (simp add: scrobble_time_def)

end
