(* ===== verification/Open_Home.thy ===== *)
theory Open_Home
  imports Core_Runs Node_Proxy
begin

text \<open>
  The OpenHome adapter (\<open>kanade-adapter-openhome\<close>): SOAP requests over HTTP that control the core
  (\<open>soap.rs\<close>, \<open>server.rs\<close>), and the broadcaster that keeps the last state (\<open>broadcaster.rs\<close>). What the
  quick-xml reader makes of a body is a parameter. Header names are compared in ASCII lower case, which
  the full lower case of the code agrees with on these names.
\<close>

subsection \<open>Actions\<close>

datatype soap_action =
    Soap_Play | Soap_Pause | Soap_Stop | Soap_Next | Soap_Previous
  | Soap_SeekSecondAbsolute u32
  | Soap_SetVolume u8
  | Soap_Unknown string

text \<open>
  The events of the reader, up to the end or an error: the start of an element with its local name, a text
  with its unescaped form, and everything else.
\<close>

datatype xml_event = Xml_Start string | Xml_Text "string option" | Xml_Other

text \<open>Once the element has started, the next text counts, wherever it stands.\<close>

fun extract_u32_from :: "bool \<Rightarrow> string \<Rightarrow> xml_event list \<Rightarrow> u32 option" where
  "extract_u32_from inside tag [] = None"
| "extract_u32_from inside tag (Xml_Start n # es) = extract_u32_from (inside \<or> n = tag) tag es"
| "extract_u32_from inside tag (Xml_Text v # es) =
    (if inside then map_option word_of_nat (Option.bind v (parse_uint (2 ^ 32 - 1))) else extract_u32_from inside tag es)"
| "extract_u32_from inside tag (Xml_Other # es) = extract_u32_from inside tag es"

definition extract_u32 :: "xml_event list \<Rightarrow> string \<Rightarrow> u32 option" where
  "extract_u32 es tag = extract_u32_from False tag es"

definition trim_quotes :: "string \<Rightarrow> string" where
  "trim_quotes s = rev (dropWhile (\<lambda>c. c = CHR 0x22) (rev (dropWhile (\<lambda>c. c = CHR 0x22) s)))"

definition action_name :: "string \<Rightarrow> string" where
  "action_name soap_header = trim (trim_quotes (last (split_on (CHR ''#'') soap_header)))"

definition parse_action :: "xml_event list \<Rightarrow> string \<Rightarrow> soap_action" where
  "parse_action body soap_header =
    (let name = action_name soap_header
     in if name = ''Play'' then Soap_Play
        else if name = ''Pause'' then Soap_Pause
        else if name = ''Stop'' then Soap_Stop
        else if name = ''Next'' then Soap_Next
        else if name = ''Previous'' then Soap_Previous
        else if name = ''SeekSecondAbsolute''
        then Soap_SeekSecondAbsolute (case extract_u32 body ''Value'' of None \<Rightarrow> 0 | Some n \<Rightarrow> n)
        else if name = ''SetVolume''
        then Soap_SetVolume (ucast (min (case extract_u32 body ''Value'' of None \<Rightarrow> 50 | Some n \<Rightarrow> n) 100))
        else Soap_Unknown name)"

definition soap_dispatch :: "soap_action \<Rightarrow> ('w, unit) core_io" where
  "soap_dispatch a =
    (case a of
       Soap_Play \<Rightarrow> core_play
     | Soap_Pause \<Rightarrow> core_pause
     | Soap_Stop \<Rightarrow> core_stop
     | Soap_Next \<Rightarrow> core_next
     | Soap_Previous \<Rightarrow> core_previous
     | Soap_SeekSecondAbsolute n \<Rightarrow> core_seek (Fin (of_nat (unat n)))
     | Soap_SetVolume v \<Rightarrow> core_set_volume v
     | Soap_Unknown _ \<Rightarrow> ret ())"

definition action_name_str :: "soap_action \<Rightarrow> string" where
  "action_name_str a =
    (case a of
       Soap_Play \<Rightarrow> ''Play'' | Soap_Pause \<Rightarrow> ''Pause'' | Soap_Stop \<Rightarrow> ''Stop'' | Soap_Next \<Rightarrow> ''Next''
     | Soap_Previous \<Rightarrow> ''Previous'' | Soap_SeekSecondAbsolute _ \<Rightarrow> ''SeekSecondAbsolute''
     | Soap_SetVolume _ \<Rightarrow> ''SetVolume'' | Soap_Unknown _ \<Rightarrow> ''Unknown'')"

subsection \<open>Responses\<close>

definition core_error_text :: "core_error \<Rightarrow> string" where
  "core_error_text e =
    (case e of
       Output m \<Rightarrow> ''output error: '' @ m
     | NodeNotFound \<Rightarrow> ''node not found''
     | NoActiveOutput \<Rightarrow> ''no active output selected''
     | QueueEmpty \<Rightarrow> ''queue is empty''
     | QueueIndexOutOfBounds \<Rightarrow> ''queue index out of bounds''
     | LocalSessionNotFound \<Rightarrow> ''local session not found''
     | TrackNotFound m \<Rightarrow> ''track not found: '' @ m
     | InvalidVolume \<Rightarrow> ''invalid volume: value must be 0'' @ map chr [0xE2, 0x80, 0x93] @ ''100''
     | HandoffFailed m \<Rightarrow> ''handoff failed: '' @ m
     | Internal m \<Rightarrow> ''internal error: '' @ m)"

definition xml_newline :: string where
  "xml_newline = [CHR 0x0A]"

definition xml_header :: string where
  "xml_header = ''<?xml version=\"1.0\" encoding=\"utf-8\"?>'' @ xml_newline"

definition ok_response :: "string \<Rightarrow> string \<Rightarrow> string" where
  "ok_response action service = xml_header @
     ''<s:Envelope xmlns:s=\"http://schemas.xmlsoap.org/soap/envelope/\"'' @ xml_newline @
     ''            s:encodingStyle=\"http://schemas.xmlsoap.org/soap/encoding/\">'' @ xml_newline @
     ''  <s:Body>'' @ xml_newline @
     ''    <u:'' @ action @ ''Response xmlns:u=\"'' @ service @ ''\"/>'' @ xml_newline @
     ''  </s:Body>'' @ xml_newline @ ''</s:Envelope>''"

definition fault_response :: "nat \<Rightarrow> string \<Rightarrow> string" where
  "fault_response code description = xml_header @
     ''<s:Envelope xmlns:s=\"http://schemas.xmlsoap.org/soap/envelope/\">'' @ xml_newline @
     ''  <s:Body>'' @ xml_newline @ ''    <s:Fault>'' @ xml_newline @
     ''      <faultcode>s:Client</faultcode>'' @ xml_newline @ ''      <faultstring>UPnPError</faultstring>'' @ xml_newline @
     ''      <detail>'' @ xml_newline @ ''        <UPnPError xmlns=\"urn:schemas-upnp-org:control-1-0\">'' @ xml_newline @
     ''          <errorCode>'' @ show_nat code @ ''</errorCode>'' @ xml_newline @
     ''          <errorDescription>'' @ description @ ''</errorDescription>'' @ xml_newline @
     ''        </UPnPError>'' @ xml_newline @ ''      </detail>'' @ xml_newline @ ''    </s:Fault>'' @ xml_newline @
     ''  </s:Body>'' @ xml_newline @ ''</s:Envelope>''"

definition transport_service :: string where
  "transport_service = ''urn:av-openhome-org:service:Transport:1''"

definition http_ok :: "string \<Rightarrow> string" where
  "http_ok body = ''HTTP/1.1 200 OK'' @ crlf @ ''Content-Type: text/xml; charset=\"utf-8\"'' @ crlf @
     ''Content-Length: '' @ show_nat (length body) @ crlf @ crlf @ body"

definition http_not_found :: string where
  "http_not_found = ''HTTP/1.1 404 Not Found'' @ crlf @ ''Content-Length: 0'' @ crlf @ crlf"

subsection \<open>A request\<close>

text \<open>The action and the length announced by the headers; \<open>None\<close> is a read error.\<close>

fun read_soap_headers :: "string \<Rightarrow> nat \<Rightarrow> string input \<Rightarrow> (string \<times> nat) option" where
  "read_soap_headers action len [] = Some (action, len)"
| "read_soap_headers action len (Inl e # s) = None"
| "read_soap_headers action len (Inr line # s) =
    (let trimmed = trim line; lower = to_ascii_lowercase trimmed
     in if trimmed = [] then Some (action, len)
        else if prefix ''soapaction:'' lower then read_soap_headers (trim (drop 11 trimmed)) len s
        else if prefix ''content-length:'' lower
        then read_soap_headers action (case parse_uint usize_max (trim (drop 15 trimmed)) of None \<Rightarrow> 0 | Some n \<Rightarrow> n) s
        else read_soap_headers action len s)"

text \<open>
  No response is \<open>None\<close>: the connection is closed. \<open>body\<close> is what the client sends after the headers, and
  a buffer of \<open>isize::MAX\<close> bytes or more cannot be allocated, which panics.
\<close>

definition soap_respond :: "(string \<Rightarrow> xml_event list) \<Rightarrow> string \<Rightarrow> nat \<Rightarrow> string \<Rightarrow> 'w core \<Rightarrow> string option \<times> 'w core" where
  "soap_respond xml soap_header len body c =
    (if 2 ^ 63 \<le> len \<or> length body < len then (None, c)
     else
       let action = parse_action (xml (take len body)) soap_header
       in case soap_dispatch action c of
            (Inr _, c') \<Rightarrow> (Some (http_ok (ok_response (action_name_str action) transport_service)), c')
          | (Inl e, c') \<Rightarrow> (Some (http_ok (fault_response 501 (core_error_text e))), c'))"

definition soap_handle_request :: "(string \<Rightarrow> xml_event list) \<Rightarrow> string input \<Rightarrow> string \<Rightarrow> 'w core \<Rightarrow> string option \<times> 'w core" where
  "soap_handle_request xml s body c =
    (case read_line s of
       (Inl e, _) \<Rightarrow> (None, c)
     | (Inr line, s) \<Rightarrow> (case split_whitespace line of
         method' # _ # _ \<Rightarrow> (case read_soap_headers [] 0 s of
             None \<Rightarrow> (None, c)
           | Some (action, len) \<Rightarrow>
               if method' \<noteq> ''POST'' \<or> action = [] then (Some http_not_found, c)
               else soap_respond xml action len body c)
       | _ \<Rightarrow> (None, c)))"

text \<open>\<open>OpenHomeBroadcaster\<close>\<close>

definition openhome_on_state_changed :: "playback_state \<Rightarrow> playback_state option \<Rightarrow> playback_state option" where
  "openhome_on_state_changed s latest = Some s"

subsection \<open>What requests do\<close>

lemma soap_dispatch_exec:
  "\<exists>ops. snd (soap_dispatch a c) = core_run ops c \<and> admissible_run ops c"
proof -
  have one: "\<exists>ops. core_exec op c = core_run ops c \<and> admissible_run ops c" if "admissible op c" for op
    using that by (intro exI [of _ "[op]"]) simp
  show ?thesis
  proof (cases a)
    case (Soap_Unknown n)
    then show ?thesis by (intro exI [of _ "[]"]) (simp add: soap_dispatch_def ret_def)
  next
    case (Soap_SeekSecondAbsolute n)
    then show ?thesis using one [of "Op_Seek (Fin (of_nat (unat n)))"] by (simp add: soap_dispatch_def run_def)
  next
    case (Soap_SetVolume v)
    then show ?thesis using one [of "Op_SetVolume v"] by (simp add: soap_dispatch_def run_def)
  qed (use one [of Op_Play] one [of Op_Pause] one [of Op_Stop] one [of Op_Next] one [of Op_Previous] in
      \<open>simp_all add: soap_dispatch_def run_def\<close>)
qed

lemma soap_request_reachable:
  assumes "core_reachable c"
  shows "core_reachable (snd (soap_handle_request xml s body c))"
proof -
  have "core_reachable (snd (soap_dispatch a c))" for a
    using soap_dispatch_exec [of a c] core_run_reachable [OF assms] by auto
  then have "core_reachable (snd (soap_respond xml h len body c))" for h len
    using assms by (auto simp: soap_respond_def Let_def split: prod.split sum.split) (metis snd_conv)+
  then show ?thesis using assms
    by (auto simp: soap_handle_request_def split: prod.split sum.split list.split option.split)
qed

text \<open>The volume asked of the core is never refused as out of range.\<close>

lemma volume_clamped: "ucast (min n 100 :: u32) \<le> (100 :: u8)"
proof -
  have small: "unat (min n 100 :: u32) \<le> 100"
  proof (cases "n \<le> 100")
    case True
    then show ?thesis by (simp only: min_def if_True word_le_nat_alt) simp
  next
    case False
    then show ?thesis by (simp only: min_def if_False) simp
  qed
  have "unat (ucast m :: u8) = unat m" if "unat m \<le> 100" for m :: u32
    using that by (simp only: unsigned_ucast_eq take_bit_nat_eq_self_iff) simp
  with small have "unat (ucast (min n 100 :: u32) :: u8) \<le> 100" by metis
  then show ?thesis unfolding word_le_nat_alt by (rule le_trans) simp
qed

lemma soap_volume_bounded:
  assumes "parse_action es h = Soap_SetVolume v"
  shows "v \<le> 100"
proof -
  have "v = ucast (min (case extract_u32 es ''Value'' of None \<Rightarrow> 50 | Some n \<Rightarrow> n) 100 :: u32)"
    using assms by (simp only: parse_action_def Let_def soap_action.distinct soap_action.inject split: if_split_asm)
  then show ?thesis by (simp only: volume_clamped)
qed

text \<open>A volume that cannot be read, or is not there, is 50.\<close>

lemma unread_volume_is_50:
  "action_name h = ''SetVolume'' \<Longrightarrow> extract_u32 es ''Value'' = None \<Longrightarrow> parse_action es h = Soap_SetVolume 50"
  by (simp add: parse_action_def Let_def min_def)

text \<open>The text of an element after an empty one is taken for its value.\<close>

lemma value_of_other_element:
  assumes "k < 2 ^ 32"
  shows "extract_u32 [Xml_Start ''Value'', Xml_Other, Xml_Start tag, Xml_Text (Some (show_nat k))] ''Value'' = Some (word_of_nat k)"
  using parse_uint_show [of k "2 ^ 32 - 1"] assms by (simp add: extract_u32_def)

text \<open>A request that is read completely is one operation of the core, answered by its result.\<close>

lemma soap_request_exact:
  fixes xml :: "string \<Rightarrow> xml_event list" and body :: string
  assumes "split_whitespace line = ''POST'' # target # ws" "read_soap_headers [] 0 s = Some (h, len)" "h \<noteq> []"
    and "len < 2 ^ 63" "len \<le> length body"
  defines "a \<equiv> parse_action (xml (take len body)) h"
  shows "soap_handle_request xml (Inr line # s) body c =
    (Some (http_ok (case fst (soap_dispatch a c) of
        Inr _ \<Rightarrow> ok_response (action_name_str a) transport_service
      | Inl e \<Rightarrow> fault_response 501 (core_error_text e))),
     snd (soap_dispatch a c))"
  using assms(1-5)
  by (simp add: soap_handle_request_def read_line_def soap_respond_def Let_def a_def [symmetric] split_beta split: sum.split)

end
