(* ===== verification/Tui.thy ===== *)
theory Tui
  imports Requests
begin

text \<open>
  The terminal user interface (\<open>kanade-tui/src/app.rs\<close>): the state of the panels and lists, what each
  key does to it and which messages it sends, and what a response from the server changes. Messages
  are sent by tasks of their own; \<open>tu_sent\<close> records them in the order they are started. Of drawing
  (\<open>ui/mod.rs\<close>) what it does to the selected rows is modelled. A character is its UTF-8 bytes.
\<close>

subsection \<open>The state\<close>

datatype panel = Panel_NowPlaying | Panel_Queue | Panel_Library | Panel_Search

fun panel_next :: "panel \<Rightarrow> panel" where
  "panel_next Panel_NowPlaying = Panel_Queue"
| "panel_next Panel_Queue = Panel_Library"
| "panel_next Panel_Library = Panel_Search"
| "panel_next Panel_Search = Panel_NowPlaying"

fun panel_prev :: "panel \<Rightarrow> panel" where
  "panel_prev Panel_NowPlaying = Panel_Search"
| "panel_prev Panel_Queue = Panel_NowPlaying"
| "panel_prev Panel_Library = Panel_Queue"
| "panel_prev Panel_Search = Panel_Library"

datatype library_mode = Mode_Albums | Mode_Artists | Mode_Genres

fun mode_next :: "library_mode \<Rightarrow> library_mode" where
  "mode_next Mode_Albums = Mode_Artists"
| "mode_next Mode_Artists = Mode_Genres"
| "mode_next Mode_Genres = Mode_Albums"

fun mode_prev :: "library_mode \<Rightarrow> library_mode" where
  "mode_prev Mode_Albums = Mode_Genres"
| "mode_prev Mode_Artists = Mode_Albums"
| "mode_prev Mode_Genres = Mode_Artists"

record tui_app =
  tu_sent :: "client_message list"
  tu_panel :: panel
  tu_should_quit :: bool
  tu_queue_list :: "usize option"
  tu_library_list :: "usize option"
  tu_library_detail :: "usize option"
  tu_search_list :: "usize option"
  tu_search_query :: "string list"
  tu_search_results :: "track list"
  tu_albums :: "album list"
  tu_album_tracks :: "track list"
  tu_artists :: "string list"
  tu_artist_albums :: "album list"
  tu_artist_tracks :: "track list"
  tu_genres :: "string list"
  tu_genre_albums :: "album list"
  tu_genre_tracks :: "track list"
  tu_mode :: library_mode
  tu_level :: nat
  tu_selected_artist :: "string option"
  tu_selected_genre :: "string option"
  tu_req_counter :: nat
  tu_in_search_input :: bool

definition tui_new :: tui_app where
  "tui_new = \<lparr>tu_sent = [Msg_Request 1 Req_GetAlbums], tu_panel = Panel_NowPlaying, tu_should_quit = False,
     tu_queue_list = None, tu_library_list = None, tu_library_detail = None, tu_search_list = None,
     tu_search_query = [], tu_search_results = [], tu_albums = [], tu_album_tracks = [], tu_artists = [],
     tu_artist_albums = [], tu_artist_tracks = [], tu_genres = [], tu_genre_albums = [], tu_genre_tracks = [],
     tu_mode = Mode_Albums, tu_level = 0, tu_selected_artist = None, tu_selected_genre = None,
     tu_req_counter = 1, tu_in_search_input = False\<rparr>"

definition tui_command :: "ws_command \<Rightarrow> tui_app \<Rightarrow> tui_app" where
  "tui_command cmd a = a\<lparr>tu_sent := tu_sent a @ [Msg_Command cmd]\<rparr>"

definition tui_request :: "ws_request \<Rightarrow> tui_app \<Rightarrow> tui_app" where
  "tui_request req a =
    (let i = tu_req_counter a + 1 in a\<lparr>tu_req_counter := i, tu_sent := tu_sent a @ [Msg_Request i req]\<rparr>)"

subsection \<open>Browsing the library\<close>

definition library_master_len :: "tui_app \<Rightarrow> nat" where
  "library_master_len a =
    (case tu_mode a of Mode_Albums \<Rightarrow> length (tu_albums a) | Mode_Artists \<Rightarrow> length (tu_artists a) | Mode_Genres \<Rightarrow> length (tu_genres a))"

definition library_browse_tracks :: "tui_app \<Rightarrow> track list" where
  "library_browse_tracks a =
    (case tu_mode a of
       Mode_Albums \<Rightarrow> tu_album_tracks a
     | Mode_Artists \<Rightarrow> if tu_artist_tracks a \<noteq> [] then tu_artist_tracks a else tu_album_tracks a
     | Mode_Genres \<Rightarrow> if tu_genre_tracks a \<noteq> [] then tu_genre_tracks a else tu_album_tracks a)"

definition library_detail_albums :: "tui_app \<Rightarrow> album list" where
  "library_detail_albums a =
    (case tu_mode a of Mode_Albums \<Rightarrow> [] | Mode_Artists \<Rightarrow> tu_artist_albums a | Mode_Genres \<Rightarrow> tu_genre_albums a)"

definition request_library_list :: "tui_app \<Rightarrow> tui_app" where
  "request_library_list a = tui_request
    (case tu_mode a of Mode_Albums \<Rightarrow> Req_GetAlbums | Mode_Artists \<Rightarrow> Req_GetArtists | Mode_Genres \<Rightarrow> Req_GetGenres) a"

definition open_level :: "nat \<Rightarrow> ws_request \<Rightarrow> tui_app \<Rightarrow> tui_app" where
  "open_level level req a = (tui_request req a)\<lparr>tu_level := level, tu_library_detail := None\<rparr>"

definition library_enter_album_tracks :: "tui_app \<Rightarrow> tui_app" where
  "library_enter_album_tracks a =
    (case Option.bind (tu_library_list a) (vec_get (tu_albums a)) of
       None \<Rightarrow> a | Some album \<Rightarrow> open_level 1 (Req_GetAlbumTracks (al_id album)) a)"

definition library_enter_artist_albums :: "tui_app \<Rightarrow> tui_app" where
  "library_enter_artist_albums a =
    (case Option.bind (tu_library_list a) (vec_get (tu_artists a)) of
       None \<Rightarrow> a | Some n \<Rightarrow> open_level 1 (Req_GetArtistAlbums n) (a\<lparr>tu_selected_artist := Some n\<rparr>))"

definition library_enter_genre_albums :: "tui_app \<Rightarrow> tui_app" where
  "library_enter_genre_albums a =
    (case Option.bind (tu_library_list a) (vec_get (tu_genres a)) of
       None \<Rightarrow> a | Some g \<Rightarrow> open_level 1 (Req_GetGenreAlbums g) (a\<lparr>tu_selected_genre := Some g\<rparr>))"

definition library_enter_artist_all_tracks :: "string \<Rightarrow> tui_app \<Rightarrow> tui_app" where
  "library_enter_artist_all_tracks n a = open_level 2 (Req_GetArtistTracks n) a"

definition library_enter_genre_all_tracks :: "string \<Rightarrow> tui_app \<Rightarrow> tui_app" where
  "library_enter_genre_all_tracks g a = open_level 2 (Req_GetGenreTracks g) (a\<lparr>tu_album_tracks := []\<rparr>)"

text \<open>Row 0 of the details stands for all tracks, the rows after it for the albums.\<close>

definition library_enter_artist_album_tracks :: "tui_app \<Rightarrow> tui_app" where
  "library_enter_artist_album_tracks a =
    (case (tu_library_detail a, tu_selected_artist a) of
       (Some i, Some n) \<Rightarrow>
         if i = 0 then library_enter_artist_all_tracks n (a\<lparr>tu_album_tracks := []\<rparr>)
         else (case vec_get (tu_artist_albums a) (i - 1) of
           None \<Rightarrow> a | Some album \<Rightarrow> open_level 2 (Req_GetAlbumTracks (al_id album)) a)
     | _ \<Rightarrow> a)"

definition library_enter_genre_album_tracks :: "tui_app \<Rightarrow> tui_app" where
  "library_enter_genre_album_tracks a =
    (case (tu_library_detail a, tu_selected_genre a) of
       (Some i, Some g) \<Rightarrow>
         if i = 0 then library_enter_genre_all_tracks g a
         else (case vec_get (tu_genre_albums a) (i - 1) of
           None \<Rightarrow> a | Some album \<Rightarrow> open_level 2 (Req_GetAlbumTracks (al_id album)) (a\<lparr>tu_genre_tracks := []\<rparr>))
     | _ \<Rightarrow> a)"

definition library_enter :: "tui_app \<Rightarrow> tui_app" where
  "library_enter a =
    (case tu_mode a of
       Mode_Albums \<Rightarrow> if tu_level a = 0 then library_enter_album_tracks a else a
     | Mode_Artists \<Rightarrow> if tu_level a = 0 then library_enter_artist_albums a
         else if tu_level a = 1 then library_enter_artist_album_tracks a else a
     | Mode_Genres \<Rightarrow> if tu_level a = 0 then library_enter_genre_albums a
         else if tu_level a = 1 then library_enter_genre_album_tracks a else a)"

definition library_back :: "tui_app \<Rightarrow> tui_app" where
  "library_back a =
    (if tu_level a = 0 then a
     else
       let a = a\<lparr>tu_level := tu_level a - 1\<rparr>
       in if tu_level a = 0
          then a\<lparr>tu_artist_albums := [], tu_artist_tracks := [], tu_album_tracks := [], tu_genre_albums := [],
                 tu_genre_tracks := [], tu_selected_artist := None, tu_selected_genre := None, tu_library_detail := None\<rparr>
          else if tu_level a = 1 \<and> (tu_mode a = Mode_Artists \<or> tu_mode a = Mode_Genres)
          then a\<lparr>tu_artist_tracks := [], tu_genre_tracks := [], tu_library_detail := None\<rparr>
          else a)"

subsection \<open>Responses\<close>

definition first_row :: "'a list \<Rightarrow> usize option" where
  "first_row xs = (if xs = [] then None else Some 0)"

definition handle_response :: "ws_response \<Rightarrow> tui_app \<Rightarrow> tui_app" where
  "handle_response r a =
    (case r of
       Res_Albums xs \<Rightarrow> a\<lparr>tu_albums := xs, tu_library_list := first_row xs\<rparr>
     | Res_AlbumTracks ts \<Rightarrow> a\<lparr>tu_album_tracks := ts, tu_library_detail := first_row ts\<rparr>
     | Res_Tracks ts \<Rightarrow> a\<lparr>tu_album_tracks := ts, tu_library_detail := first_row ts\<rparr>
     | Res_Artists xs \<Rightarrow> a\<lparr>tu_artists := xs, tu_library_list := first_row xs\<rparr>
     | Res_ArtistAlbums xs \<Rightarrow> a\<lparr>tu_artist_albums := xs, tu_library_detail := first_row xs\<rparr>
     | Res_ArtistTracks ts \<Rightarrow> a\<lparr>tu_artist_tracks := ts, tu_library_detail := first_row ts\<rparr>
     | Res_Genres xs \<Rightarrow> a\<lparr>tu_genres := xs, tu_library_list := first_row xs\<rparr>
     | Res_GenreAlbums xs \<Rightarrow> a\<lparr>tu_genre_albums := xs, tu_library_detail := first_row xs\<rparr>
     | Res_GenreTracks ts \<Rightarrow> a\<lparr>tu_genre_tracks := ts, tu_library_detail := first_row ts\<rparr>
     | Res_SearchResults ts \<Rightarrow> a\<lparr>tu_search_results := ts, tu_search_list := first_row ts\<rparr>
     | _ \<Rightarrow> a)"

subsection \<open>Lists and the queue\<close>

definition row_up :: "usize option \<Rightarrow> usize option" where
  "row_up sel = (case sel of Some k \<Rightarrow> if 0 < k then Some (k - 1) else sel | None \<Rightarrow> None)"

definition row_down :: "nat \<Rightarrow> usize option \<Rightarrow> usize option" where
  "row_down len sel =
    (let cur = (case sel of Some k \<Rightarrow> k | None \<Rightarrow> 0) in if 0 < len \<and> cur + 1 < len then Some (cur + 1) else sel)"

definition detail_len :: "tui_app \<Rightarrow> nat" where
  "detail_len a =
    (if (tu_mode a = Mode_Artists \<or> tu_mode a = Mode_Genres) \<and> tu_level a = 1
     then 1 + length (library_detail_albums a) else length (library_browse_tracks a))"

definition select_prev :: "tui_app \<Rightarrow> tui_app" where
  "select_prev a =
    (case tu_panel a of
       Panel_Queue \<Rightarrow> a\<lparr>tu_queue_list := row_up (tu_queue_list a)\<rparr>
     | Panel_Library \<Rightarrow> if 0 < tu_level a then a\<lparr>tu_library_detail := row_up (tu_library_detail a)\<rparr>
         else a\<lparr>tu_library_list := row_up (tu_library_list a)\<rparr>
     | Panel_Search \<Rightarrow> a\<lparr>tu_search_list := row_up (tu_search_list a)\<rparr>
     | Panel_NowPlaying \<Rightarrow> a)"

text \<open>In an empty queue the row still moves down.\<close>

definition select_next :: "playback_state \<Rightarrow> tui_app \<Rightarrow> tui_app" where
  "select_next st a =
    (case tu_panel a of
       Panel_Queue \<Rightarrow>
         (let len = length (st_queue st); cur = (case tu_queue_list a of Some k \<Rightarrow> k | None \<Rightarrow> 0)
          in if len = 0 \<or> cur + 1 < len then a\<lparr>tu_queue_list := Some (cur + 1)\<rparr> else a)
     | Panel_Library \<Rightarrow> if 0 < tu_level a then a\<lparr>tu_library_detail := row_down (detail_len a) (tu_library_detail a)\<rparr>
         else a\<lparr>tu_library_list := row_down (library_master_len a) (tu_library_list a)\<rparr>
     | Panel_Search \<Rightarrow> a\<lparr>tu_search_list := row_down (length (tu_search_results a)) (tu_search_list a)\<rparr>
     | Panel_NowPlaying \<Rightarrow> a)"

definition queue_remove :: "playback_state \<Rightarrow> tui_app \<Rightarrow> tui_app" where
  "queue_remove st a =
    (case tu_queue_list a of
       Some i \<Rightarrow> if i < length (st_queue st) then tui_command (Ws_RemoveFromQueue i) a else a | None \<Rightarrow> a)"

definition queue_move_up :: "playback_state \<Rightarrow> tui_app \<Rightarrow> tui_app" where
  "queue_move_up st a =
    (case tu_queue_list a of
       Some i \<Rightarrow> if i \<noteq> 0 \<and> i < length (st_queue st)
         then (tui_command (Ws_MoveInQueue i (i - 1)) a)\<lparr>tu_queue_list := Some (i - 1)\<rparr> else a
     | None \<Rightarrow> a)"

definition queue_move_down :: "playback_state \<Rightarrow> tui_app \<Rightarrow> tui_app" where
  "queue_move_down st a =
    (case tu_queue_list a of
       Some i \<Rightarrow> if i + 1 \<ge> length (st_queue st) then a
         else (tui_command (Ws_MoveInQueue i (i + 1)) a)\<lparr>tu_queue_list := Some (i + 1)\<rparr>
     | None \<Rightarrow> a)"

definition add_row :: "track list \<Rightarrow> usize option \<Rightarrow> tui_app \<Rightarrow> tui_app" where
  "add_row ts sel a = (case Option.bind sel (vec_get ts) of None \<Rightarrow> a | Some t \<Rightarrow> tui_command (Ws_AddToQueue t) a)"

definition select_item :: "tui_app \<Rightarrow> tui_app" where
  "select_item a =
    (case tu_panel a of
       Panel_Library \<Rightarrow> if 0 < tu_level a then add_row (library_browse_tracks a) (tu_library_detail a) a else library_enter a
     | Panel_Search \<Rightarrow> add_row (tu_search_results a) (tu_search_list a) a
     | Panel_Queue \<Rightarrow> (case tu_queue_list a of Some i \<Rightarrow> tui_command (Ws_PlayIndex i) a | None \<Rightarrow> a)
     | Panel_NowPlaying \<Rightarrow> a)"

subsection \<open>Keys\<close>

datatype key =
    Key_Char string | Key_Esc | Key_Enter | Key_Backspace | Key_Tab | Key_BackTab
  | Key_Up | Key_Down | Key_Left | Key_Right | Key_Other

text \<open>The control characters: the ASCII ones, and those from U+0080 to U+009F.\<close>

definition is_control :: "string \<Rightarrow> bool" where
  "is_control c \<longleftrightarrow> (case c of
     [b] \<Rightarrow> byte_of b < 32 \<or> byte_of b = 127
   | [b, d] \<Rightarrow> byte_of b = 0xC2 \<and> 0x80 \<le> byte_of d \<and> byte_of d \<le> 0x9F
   | _ \<Rightarrow> False)"

definition send_search :: "tui_app \<Rightarrow> tui_app" where
  "send_search a = tui_request (Req_Search (concat (tu_search_query a))) a"

definition search_key :: "key \<Rightarrow> tui_app \<Rightarrow> tui_app" where
  "search_key k a =
    (case k of
       Key_Esc \<Rightarrow> a\<lparr>tu_in_search_input := False\<rparr>
     | Key_Enter \<Rightarrow> a\<lparr>tu_in_search_input := False, tu_search_list := first_row (tu_search_results a)\<rparr>
     | Key_Backspace \<Rightarrow> send_search (a\<lparr>tu_search_query := butlast (tu_search_query a)\<rparr>)
     | Key_Char c \<Rightarrow> send_search (if is_control c then a else a\<lparr>tu_search_query := tu_search_query a @ [c]\<rparr>)
     | _ \<Rightarrow> a)"

definition on_node :: "playback_state \<Rightarrow> (node option \<Rightarrow> tui_app \<Rightarrow> tui_app) \<Rightarrow> tui_app \<Rightarrow> tui_app" where
  "on_node st f a =
    (let i = (case st_selected_node_id st of Some i \<Rightarrow> i | None \<Rightarrow> [])
     in if tu_panel a \<noteq> Panel_Search \<and> i \<noteq> [] then f (find_node st i) a else a)"

definition change_volume :: "(u8 \<Rightarrow> u8) \<Rightarrow> node option \<Rightarrow> tui_app \<Rightarrow> tui_app" where
  "change_volume f n a = (case n of Some n \<Rightarrow> tui_command (Ws_SetVolume (f (nd_volume n))) a | None \<Rightarrow> a)"

definition u8_saturating_add :: "u8 \<Rightarrow> nat \<Rightarrow> u8" where
  "u8_saturating_add v k = word_of_nat (min 255 (unat v + k))"

definition volume_up :: "u8 \<Rightarrow> u8" where
  "volume_up v = min (u8_saturating_add v 5) 100"

definition volume_down :: "u8 \<Rightarrow> u8" where
  "volume_down v = word_of_nat (unat v - 5)"

definition next_node :: "playback_state \<Rightarrow> tui_app \<Rightarrow> tui_app" where
  "next_node st a =
    (let ids = map nd_id (st_nodes st)
     in if 1 < length ids
        then (let cur = (case st_selected_node_id st of
                  None \<Rightarrow> 0 | Some i \<Rightarrow> if i \<in> set ids then length (takeWhile (\<lambda>j. j \<noteq> i) ids) else 0)
              in tui_command (Ws_SelectNode (ids ! ((cur + 1) mod length ids))) a)
        else a)"

definition esc_key :: "tui_app \<Rightarrow> tui_app" where
  "esc_key a =
    (if tu_panel a = Panel_Library \<and> 0 < tu_level a then library_back a
     else if tu_panel a = Panel_Search
     then a\<lparr>tu_search_query := [], tu_search_results := [], tu_search_list := None, tu_in_search_input := False\<rparr>
     else a)"

definition switch_mode :: "(library_mode \<Rightarrow> library_mode) \<Rightarrow> tui_app \<Rightarrow> tui_app" where
  "switch_mode f a =
    (if tu_panel a = Panel_Library \<and> tu_level a = 0 then request_library_list (a\<lparr>tu_mode := f (tu_mode a)\<rparr>) else a)"

definition on_panel :: "panel \<Rightarrow> (tui_app \<Rightarrow> tui_app) \<Rightarrow> tui_app \<Rightarrow> tui_app" where
  "on_panel p f a = (if tu_panel a = p then f a else a)"

definition off_search :: "ws_command \<Rightarrow> tui_app \<Rightarrow> tui_app" where
  "off_search cmd a = (if tu_panel a \<noteq> Panel_Search then tui_command cmd a else a)"

definition char_key :: "playback_state \<Rightarrow> string \<Rightarrow> tui_app \<Rightarrow> tui_app" where
  "char_key st c a =
    (if c = ''q'' then a\<lparr>tu_should_quit := True\<rparr>
     else if c = '' '' then on_node st (\<lambda>n. tui_command
       (if map_option nd_status n = Some Playing then Ws_Pause else Ws_Play)) a
     else if c = ''n'' then off_search Ws_Next a
     else if c = ''p'' then off_search Ws_Previous a
     else if c = ''s'' then on_node st (\<lambda>_. tui_command Ws_Stop) a
     else if c = ''+'' \<or> c = ''='' then on_node st (change_volume volume_up) a
     else if c = ''-'' then on_node st (change_volume volume_down) a
     else if c = ''k'' then select_prev a
     else if c = ''j'' then select_next st a
     else if c = ''/'' then a\<lparr>tu_panel := Panel_Search, tu_in_search_input := True\<rparr>
     else if c = ''m'' then switch_mode mode_next a
     else if c = ''M'' then switch_mode mode_prev a
     else if c = ''l'' then on_panel Panel_Library library_enter a
     else if c = ''h'' then on_panel Panel_Library library_back a
     else if c = ''d'' then on_panel Panel_Queue (queue_remove st) a
     else if c = ''J'' then on_panel Panel_Queue (queue_move_down st) a
     else if c = ''B'' then next_node st a
     else if c = ''K'' then on_panel Panel_Queue (queue_move_up st) a
     else a)"

definition handle_event :: "playback_state \<Rightarrow> key \<Rightarrow> tui_app \<Rightarrow> tui_app" where
  "handle_event st k a =
    (if tu_panel a = Panel_Search \<and> tu_in_search_input a then search_key k a
     else case k of
       Key_Char c \<Rightarrow> char_key st c a
     | Key_Esc \<Rightarrow> esc_key a
     | Key_Tab \<Rightarrow> if tu_in_search_input a then a else a\<lparr>tu_panel := panel_next (tu_panel a)\<rparr>
     | Key_BackTab \<Rightarrow> if tu_in_search_input a then a else a\<lparr>tu_panel := panel_prev (tu_panel a)\<rparr>
     | Key_Up \<Rightarrow> select_prev a
     | Key_Down \<Rightarrow> select_next st a
     | Key_Enter \<Rightarrow> select_item a
     | Key_Right \<Rightarrow> on_panel Panel_Library library_enter a
     | Key_Left \<Rightarrow> on_panel Panel_Library library_back a
     | _ \<Rightarrow> a)"

subsection \<open>Drawing\<close>

text \<open>
  A list that is drawn gets its first row selected if it has rows and none is. The list widget, of the
  ratatui library, may change the selected row: \<open>settle n sel\<close> is the row after drawing \<open>n\<close> rows.
\<close>

type_synonym list_widget = "nat \<Rightarrow> usize option \<Rightarrow> usize option"

definition draw_rows :: "list_widget \<Rightarrow> bool \<Rightarrow> nat \<Rightarrow> usize option \<Rightarrow> usize option" where
  "draw_rows settle has_items n sel = settle n (if has_items \<and> sel = None then Some 0 else sel)"

definition draw_queue :: "list_widget \<Rightarrow> playback_state \<Rightarrow> tui_app \<Rightarrow> tui_app" where
  "draw_queue settle st a =
    (let len = length (st_queue st); sel = (if 0 < len \<and> tu_queue_list a = None then Some 0 else tu_queue_list a)
     in a\<lparr>tu_queue_list := settle len (case sel of Some k \<Rightarrow> if 0 < len \<and> len \<le> k then Some (len - 1) else sel | None \<Rightarrow> None)\<rparr>)"

definition draw_library_master :: "list_widget \<Rightarrow> tui_app \<Rightarrow> tui_app" where
  "draw_library_master settle a =
    (let n = library_master_len a in a\<lparr>tu_library_list := draw_rows settle (0 < n) n (tu_library_list a)\<rparr>)"

definition draw_library_right :: "list_widget \<Rightarrow> tui_app \<Rightarrow> tui_app" where
  "draw_library_right settle a =
    a\<lparr>tu_library_detail :=
      (if (tu_mode a = Mode_Artists \<or> tu_mode a = Mode_Genres) \<and> tu_level a = 1
       then draw_rows settle (library_detail_albums a \<noteq> []) (1 + length (library_detail_albums a)) (tu_library_detail a)
       else draw_rows settle (library_browse_tracks a \<noteq> []) (length (library_browse_tracks a)) (tu_library_detail a))\<rparr>"

definition draw_library :: "list_widget \<Rightarrow> tui_app \<Rightarrow> tui_app" where
  "draw_library settle a =
    (if tu_level a = 0 then draw_library_master settle a else draw_library_right settle (draw_library_master settle a))"

definition draw_search :: "list_widget \<Rightarrow> tui_app \<Rightarrow> tui_app" where
  "draw_search settle a =
    (let n = length (tu_search_results a) in a\<lparr>tu_search_list := draw_rows settle (0 < n) n (tu_search_list a)\<rparr>)"

definition draw :: "list_widget \<Rightarrow> playback_state \<times> tui_app \<Rightarrow> playback_state \<times> tui_app" where
  "draw settle s =
    (case s of (st, a) \<Rightarrow> (st,
       case tu_panel a of
         Panel_NowPlaying \<Rightarrow> a
       | Panel_Queue \<Rightarrow> draw_queue settle st a
       | Panel_Library \<Rightarrow> draw_library settle a
       | Panel_Search \<Rightarrow> draw_search settle a))"

subsection \<open>The loop\<close>

text \<open>
  One turn draws and takes what comes first: a key, a response, a new state of the server, or the tick,
  which stands for the other messages too. \<open>q\<close> ends the loop.
\<close>

datatype tui_input = In_Key key | In_Response ws_response | In_State playback_state | In_Tick

fun tui_step :: "tui_input \<Rightarrow> playback_state \<times> tui_app \<Rightarrow> playback_state \<times> tui_app" where
  "tui_step (In_Key k) (st, a) = (st, handle_event st k a)"
| "tui_step (In_Response r) (st, a) = (st, handle_response r a)"
| "tui_step (In_State st') (st, a) = (st', a)"
| "tui_step In_Tick s = s"

definition tui_turns :: "list_widget \<Rightarrow> tui_input list \<Rightarrow> playback_state \<times> tui_app \<Rightarrow> playback_state \<times> tui_app" where
  "tui_turns settle = fold (\<lambda>i s. if tu_should_quit (snd s) then s else tui_step i (draw settle s))"

definition tui_run :: "list_widget \<Rightarrow> tui_input list \<Rightarrow> playback_state \<times> tui_app" where
  "tui_run settle is = tui_turns settle is (empty_state, tui_new)"

end
