(* ===== verification/Tui_Facts.thy ===== *)
theory Tui_Facts
  imports Tui Requests_Facts
begin

text \<open>
  The terminal interface: the invariant of its state, what browsing an album adds to the queue when the
  server's own answers come back, how moving a row keeps it on its track, and what the interface does
  with answers that arrive late.
\<close>

subsection \<open>The invariant\<close>

definition tui_ok :: "tui_app \<Rightarrow> bool" where
  "tui_ok a \<longleftrightarrow>
     tu_level a \<le> (if tu_mode a = Mode_Albums then 1 else 2) \<and>
     (tu_mode a = Mode_Artists \<and> 0 < tu_level a \<longrightarrow> tu_selected_artist a \<noteq> None) \<and>
     (tu_mode a = Mode_Genres \<and> 0 < tu_level a \<longrightarrow> tu_selected_genre a \<noteq> None) \<and>
     (tu_in_search_input a \<longrightarrow> tu_panel a = Panel_Search)"

text \<open>The ids of the requests sent.\<close>

definition request_ids :: "tui_app \<Rightarrow> nat list" where
  "request_ids a = List.map_filter (\<lambda>m. case m of Msg_Request i _ \<Rightarrow> Some i | _ \<Rightarrow> None) (tu_sent a)"

definition numbered :: "tui_app \<Rightarrow> bool" where
  "numbered a \<longleftrightarrow> request_ids a = [1..<Suc (tu_req_counter a)]"

definition tui_inv :: "tui_app \<Rightarrow> bool" where
  "tui_inv a \<longleftrightarrow> tui_ok a \<and> numbered a"

lemma tui_command_inv [simp]: "tui_inv (tui_command c a) = tui_inv a"
  by (simp add: tui_inv_def tui_ok_def numbered_def request_ids_def tui_command_def List.map_filter_def)

lemma numbered_request: "numbered a \<Longrightarrow> numbered (tui_request r a)"
  by (simp add: numbered_def request_ids_def tui_request_def Let_def List.map_filter_def)

lemma numbered_cong: "numbered a \<Longrightarrow> tu_sent b = tu_sent a \<Longrightarrow> tu_req_counter b = tu_req_counter a \<Longrightarrow> numbered b"
  by (simp add: numbered_def request_ids_def)

lemma request_fields [simp]:
  "tu_level (tui_request r a) = tu_level a" "tu_mode (tui_request r a) = tu_mode a"
  "tu_selected_artist (tui_request r a) = tu_selected_artist a" "tu_selected_genre (tui_request r a) = tu_selected_genre a"
  "tu_in_search_input (tui_request r a) = tu_in_search_input a" "tu_panel (tui_request r a) = tu_panel a"
  by (simp_all add: tui_request_def Let_def)

lemma tui_ok_request [simp]: "tui_ok (tui_request r a) = tui_ok a"
  by (simp add: tui_ok_def)

lemma tui_inv_request [simp]: "tui_inv a \<Longrightarrow> tui_inv (tui_request r a)"
  by (simp add: tui_inv_def numbered_request)

lemma tui_inv_update:
  assumes "tui_inv a" "tu_sent b = tu_sent a" "tu_req_counter b = tu_req_counter a" "tui_ok a \<Longrightarrow> tui_ok b"
  shows "tui_inv b"
  using assms numbered_cong unfolding tui_inv_def by blast

lemma open_level_inv:
  assumes "tui_inv a" "l \<le> (if tu_mode a = Mode_Albums then 1 else 2)"
    "tu_mode a = Mode_Artists \<Longrightarrow> tu_selected_artist a \<noteq> None" "tu_mode a = Mode_Genres \<Longrightarrow> tu_selected_genre a \<noteq> None"
  shows "tui_inv (open_level l r a)"
  unfolding open_level_def
  by (rule tui_inv_update [of "tui_request r a"]) (use assms in \<open>simp_all add: tui_ok_def\<close>)

lemma opened_fields_inv [simp]:
  "tui_inv (a\<lparr>tu_album_tracks := ts\<rparr>) = tui_inv a" "tui_inv (a\<lparr>tu_genre_tracks := ts\<rparr>) = tui_inv a"
  "tui_inv (a\<lparr>tu_queue_list := r\<rparr>) = tui_inv a" "tui_inv (a\<lparr>tu_library_list := r\<rparr>) = tui_inv a"
  "tui_inv (a\<lparr>tu_library_detail := r\<rparr>) = tui_inv a" "tui_inv (a\<lparr>tu_search_list := r\<rparr>) = tui_inv a"
  by (simp_all add: tui_inv_def tui_ok_def numbered_def request_ids_def)

lemma selected_inv:
  "tui_inv a \<Longrightarrow> tui_inv (a\<lparr>tu_selected_artist := Some n\<rparr>)" "tui_inv a \<Longrightarrow> tui_inv (a\<lparr>tu_selected_genre := Some n\<rparr>)"
  by (simp_all add: tui_inv_def tui_ok_def numbered_def request_ids_def)

named_theorems tui_intros \<open>steps that keep the invariant\<close>

lemma enter_master_inv:
  assumes "tui_inv a"
  shows "tu_mode a = Mode_Albums \<Longrightarrow> tui_inv (library_enter_album_tracks a)"
    "tu_mode a = Mode_Artists \<Longrightarrow> tui_inv (library_enter_artist_albums a)"
    "tu_mode a = Mode_Genres \<Longrightarrow> tui_inv (library_enter_genre_albums a)"
  unfolding library_enter_album_tracks_def library_enter_artist_albums_def library_enter_genre_albums_def
  using assms by (auto intro!: open_level_inv selected_inv split: option.split)

lemma enter_all_inv:
  "tui_inv a \<Longrightarrow> tu_mode a = Mode_Artists \<Longrightarrow> tu_selected_artist a \<noteq> None \<Longrightarrow> tui_inv (library_enter_artist_all_tracks n a)"
  "tui_inv a \<Longrightarrow> tu_mode a = Mode_Genres \<Longrightarrow> tu_selected_genre a \<noteq> None \<Longrightarrow> tui_inv (library_enter_genre_all_tracks g a)"
  unfolding library_enter_artist_all_tracks_def library_enter_genre_all_tracks_def
  by (rule open_level_inv; simp)+

lemma enter_detail_inv:
  assumes "tui_inv a"
  shows "tu_mode a = Mode_Artists \<Longrightarrow> tui_inv (library_enter_artist_album_tracks a)"
    "tu_mode a = Mode_Genres \<Longrightarrow> tui_inv (library_enter_genre_album_tracks a)"
proof -
  assume m: "tu_mode a = Mode_Artists"
  have "tui_inv (open_level 2 r a)" if "tu_selected_artist a \<noteq> None" for r
    by (rule open_level_inv) (use assms m that in simp_all)
  with assms m show "tui_inv (library_enter_artist_album_tracks a)"
    by (simp add: library_enter_artist_album_tracks_def enter_all_inv split: option.split)
next
  assume m: "tu_mode a = Mode_Genres"
  have "tui_inv (open_level 2 r (a\<lparr>tu_genre_tracks := []\<rparr>))" if "tu_selected_genre a \<noteq> None" for r
    by (rule open_level_inv) (use assms m that in simp_all)
  with assms m show "tui_inv (library_enter_genre_album_tracks a)"
    by (simp add: library_enter_genre_album_tracks_def enter_all_inv split: option.split)
qed

lemma library_enter_inv [tui_intros]: "tui_inv a \<Longrightarrow> tui_inv (library_enter a)"
  by (simp add: library_enter_def enter_master_inv enter_detail_inv split: library_mode.split)

lemma library_back_inv [tui_intros]: "tui_inv a \<Longrightarrow> tui_inv (library_back a)"
  by (erule tui_inv_update) (auto simp: library_back_def Let_def tui_ok_def split: if_splits library_mode.splits)

lemma select_prev_inv [tui_intros]: "tui_inv a \<Longrightarrow> tui_inv (select_prev a)"
  by (simp add: select_prev_def split: panel.split)

lemma select_next_inv [tui_intros]: "tui_inv a \<Longrightarrow> tui_inv (select_next st a)"
  by (simp add: select_next_def Let_def split: panel.split)

lemma add_row_inv [tui_intros]: "tui_inv a \<Longrightarrow> tui_inv (add_row ts sel a)"
  by (simp add: add_row_def split: option.split)

lemma select_item_inv [tui_intros]: "tui_inv a \<Longrightarrow> tui_inv (select_item a)"
  by (simp add: select_item_def add_row_inv library_enter_inv split: panel.split option.split)

lemma queue_edit_inv [tui_intros]:
  assumes "tui_inv a"
  shows "tui_inv (queue_remove st a)" "tui_inv (queue_move_up st a)" "tui_inv (queue_move_down st a)"
  using assms by (simp_all add: queue_remove_def queue_move_up_def queue_move_down_def split: option.split)

lemma handle_response_inv [tui_intros]: "tui_inv a \<Longrightarrow> tui_inv (handle_response r a)"
  by (erule tui_inv_update; cases r; simp add: handle_response_def tui_ok_def)

lemma search_key_inv [tui_intros]:
  assumes "tui_inv a" shows "tui_inv (search_key k a)"
proof -
  have q: "tui_inv (a\<lparr>tu_search_query := x\<rparr>)" for x
    by (rule tui_inv_update [OF assms]) (auto simp: tui_ok_def)
  have out: "tui_inv (a\<lparr>tu_in_search_input := False\<rparr>)" "tui_inv (a\<lparr>tu_in_search_input := False, tu_search_list := l\<rparr>)" for l
    by (rule tui_inv_update [OF assms]; auto simp: tui_ok_def)+
  show ?thesis
    using assms q out by (simp add: search_key_def send_search_def split: key.split)
qed

lemma switch_mode_inv [tui_intros]: "tui_inv a \<Longrightarrow> tui_inv (switch_mode f a)"
  unfolding switch_mode_def request_library_list_def
  by (auto intro!: tui_inv_request elim!: tui_inv_update simp: tui_ok_def)

lemma esc_key_inv [tui_intros]:
  assumes "tui_inv a" shows "tui_inv (esc_key a)"
proof -
  have "tui_inv (a\<lparr>tu_search_query := [], tu_search_results := [], tu_search_list := None, tu_in_search_input := False\<rparr>)"
    by (rule tui_inv_update [OF assms]) (auto simp: tui_ok_def)
  with assms show ?thesis by (simp add: esc_key_def library_back_inv)
qed

lemma char_key_inv [tui_intros]:
  assumes "tui_inv a" shows "tui_inv (char_key st c a)"
proof -
  have q: "tui_inv (a\<lparr>tu_should_quit := True\<rparr>)" "tui_inv (a\<lparr>tu_panel := Panel_Search, tu_in_search_input := True\<rparr>)"
    by (rule tui_inv_update [OF assms]; auto simp: tui_ok_def)+
  show ?thesis
    using assms q
    by (simp add: char_key_def on_node_def off_search_def on_panel_def next_node_def change_volume_def Let_def
        tui_intros split: option.split)
qed

lemma handle_event_inv [tui_intros]:
  assumes "tui_inv a" shows "tui_inv (handle_event st k a)"
proof -
  have tab: "\<not> tu_in_search_input a \<Longrightarrow> tui_inv (a\<lparr>tu_panel := p\<rparr>)" for p
    by (rule tui_inv_update [OF assms]) (auto simp: tui_ok_def)
  show ?thesis
    using assms tab by (simp add: handle_event_def on_panel_def tui_intros split: key.split)
qed

lemma draw_inv: "tui_inv (snd s) \<Longrightarrow> tui_inv (snd (draw settle s))"
  by (cases s) (simp add: draw_def draw_queue_def draw_library_def draw_library_master_def draw_library_right_def
      draw_search_def Let_def split: panel.split)

lemma tui_step_inv: "tui_inv (snd s) \<Longrightarrow> tui_inv (snd (tui_step i s))"
  by (cases s; cases i) (simp_all add: tui_intros)

lemma tui_turns_append [simp]: "tui_turns settle (is @ js) s = tui_turns settle js (tui_turns settle is s)"
  by (simp add: tui_turns_def)

lemma tui_turns_simps [simp]:
  "tui_turns settle [] s = s"
  "tui_turns settle (i # is) s = tui_turns settle is (if tu_should_quit (snd s) then s else tui_step i (draw settle s))"
  by (simp_all add: tui_turns_def)

lemma tui_turns_inv: "tui_inv (snd s) \<Longrightarrow> tui_inv (snd (tui_turns settle is s))"
  by (induction "is" arbitrary: s) (simp_all add: tui_step_inv draw_inv)

lemma tui_run_inv: "tui_inv (snd (tui_run settle is))"
proof -
  have "tui_inv tui_new"
    by (simp add: tui_inv_def tui_ok_def numbered_def request_ids_def tui_new_def List.map_filter_def)
  then show ?thesis by (simp add: tui_run_def tui_turns_inv)
qed

subsection \<open>Browsing\<close>

text \<open>The widget leaves a row that is on the list selected.\<close>

definition keeps_rows :: "list_widget \<Rightarrow> bool" where
  "keeps_rows settle \<longleftrightarrow> (\<forall>n k. k < n \<longrightarrow> settle n (Some k) = Some k)"

lemma keeps_rowsD: "keeps_rows settle \<Longrightarrow> k < n \<Longrightarrow> settle n (Some k) = Some k"
  by (simp add: keeps_rows_def)

abbreviation in_library :: "library_mode \<Rightarrow> nat \<Rightarrow> tui_app \<Rightarrow> bool" where
  "in_library m l a \<equiv> tu_panel a = Panel_Library \<and> tu_mode a = m \<and> tu_level a = l \<and> \<not> tu_should_quit a \<and>
    \<not> tu_in_search_input a"

definition row_on_list :: "tui_app \<Rightarrow> bool" where
  "row_on_list a \<longleftrightarrow> pred_option (\<lambda>k. k < library_master_len a) (tu_library_list a) \<and> tu_library_list a \<noteq> None"

lemma detail_len_row [simp]:
  "detail_len (a\<lparr>tu_library_detail := r\<rparr>) = detail_len a"
  "library_browse_tracks (a\<lparr>tu_library_detail := r\<rparr>) = library_browse_tracks a"
  "library_detail_albums (a\<lparr>tu_library_detail := r\<rparr>) = library_detail_albums a"
  "library_master_len (a\<lparr>tu_library_detail := r\<rparr>) = library_master_len a"
  "row_on_list (a\<lparr>tu_library_detail := r\<rparr>) = row_on_list a"
  by (simp_all add: detail_len_def library_detail_albums_def library_browse_tracks_def library_master_len_def row_on_list_def
      cong: library_mode.case_cong)

lemma drawn_master: "keeps_rows settle \<Longrightarrow> row_on_list a \<Longrightarrow> draw_library_master settle a = a"
  by (cases "tu_library_list a") (auto simp: draw_library_master_def draw_rows_def row_on_list_def keeps_rows_def Let_def)

text \<open>Drawing the details only brings a row into them.\<close>

lemma drawn_details:
  assumes "keeps_rows settle" "row_on_list a" "in_library m l a" "0 < l"
  shows "\<exists>r. draw settle (st, a) = (st, a\<lparr>tu_library_detail := r\<rparr>)"
  using assms by (simp add: draw_def draw_library_def drawn_master draw_library_right_def) blast

lemma drawn_row:
  assumes "keeps_rows settle" "row_on_list a" "in_library m l a" "0 < l" "tu_library_detail a = Some k" "k < detail_len a"
  shows "draw settle (st, a) = (st, a)"
proof -
  have "draw_library_right settle a = a"
    using assms(1,3-6) by (auto simp: draw_library_right_def draw_rows_def detail_len_def keeps_rows_def)
  with assms(1-4) show ?thesis by (simp add: draw_def draw_library_def drawn_master)
qed

lemma down_rows:
  assumes "keeps_rows settle" "row_on_list a" "in_library m l a" "0 < l" "tu_library_detail a = Some k" "k + j < detail_len a"
  shows "tui_turns settle (replicate j (In_Key Key_Down)) (st, a) = (st, a\<lparr>tu_library_detail := Some (k + j)\<rparr>)"
  using assms
proof (induction j arbitrary: a k)
  case (Suc j)
  then have "draw settle (st, a) = (st, a)" by (intro drawn_row [where k = k]) auto
  with Suc show ?case by (simp add: handle_event_def select_next_def row_down_def)
qed simp

lemma enter_row:
  assumes "keeps_rows settle" "row_on_list a" "in_library m l a" "0 < l" "tu_library_detail a = Some k"
    and "k < detail_len a" "k < length (library_browse_tracks a)"
  shows "tui_turns settle [In_Key Key_Enter] (st, a) = (st, tui_command (Ws_AddToQueue (library_browse_tracks a ! k)) a)"
proof -
  have "draw settle (st, a) = (st, a)" using assms by (intro drawn_row [where k = k]) auto
  with assms show ?thesis by (simp add: handle_event_def select_item_def add_row_def vec_get_def)
qed

text \<open>Down to row \<open>j\<close> and the Enter key, from the first row of the details.\<close>

lemma row_added:
  assumes "keeps_rows settle" "row_on_list a" "in_library m l a" "0 < l" "tu_library_detail a = Some 0"
    and "j < detail_len a" "j < length (library_browse_tracks a)"
  shows "tui_turns settle (replicate j (In_Key Key_Down) @ [In_Key Key_Enter]) (st, a) =
    (st, tui_command (Ws_AddToQueue (library_browse_tracks a ! j)) (a\<lparr>tu_library_detail := Some j\<rparr>))"
proof -
  have "tui_turns settle (replicate j (In_Key Key_Down)) (st, a) = (st, a\<lparr>tu_library_detail := Some j\<rparr>)"
    using down_rows [OF assms(1-5), of j] assms(6) by simp
  with enter_row [OF assms(1), of "a\<lparr>tu_library_detail := Some j\<rparr>" m l j st] assms show ?thesis
    by (simp del: tui_turns_simps)
qed

text \<open>The messages from opening the album of row \<open>i\<close> to adding its track \<open>j\<close>, the server answering in between.\<close>

lemma album_browsed:
  fixes s :: "'w ui_state" and a :: tui_app and i :: nat
  defines "ident \<equiv> al_id (tu_albums a ! i)"
  assumes widget: "keeps_rows settle"
    and lib: "in_library Mode_Albums 0 a" and row: "tu_library_list a = Some i" "i < length (tu_albums a)"
    and answer: "handle_request env now kid (Req_GetAlbumTracks ident) s = Some r" "ue_opens env"
    and j: "j < length (get_tracks_by_album_id (ui_library s) ident)"
  shows "tu_sent (snd (tui_turns settle ([In_Key Key_Right, In_Response r] @ replicate j (In_Key Key_Down) @ [In_Key Key_Enter]) (st, a))) =
    tu_sent a @ [Msg_Request (Suc (tu_req_counter a)) (Req_GetAlbumTracks ident),
      Msg_Command (Ws_AddToQueue (get_tracks_by_album_id (ui_library s) ident ! j))]"
proof -
  define ts where "ts = get_tracks_by_album_id (ui_library s) ident"
  have ts: "ts \<noteq> []" using j by (auto simp: ts_def)
  have r: "r = Res_AlbumTracks ts"
    using answer by (simp add: handle_request_def Let_def listed_def ts_def)
  define u where "u = open_level 1 (Req_GetAlbumTracks ident) a"
  define b where "b = u\<lparr>tu_album_tracks := ts, tu_library_detail := Some 0\<rparr>"
  have list: "row_on_list a" using lib row by (simp add: row_on_list_def library_master_len_def)
  then have u: "row_on_list u" "in_library Mode_Albums 1 u" using lib
    by (simp_all add: u_def open_level_def tui_request_def Let_def row_on_list_def library_master_len_def)
  have enter: "tui_turns settle [In_Key Key_Right] (st, a) = (st, u)"
    using lib row drawn_master [OF widget list]
    by (simp add: draw_def draw_library_def handle_event_def on_panel_def library_enter_def library_enter_album_tracks_def
        ident_def vec_get_def u_def)
  obtain d where "draw settle (st, u) = (st, u\<lparr>tu_library_detail := d\<rparr>)"
    using drawn_details [OF widget u] by auto
  then have "tui_turns settle [In_Response r] (st, u) = (st, b)"
    using u ts by (simp add: r handle_response_def first_row_def b_def)
  with enter have opened: "tui_turns settle [In_Key Key_Right, In_Response r] (st, a) = (st, b)"
    using tui_turns_append [of settle "[In_Key Key_Right]" "[In_Response r]"] by (simp del: tui_turns_simps)
  have b: "in_library Mode_Albums 1 b" "row_on_list b" "tu_library_detail b = Some 0" "library_browse_tracks b = ts"
    using u by (simp_all add: b_def library_browse_tracks_def row_on_list_def library_master_len_def)
  then have "detail_len b = length ts" by (simp add: detail_len_def)
  with row_added [OF widget b(2,1) _ b(3), of j st] b j show ?thesis
    unfolding tui_turns_append [of settle "[_, _]"] opened
    by (simp del: tui_turns_simps tui_turns_append add: ts_def)
      (simp add: tui_command_def b_def u_def open_level_def tui_request_def Let_def)
qed

text \<open>
  Going back from an album to the albums of an artist keeps its tracks. Row \<open>i\<close> then shows an album (row
  0 all tracks), yet the Enter key adds track \<open>i\<close> of the album left.
\<close>

lemma left_album_added:
  assumes widget: "keeps_rows settle" and lib: "in_library Mode_Artists 2 a" "row_on_list a"
    and i: "0 < i" "i \<le> length (tu_artist_albums a)" "i < length (tu_album_tracks a)"
  shows "tu_sent (snd (tui_turns settle ([In_Key Key_Left] @ [In_Tick] @ replicate i (In_Key Key_Down) @ [In_Key Key_Enter]) (st, a))) =
    tu_sent a @ [Msg_Command (Ws_AddToQueue (tu_album_tracks a ! i))]"
proof -
  define u where "u = a\<lparr>tu_level := 1, tu_artist_tracks := [], tu_genre_tracks := [], tu_library_detail := None\<rparr>"
  define b where "b = u\<lparr>tu_library_detail := Some 0\<rparr>"
  obtain d where "draw settle (st, a) = (st, a\<lparr>tu_library_detail := d\<rparr>)"
    using drawn_details [OF widget lib(2,1)] by auto
  then have "tui_turns settle [In_Key Key_Left] (st, a) = (st, u)"
    using lib(1) by (simp add: handle_event_def on_panel_def library_back_def u_def Let_def)
  moreover have u: "row_on_list u" "in_library Mode_Artists 1 u" "library_detail_albums u = tu_artist_albums a" using lib
    by (simp_all add: u_def row_on_list_def library_master_len_def library_detail_albums_def)
  then have "draw settle (st, u) = (st, b)"
    using i keeps_rowsD [OF widget, of 0]
    by (auto simp: draw_def draw_library_def drawn_master [OF widget] draw_library_right_def draw_rows_def u_def b_def)
  ultimately have left: "tui_turns settle [In_Tick] (tui_turns settle [In_Key Key_Left] (st, a)) = (st, b)"
    using u by simp
  have b: "in_library Mode_Artists 1 b" "row_on_list b" "tu_library_detail b = Some 0" "library_browse_tracks b = tu_album_tracks a"
    using u by (simp_all add: b_def library_browse_tracks_def) (simp add: u_def)
  have "detail_len b = 1 + length (tu_artist_albums a)" using u by (simp add: b_def detail_len_def)
  with row_added [OF widget b(2,1) _ b(3), of i st] b i show ?thesis
    unfolding tui_turns_append [of settle "[_]"] left
    by (simp del: tui_turns_simps tui_turns_append) (simp add: tui_command_def b_def u_def)
qed

subsection \<open>Search, the queue and the volume\<close>

text \<open>Each key of the search field asks anew; answers carry no trace of their question, so the one that
  arrives last is shown.\<close>

lemma search_drawn: "tu_panel a = Panel_Search \<Longrightarrow> \<exists>r. draw settle (st, a) = (st, a\<lparr>tu_search_list := r\<rparr>)"
  by (simp add: draw_def draw_search_def Let_def) blast

lemma typed_search:
  assumes "tu_panel a = Panel_Search" "tu_in_search_input a" "\<not> tu_should_quit a" "\<forall>c \<in> set cs. \<not> is_control c"
  shows "tu_sent (snd (tui_turns settle (map (\<lambda>c. In_Key (Key_Char c)) cs) (st, a))) = tu_sent a @
    map (\<lambda>k. Msg_Request (tu_req_counter a + k) (Req_Search (concat (tu_search_query a @ take k cs)))) [1..<Suc (length cs)]"
  using assms
proof (induction cs arbitrary: a)
  case (Cons c cs)
  obtain r where "draw settle (st, a) = (st, a\<lparr>tu_search_list := r\<rparr>)" using search_drawn Cons.prems(1) by blast
  moreover have "[1..<Suc (length (c # cs))] = 1 # map Suc [1..<Suc (length cs)]"
    by (simp add: map_Suc_upt upt_conv_Cons del: upt_Suc)
  ultimately show ?case using Cons
    by (simp add: handle_event_def search_key_def send_search_def tui_request_def Let_def comp_def del: upt_Suc)
qed simp

lemma last_answer_shown:
  "tu_search_results (handle_response (Res_SearchResults old) (handle_response (Res_SearchResults new) a)) = old"
  by (simp add: handle_response_def)

text \<open>Moving a row takes the row along with its track.\<close>

lemma vec_move_down: "i + 1 < length xs \<Longrightarrow> vec_move i (i + 1) xs ! (i + 1) = xs ! i"
  by (simp add: vec_move_def vec_insert_def vec_remove_def nth_append min_def)

lemma vec_move_up: "0 < i \<Longrightarrow> i < length xs \<Longrightarrow> vec_move i (i - 1) xs ! (i - 1) = xs ! i"
  by (simp add: vec_move_def vec_insert_def vec_remove_def nth_append min_def)

lemma moved_row_follows:
  assumes "tu_queue_list a = Some i" "tu_sent (f st a) = tu_sent a @ [Msg_Command (Ws_MoveInQueue i j)]"
    "f = queue_move_down \<or> f = queue_move_up"
  shows "tu_queue_list (f st a) = Some j \<and> j < length (st_queue st) \<and> vec_move i j (st_queue st) ! j = st_queue st ! i"
  using assms vec_move_up [of i "st_queue st"] vec_move_down [of i "st_queue st"]
  by (auto simp: queue_move_down_def queue_move_up_def tui_command_def split: if_splits)

lemma volume_up_bounded: "volume_up v \<le> 100"
  by (simp add: volume_up_def)

lemma volume_down_less: "unat (volume_down v) = unat v - 5"
proof -
  have "unat v < 2 ^ LENGTH(8)" by (rule unsigned_less)
  then have "unat v - 5 < 2 ^ LENGTH(8)" by simp
  then show ?thesis unfolding volume_down_def by (simp add: unsigned_of_nat take_bit_nat_eq_self)
qed

end
