(* ===== verification/Node_Session.thy ===== *)
theory Node_Session
  imports Node_Proxy
begin

text \<open>
  The process of an output node (\<open>kanade-node/src/main.rs\<close>): its configuration, the sessions it opens with
  the server one after the other, and what runs beside them for the life of the process, the state sync of
  theory Mpd and the proxy of theory \<open>Node_Proxy\<close>. One event is one turn of a loop. The decoding of the
  server's texts is a parameter, and so are the daemon, as the output of the renderer, and what it makes of
  the \<open>stop\<close> and \<open>clear\<close> sent when a session begins.
\<close>

subsection \<open>Configuration\<close>

record node_config =
  cf_name :: string
  cf_server :: string
  cf_mpd_host :: string
  cf_mpd_port :: nat
  cf_proxy_bind :: string
  cf_proxy_url :: string

definition or_default :: "string \<Rightarrow> string option \<Rightarrow> string" where
  "or_default d v = (case v of Some s \<Rightarrow> s | None \<Rightarrow> d)"

definition server_url :: "string \<Rightarrow> string" where
  "server_url raw = (if contains ''://'' raw then raw else ''ws://'' @ raw @ ''/ws'')"

definition read_config :: "(string \<rightharpoonup> string) \<Rightarrow> node_config" where
  "read_config var =
    \<lparr>cf_name = or_default ''node'' (var ''NODE_NAME''),
     cf_server = server_url (or_default ''127.0.0.1:8080'' (var ''SERVER_ADDR'')),
     cf_mpd_host = or_default ''127.0.0.1'' (var ''MPD_HOST''),
     cf_mpd_port = (case Option.bind (var ''MPD_PORT'') (parse_uint 65535) of Some p \<Rightarrow> p | None \<Rightarrow> 6600),
     cf_proxy_bind = or_default ''127.0.0.1:18080'' (var ''MEDIA_PROXY_BIND_ADDR''),
     cf_proxy_url = or_default [] (var ''MEDIA_PROXY_URL'')\<rparr>"

definition session_registration :: "string \<Rightarrow> node_registration" where
  "session_registration name = \<lparr>nr_node_id = Some name, nr_display_name = Some name, nr_name = None\<rparr>"

subsection \<open>The process\<close>

text \<open>The end of the stream counts as \<open>In_Close\<close>.\<close>

datatype server_frame = In_Text string | In_Ping | In_Pong | In_Binary | In_Close | In_Error

datatype session_phase = Waiting | Handshake | Relaying

text \<open>
  The queued requests of the proxy for new credentials and the updates queued for the session are bounded
  channels; a send on a full one is dropped, and one to a session that has ended too.
\<close>

record 'w node_process =
  np_mpd :: "'w mpd_node"
  np_proxy :: "proxy_state option"
  np_refreshes :: nat
  np_phase :: session_phase
  np_channel :: "node_state_update list"
  np_written :: "node_state_update list"
  np_wait :: nat
  np_backoff :: nat

record 'w node_env =
  ne_command :: "string \<Rightarrow> node_command option"
  ne_ack :: "string \<Rightarrow> node_registration_ack option"
  ne_renderer :: "'w audio_output"
  ne_clear :: "'w \<Rightarrow> 'w"
  ne_status :: "'w \<Rightarrow> mpd_status"

definition refresh_capacity :: nat where
  "refresh_capacity = 8"

definition update_capacity :: nat where
  "update_capacity = 64"

definition node_start :: "string \<Rightarrow> 'w \<Rightarrow> 'w node_process" where
  "node_start name w =
    \<lparr>np_mpd = \<lparr>mn_device = \<lparr>dv_world = w, dv_projection_generation = 0\<rparr>,
        mn_state = empty_state\<lparr>st_nodes := [default_node\<lparr>nd_id := [], nd_name := name\<rparr>]\<rparr>,
        mn_polled = None, mn_reports = []\<rparr>,
     np_proxy = None, np_refreshes = 0, np_phase = Waiting, np_channel = [], np_written = [],
     np_wait = 0, np_backoff = 1\<rparr>"

subsection \<open>A session\<close>

definition on_mpd :: "('w mpd_node \<Rightarrow> 'w mpd_node) \<Rightarrow> 'w node_process \<Rightarrow> 'w node_process" where
  "on_mpd f p = p\<lparr>np_mpd := f (np_mpd p)\<rparr>"

definition take_ack :: "node_registration_ack \<Rightarrow> 'w node_process \<Rightarrow> 'w node_process" where
  "take_ack ack p =
    p\<lparr>np_proxy := proxy_update (na_media_base_url ack) (parse_media_auth hex_decode ack) (np_proxy p)\<rparr>"

text \<open>However a session ends, the process waits for the backoff and doubles it.\<close>

definition leave_session :: "'w node_process \<Rightarrow> 'w node_process" where
  "leave_session p = p\<lparr>np_phase := Waiting, np_channel := [],
     np_wait := np_backoff p, np_backoff := next_backoff (np_backoff p)\<rparr>"

definition name_node :: "string \<Rightarrow> playback_state \<Rightarrow> playback_state" where
  "name_node i s = (case st_nodes s of
     [] \<Rightarrow> s | n # ns \<Rightarrow> s\<lparr>st_nodes := n\<lparr>nd_id := i, nd_connected := True\<rparr> # ns\<rparr>)"

text \<open>The queue of the daemon is cleared before the first command; that it could not be is only logged.\<close>

definition begin_relay :: "'w node_env \<Rightarrow> node_registration_ack \<Rightarrow> 'w node_process \<Rightarrow> 'w node_process" where
  "begin_relay env ack p =
    (let p = take_ack ack p;
         p = on_mpd (\<lambda>n. n\<lparr>mn_state := name_node (na_node_id ack) (mn_state n),
               mn_device := (mn_device n)\<lparr>dv_world := ne_clear env (dv_world (mn_device n))\<rparr>\<rparr>) p
     in p\<lparr>np_phase := Relaying, np_channel := [], np_written := []\<rparr>)"

fun handshake_frame :: "'w node_env \<Rightarrow> server_frame \<Rightarrow> 'w node_process \<Rightarrow> 'w node_process" where
  "handshake_frame env (In_Text t) p = (case ne_ack env t of Some ack \<Rightarrow> begin_relay env ack p | None \<Rightarrow> p)"
| "handshake_frame env In_Close p = leave_session p"
| "handshake_frame env In_Error p = leave_session p"
| "handshake_frame env f p = p"

text \<open>A text is a command if it can be read as one, then an ack; \<open>sent\<close> tells whether a pong is written.\<close>

fun relay_frame :: "'w node_env \<Rightarrow> bool \<Rightarrow> server_frame \<Rightarrow> 'w node_process \<Rightarrow> 'w node_process" where
  "relay_frame env sent (In_Text t) p =
    (case ne_command env t of
       Some cmd \<Rightarrow> on_mpd (node_exec (ne_renderer env) (ne_status env) (Step_Command cmd)) p
     | None \<Rightarrow> (case ne_ack env t of Some ack \<Rightarrow> take_ack ack p | None \<Rightarrow> p))"
| "relay_frame env sent In_Ping p = (if sent then p else leave_session p)"
| "relay_frame env sent In_Close p = leave_session p"
| "relay_frame env sent In_Error p = leave_session p"
| "relay_frame env sent f p = p"

definition relay_update :: "bool \<Rightarrow> 'w node_process \<Rightarrow> 'w node_process" where
  "relay_update sent p =
    (case np_channel p of
       [] \<Rightarrow> p
     | u # us \<Rightarrow> if sent then p\<lparr>np_channel := us, np_written := np_written p @ [u]\<rparr> else leave_session p)"

definition relay_refresh :: "'w node_process \<Rightarrow> 'w node_process" where
  "relay_refresh p = (if np_refreshes p = 0 then p else leave_session (p\<lparr>np_refreshes := np_refreshes p - 1\<rparr>))"

subsection \<open>Beside the session\<close>

text \<open>The state sync hands each report to the broadcaster, which tries to queue it for the session.\<close>

definition queue_report :: "node_state_update \<Rightarrow> 'w node_process \<Rightarrow> 'w node_process" where
  "queue_report u p =
    (if np_phase p = Relaying \<and> length (np_channel p) < update_capacity
     then p\<lparr>np_channel := np_channel p @ [u]\<rparr> else p)"

definition sync_report :: "'w node_env \<Rightarrow> 'w node_process \<Rightarrow> 'w node_process" where
  "sync_report env p =
    (let n = node_exec (ne_renderer env) (ne_status env) Step_Report (np_mpd p)
     in fold queue_report (drop (length (mn_reports (np_mpd p))) (mn_reports n)) (p\<lparr>np_mpd := n\<rparr>))"

text \<open>A signed URL that the server refuses makes the proxy ask for new credentials.\<close>

definition ask_refresh :: "'w node_process \<Rightarrow> 'w node_process" where
  "ask_refresh p = (if np_refreshes p < refresh_capacity then p\<lparr>np_refreshes := Suc (np_refreshes p)\<rparr> else p)"

subsection \<open>Events\<close>

text \<open>Connecting includes sending the registration; the handshake times out when ten seconds bring nothing.\<close>

datatype node_event =
    Nd_Connect bool
  | Nd_Timeout
  | Nd_Frame bool server_frame
  | Nd_Update bool
  | Nd_Refresh
  | Nd_Poll
  | Nd_Report
  | Nd_Refused

fun node_event_step :: "'w node_env \<Rightarrow> node_event \<Rightarrow> 'w node_process \<Rightarrow> 'w node_process" where
  "node_event_step env (Nd_Connect ok) p =
    (if np_phase p \<noteq> Waiting then p else if ok then p\<lparr>np_phase := Handshake\<rparr> else leave_session p)"
| "node_event_step env Nd_Timeout p = (if np_phase p = Handshake then leave_session p else p)"
| "node_event_step env (Nd_Frame sent f) p =
    (case np_phase p of
       Waiting \<Rightarrow> p | Handshake \<Rightarrow> handshake_frame env f p | Relaying \<Rightarrow> relay_frame env sent f p)"
| "node_event_step env (Nd_Update sent) p = (if np_phase p = Relaying then relay_update sent p else p)"
| "node_event_step env Nd_Refresh p = (if np_phase p = Relaying then relay_refresh p else p)"
| "node_event_step env Nd_Poll p = on_mpd (node_exec (ne_renderer env) (ne_status env) Step_Poll) p"
| "node_event_step env Nd_Report p = sync_report env p"
| "node_event_step env Nd_Refused p = ask_refresh p"

definition node_process_run :: "'w node_env \<Rightarrow> node_event list \<Rightarrow> 'w node_process \<Rightarrow> 'w node_process" where
  "node_process_run env evs p = fold (node_event_step env) evs p"

end
