(* ===== verification/Node_Session_Facts.thy ===== *)
theory Node_Session_Facts
  imports Node_Session Node_Facts Connections_Facts
begin

text \<open>
  What holds of the process of a node after any events; that a session leaves the node with the
  credentials of the last ack and the queue of the commands it has read; and, with the server of theory
  Connections, that the URLs it then redirects the player to are accepted.
\<close>

subsection \<open>After any events\<close>

inductive node_reachable :: "'w node_env \<Rightarrow> 'w node_process \<Rightarrow> bool" for env :: "'w node_env" where
  start: "node_reachable env (node_start name w)"
| step: "node_reachable env p \<Longrightarrow> node_reachable env (node_event_step env ev p)"

definition process_ok :: "'w node_process \<Rightarrow> bool" where
  "process_ok p \<longleftrightarrow>
     np_refreshes p \<le> refresh_capacity \<and> length (np_channel p) \<le> update_capacity \<and>
     (np_phase p \<noteq> Relaying \<longrightarrow> np_channel p = []) \<and> (np_phase p = Relaying \<longrightarrow> np_proxy p \<noteq> None) \<and>
     0 < np_backoff p \<and> np_backoff p \<le> 30 \<and> np_wait p \<le> np_backoff p \<and>
     length (st_nodes (mn_state (np_mpd p))) = 1"

lemma process_leave: "process_ok p \<Longrightarrow> process_ok (leave_session p)"
  using backoff_bounds [of "np_backoff p"] by (simp add: process_ok_def leave_session_def)

lemma leave_session_phase [simp]: "np_phase (leave_session p) = Waiting"
  by (simp add: leave_session_def)

lemma process_take_ack: "process_ok p \<Longrightarrow> process_ok (take_ack ack p)"
  by (simp add: process_ok_def take_ack_def proxy_update_def)

lemma apply_status_nodes: "length (st_nodes (apply_status st s)) = length (st_nodes s)"
  by (simp add: apply_status_def Let_def split: list.split)

lemma node_exec_nodes: "length (st_nodes (mn_state (node_exec out status st n))) = length (st_nodes (mn_state n))"
  by (cases st) (simp_all add: apply_status_nodes Let_def split: option.split)

lemma process_exec: "process_ok p \<Longrightarrow> process_ok (on_mpd (node_exec out status st) p)"
  by (simp add: process_ok_def on_mpd_def node_exec_nodes)

lemma name_node_nodes: "length (st_nodes (name_node i s)) = length (st_nodes s)"
  by (simp add: name_node_def split: list.split)

lemma process_begin: "process_ok p \<Longrightarrow> process_ok (begin_relay env ack p)"
  by (simp add: process_ok_def begin_relay_def take_ack_def proxy_update_def on_mpd_def name_node_nodes Let_def)

lemma process_queue: "process_ok p \<Longrightarrow> process_ok (queue_report u p)"
  by (simp add: process_ok_def queue_report_def)

lemma process_queue_all: "process_ok p \<Longrightarrow> process_ok (fold queue_report us p)"
  by (induction us arbitrary: p) (simp_all add: process_queue)

lemma process_report: "process_ok p \<Longrightarrow> process_ok (sync_report env p)"
  using process_exec [of p] by (simp only: sync_report_def Let_def process_queue_all on_mpd_def)

lemma process_step:
  assumes ok: "process_ok p"
  shows "process_ok (node_event_step env ev p)"
proof (cases ev)
  case (Nd_Connect b)
  then show ?thesis using ok process_leave [OF ok] by (simp add: process_ok_def)
next
  case (Nd_Frame sent f)
  show ?thesis
  proof (cases "np_phase p")
    case Handshake
    then show ?thesis using ok process_leave [OF ok] process_begin [OF ok]
      by (cases f) (simp_all add: Nd_Frame split: option.split)
  next
    case Relaying
    then show ?thesis using ok process_leave [OF ok] process_take_ack [OF ok] process_exec [OF ok]
      by (cases f) (simp_all add: Nd_Frame split: option.split)
  qed (use ok in \<open>simp add: Nd_Frame\<close>)
next
  case (Nd_Update sent)
  have "process_ok (p\<lparr>np_channel := us, np_written := ws\<rparr>)" if "np_channel p = u # us" "np_phase p = Relaying" for u us ws
    using ok that by (simp add: process_ok_def)
  then show ?thesis using ok process_leave [OF ok] by (simp add: Nd_Update relay_update_def split: list.split)
next
  case Nd_Refresh
  have "process_ok (p\<lparr>np_refreshes := np_refreshes p - 1\<rparr>)" using ok by (auto simp: process_ok_def)
  then show ?thesis using ok by (simp add: Nd_Refresh relay_refresh_def process_leave)
next
  case Nd_Refused
  then show ?thesis using ok by (simp add: process_ok_def ask_refresh_def)
qed (use ok process_leave [OF ok] process_exec [OF ok] process_report [OF ok] in simp_all)

lemma process_start: "process_ok (node_start name w)"
  by (simp add: process_ok_def node_start_def)

lemma node_process_ok: "node_reachable env p \<Longrightarrow> process_ok p"
  by (induction rule: node_reachable.induct) (simp_all only: process_start process_step)

subsection \<open>What a session has read\<close>

text \<open>The commands and acks among the texts of a session.\<close>

fun command_in :: "'w node_env \<Rightarrow> node_event \<Rightarrow> node_command list" where
  "command_in env (Nd_Frame sent (In_Text t)) = (case ne_command env t of Some cmd \<Rightarrow> [cmd] | None \<Rightarrow> [])"
| "command_in env ev = []"

fun ack_in :: "'w node_env \<Rightarrow> node_event \<Rightarrow> node_registration_ack list" where
  "ack_in env (Nd_Frame sent (In_Text t)) =
    (case ne_command env t of Some cmd \<Rightarrow> [] | None \<Rightarrow> (case ne_ack env t of Some ack \<Rightarrow> [ack] | None \<Rightarrow> []))"
| "ack_in env ev = []"

definition take_proxy :: "node_registration_ack \<Rightarrow> proxy_state option \<Rightarrow> proxy_state option" where
  "take_proxy ack = proxy_update (na_media_base_url ack) (parse_media_auth hex_decode ack)"

lemma queue_report_fields [simp]:
  "np_proxy (fold queue_report us p) = np_proxy p" "np_mpd (fold queue_report us p) = np_mpd p"
  "np_phase (fold queue_report us p) = np_phase p"
  by (induction us arbitrary: p) (simp_all add: queue_report_def)

lemma report_device [simp]: "mn_device (node_exec out status Step_Report n) = mn_device n"
  by (simp add: Let_def split: option.split)

text \<open>A turn that stays in the session runs the command it reads, or takes over the ack.\<close>

lemma relay_step:
  assumes "np_phase p = Relaying" "np_phase (node_event_step env ev p) = Relaying"
  shows "mn_device (np_mpd (node_event_step env ev p)) =
      fold (execute_command (ne_renderer env)) (command_in env ev) (mn_device (np_mpd p))"
    and "np_proxy (node_event_step env ev p) = fold take_proxy (ack_in env ev) (np_proxy p)"
proof -
  have "mn_device (np_mpd (node_event_step env ev p)) =
      fold (execute_command (ne_renderer env)) (command_in env ev) (mn_device (np_mpd p)) \<and>
    np_proxy (node_event_step env ev p) = fold take_proxy (ack_in env ev) (np_proxy p)"
  proof (cases ev)
    case (Nd_Frame sent f)
    then show ?thesis using assms
      by (cases f) (auto simp: on_mpd_def take_ack_def take_proxy_def split: option.split if_splits)
  next
    case (Nd_Update sent)
    then show ?thesis using assms by (auto simp: relay_update_def split: list.split if_splits)
  next
    case Nd_Refresh
    then show ?thesis using assms by (simp add: relay_refresh_def split: if_splits)
  next
    case Nd_Report
    then show ?thesis by (simp add: sync_report_def Let_def del: node_exec.simps(2))
  qed (use assms in \<open>simp_all add: on_mpd_def ask_refresh_def\<close>)
  then show "mn_device (np_mpd (node_event_step env ev p)) =
      fold (execute_command (ne_renderer env)) (command_in env ev) (mn_device (np_mpd p))"
    and "np_proxy (node_event_step env ev p) = fold take_proxy (ack_in env ev) (np_proxy p)" by blast+
qed

fun in_session :: "node_event \<Rightarrow> bool" where
  "in_session (Nd_Connect ok) = False"
| "in_session ev = True"

text \<open>Without a new connection a session that is over stays over.\<close>

lemma waiting_stays:
  assumes "np_phase p = Waiting" "in_session ev"
  shows "np_phase (node_event_step env ev p) = Waiting"
  using assms by (cases ev) (simp_all add: on_mpd_def sync_report_def ask_refresh_def Let_def del: node_exec.simps)

lemma relay_or_over:
  assumes "np_phase p = Relaying"
  shows "np_phase (node_event_step env ev p) = Relaying \<or> np_phase (node_event_step env ev p) = Waiting"
proof (cases ev)
  case (Nd_Frame sent f)
  with assms show ?thesis by (cases f) (simp_all add: on_mpd_def take_ack_def split: option.split)
qed (use assms in \<open>simp_all add: on_mpd_def sync_report_def ask_refresh_def relay_update_def relay_refresh_def Let_def
    del: node_exec.simps split: list.split\<close>)

lemma run_waiting: "np_phase p = Waiting \<Longrightarrow> list_all in_session evs \<Longrightarrow>
    np_phase (node_process_run env evs p) = Waiting"
  by (induction evs arbitrary: p) (simp_all add: node_process_run_def waiting_stays)

lemma relay_run:
  assumes "np_phase p = Relaying" "list_all in_session evs" "np_phase (node_process_run env evs p) = Relaying"
  shows "mn_device (np_mpd (node_process_run env evs p)) =
      fold (execute_command (ne_renderer env)) (concat (map (command_in env) evs)) (mn_device (np_mpd p)) \<and>
    np_proxy (node_process_run env evs p) = fold take_proxy (concat (map (ack_in env) evs)) (np_proxy p)"
  using assms
proof (induction evs arbitrary: p)
  case (Cons ev evs)
  have run: "node_process_run env (ev # evs) p = node_process_run env evs (node_event_step env ev p)"
    by (simp add: node_process_run_def)
  have next_phase: "np_phase (node_event_step env ev p) = Relaying"
    using relay_or_over [OF Cons.prems(1), of env ev] run_waiting [of "node_event_step env ev p" evs env] Cons.prems(2,3)
    by (auto simp: run)
  show ?case
    using Cons.IH [OF next_phase] Cons.prems(2,3) relay_step [OF Cons.prems(1) next_phase] by (simp add: run)
qed (simp add: node_process_run_def)

text \<open>A session from the ack of the handshake on.\<close>

lemma session_run:
  assumes "np_phase p = Handshake" "ne_ack env t = Some ack" "list_all in_session evs"
    and "p' = node_process_run env (Nd_Frame sent (In_Text t) # evs) p" "np_phase p' = Relaying"
  shows "mn_device (np_mpd p') =
      fold (execute_command (ne_renderer env)) (concat (map (command_in env) evs))
        ((mn_device (np_mpd p))\<lparr>dv_world := ne_clear env (dv_world (mn_device (np_mpd p)))\<rparr>)"
    and "np_proxy p' = fold take_proxy (ack # concat (map (ack_in env) evs)) (np_proxy p)"
proof -
  have run: "p' = node_process_run env evs (begin_relay env ack p)"
    using assms(1,2,4) by (simp add: node_process_run_def)
  have b: "np_phase (begin_relay env ack p) = Relaying"
    "mn_device (np_mpd (begin_relay env ack p)) = (mn_device (np_mpd p))\<lparr>dv_world := ne_clear env (dv_world (mn_device (np_mpd p)))\<rparr>"
    "np_proxy (begin_relay env ack p) = take_proxy ack (np_proxy p)"
    by (simp_all add: begin_relay_def take_ack_def take_proxy_def on_mpd_def Let_def)
  from relay_run [OF b(1) assms(3), of env] assms(5) b(2,3) show
    "mn_device (np_mpd p') = fold (execute_command (ne_renderer env)) (concat (map (command_in env) evs))
        ((mn_device (np_mpd p))\<lparr>dv_world := ne_clear env (dv_world (mn_device (np_mpd p)))\<rparr>)"
    "np_proxy p' = fold take_proxy (ack # concat (map (ack_in env) evs)) (np_proxy p)"
    by (simp_all add: run)
qed

lemma take_proxy_last:
  "acks \<noteq> [] \<Longrightarrow> \<exists>st. fold take_proxy acks s = Some st \<and> px_base_url st = na_media_base_url (last acks) \<and>
    px_auth st = parse_media_auth hex_decode (last acks)"
  by (cases acks rule: rev_exhaust) (simp_all add: take_proxy_def proxy_update_def)

subsection \<open>The files of the node\<close>

text \<open>
  A session leaves the daemon with the files of the commands it has read, under the URLs of the renderer,
  whatever it held before.
\<close>

lemma session_files:
  fixes serve :: "string \<Rightarrow> 'd \<Rightarrow> (core_error + mpd_connection) \<times> 'd"
  assumes "mpd_answers serve queue patience"
    and "ne_renderer env = mpd_output hmac id_of fmt serve r now" "ne_clear env = mpd_cleared serve"
    and "length cmds < patience (dv_world (mn_device (np_mpd p)))"
    and "list_all (one_line_each (\<lambda>f. media_uri_at hmac id_of r f now) fmt \<circ> call_of) cmds"
    and "np_phase p = Handshake" "ne_ack env t = Some ack" "list_all in_session evs"
    and "p' = node_process_run env (Nd_Frame sent (In_Text t) # evs) p" "np_phase p' = Relaying"
    and "concat (map (command_in env) evs) = cmds"
  shows "queue (dv_world (mn_device (np_mpd p'))) =
    map (\<lambda>f. media_uri_at hmac id_of r f now) (fold (\<lambda>cmd. apply_call (call_of cmd)) cmds [])"
proof -
  let ?d = "(mn_device (np_mpd p))\<lparr>dv_world := mpd_cleared serve (dv_world (mn_device (np_mpd p)))\<rparr>"
  have "length cmds \<le> patience (dv_world ?d)" "queue (dv_world ?d) = map (\<lambda>f. media_uri_at hmac id_of r f now) []"
    using mpd_cleared_queue [OF assms(1,4)] by simp_all
  from file_player.executes_files [OF mpd_player [OF assms(1)] this(1) assms(5) this(2)]
    session_run(1) [OF assms(6-10)] show ?thesis by (simp add: assms(2,3,11))
qed

subsection \<open>Requests for new credentials\<close>

text \<open>
  A request queued while no session runs, for a key that the server has revoked with the last one, ends the
  next session although that has brought new credentials; however many times in a row.
\<close>

definition wasted_session :: "string \<Rightarrow> node_event list" where
  "wasted_session t = [Nd_Refused, Nd_Connect True, Nd_Frame True (In_Text t), Nd_Refresh]"

lemma wasted_once:
  assumes "np_phase p = Waiting" "np_refreshes p = 0" "ne_ack env t = Some ack"
  shows "np_phase (node_process_run env (wasted_session t) p) = Waiting"
    and "np_refreshes (node_process_run env (wasted_session t) p) = 0"
    and "np_proxy (node_process_run env (wasted_session t) p) = take_proxy ack (np_proxy p)"
    and "np_backoff (node_process_run env (wasted_session t) p) = next_backoff (np_backoff p)"
  using assms by (simp_all add: node_process_run_def wasted_session_def ask_refresh_def refresh_capacity_def begin_relay_def
      relay_refresh_def leave_session_def take_ack_def take_proxy_def on_mpd_def Let_def)

lemma refresh_wastes_sessions:
  assumes "np_phase p = Waiting" "np_refreshes p = 0" "ne_ack env t = Some ack"
  shows "np_phase (node_process_run env (concat (replicate k (wasted_session t))) p) = Waiting \<and>
    np_refreshes (node_process_run env (concat (replicate k (wasted_session t))) p) = 0 \<and>
    np_proxy (node_process_run env (concat (replicate k (wasted_session t))) p) = (take_proxy ack ^^ k) (np_proxy p) \<and>
    np_backoff (node_process_run env (concat (replicate k (wasted_session t))) p) = (next_backoff ^^ k) (np_backoff p)"
  using assms
proof (induction k arbitrary: p)
  case (Suc k)
  have "node_process_run env (concat (replicate (Suc k) (wasted_session t))) p =
      node_process_run env (concat (replicate k (wasted_session t))) (node_process_run env (wasted_session t) p)"
    by (simp add: node_process_run_def)
  with Suc.IH [OF wasted_once(1,2) [OF Suc.prems] Suc.prems(3)] wasted_once(3,4) [OF Suc.prems] show ?case
    by (simp only: funpow_Suc_right comp_apply)
qed (simp add: node_process_run_def)

text \<open>The node registers under its name: two nodes of one name are one node for the server.\<close>

lemma registered_by_name:
  "name \<noteq> [] \<Longrightarrow> registration_id (registration_name uuid (session_registration name)) (session_registration name) = name"
  by (simp add: registration_id_def session_registration_def)

subsection \<open>With the server\<close>

text \<open>The acks of a connection bring the keys that the server holds, and its media address.\<close>

definition ack_ok :: "ui_env \<Rightarrow> 'w server \<Rightarrow> node_registration_ack \<Rightarrow> bool" where
  "ack_ok env s a \<longleftrightarrow> na_media_base_url a = ue_media_base_url env \<and>
     (\<exists>kid \<in> sv_issued s. na_media_auth_key_id a = Some kid \<and>
       (\<forall>key. ks_get kid (sv_keys s) = Some key \<longrightarrow> na_media_auth_key a = Some (hex_encode key)))"

definition acks_ok :: "ui_env \<Rightarrow> 'w server \<Rightarrow> bool" where
  "acks_ok env s \<longleftrightarrow> (\<forall>c n. sv_nodes s c = Some n \<longrightarrow> list_all (ack_ok env s) (nc_acks n))"

text \<open>The keys of \<open>s'\<close> are those of \<open>s\<close> or have an id not issued before.\<close>

definition keys_kept :: "'w server \<Rightarrow> 'w server \<Rightarrow> bool" where
  "keys_kept s s' \<longleftrightarrow> sv_issued s \<subseteq> sv_issued s' \<and>
     (\<forall>kid \<in> sv_issued s. \<forall>key. ks_get kid (sv_keys s') = Some key \<longrightarrow> ks_get kid (sv_keys s) = Some key)"

lemma keys_kept_refl: "keys_kept s s"
  by (simp add: keys_kept_def)

lemma keys_kept_trans: "keys_kept s s' \<Longrightarrow> keys_kept s' s'' \<Longrightarrow> keys_kept s s''"
  by (auto simp: keys_kept_def)

lemma ack_ok_kept: "keys_kept s s' \<Longrightarrow> ack_ok env s a \<Longrightarrow> ack_ok env s' a"
  by (auto simp: keys_kept_def ack_ok_def)

lemma acks_kept:
  assumes "acks_ok env s" "keys_kept s s'"
    and "\<And>c n'. sv_nodes s' c = Some n' \<Longrightarrow>
      \<exists>n new. sv_nodes s c = n \<and> nc_acks n' = (case n of Some n \<Rightarrow> nc_acks n | None \<Rightarrow> []) @ new \<and> list_all (ack_ok env s') new"
  shows "acks_ok env s'"
  unfolding acks_ok_def
proof (intro allI impI)
  fix c n'
  assume "sv_nodes s' c = Some n'"
  from assms(3) [OF this] obtain new where n': "nc_acks n' = (case sv_nodes s c of Some n \<Rightarrow> nc_acks n | None \<Rightarrow> []) @ new"
    "list_all (ack_ok env s') new" by blast
  have "list_all (ack_ok env s) (case sv_nodes s c of Some n \<Rightarrow> nc_acks n | None \<Rightarrow> [])"
    using assms(1) by (simp add: acks_ok_def split: option.split)
  then have "list_all (ack_ok env s') (case sv_nodes s c of Some n \<Rightarrow> nc_acks n | None \<Rightarrow> [])"
    using ack_ok_kept [OF assms(2)] by (auto simp: list_all_iff)
  with n' show "list_all (ack_ok env s') (nc_acks n')" by simp
qed

lemma ks_get_revoke: "ks_get kid (ks_revoke k ks) = (if kid = k then None else ks_get kid ks)"
  by (simp add: ks_get_def ks_revoke_def)

lemma ks_get_generate: "ks_get kid (ks_generate k key now ks) = (if kid = k then Some key else ks_get kid ks)"
  by (simp add: ks_get_def ks_generate_def)

lemma ks_get_revoke_all: "ks_get kid (fold ks_revoke kids ks) = Some key \<Longrightarrow> ks_get kid ks = Some key"
proof (induction kids arbitrary: ks)
  case (Cons k kids)
  then have "ks_get kid (ks_revoke k ks) = Some key" by simp
  then show ?case by (simp add: ks_get_revoke split: if_splits)
qed simp

lemma ks_get_cleanup: "ks_get kid (ks_cleanup_expired now age ks) = Some key \<Longrightarrow> ks_get kid ks = Some key"
  by (auto simp: ks_get_def ks_cleanup_expired_def split: option.splits prod.splits if_splits)

lemma kept_keys:
  "kid \<notin> sv_issued s \<Longrightarrow> keys_kept s (new_key kid key now s)"
  "keys_kept s (revoke_key kid s)"
  by (auto simp: keys_kept_def new_key_def revoke_key_def ks_get_revoke ks_get_generate)

lemma kept_leave: "keys_kept s (node_leave conn n s)"
  by (auto simp: keys_kept_def node_leave_def put_node_def end_rotation_def dest: ks_get_revoke_all)

lemma key_ack_ok:
  "kid \<in> sv_issued s \<Longrightarrow> ks_get kid (sv_keys s) = Some key \<Longrightarrow> ack_ok env s (key_ack env i kid key)"
  by (simp add: ack_ok_def key_ack_def)

text \<open>A turn that puts back a connection with the acks it had.\<close>

lemma acks_put:
  assumes "acks_ok env s" "keys_kept s s'" "sv_nodes s' = (sv_nodes s)(conn \<mapsto> n')" "sv_nodes s conn = Some n"
    and "nc_acks n' = nc_acks n @ new" "list_all (ack_ok env s') new"
  shows "acks_ok env s'"
proof (rule acks_kept [OF assms(1,2)])
  fix c m
  assume "sv_nodes s' c = Some m"
  then show "\<exists>x new. sv_nodes s c = x \<and> nc_acks m = (case x of Some n \<Rightarrow> nc_acks n | None \<Rightarrow> []) @ new \<and> list_all (ack_ok env s') new"
    using assms(3-6) by (cases "c = conn") auto
qed

lemma acks_same:
  assumes "acks_ok env s" "keys_kept s s'" "sv_nodes s' = sv_nodes s"
  shows "acks_ok env s'"
  using acks_kept [OF assms(1,2)] assms(3) by fastforce

lemma acks_rotate:
  assumes ok: "acks_ok env s" and n: "sv_nodes s conn = Some n" and kid: "kid \<notin> sv_issued s"
  shows "acks_ok env (node_rotate env now kid key sent conn n s)"
proof (cases sent)
  case True
  let ?n = "n\<lparr>nc_rotation := fst (rotate_key kid key now sent (nc_rotation n, sv_keys s)),
    nc_acks := nc_acks n @ [key_ack env (nc_node_id n) kid key]\<rparr>"
  have s': "sv_nodes (node_rotate env now kid key sent conn n s) = (sv_nodes s)(conn \<mapsto> ?n)"
    "sv_keys (node_rotate env now kid key sent conn n s) = ks_generate kid key now (sv_keys s)"
    "sv_issued (node_rotate env now kid key sent conn n s) = insert kid (sv_issued s)"
    using True by (simp_all add: node_rotate_def rotate_key_def put_node_def Let_def)
  show ?thesis
    by (rule acks_put [OF ok _ s'(1) n, of "[key_ack env (nc_node_id n) kid key]"])
      (use kid s' in \<open>auto simp: keys_kept_def ks_get_generate intro: key_ack_ok\<close>)
next
  case False
  let ?s = "s\<lparr>sv_keys := ks_revoke kid (ks_generate kid key now (sv_keys s)), sv_issued := insert kid (sv_issued s)\<rparr>"
  have s': "node_rotate env now kid key sent conn n s = node_leave conn n ?s"
    using False by (simp add: node_rotate_def rotate_key_def Let_def)
  have "keys_kept s ?s" using kid by (auto simp: keys_kept_def ks_get_generate ks_get_revoke)
  then have "keys_kept s (node_leave conn n ?s)" using kept_leave by (rule keys_kept_trans)
  then show ?thesis unfolding s'
    by (rule acks_put [OF ok _ _ n, where new = "[]" and n' = "n\<lparr>nc_open := False\<rparr>"]) (simp_all add: node_leave_def put_node_def)
qed

lemma acks_connect:
  assumes ok: "acks_ok env s" and ev: "event_ok uuid (Ev_Connect frames kid key conn out hello sent) s"
  shows "acks_ok env (handle_ws_connection env now now_ns uuid frames kid key conn out hello sent s)"
proof -
  have new: "kid \<notin> sv_issued s" and conn: "sv_nodes s conn = None" using ev by simp_all
  note key = kept_keys(1) [OF new]
  have ui: "acks_ok env (ui_open env now now_ns uuid kid key hello sent msg s)" for msg
  proof (cases hello)
    case True
    have "keys_kept s (ui_open env now now_ns uuid kid key hello sent msg s)"
      using key [of key now] True by (simp add: ui_open_def Let_def keys_kept_def ui_message_keys)
    then show ?thesis
      by (rule acks_same [OF ok]) (simp add: ui_open_def Let_def ui_message_keys new_key_def True)
  next
    case False
    have "keys_kept s (revoke_key kid (new_key kid key now s))"
      using key kept_keys(2) by (rule keys_kept_trans)
    then show ?thesis
      by (simp add: ui_open_def False Let_def) (rule acks_same [OF ok], simp_all add: revoke_key_def new_key_def)
  qed
  have node: "acks_ok env (node_open env now uuid kid key conn out hello r s)" for r
  proof (cases hello)
    case True
    let ?i = "registration_id (registration_name uuid r) r"
    let ?s = "node_open env now uuid kid key conn out True r s"
    have s': "sv_keys ?s = ks_generate kid key now (sv_keys s)" "sv_issued ?s = insert kid (sv_issued s)"
      "sv_nodes ?s = (sv_nodes s)(conn \<mapsto> \<lparr>nc_node_id = ?i, nc_rotation = start_rotation kid, nc_acks = [key_ack env ?i kid key],
        nc_last_seen = now, nc_open = True\<rparr>)"
      by (simp_all add: node_open_def put_node_def new_key_def Let_def)
    have kept: "keys_kept s ?s" using new by (auto simp: keys_kept_def s' ks_get_generate)
    have ack: "ack_ok env ?s (key_ack env ?i kid key)" by (rule key_ack_ok) (simp_all add: s' ks_get_generate)
    have "acks_ok env ?s" by (rule acks_kept [OF ok kept]) (use conn ack s'(3) in \<open>auto split: if_splits option.split\<close>)
    with True show ?thesis by simp
  next
    case False
    have "keys_kept s (revoke_key kid (new_key kid key now s))"
      using key kept_keys(2) by (rule keys_kept_trans)
    then show ?thesis
      by (simp add: node_open_def False Let_def) (rule acks_same [OF ok], simp_all add: revoke_key_def new_key_def)
  qed
  show ?thesis unfolding handle_ws_connection_def using ui node ok by (auto split: option.split client_message.split)
qed

lemma acks_node_step:
  assumes ok: "acks_ok env s" and n: "sv_nodes s conn = Some n" and ev: "event_ok uuid (Ev_Node conn sent t) s"
  shows "acks_ok env (node_step env now conn sent t n s)"
proof -
  have leave: "acks_ok env (node_leave conn n s)"
    by (rule acks_put [OF ok kept_leave _ n, where new = "[]" and n' = "n\<lparr>nc_open := False\<rparr>"]) (simp_all add: node_leave_def put_node_def)
  have put: "acks_ok env (put_node conn n' (s\<lparr>sv_core := c\<rparr>))" "acks_ok env (put_node conn n' s)"
    if "nc_acks n' = nc_acks n" for n' c
    by (rule acks_put [OF ok _ _ n, of _ n' "[]"]; use that in \<open>simp add: put_node_def keys_kept_def\<close>)+
  show ?thesis
  proof (cases t)
    case (Node_Rotate kid key)
    with ev show ?thesis by (simp add: acks_rotate [OF ok n])
  next
    case (Node_Frame f)
    then show ?thesis using leave
      by (cases f) (simp_all add: Let_def put split: option.split client_message.split)
  qed (use leave ok in simp_all)
qed

lemma acks_exec:
  assumes ok: "acks_ok env s" and ev: "event_ok uuid ev s"
  shows "acks_ok env (server_exec env now now_ns uuid ev s)"
proof (cases ev)
  case (Ev_Connect frames kid key conn out hello sent)
  with ev show ?thesis by (simp only: server_exec.simps acks_connect [OF ok])
next
  case (Ev_Ui conn sent t)
  have "acks_ok env (ui_step env now now_ns uuid conn sent t u s)" for u
    by (rule acks_same [OF ok]) (simp_all add: keys_kept_def ui_step_keys)
  with ok show ?thesis by (simp add: Ev_Ui split: option.split)
next
  case (Ev_Node conn sent t)
  have "acks_ok env (node_step env now conn sent t n s)" if "sv_nodes s conn = Some n" for n
    using acks_node_step [OF ok that] ev unfolding Ev_Node by blast
  with ok show ?thesis by (simp add: Ev_Node split: option.split)
next
  case (Ev_Node_Gone conn)
  have "acks_ok env (node_gone conn n s)" for n
    by (rule acks_kept [OF ok]) (auto simp: node_gone_def keys_kept_def split: if_splits)
  then show ?thesis using ok by (simp add: Ev_Node_Gone split: option.split)
next
  case (Ev_Revoke conn)
  show ?thesis
  proof (cases "sv_nodes s conn")
    case (Some n)
    have "keys_kept s (run_revocations now conn n s)"
      by (auto simp: keys_kept_def run_revocations_def put_node_def dest: ks_get_revoke_all)
    then have "acks_ok env (run_revocations now conn n s)"
      by (rule acks_put [OF ok _ _ Some, where new = "[]" and n' = "n\<lparr>nc_rotation := (nc_rotation n)\<lparr>kr_revoke_at :=
          filter (\<lambda>(at_time, kid). now < at_time) (kr_revoke_at (nc_rotation n))\<rparr>\<rparr>"]) (simp_all add: run_revocations_def put_node_def)
    with Some show ?thesis by (simp add: Ev_Revoke)
  qed (simp add: Ev_Revoke ok)
next
  case Ev_Clean_Keys
  then show ?thesis
    by (simp, intro acks_same [OF ok]) (auto simp: keys_kept_def dest: ks_get_cleanup)
next
  case Ev_Clean_Nodes
  then show ?thesis by (simp, intro acks_same [OF ok]) (auto simp: keys_kept_def)
qed

lemma server_acks: "server_reachable env s \<Longrightarrow> acks_ok env s"
proof (induction rule: server_reachable.induct)
  case (start c lib pls)
  then show ?case by (simp add: acks_ok_def server_new_def)
qed (rule acks_exec)

text \<open>The credentials that the node takes from the last ack of its connection.\<close>

lemma last_ack_credentials:
  assumes "server_reachable env s" "sv_nodes s c = Some n" "ks_get (kr_active (nc_rotation n)) (sv_keys s) = Some key" "length key = 32"
  shows "parse_media_auth hex_decode (last (nc_acks n)) = Some (kr_active (nc_rotation n), key)"
    and "na_media_base_url (last (nc_acks n)) = ue_media_base_url env"
proof -
  have a: "nc_acks n \<noteq> []" "na_media_auth_key_id (last (nc_acks n)) = Some (kr_active (nc_rotation n))"
    using last_ack_active [OF assms(1,2)] by simp_all
  then have "ack_ok env s (last (nc_acks n))"
    using server_acks [OF assms(1)] assms(2) by (simp add: acks_ok_def list_all_iff)
  with a(2) assms(3,4) show "parse_media_auth hex_decode (last (nc_acks n)) = Some (kr_active (nc_rotation n), key)"
    and "na_media_base_url (last (nc_acks n)) = ue_media_base_url env"
    by (simp_all add: ack_ok_def hex_roundtrip)
qed

text \<open>A node that has read what its connection has sent redirects the player to URLs that the server accepts.\<close>

lemma session_signs:
  fixes now t' :: nat and hmac :: mac
  assumes server: "server_reachable uenv s" "sv_nodes s c = Some n" "ks_get (kr_active (nc_rotation n)) (sv_keys s) = Some key"
      "length key = 32"
    and session: "np_phase p = Handshake" "ne_ack env t = Some ack" "list_all in_session evs"
      "p' = node_process_run env (Nd_Frame sent (In_Text t) # evs) p" "np_phase p' = Relaying"
    and acks: "ack # concat (map (ack_in env) evs) = nc_acks n"
    and request: "track_id_ok i" "drain_headers headers"
  defines "path \<equiv> media_track_path i"
  defines "expiry \<equiv> min (now + media_url_ttl_secs) usize_max"
  defines "url \<equiv> build_signed_media_url hmac (ue_media_base_url uenv) path (kr_active (nc_rotation n)) key expiry"
  assumes probe: "\<not> forbidden url"
  shows "proxy_handle_request hmac forbidden (Some now) (np_proxy p') seen now' later forbidden' (Inr (get_line path) # headers) =
      Some (Proxy_Redirect url)"
    and "verify_media_auth hmac (sv_keys s) t' path \<lparr>aq_kid = kr_active (nc_rotation n), aq_exp = expiry,
      aq_sig = hex_encode (compute_media_signature hmac key path expiry)\<rparr> \<longleftrightarrow> t' \<le> expiry"
proof -
  note cred = last_ack_credentials [OF server]
  have "nc_acks n \<noteq> []" using acks by auto
  from take_proxy_last [OF this, of "np_proxy p"] obtain st where
    st: "np_proxy p' = Some st" "px_base_url st = ue_media_base_url uenv" "px_auth st = Some (kr_active (nc_rotation n), key)"
    using session_run(2) [OF session] acks cred by metis
  show "proxy_handle_request hmac forbidden (Some now) (np_proxy p') seen now' later forbidden' (Inr (get_line path) # headers) =
      Some (Proxy_Redirect url)"
    and "verify_media_auth hmac (sv_keys s) t' path \<lparr>aq_kid = kr_active (nc_rotation n), aq_exp = expiry,
      aq_sig = hex_encode (compute_media_signature hmac key path expiry)\<rparr> \<longleftrightarrow> t' \<le> expiry"
    using proxy_redirects [OF st(3) server(3) request, of forbidden hmac now] probe
    by (simp_all add: st path_def expiry_def url_def)
qed

end
