(* ===== verification/Spec2Isabelle.thy ===== *)
theory Spec2Isabelle
  imports Samples Plugin Playlists_Facts Hls_Service Persist_Facts Node_Facts
    Scanner_Facts Artwork_Facts Schema Requests_Facts Connections_Facts Http_Facts
    Lastfm_Facts Open_Home Tui_Facts Node_Session_Facts
begin

text \<open>
  A model of Kanade, a music server that keeps one playback state for many players, and the theorems
  that make it correct.

  \<^bold>\<open>The program and the theories.\<close> The core (\<open>src/kanade-core\<close>) holds the playback state: a list of nodes,
  each with a queue, and the selected one. Clients reach it over WebSocket sessions
  (\<open>src/kanade-adapter-ws\<close>), nodes over a link with a bounded command channel
  (\<open>src/kanade-adapter-node-server\<close>, \<open>src/kanade-node\<close>); a node drives an MPD daemon
  (\<open>src/kanade-adapter-mpd\<close>), which fetches the audio from the signed media endpoint or as HLS
  segments, through a proxy on the node. The database (\<open>src/kanade-db\<close>) keeps the library, the
  playlists and the saved state; the scanner (\<open>src/kanade-scanner\<close>) keeps the library equal to the music
  directory, and user interfaces query it over their sessions.

    \<^item> \<open>Prelude\<close>, \<open>Text\<close>: floats, \<open>usize\<close> arithmetic, vectors, paths and strings as Rust has them, with the
      lemmas the components share. A \<open>usize\<close> is a natural number below \<open>2^64\<close> whose operations wrap or
      saturate as written; \<open>u8\<close>, \<open>u16\<close>, \<open>u32\<close> and \<open>u64\<close> counters that wrap are words.
    \<^item> \<open>Model\<close>, \<open>Ports\<close>: \<open>model.rs\<close>, \<open>state.rs\<close>, \<open>error.rs\<close>, \<open>ports.rs\<close>. An \<open>AudioOutput\<close> is a function from a
      call and a world to a result and the world after it.
    \<^item> \<open>Core_Base\<close>, \<open>Core_Playback\<close>, \<open>Core_Nodes\<close>: \<open>controller.rs\<close>, one definition for each method, in a monad of
      errors over the state, which keeps the changes made before an error. \<open>Core_Invariants\<close> and
      \<open>Core_Node_Invariants\<close> show that every operation keeps the invariant, \<open>Core_Runs\<close> that every reachable
      controller has it (by rule induction), \<open>Core_Projection\<close> and \<open>Core_Output\<close> state what an output that
      accepts calls holds after each operation, in the locale \<open>queue_output\<close>.
    \<^item> \<open>NodeOutput\<close>: the protocol, the remote output with its channel, registration and the end of a
      connection; it interprets the locale on the channel model.
    \<^item> \<open>Plugin\<close>: the event differences of \<open>plugin.rs\<close>. \<open>Ws_Session\<close>: commands, ownership of local sessions and
      media keys. \<open>Media\<close>, \<open>Media_Facts\<close>: signed URLs, ranges and the media handlers.
    \<^item> \<open>Playlists\<close>, \<open>Playlists_Facts\<close>: the playlist tables, each SQL statement as the list function it denotes, and
      their refinement of plain lists of tracks.
    \<^item> \<open>Library\<close>, \<open>Library_Facts\<close>: the tables of tracks, albums and artists, the full-text index its triggers keep
      (the locale \<open>row_index\<close>), and the queries. \<open>Schema\<close>: the schema and its migrations. \<open>Scanner\<close>, \<open>Scanner_Facts\<close>: the
      walk, the track of a file and the scan. \<open>Requests\<close>, \<open>Requests_Facts\<close>: the messages of a user interface,
      composed with the library and the playlists. \<open>Artwork\<close>, \<open>Artwork_Facts\<close>: the artwork handler and its
      parser of ID3 pictures.
    \<^item> \<open>Connections\<close>, \<open>Connections_Facts\<close>: the WebSocket server with all its connections, of user interfaces
      and of nodes, over one controller, one database and one key store; the turns of their loops and the
      cleanup tasks come in any order. Its reachable states are defined by rule induction, and the invariants
      of sessions and keys proved over them.
    \<^item> \<open>Hls_Parse\<close>, \<open>Hls\<close>, \<open>Hls_Cache\<close> with \<open>Hls_Parse_Facts\<close>, \<open>Hls_Facts\<close>, \<open>Hls_Limits\<close>, \<open>Hls_Service\<close>: the
      parsers and remuxers of \<open>hls.rs\<close>, segments, the cache and its limit, and the HLS handlers.
    \<^item> \<open>Persist\<close>, \<open>Persist_Facts\<close>: the saved state (\<open>persist.rs\<close>, \<open>repo.rs\<close>) and its restoration (\<open>main.rs\<close>).
    \<^item> \<open>Mpd\<close>, \<open>Node_Proxy\<close>, \<open>Node_Facts\<close>: the MPD client, renderer and state sync, and the proxy of a node.
      \<open>Node_Session\<close>, \<open>Node_Session_Facts\<close>: the process of a node, which opens one session after the other beside
      the state sync and the proxy, as a state machine; its invariant, what a session leaves it with, and,
      with the server of \<open>Connections\<close>, that the server accepts what its player then asks for.
    \<^item> \<open>Http_Server\<close>, \<open>Http_Facts\<close>: the plain media server (\<open>src/kanade-server-http\<close>), shown equal to the signed
      endpoint on tracks and confined to the files of the library. \<open>Lastfm\<close>, \<open>Lastfm_Facts\<close>: the requests of the
      Last.fm plugin and its tasks as interleaved steps, composed with the plugin bridge. \<open>Open_Home\<close>: SOAP
      requests as operations of the core. \<open>Tui\<close>, \<open>Tui_Facts\<close>: the terminal interface as a state machine over
      keys, responses and states, with the invariant of every run and what browsing sends to the server.

  \<^bold>\<open>Parameters.\<close> The MAC, the file system, the lofty probe, the MP4 demuxer and muxer, the ALAC encoder,
  the text of an HLS playlist, random ids, the MPD daemon and the clock are arguments of the
  definitions that use them; so are the hash that makes ids of paths, what the tag readers find in a file,
  what FTS5 matches and in which order, the row SQLite takes for a column outside a \<open>GROUP BY\<close>, and its limit
  of variables, the events of the XML reader, MD5, the answers of Last.fm and the list widget of the
  terminal. Hypotheses about them are named where they are needed: the hash is taken to have no
  collision on the paths in use (\<open>inj_on\<close>), never to be injective.

  \<^bold>\<open>Loops and bounds.\<close> Loops over a list are structural; the parsers have a measure on the bytes left.
  Reading a reply of the daemon is a partial function whose \<open>None\<close> is a call that does not return.

  \<^bold>\<open>Not modelled.\<close> Sockets, timers, HTTP and WebSocket framing, JSON text and logging; the scheduling of
  tasks, except where an interleaving is stated as a list of steps; what the terminal interface paints, and
  the WASM plugin runtime, which are glue to other libraries.
\<close>

section \<open>The core controller\<close>

text \<open>C1. In every state the controller reaches by admissible operations, successful or not, the
  playback state is well formed: node ids are distinct, the selection names a node, and every
  current index points into its queue.\<close>

theorem reachable_state_wf: "core_reachable c \<Longrightarrow> state_wf (co_state c)"
  using core_reachable_wf by (simp add: core_wf_def)

definition sample_ops :: "unit core_op list" where
  "sample_ops = [Op_AddNode (default_node\<lparr>nd_id := ''n''\<rparr>), Op_SetQueue sample_queue (Some 1),
     Op_RemoveFromQueue 0, Op_NodeDisconnected ''n'']"

theorem reachable_state_wf_witness: "state_wf (co_state (core_run sample_ops (core_new [] [] ())))"
proof (rule reachable_state_wf)
  have "admissible_run sample_ops (core_new [] [] ())"
    by (simp add: sample_ops_def index_ok_def default_node_def sample_queue_def)
  then show "core_reachable (core_run sample_ops (core_new [] [] ()))"
    by (intro core_run_reachable core_reachable.start)
qed

text \<open>C2. \<open>next\<close> on a connected remote node with room in its channel succeeds: the node will hold the
  queue from the chosen track on, that track is the current one and playing, and every broadcaster and
  persister is then called with the snapshot of that state, once the commands are on their way. A node in
  order has its current index inside its queue; broadcasting is taken not to reach into the channel.\<close>

theorem next_loads_projection:
  assumes "drives remote_node_output i c" "find_node (co_state c) i = Some n" "index_ok n"
    and "next_index n = Inr k" "length (nd_queue n) \<le> usize_max"
    and "1 < link_room (co_world c)" "quiet link_view link_room c"
  shows "\<exists>c' w. core_next c = (Inr (), c') \<and> playing_from link_view i (nd_queue n) k c' \<and>
    link_view w = projection (nd_queue n) (Some k) \<and>
    co_world c' = fold (\<lambda>p. p (co_state c')) (co_persisters c) (fold (\<lambda>b. b (co_state c')) (co_broadcasters c) w)"
proof -
  have "k < length (nd_queue n)" using assms(3,4) next_index_range by (auto simp: picks_in_range_def)
  with remote.jump_loads [of i c n next_index k 0, OF assms(1,2,4) _ assms(5) _ assms(7)] assms(6) show ?thesis
    unfolding core_next_def announced_def One_nat_def by blast
qed

theorem next_loads_projection_witness:
  "\<exists>c' w. core_next (sample_core 1 1) = (Inr (), c') \<and> playing_from link_view ''n'' sample_queue 2 c' \<and>
    link_view w = projection sample_queue (Some 2) \<and>
    co_world c' = fold (\<lambda>p. p (co_state c')) (co_persisters (sample_core 1 1))
      (fold (\<lambda>b. b (co_state c')) (co_broadcasters (sample_core 1 1)) w)"
  using next_loads_projection [of "''n''" "sample_core 1 1" "sample_node 1" 2] sample_drives sample_quiet sample_small
  by (simp add: index_ok_def next_index_def usize_add_def)

text \<open>C3. Tracks added to the queue of the selected, connected node are appended on its output as well: when
  the output holds the projection that the node's transport entry describes, which may begin anywhere up to
  the end of the queue and is that of an empty queue after a clear, and its channel has room, it holds the
  projection of the longer queue afterwards, and the current track stays.\<close>

theorem add_keeps_projection:
  assumes "drives remote_node_output i c" "find_node (co_state c) i = Some n"
    and "faithful link_view i c" "co_transport c i = Some t" "pred_option (\<lambda>s. s \<le> length (nd_queue n)) (tp_start_index t)"
    and "length (nd_queue n) + length ts \<le> usize_max"
    and "0 < link_room (co_world c)" "quiet link_view link_room c"
  shows "\<exists>c'. add_tracks_to_queue ts c = (Inr (), c') \<and> faithful link_view i c' \<and>
    (\<exists>n'. find_node (co_state c') i = Some n' \<and> nd_queue n' = nd_queue n @ ts \<and>
       nd_current_index n' = nd_current_index n)"
  using assms by (rule remote.add_tracks_faithful)

theorem add_keeps_projection_witness:
  "\<exists>c'. add_tracks_to_queue [sample_track ''e''] (sample_core 1 2) = (Inr (), c') \<and> faithful link_view ''n'' c' \<and>
    (\<exists>n'. find_node (co_state c') ''n'' = Some n' \<and> nd_queue n' = nd_queue (sample_node 2) @ [sample_track ''e''] \<and>
       nd_current_index n' = nd_current_index (sample_node 2))"
  by (rule add_keeps_projection [OF sample_drives, where t = "sample_transport 1"])
    (simp_all add: sample_quiet sample_faithful usize_max_def)

text \<open>C4. While the projection starts with the current track, removing a track at or after the current
  one, other than the last track of the queue while it is current, keeps the output holding the
  projection.\<close>

theorem remove_keeps_projection:
  assumes "drives remote_node_output i c" "find_node (co_state c) i = Some n"
    and "faithful link_view i c" "co_transport c i = Some t" "tp_start_index t = Some ci"
    and "nd_current_index n = Some ci" "ci \<le> k" "k < length (nd_queue n)" "length (nd_queue n) \<noteq> Suc ci"
    and "0 < link_room (co_world c)" "quiet link_view link_room c"
  shows "\<exists>c'. remove_from_queue k c = (Inr (), c') \<and> faithful link_view i c' \<and>
    find_node (co_state c') i = Some (remove_track k n) \<and> nd_current_index (remove_track k n) = Some ci"
  using assms by (rule remote.remove_faithful)

theorem remove_keeps_projection_witness:
  "\<exists>c'. remove_from_queue 2 (sample_core 1 1) = (Inr (), c') \<and> faithful link_view ''n'' c' \<and>
    find_node (co_state c') ''n'' = Some (remove_track 2 (sample_node 1)) \<and>
    nd_current_index (remove_track 2 (sample_node 1)) = Some 1"
  by (rule remove_keeps_projection [OF sample_drives, where t = "sample_transport 1" and ci = 1]) (simp_all add: sample_quiet sample_faithful)


text \<open>Under the same condition, moving a track within the part of the queue from the current track
  on moves it on the output to the same effect.\<close>

lemma move_keeps_projection:
  assumes "drives remote_node_output i c" "find_node (co_state c) i = Some n"
    and "faithful link_view i c" "co_transport c i = Some t" "tp_start_index t = Some ci"
    and "nd_current_index n = Some ci" "ci \<le> a" "ci \<le> b" "a < length (nd_queue n)" "b < length (nd_queue n)"
    and "0 < link_room (co_world c)" "quiet link_view link_room c"
  shows "\<exists>c'. move_in_queue a b c = (Inr (), c') \<and> faithful link_view i c' \<and>
    find_node (co_state c') i = Some (move_track a b n)"
  using assms by (rule remote.move_faithful)

lemma move_keeps_projection_witness:
  "\<exists>c'. move_in_queue 3 1 (sample_core 1 1) = (Inr (), c') \<and> faithful link_view ''n'' c' \<and>
    find_node (co_state c') ''n'' = Some (move_track 3 1 (sample_node 1))"
  by (rule move_keeps_projection [OF sample_drives, where t = "sample_transport 1" and ci = 1])
    (simp_all add: sample_quiet sample_faithful)

section \<open>Remote nodes\<close>

text \<open>A node whose renderer keeps the contract of an output, and has room for them, holds the files
  of the server's view of the link once it has executed the commands sent and pending.\<close>

lemma node_catches_up:
  assumes "audio_queue renderer files room" "files (dv_world d) = []"
    and "length (lk_sent l @ lk_pending l) \<le> room (dv_world d)"
  shows "files (dv_world (fold (execute_command renderer) (lk_sent l @ lk_pending l) d)) = link_view l"
  using audio_queue.executes_view [OF assms(1,3)] assms(2) by (simp add: link_view_def)

lemma node_catches_up_witness:
  "link_view (dv_world (fold (execute_command remote_node_output) (lk_sent (sample_link 1) @ lk_pending (sample_link 1))
      \<lparr>dv_world = new_link, dv_projection_generation = 0\<rparr>)) = link_view (sample_link 1)"
  by (rule node_catches_up [OF remote.audio_queue_axioms])
    (simp_all add: sample_link_def new_link_def link_view_def link_room_def channel_capacity_def)

text \<open>C5. A node begins a session with its renderer and an MPD daemon that follows the documented protocol, and stays
  in it until it has read the commands that the link has sent and those still pending, with polls, reports, pings,
  pushed keys and refused URLs in between. Then the daemon's queue is the server's view of the link, file by file as
  the URL of the node's proxy, whatever the daemon held before. The daemon must answer (with \<open>OK\<close> or \<open>ACK\<close>) for as
  long as the session takes, each line having its documented effect on the queue: so \<open>clear\<close> and \<open>add\<close> take effect,
  \<open>delete\<close> and \<open>move\<close> are refused exactly out of range. No URL and no seek position of the commands holds a newline.\<close>

theorem session_catches_up:
  fixes serve :: "string \<Rightarrow> 'd \<Rightarrow> (core_error + mpd_connection) \<times> 'd" and hmac :: mac and id_of :: "string \<Rightarrow> string"
    and base :: string and now :: nat
  defines "uri \<equiv> \<lambda>f. media_uri_at hmac id_of (mpd_renderer_new base) f now"
  assumes "mpd_answers serve queue patience"
    and "ne_renderer env = mpd_output hmac id_of fmt serve (mpd_renderer_new base) now" "ne_clear env = mpd_cleared serve"
    and "length (lk_sent l @ lk_pending l) < patience (dv_world (mn_device (np_mpd p)))"
    and "list_all (\<lambda>cmd. one_line_each uri fmt (call_of cmd)) (lk_sent l @ lk_pending l)"
    and "np_phase p = Handshake" "ne_ack env t = Some ack" "list_all in_session evs"
    and "p' = node_process_run env (Nd_Frame sent (In_Text t) # evs) p" "np_phase p' = Relaying"
    and "concat (map (command_in env) evs) = lk_sent l @ lk_pending l"
  shows "queue (dv_world (mn_device (np_mpd p'))) = map uri (link_view l)"
  unfolding uri_def link_view_def
  by (rule session_files [OF assms(2-5) _ assms(7-12)]) (use assms(6) in \<open>simp add: uri_def comp_def\<close>)

definition sample_mac :: mac where
  "sample_mac key msg = key @ bytes_of msg"

text \<open>A daemon whose state is its queue; it refuses to play an empty one.\<close>

definition sample_daemon :: "string \<Rightarrow> string list \<Rightarrow> (core_error + mpd_connection) \<times> string list" where
  "sample_daemon text q = (Inr \<lparr>mc_input = [Inr ''OK MPD 0.23'',
       Inr (if text = ''play'' @ [newline] \<and> q = [] then ''ACK [50@0] {play} No such song'' else ''OK'')], mc_write_error = None\<rparr>,
     fold mpd_line (split_on newline text) q)"

lemma sample_daemon_answers: "mpd_answers sample_daemon id (\<lambda>_. 64)"
  by (simp add: mpd_answers_def sample_daemon_def ends_reply_def trim_end_def is_space_def byte_of_def)

definition sample_node_env :: "string list node_env" where
  "sample_node_env = \<lparr>ne_command = (\<lambda>t. if t = ''load'' then Some (Cmd_SetQueue [''a'', ''b''] 1)
       else if t = ''play'' then Some Cmd_Play else None),
     ne_ack = (\<lambda>t. if t = ''ack'' then Some \<lparr>na_node_id = ''n'', na_media_base_url = ''http://h'',
       na_media_auth_key = Some (hex_encode (replicate 32 7)), na_media_auth_key_id = Some ''k''\<rparr> else None),
     ne_renderer = mpd_output sample_mac id (\<lambda>_. []) sample_daemon (mpd_renderer_new ''http://p/'') 0,
     ne_clear = mpd_cleared sample_daemon,
     ne_status = (\<lambda>_. \<lparr>ms_elapsed = f64_zero, ms_song = None, ms_volume = 50, ms_state = Playing\<rparr>)\<rparr>"

text \<open>The daemon still holds the queue of an earlier session when the process connects.\<close>

definition sample_process :: "string list node_process" where
  "sample_process = node_process_run sample_node_env [Nd_Connect True] (node_start ''n'' [''z''])"

definition sample_turns :: "node_event list" where
  "sample_turns = [Nd_Poll, Nd_Frame True In_Ping, Nd_Frame True (In_Text ''load''), Nd_Report, Nd_Update True,
     Nd_Refused, Nd_Frame True (In_Text ''play'')]"

lemma sample_node_fields:
  "ne_renderer sample_node_env = mpd_output sample_mac id (\<lambda>_. []) sample_daemon (mpd_renderer_new ''http://p/'') 0"
  "ne_clear sample_node_env = mpd_cleared sample_daemon"
  "ne_ack sample_node_env ''ack'' = Some \<lparr>na_node_id = ''n'', na_media_base_url = ''http://h'',
    na_media_auth_key = Some (hex_encode (replicate 32 7)), na_media_auth_key_id = Some ''k''\<rparr>"
  by (simp_all add: sample_node_env_def)

lemma sample_session_runs:
  "np_phase sample_process = Handshake" "list_all in_session sample_turns"
  "np_phase (node_process_run sample_node_env (Nd_Frame True (In_Text ''ack'') # sample_turns) sample_process) = Relaying"
  "concat (map (command_in sample_node_env) sample_turns) = [Cmd_SetQueue [''a'', ''b''] 1] @ [Cmd_Play]"
  "concat (map (ack_in sample_node_env) sample_turns) = []"
  by (simp_all add: sample_process_def sample_turns_def sample_node_env_def node_process_run_def node_start_def begin_relay_def
      on_mpd_def take_ack_def sync_report_def queue_report_def relay_update_def ask_refresh_def Let_def split: list.split option.split)

theorem session_catches_up_witness:
  "dv_world (mn_device (np_mpd (node_process_run sample_node_env (Nd_Frame True (In_Text ''ack'') # sample_turns)
      sample_process))) = [''http://p/media/tracks/a'', ''http://p/media/tracks/b'']"
  using session_catches_up [OF sample_daemon_answers sample_node_fields(1,2), of
      "\<lparr>lk_pending = [Cmd_Play], lk_sent = [Cmd_SetQueue [''a'', ''b''] 1], lk_closed = False\<rparr>",
      OF _ _ sample_session_runs(1) sample_node_fields(3) sample_session_runs(2) refl sample_session_runs(3)]
  by (simp add: sample_session_runs(4) link_view_def media_uri_at_def mpd_renderer_new_def trim_end_matches_def prefix_def)

section \<open>Plugins\<close>

text \<open>However many snapshots are broadcast, the bridge reports each track id for scrobbling at most
  once, and never one it has reported before.\<close>

lemma scrobbles_at_most_once:
  "distinct (scrobbled_ids (bridge_events prev ss)) \<and>
   set (scrobbled_ids (bridge_events prev ss)) \<inter> ps_scrobbled_tracks prev = {}"
  by (rule bridge_scrobbles_fresh)

section \<open>Sessions\<close>

text \<open>No command of one connection takes a local session away from another connection.\<close>

lemma sessions_kept_from_others:
  assumes "claimable uuid conn cmd s" "se_owners s m = Some other" "other \<noteq> conn"
  shows "se_owners (dispatch_command uuid conn cmd s) m = Some other"
  using assms by (rule others_keep_sessions)

definition sample_session :: "link session" where
  "sample_session = \<lparr>se_core = sample_core 1 1, se_owners = [''local-x'' \<mapsto> ''them''], se_local_node_id = None\<rparr>"

lemma sessions_kept_from_others_witness:
  "se_owners (dispatch_command ''u'' ''me'' (Ws_LocalSessionStart ''name'' None) sample_session) ''local-x'' = Some ''them''"
  by (rule sessions_kept_from_others)
    (simp_all add: claimable_def sample_session_def local_session_start_def Let_def)

text \<open>A connection owns a local session exactly while it remembers its node: every command keeps
  that, and after the connection has ended it owns none.\<close>

lemma session_ownership:
  assumes "session_ok conn s"
  shows "session_ok conn (dispatch_command uuid conn cmd s) \<and>
    se_owners (end_session now conn (dispatch_command uuid conn cmd s)) nid \<noteq> Some conn"
  using session_ok_dispatch [OF assms] end_session_releases by blast

lemma session_ownership_witness:
  "session_ok ''me'' (dispatch_command ''u'' ''me'' (Ws_LocalSessionStart ''name'' None) sample_session) \<and>
    se_owners (end_session 5 ''me'' (dispatch_command ''u'' ''me'' (Ws_LocalSessionStart ''name'' None) sample_session))
      ''local-u'' \<noteq> Some ''me''"
  by (rule session_ownership) (simp add: session_ok_def sample_session_def)

definition sample_local_session :: "link session" where
  "sample_local_session = sample_session\<lparr>se_core := (sample_core 1 1)\<lparr>co_state := (sample_state 1)\<lparr>
     st_nodes := [(sample_node 1)\<lparr>nd_node_type := Local\<rparr>]\<rparr>\<rparr>\<rparr>"

section \<open>The media endpoint\<close>

text \<open>C6. A signature the server has made is accepted for its path exactly until its expiry, as long
  as the key is in the store.\<close>

theorem signature_accepted_until_expiry:
  assumes "ks_get kid ks = Some key"
  shows "verify_media_auth hmac ks now path
      \<lparr>aq_kid = kid, aq_exp = e, aq_sig = hex_encode (compute_media_signature hmac key path e)\<rparr> \<longleftrightarrow> now \<le> e"
  using assms by (simp add: verify_iff hex_roundtrip compute_media_signature_def)

definition sample_keys :: key_store where
  "sample_keys = ks_generate ''k'' [1, 2] 0 Map.empty"

theorem signature_accepted_until_expiry_witness:
  "verify_media_auth sample_mac sample_keys 100 ''/media/tracks/a''
      \<lparr>aq_kid = ''k'', aq_exp = 900, aq_sig = hex_encode (compute_media_signature sample_mac [1, 2] ''/media/tracks/a'' 900)\<rparr> \<longleftrightarrow>
    (100 :: nat) \<le> 900"
  by (rule signature_accepted_until_expiry) (simp add: sample_keys_def ks_generate_def ks_get_def)

text \<open>A signature made for one path and expiry that is accepted for another path or expiry is a
  collision of the MAC: the signed message determines both.\<close>

lemma forged_signature_is_collision:
  assumes "verify_media_auth hmac ks now path q" "ks_get (aq_kid q) ks = Some key"
    and "aq_sig q = hex_encode (compute_media_signature hmac key path' expiry)"
    and "path \<noteq> path' \<or> aq_exp q \<noteq> expiry"
  shows "\<exists>m m'. m \<noteq> m' \<and> hmac key m = hmac key m'"
  using assms by (rule forged_is_collision)

definition sample_weak_mac :: mac where
  "sample_weak_mac key msg = key"

lemma forged_signature_is_collision_witness:
  "\<exists>m m'. m \<noteq> m' \<and> sample_weak_mac [1, 2] m = sample_weak_mac [1, 2] m'"
proof (rule forged_signature_is_collision)
  let ?q = "\<lparr>aq_kid = ''k'', aq_exp = 900, aq_sig = hex_encode (compute_media_signature sample_weak_mac [1, 2] ''/media/tracks/b'' 5)\<rparr>"
  show "verify_media_auth sample_weak_mac sample_keys 100 ''/media/tracks/a'' ?q"
    by (simp add: verify_iff hex_roundtrip compute_media_signature_def sample_keys_def ks_generate_def ks_get_def
        sample_weak_mac_def)
  show "ks_get (aq_kid ?q) sample_keys = Some [1, 2]" by (simp add: sample_keys_def ks_generate_def ks_get_def)
  show "aq_sig ?q = hex_encode (compute_media_signature sample_weak_mac [1, 2] ''/media/tracks/b'' 5)" by simp
  show "''/media/tracks/a'' \<noteq> ''/media/tracks/b'' \<or> aq_exp ?q \<noteq> 5" by simp
qed

text \<open>C7. A signing request is answered with exactly the requested paths that may be signed, each with
  its signed URL, which expires after the time to live.\<close>

theorem signing_request_exact:
  assumes "ks_get kid ks = Some key" "sign_urls hmac fs lib ks base kid now paths = Some m"
  shows "m p = (if p \<in> set paths \<and> is_signable_media_path fs lib p = Some True
    then Some (build_signed_media_url hmac base p kid key (sign_expiry now)) else None)"
  using assms by (rule sign_urls_exact)

definition sample_library :: library where
  "sample_library = \<lparr>lib_tracks = sample_queue, lib_albums = []\<rparr>"

definition sample_signed :: "string \<rightharpoonup> string" where
  "sample_signed = [''/media/tracks/a'' \<mapsto>
    build_signed_media_url sample_mac ''http://h/'' ''/media/tracks/a'' ''k'' [1, 2] (min (0 + media_url_ttl_secs) usize_max)]"

lemma sample_signable:
  "is_signable_media_path fs sample_library ''/media/tracks/a'' = Some True"
  "is_signable_media_path fs sample_library ''/media/tracks/zz'' = Some False"
  by (simp_all add: is_signable_media_path_def single_path_segment_def strip_prefix_def contains_def
      is_known_track_id_def get_track_by_id_def sample_library_def sample_queue_def sample_track_def sublist_code)

theorem signing_request_exact_witness:
  "sample_signed ''/media/tracks/zz'' =
    (if ''/media/tracks/zz'' \<in> set [''/media/tracks/a'', ''/media/tracks/zz''] \<and>
        is_signable_media_path (\<lambda>_. None) sample_library ''/media/tracks/zz'' = Some True
     then Some (build_signed_media_url sample_mac ''http://h/'' ''/media/tracks/zz'' ''k'' [1, 2] (sign_expiry 0)) else None)"
  by (rule signing_request_exact [where ks = sample_keys])
    (simp_all add: sample_signed_def sample_keys_def ks_generate_def ks_get_def sign_urls_def sign_step_def
      sample_signable fun_eq_iff)

definition sample_files :: file_system where
  "sample_files p = Some [1, 2, 3, 4]"

text \<open>C8. A partial response has status 206 and its body is exactly the requested part of the file,
  however the reads of the file were split.\<close>

theorem partial_body_exact:
  assumes "fs path = Some data" "parse_range (Some r) (length data) = Inr (Some (s, e))"
  shows "rs_status (serve_path_with_range got fs False path ct (Some r) cc) = 206 \<and>
    concat (rs_body (serve_path_with_range got fs False path ct (Some r) cc)) = take (e - s + 1) (drop s data) \<and>
    length (take (e - s + 1) (drop s data)) = e - s + 1"
  using assms by (rule serve_body)

theorem partial_body_exact_witness:
  "rs_status (serve_path_with_range (\<lambda>n. n) sample_files False ''a'' ''audio/flac'' (Some (''bytes='' @ show_nat 1 @ ''-'' @ show_nat 2)) None) = 206 \<and>
    concat (rs_body (serve_path_with_range (\<lambda>n. n) sample_files False ''a'' ''audio/flac'' (Some (''bytes='' @ show_nat 1 @ ''-'' @ show_nat 2)) None)) =
      take (2 - 1 + 1) (drop 1 [1, 2, 3, 4]) \<and>
    length (take (2 - 1 + 1) (drop 1 [1, 2, 3, 4 :: u8])) = (2 - 1 + 1 :: nat)"
proof (rule partial_body_exact)
  show "parse_range (Some (''bytes='' @ show_nat 1 @ ''-'' @ show_nat 2)) (length [1, 2, 3, 4 :: u8]) = Inr (Some (1, 2))"
    by (rule parse_range_closed) (simp_all add: usize_max_def)
qed (simp add: sample_files_def)

section \<open>Playlists\<close>

definition sample_db :: playlist_db where
  "sample_db = \<lparr>pd_playlists = [\<lparr>pr_id = ''p'', pr_name = ''P'', pr_description = None, pr_kind = ''normal'',
       pr_smart_filter = None, pr_created_at = 1, pr_updated_at = 1\<rparr>],
     pd_entries = [(''p'', 0, ''a''), (''q'', 0, ''d''), (''p'', 1, ''b''), (''p'', 2, ''c'')], pd_tracks = sample_queue\<rparr>"

lemma sample_db_rows: "entry_rows ''p'' sample_db = [(0, ''a''), (1, ''b''), (2, ''c'')]"
  by (simp add: entry_rows_def sample_db_def)

lemma sample_db_facts: "normal_row ''p'' sample_db" "\<not> normal_row ''q'' sample_db"
  "playlist_ids ''p'' sample_db = [''a'', ''b'', ''c'']" "positions_ok ''p'' sample_db"
  by (simp_all add: playlist_ids_def sample_db_rows positions_ok_def)
    (simp_all add: normal_row_def find_row_def sample_db_def)

text \<open>C9. The edits of a normal playlist, an empty one included, are the list operations: setting, appending,
  removing a position below \<open>2^63\<close> (past the end nothing happens) and moving (a target past the end is the
  last position, a source past the end is refused and changes nothing). Each keeps the entries numbered from
  0 without gaps in the order of the table, so that lowering the positions after a removal never meets a
  position in use, and leaves the entries of the other playlists alone.\<close>

theorem playlist_edits_refine:
  assumes "normal_row i db" "positions_ok i db" "k < 2 ^ 63"
  shows "(\<exists>db'. set_playlist_tracks now i ts db = (Inr (), db') \<and> becomes i ts db db') \<and>
    (\<exists>db'. append_playlist_tracks now i ts db = (Inr (), db') \<and> becomes i (playlist_ids i db @ ts) db db') \<and>
    (\<exists>db'. remove_playlist_track now i k db = (Inr (), db') \<and>
      becomes i (if k < length (playlist_ids i db) then vec_remove k (playlist_ids i db) else playlist_ids i db) db db') \<and>
    (if a < length (playlist_ids i db)
     then \<exists>db'. move_playlist_track now i a b db = (Inr (), db') \<and>
       becomes i (vec_move a (min b (length (playlist_ids i db) - 1)) (playlist_ids i db)) db db'
     else if a = b then move_playlist_track now i a b db = (Inr (), db)
     else \<exists>e. move_playlist_track now i a b db = (Inl e, db))"
  using set_tracks_refines [OF assms(1)] append_tracks_refines [OF assms(1,2)]
    remove_track_refines [OF assms(1-3)] move_track_refines [OF assms(1,2)] move_out_of_range [OF assms(1)]
  by (simp add: not_less move_playlist_track_def [of now i b b] ret_def)

theorem playlist_edits_refine_witness:
  "(\<exists>db'. set_playlist_tracks 9 ''p'' [''d''] sample_db = (Inr (), db') \<and> becomes ''p'' [''d''] sample_db db') \<and>
    (\<exists>db'. append_playlist_tracks 9 ''p'' [''d''] sample_db = (Inr (), db') \<and>
      becomes ''p'' (playlist_ids ''p'' sample_db @ [''d'']) sample_db db') \<and>
    (\<exists>db'. remove_playlist_track 9 ''p'' 1 sample_db = (Inr (), db') \<and>
      becomes ''p'' (if 1 < length (playlist_ids ''p'' sample_db) then vec_remove 1 (playlist_ids ''p'' sample_db)
        else playlist_ids ''p'' sample_db) sample_db db') \<and>
    (if 0 < length (playlist_ids ''p'' sample_db)
     then \<exists>db'. move_playlist_track 9 ''p'' 0 7 sample_db = (Inr (), db') \<and>
       becomes ''p'' (vec_move 0 (min 7 (length (playlist_ids ''p'' sample_db) - 1)) (playlist_ids ''p'' sample_db)) sample_db db'
     else if 0 = (7 :: nat) then move_playlist_track 9 ''p'' 0 7 sample_db = (Inr (), sample_db)
     else \<exists>e. move_playlist_track 9 ''p'' 0 7 sample_db = (Inl e, sample_db))"
  by (rule playlist_edits_refine) (simp_all add: sample_db_facts)

text \<open>C10. The search text of a smart condition is matched literally, up to ASCII case, whatever
  wildcards and escapes it contains.\<close>

theorem search_is_literal:
  "(operator_holds Op_Contains v col \<longleftrightarrow> contains (map fold_case v) (map fold_case col)) \<and>
   (operator_holds Op_StartsWith v col \<longleftrightarrow> prefix (map fold_case v) (map fold_case col)) \<and>
   (operator_holds Op_EndsWith v col \<longleftrightarrow> suffix (map fold_case v) (map fold_case col))"
  by (simp only: contains_literal starts_with_literal ends_with_literal)

text \<open>C11. A smart playlist without a limit lists, once for each row of the library, exactly the tracks that
  match all of its conditions, or any of them, as its mode says, where a condition holds of a tag that the
  track has and that equals, differs from, contains, does not contain, begins or ends with the search text as
  it is typed, up to ASCII case but for equality. The rows are ordered by the columns of the sort, with a
  missing tag first; with a limit the first of them are listed. Without conditions nothing is listed.\<close>

theorem smart_playlist_exact:
  fixes ts :: "track list" and f :: smart_filter and srt :: "smart_sort option"
  assumes "sf_conditions f \<noteq> []"
  defines "rows \<equiv> evaluate_smart_filter ts f srt None"
  shows "mset rows = filter_mset (\<lambda>t. if sf_match_mode f = Match_All then \<forall>c \<in> set (sf_conditions f). track_matches t c
      else \<exists>c \<in> set (sf_conditions f). track_matches t c) (mset ts) \<and>
    (case srt of
       None \<Rightarrow> sorted (map (\<lambda>t. (tr_artist t, tr_album_title t,
         map_option unat (tr_disc_number t), map_option unat (tr_track_number t), tr_title t)) rows)
     | Some Sort_Title \<Rightarrow> sorted (map (\<lambda>t. map_option (map fold_case) (tr_title t)) rows)
     | Some Sort_Artist \<Rightarrow> sorted (map (\<lambda>t. (map_option (map fold_case) (tr_artist t), tr_album_title t,
         map_option unat (tr_disc_number t), map_option unat (tr_track_number t))) rows)
     | Some Sort_Album \<Rightarrow> sorted (map (\<lambda>t. (map_option (map fold_case) (tr_album_title t),
         map_option unat (tr_disc_number t), map_option unat (tr_track_number t))) rows)
     | Some Sort_Genre \<Rightarrow> sorted (map (\<lambda>t. (map_option (map fold_case) (tr_genre t), tr_artist t, tr_album_title t,
         map_option unat (tr_disc_number t), map_option unat (tr_track_number t))) rows)) \<and>
    evaluate_smart_filter ts f srt (Some n) = take (unat n) rows \<and>
    evaluate_smart_filter ts (f\<lparr>sf_conditions := []\<rparr>) srt cap = []"
  using smart_filter_exact [OF assms(1), of ts srt] smart_order [of srt ts f] assms(1)
  by (auto simp: rows_def filter_matches evaluate_smart_filter_def split: option.split smart_sort.split)

definition sample_filter :: smart_filter where
  "sample_filter = \<lparr>sf_match_mode = Match_All, sf_conditions = [\<lparr>sc_field = F_Title, sc_op = Op_Equals, sc_value = ''x''\<rparr>]\<rparr>"

theorem smart_playlist_exact_witness:
  "mset (evaluate_smart_filter sample_queue sample_filter (Some Sort_Title) None) =
      filter_mset (\<lambda>t. Some ''x'' = tr_title t) (mset sample_queue) \<and>
    sorted (map (\<lambda>t. map_option (map fold_case) (tr_title t)) (evaluate_smart_filter sample_queue sample_filter (Some Sort_Title) None)) \<and>
    evaluate_smart_filter sample_queue sample_filter (Some Sort_Title) (Some 2) =
      take (unat (2 :: u32)) (evaluate_smart_filter sample_queue sample_filter (Some Sort_Title) None)"
  using smart_playlist_exact [of sample_filter sample_queue "Some Sort_Title" 2 None]
  by (simp add: sample_filter_def track_matches_def text_matches_def)

section \<open>HLS packaging\<close>

text \<open>C12. Whatever the format, the samples the packager cuts lie inside the bytes they refer to, so that
  no slice of them panics.\<close>

theorem remuxed_samples_in_bytes:
  assumes "remux_source codec demux ft props bytes = Some (Inr t)" "length bytes < usize_max"
  shows "\<forall>s \<in> set (rt_samples t). fst (rs_range s) \<le> snd (rs_range s) \<and> snd (rs_range s) \<le> length (rt_bytes t)"
  using remux_source_in_bytes [OF assms] by (simp add: samples_in_bytes_def in_bytes_def)

text \<open>An MP4 file of eight bytes with three audio samples of one second and one video sample.\<close>

definition sample_demuxer :: "u8 list \<Rightarrow> (nat \<times> u32) option \<times> demuxed_sample list" where
  "sample_demuxer bytes = (Some (1, 10),
     [\<lparr>ds_track_id = 1, ds_sample_entry = Some 7, ds_data_offset = 0, ds_data_size = 2, ds_duration = 10,
       ds_keyframe = True, ds_composition_time_offset = None\<rparr>,
      \<lparr>ds_track_id = 2, ds_sample_entry = Some 9, ds_data_offset = 2, ds_data_size = 4, ds_duration = 10,
       ds_keyframe = True, ds_composition_time_offset = None\<rparr>,
      \<lparr>ds_track_id = 1, ds_sample_entry = None, ds_data_offset = 6, ds_data_size = 1, ds_duration = 10,
       ds_keyframe = True, ds_composition_time_offset = None\<rparr>,
      \<lparr>ds_track_id = 1, ds_sample_entry = Some 8, ds_data_offset = 7, ds_data_size = 1, ds_duration = 10,
       ds_keyframe = True, ds_composition_time_offset = None\<rparr>])"

definition sample_bytes8 :: "u8 list" where
  "sample_bytes8 = [1, 2, 3, 4, 5, 6, 7, 8]"

definition sample_encoder :: alac_codec where
  "sample_encoder = \<lparr>ac_frames_per_packet = 4096, ac_magic_cookie = [], ac_encode = (\<lambda>_ c. c)\<rparr>"

definition sample_properties :: file_properties where
  "sample_properties = \<lparr>fp_sample_rate = None, fp_channels = None, fp_bit_depth = None\<rparr>"

definition sample_remuxed :: remuxed_track where
  "sample_remuxed = \<lparr>rt_timescale = 10, rt_bytes = sample_bytes8, rt_sample_entry = None, rt_samples =
     [(plain_sample 0 2 10)\<lparr>rs_sample_entry := Some (0, Entry_Demuxed 7)\<rparr>,
      (plain_sample 6 7 10)\<lparr>rs_sample_entry := Some (0, Entry_Demuxed 7)\<rparr>,
      (plain_sample 7 8 10)\<lparr>rs_sample_entry := Some (1, Entry_Demuxed 8)\<rparr>]\<rparr>"

lemma sample_remux: "remux_source sample_encoder sample_demuxer Ft_Mp4 sample_properties sample_bytes8 = Some (Inr sample_remuxed)"
  by (simp add: remux_source_def sample_demuxer_def remux_mp4_def sample_bytes8_def usize_saturating_add_def usize_max_def
      sample_remuxed_def plain_sample_def Let_def)

theorem remuxed_samples_in_bytes_witness:
  "list_all (\<lambda>s. fst (rs_range s) \<le> snd (rs_range s) \<and> snd (rs_range s) \<le> 8) (rt_samples sample_remuxed)"
  using remuxed_samples_in_bytes [OF sample_remux] by (simp add: sample_bytes8_def usize_max_def list_all_iff sample_remuxed_def)

text \<open>C13. The segments cut the samples into consecutive non-empty runs that give all of them, in order;
  each has one sample entry, its duration is the sum of its samples', and that is within the target
  unless one sample alone is as long.\<close>

theorem segments_partition_samples:
  "segments_of t (max (secs * unat (rt_timescale t)) 1) (split_into_segments t secs) (rt_samples t)"
  using split_segments by (simp add: target_units_def)

text \<open>C14. A signed request for a segment of a track that is not in the cache is answered with the file of
  that segment, which ends with the bytes of its samples.\<close>

theorem new_segment_served:
  assumes "verify_media_auth hmac ks now uri q" "get_track_by_id lib track_id = Some tr"
    and "generate (tr_file_path tr) = write_hls_output mx t secs" "write_hls_output mx t secs = Inr dir"
    and "map_of (hc_dirs c) (track_id, variant) = None"
    and "k < length (split_into_segments t secs)" "k \<le> usize_max"
  shows "\<exists>data c'. hls_segment_handler hmac lib generate ks now uri track_id variant (seg_name k) q False c =
      (segment_answer data, c') \<and>
    suffix (concat (map (sample_bytes t) (chunk_samples t (split_into_segments t secs ! k)))) data"
  using assms by (rule segment_served)

definition sample_muxer :: hls_muxer where
  "sample_muxer = \<lparr>mx_metadata = (\<lambda>_ ms. Inr [word_of_nat (length ms)]), mx_init = (\<lambda>_. Inr [0]), mx_playlist = (\<lambda>_. Inr [35])\<rparr>"

definition sample_cache :: hls_cache where
  "sample_cache = \<lparr>hc_dirs = [((''a'', ''low''), [(''index.m3u8'', [35, 35])], 3)], hc_max_size = 100\<rparr>"

definition sample_query :: media_auth_query where
  "sample_query = \<lparr>aq_kid = ''k'', aq_exp = 900,
     aq_sig = hex_encode (compute_media_signature sample_mac [1, 2] ''/media/hls/a/high/seg1.m4s'' 900)\<rparr>"

lemma sample_segments:
  "split_into_segments sample_remuxed 6 =
    [\<lparr>sc_start = 0, sc_end = 2, sc_duration = 20\<rparr>, \<lparr>sc_start = 2, sc_end = 3, sc_duration = 10\<rparr>]"
  by (simp add: split_into_segments_def target_units_def sample_remuxed_def plain_sample_def effective_entry_def entry_differs_def)

definition sample_dir :: directory where
  "sample_dir = [(seg_name 0, [2, 1, 2, 7]), (seg_name 1, [1, 8]), (''init.mp4'', [0]), (''index.m3u8'', [35])]"

lemma sample_written: "write_hls_output sample_muxer sample_remuxed 6 = Inr sample_dir"
  unfolding write_hls_output_def sample_segments Let_def
  by (simp add: sample_muxer_def sample_dir_def mux_samples_def chunk_samples_def slice_def sample_remuxed_def
      plain_sample_def sample_bytes_def sample_bytes8_def effective_entry_def)

theorem new_segment_served_witness:
  "\<exists>data c'. hls_segment_handler sample_mac sample_library (\<lambda>_. Inr sample_dir) sample_keys 100
      ''/media/hls/a/high/seg1.m4s'' ''a'' ''high'' (seg_name 1) sample_query False sample_cache = (segment_answer data, c') \<and>
    suffix [8] data"
proof -
  have "verify_media_auth sample_mac sample_keys 100 ''/media/hls/a/high/seg1.m4s'' sample_query"
    by (simp add: verify_iff hex_roundtrip sample_query_def sample_keys_def ks_generate_def ks_get_def
        compute_media_signature_def)
  moreover have "get_track_by_id sample_library ''a'' = Some (sample_track ''a'')"
    by (simp add: get_track_by_id_def sample_library_def sample_queue_def sample_track_def)
  ultimately show ?thesis
    using new_segment_served [where mx = sample_muxer and t = sample_remuxed and secs = 6 and k = 1 and variant = "''high''"
        and c = sample_cache and generate = "\<lambda>_. Inr sample_dir" and track_id = "''a''" and lib = sample_library]
      sample_written sample_segments
    by (simp add: sample_cache_def usize_max_def chunk_samples_def slice_def sample_remuxed_def plain_sample_def
        sample_bytes_def sample_bytes8_def)
qed

text \<open>C15. Enforcing the limit of the cache removes entries until the rest fits or only the preserved one is
  left; the preserved one stays, and what is removed was not accessed after anything else that stays.\<close>

theorem cache_limit_enforced:
  assumes "cache_wf c"
  shows "limit_enforced (hc_max_size c) p (collect_cache_entries c) (collect_cache_entries (enforce_limit p c))"
  using assms by (rule enforce_limit_limits)

theorem cache_limit_enforced_witness:
  "limit_enforced 100 (Some (''a'', ''low'')) (collect_cache_entries sample_cache)
    (collect_cache_entries (enforce_limit (Some (''a'', ''low'')) sample_cache))"
  using cache_limit_enforced [of sample_cache "Some (''a'', ''low'')"] by (simp add: cache_wf_def sample_cache_def)

text \<open>C16. The metadata blocks read from a FLAC file, written back, are the bytes they were read from, and the
  blocks handed to the sample entry are these blocks unchanged.\<close>

theorem flac_metadata_lossless:
  assumes "parse_flac_metadata bytes = Inr (blocks, si, off)"
  shows "concat (map flac_block_bytes blocks) = slice 4 off bytes \<and> off \<le> length bytes \<and> rebuild_dfla_blocks blocks = blocks"
  using parse_flac_metadata_bytes [OF assms] by simp

definition sample_flac :: "u8 list" where
  "sample_flac = [0x66, 0x4C, 0x61, 0x43, 0x80, 0, 0, 34] @ replicate 34 9"

definition sample_flac_block :: flac_block where
  "sample_flac_block = \<lparr>fb_last = 1, fb_type = 0, fb_data = replicate 34 9\<rparr>"

theorem flac_metadata_lossless_witness:
  "concat (map flac_block_bytes [sample_flac_block]) = slice 4 42 sample_flac \<and> 42 \<le> length sample_flac \<and>
    rebuild_dfla_blocks [sample_flac_block] = [sample_flac_block]"
proof -
  have "\<exists>si. parse_flac_metadata sample_flac = Inr ([sample_flac_block], si, 42)"
    by (simp add: parse_flac_metadata_def flac_metadata_loop.simps sample_flac_def sample_flac_block_def slice_def
        flac_block_length_def parse_flac_streaminfo_def Let_def nth_append)
  then obtain si where "parse_flac_metadata sample_flac = Inr ([sample_flac_block], si, 42)" ..
  then show ?thesis by (rule flac_metadata_lossless)
qed

text \<open>C17. The packets laid out in Ogg pages are read back: the audio packets are all packets but the
  identification header and the tags, in order.\<close>

theorem ogg_packets_roundtrip:
  assumes "\<forall>(header, ps) \<in> set pages. length header = 22 \<and> length (concat (map packet_laces ps)) < 256"
    and "\<exists>p \<in> set (concat (map snd pages)). is_opus_head p"
  shows "\<exists>d. parse_ogg_opus_packets (concat (map (\<lambda>(h, ps). ogg_page h ps) pages)) = Inr d \<and>
    oo_packets d = filter is_opus_audio (concat (map snd pages))"
  using assms by (rule parse_ogg_roundtrip)

definition sample_pages :: "(u8 list \<times> u8 list list) list" where
  "sample_pages = [(replicate 22 0, [magic ''OpusHead'' @ replicate 11 0]), (replicate 22 0, [magic ''OpusTags'', [5, 6], replicate 300 7])]"

theorem ogg_packets_roundtrip_witness:
  "\<exists>d. parse_ogg_opus_packets (concat (map (\<lambda>(h, ps). ogg_page h ps) sample_pages)) = Inr d \<and>
    oo_packets d = filter is_opus_audio (concat (map snd sample_pages))"
  by (rule ogg_packets_roundtrip) (simp_all add: sample_pages_def packet_laces_def magic_def is_opus_head_def)

text \<open>For a track of the library, an HLS path is signed whatever variant it names, as long as that is
  percent-encoded: the check for \<open>..\<close> and \<open>/\<close> looks at the encoded text, while the directory of the
  cache is named by the decoded one.\<close>

lemma any_variant_signable:
  assumes "get_track_by_id lib track_id = Some tr" "url_safe track_id" "w \<noteq> []" "utf8_valid w"
  shows "is_signable_media_path fs lib (''/media/hls/'' @ track_id @ ''/'' @ percent_encode w @ ''/init.mp4'') = Some True \<and>
    percent_decode (percent_encode w) = Some w"
  using assms encoded_variant_signable percent_roundtrip by blast

lemma any_variant_signable_witness:
  "is_signable_media_path (\<lambda>_. None) sample_library (''/media/hls/'' @ ''a'' @ ''/'' @ percent_encode ''../..'' @ ''/init.mp4'') = Some True \<and>
    percent_decode (percent_encode ''../..'') = Some ''../..'' "
  by (rule any_variant_signable)
    (simp_all add: get_track_by_id_def sample_library_def sample_queue_def sample_track_def url_safe_def byte_of_def)

section \<open>A node and its player\<close>

text \<open>C18. A call to the MPD client does not return exactly when the daemon was reached, sent a banner
  and took the commands, and what it sends until it closes the connection holds neither an \<open>OK\<close> nor
  an \<open>ACK\<close> line nor a read error: the end of the stream is read as one empty line after another.\<close>

theorem reply_awaited_forever:
  "mpd_send daemon cmds = None \<longleftrightarrow>
    (\<exists>conn. daemon cmds = Inr conn \<and> mc_write_error conn = None \<and>
      (\<forall>e. mc_input conn = [] \<or> hd (mc_input conn) \<noteq> Inl e) \<and> (\<forall>x \<in> set (tl (mc_input conn)). \<not> ends_reply x))"
  by (rule mpd_send_hangs)

theorem reply_awaited_forever_witness:
  "mpd_send (\<lambda>_. Inr \<lparr>mc_input = [Inr ''OK MPD 0.23''], mc_write_error = None\<rparr>) ''play'' = None"
  by (subst reply_awaited_forever) simp

text \<open>C19. The command list that loads a queue is one line for each track, which the daemon reads back
  as the URL of that track, in order, provided that no URL holds a newline.\<close>

theorem queue_load_read_back:
  assumes "\<forall>p \<in> set ps. newline \<notin> set (uri p)"
  shows "map added_uri (split_on newline (mpd_commands uri fmt (Call_SetQueue ps g))) =
    [None, None] @ map (\<lambda>p. Some (uri p)) ps @ [None, None]"
  using assms by (rule set_queue_adds)

theorem queue_load_read_back_witness:
  "map added_uri (split_on newline (mpd_commands id (\<lambda>_. []) (Call_SetQueue [''a'', [dquote, backslash]] 1))) =
    [None, None] @ map (\<lambda>p. Some (id p)) [''a'', [dquote, backslash]] @ [None, None]"
  by (rule queue_load_read_back) simp

text \<open>A player that asks the proxy for a track is redirected to a URL of the server signed with the
  key of the session, and the server accepts its query until the URL expires, unless the probe of that
  very URL was refused.\<close>

lemma proxied_track_accepted:
  fixes now t :: nat and hmac :: mac
  assumes "px_auth st = Some (kid, key)" "ks_get kid ks = Some key" "track_id_ok i" "drain_headers headers"
  defines "path \<equiv> media_track_path i"
  defines "expiry \<equiv> min (now + media_url_ttl_secs) usize_max"
  defines "url \<equiv> build_signed_media_url hmac (px_base_url st) path kid key expiry"
  assumes "\<not> forbidden url"
  shows "proxy_handle_request hmac forbidden (Some now) (Some st) seen now' later forbidden' (Inr (get_line path) # headers) =
      Some (Proxy_Redirect url) \<and>
    (verify_media_auth hmac ks t path \<lparr>aq_kid = kid, aq_exp = expiry,
      aq_sig = hex_encode (compute_media_signature hmac key path expiry)\<rparr> \<longleftrightarrow> t \<le> expiry)"
  using assms proxy_redirects [of st kid key ks i headers forbidden hmac now] by simp

definition sample_proxy :: proxy_state where
  "sample_proxy = \<lparr>px_base_url = ''http://h'', px_auth = Some (''k'', [1, 2]), px_generation = 1\<rparr>"

lemma proxied_track_accepted_witness:
  "proxy_handle_request sample_mac (\<lambda>_. False) (Some 5) (Some sample_proxy) [] None None (\<lambda>_. False)
      (Inr (get_line (media_track_path ''a'')) # [Inr crlf]) =
      Some (Proxy_Redirect (build_signed_media_url sample_mac (px_base_url sample_proxy) (media_track_path ''a'') ''k'' [1, 2]
        (min (5 + media_url_ttl_secs) usize_max))) \<and>
    (verify_media_auth sample_mac sample_keys 9 (media_track_path ''a'') \<lparr>aq_kid = ''k'', aq_exp = min (5 + media_url_ttl_secs) usize_max,
      aq_sig = hex_encode (compute_media_signature sample_mac [1, 2] (media_track_path ''a'') (min (5 + media_url_ttl_secs) usize_max))\<rparr> \<longleftrightarrow>
      9 \<le> min (5 + media_url_ttl_secs) usize_max)"
  by (rule proxied_track_accepted)
    (simp_all add: sample_proxy_def sample_keys_def ks_get_def ks_generate_def track_id_ok_def is_space_def byte_of_def crlf_def trim_def)

text \<open>C20. When the server refuses the key of the session and the credentials of a new session arrive
  while the proxy waits, the new key is tried once: the player is redirected to a URL signed with it, unless
  the probe of that URL is refused too, which is answered with status 503.\<close>

theorem refused_key_replaced:
  fixes now now' :: nat and hmac :: mac
  assumes "px_auth st = Some (kid, key)" "px_auth st' = Some (kid', key')" "px_generation st < px_generation st'"
    and "track_id_ok i" "drain_headers headers"
  defines "path \<equiv> media_track_path i"
  defines "url \<equiv> build_signed_media_url hmac (px_base_url st) path kid key (min (now + media_url_ttl_secs) usize_max)"
  defines "url' \<equiv> build_signed_media_url hmac (px_base_url st') path kid' key' (min (now' + media_url_ttl_secs) usize_max)"
  assumes "forbidden url" "Some st' \<in> set seen"
  shows "proxy_handle_request hmac forbidden (Some now) (Some st) seen (Some now') (Some st') forbidden'
      (Inr (get_line path) # headers) = Some (if forbidden' url' then Proxy_Status 503 else Proxy_Redirect url')"
  using assms proxy_refreshes [of st kid key st' kid' key' i headers forbidden hmac now seen now' forbidden'] by simp

definition sample_renewed :: proxy_state where
  "sample_renewed = \<lparr>px_base_url = ''http://h'', px_auth = Some (''l'', [3, 4]), px_generation = 2\<rparr>"

theorem refused_key_replaced_witness:
  "proxy_handle_request sample_mac (\<lambda>_. True) (Some 5) (Some sample_proxy) [Some sample_proxy, Some sample_renewed] (Some 6)
      (Some sample_renewed) (\<lambda>_. False) (Inr (get_line (media_track_path ''a'')) # [Inr crlf]) =
    Some (if False then Proxy_Status 503
      else Proxy_Redirect (build_signed_media_url sample_mac (px_base_url sample_renewed) (media_track_path ''a'') ''l'' [3, 4]
        (min (6 + media_url_ttl_secs) usize_max)))"
  by (rule refused_key_replaced)
    (simp_all add: sample_proxy_def sample_renewed_def track_id_ok_def is_space_def byte_of_def crlf_def trim_def)

text \<open>A queue loaded while a status poll is under way is reported with the song of the old queue but
  the generation of the new one, which is the generation the controller takes for current.\<close>

lemma poll_overtaken_by_load:
  assumes "out (Call_SetQueue ps g) (dv_world (mn_device n)) = (Inr (), w)" "st_nodes (mn_state n) \<noteq> []"
  shows "\<exists>u. mn_reports (node_run out status [Step_Poll, Step_Command (Cmd_SetQueue ps g), Step_Report] n) = mn_reports n @ [u] \<and>
      nu_projection_generation u = g \<and> nu_mpd_song_index u = ms_song (status (dv_world (mn_device n)))"
  using poll_around_set_queue(1) [of out ps g n w status] assms by simp

definition sample_mpd :: "usize mpd_node" where
  "sample_mpd = \<lparr>mn_device = \<lparr>dv_world = 2, dv_projection_generation = 1\<rparr>, mn_state = sample_state 0, mn_polled = None, mn_reports = []\<rparr>"

definition sample_player :: "usize audio_output" where
  "sample_player c w = (case c of Call_SetQueue _ _ \<Rightarrow> (Inr (), 0) | _ \<Rightarrow> (Inr (), w))"

definition sample_status :: "usize \<Rightarrow> mpd_status" where
  "sample_status w = \<lparr>ms_elapsed = f64_zero, ms_song = Some w, ms_volume = 50, ms_state = Playing\<rparr>"

lemma poll_overtaken_by_load_witness:
  "\<exists>u. mn_reports (node_run sample_player sample_status [Step_Poll, Step_Command (Cmd_SetQueue [''x''] 2), Step_Report] sample_mpd) =
      mn_reports sample_mpd @ [u] \<and>
    nu_projection_generation u = 2 \<and> nu_mpd_song_index u = ms_song (sample_status (dv_world (mn_device sample_mpd)))"
  by (rule poll_overtaken_by_load) (simp_all add: sample_player_def sample_mpd_def sample_state_def)

section \<open>The saved state\<close>


definition sample_saved :: playback_state where
  "sample_saved = \<lparr>st_nodes = [default_node\<lparr>nd_id := ''n'', nd_connected := True, nd_volume := 7\<rparr>],
     st_selected_node_id = Some ''n'', st_queue = [], st_current_index = None, st_shuffle = True, st_repeat = Repeat_All\<rparr>"

lemma sample_persistable: "table_ok []" "persistable sample_library sample_saved"
  by (simp_all add: table_ok_def row_ids_def persistable_def sample_saved_def state_wf_def node_ids_def selection_ok_def
      indices_ok_def top_index_ok_def index_ok_def node_kept_def queue_known_def index_small_def global_id_def default_node_def)


text \<open>Whatever the table holds and whichever tracks are left, a restored state has every current index
  inside its queue.\<close>

lemma restored_indices_in_range:
  assumes "restore lib tbl = Inr s"
  shows "indices_ok s \<and> top_index_ok s"
  using assms by (rule restore_indices)

lemma restored_indices_in_range_witness:
  "indices_ok (dormant_state sample_saved) \<and> top_index_ok (dormant_state sample_saved)"
  by (rule restored_indices_in_range [of sample_library "persist 100 sample_saved []"])
    (rule persist_restore [OF sample_persistable], simp add: sample_saved_def)

text \<open>The statements that save the state run outside a transaction: when only the first of them gets
  through, the restored selection names a node that was never saved.\<close>

lemma interrupted_save_dangles:
  assumes "st_selected_node_id s = Some i" "i \<noteq> global_id" "index_small (st_current_index s)"
    and "restore lib (persist_until mv (Suc 0) s []) = Inr s'"
  shows "st_selected_node_id s' = Some i \<and> st_nodes s' = [] \<and> \<not> selection_ok s'"
  using assms by (rule partial_persist)

definition sample_dangling :: playback_state where
  "sample_dangling = sample_saved\<lparr>st_nodes := []\<rparr>"

lemma interrupted_save_dangles_witness:
  "st_selected_node_id sample_dangling = Some ''n'' \<and> st_nodes sample_dangling = [] \<and> \<not> selection_ok sample_dangling"
  by (rule interrupted_save_dangles [where s = sample_saved and lib = sample_library])
    (simp_all add: sample_saved_def sample_dangling_def global_id_def index_small_def persist_until_def persist_statements_def
      save_playback_state_def upsert_row_def restore_def load_playback_state_def load_all_node_states_def read_row_def
      read_index_def restore_queue_def file_paths_def map_filter_simps index_within_def repeat_of_name_def repeat_name_def)

section \<open>The library\<close>

text \<open>C22. Whatever tracks, albums and artists are written, purged or deleted, with or without errors, the
  paths and ids of the tracks, the ids and directories of the albums and the ids and names of the artists stay
  unique, every track's album is in the table, and the full-text index holds exactly one entry for each track,
  with its present texts.\<close>

theorem library_keys_and_index:
  assumes "library_reachable id_of mv db"
  shows "distinct (map row_path (ld_tracks db)) \<and> distinct (map row_id (ld_tracks db)) \<and>
    distinct (map aw_id (ld_albums db)) \<and> distinct (map aw_dir_path (ld_albums db)) \<and>
    distinct (map ar_id (ld_artists db)) \<and> distinct (map ar_name (ld_artists db)) \<and>
    list_all (album_known (ld_albums db)) (ld_tracks db) \<and> mset (ld_fts db) = image_mset fts_of (mset (ld_tracks db))"
  using library_reachable_wf [OF assms] by (simp add: library_wf_def synced_def albums_ok_def)

definition sample_id_of :: "string \<Rightarrow> string" where
  "sample_id_of p = CHR ''#'' # p"

definition sample_path_track :: "string \<Rightarrow> track" where
  "sample_path_track p = (sample_track p)\<lparr>tr_id := sample_id_of p\<rparr>"

definition sample_library_db :: library_db where
  "sample_library_db = fold (library_exec sample_id_of 100)
     [Lib_UpsertTrack (sample_path_track ''/m/a.flac'') (Some 1), Lib_UpsertTrack (sample_path_track ''/m/b.flac'') None,
      Lib_AlbumArtwork ''/m'' (Some ''/m/cover.jpg''), Lib_UpsertArtist \<lparr>ar_id = ''1'', ar_name = ''A''\<rparr>,
      Lib_UpsertArtist \<lparr>ar_id = ''2'', ar_name = ''A''\<rparr>, Lib_UpsertArtist \<lparr>ar_id = ''2'', ar_name = ''B''\<rparr>, Lib_UpsertTrack (sample_path_track ''/m/a.flac'') (Some 2)] empty_library"

lemma sample_library_reachable: "library_reachable sample_id_of 100 sample_library_db"
  unfolding sample_library_db_def by (rule library_run_reachable)

lemma sample_library_ids: "map row_id (ld_tracks sample_library_db) = [''#/m/a.flac'', ''#/m/b.flac'']"
  by code_simp

theorem library_keys_and_index_witness:
  "distinct (map row_path (ld_tracks sample_library_db)) \<and> distinct (map row_id (ld_tracks sample_library_db)) \<and>
    distinct (map aw_id (ld_albums sample_library_db)) \<and> distinct (map aw_dir_path (ld_albums sample_library_db)) \<and>
    distinct (map ar_id (ld_artists sample_library_db)) \<and> distinct (map ar_name (ld_artists sample_library_db)) \<and>
    list_all (album_known (ld_albums sample_library_db)) (ld_tracks sample_library_db) \<and>
    mset (ld_fts sample_library_db) = image_mset fts_of (mset (ld_tracks sample_library_db))"
  by (rule library_keys_and_index) (rule sample_library_reachable)

text \<open>C23. In a library reached by any operations, a search that FTS5 can parse gives exactly the tracks
  whose texts match, in the order of the albums, as long as no more match than a statement has variables. (Tracks
  of which the \<open>ORDER BY\<close> makes no difference are taken in the order of the table, as in every query of the model.)\<close>

theorem search_finds_matches:
  assumes "library_reachable id_of mv db" "fe_parse fts q = Some m" "length (filter m (ld_fts db)) \<le> mv'"
  shows "search_tracks fts mv' db q =
    Inr (sort_key album_order (map rw_track (filter (\<lambda>r. m (fts_of r)) (ld_tracks db))))"
  using search_tracks_exact [OF library_reachable_wf [OF assms(1)] assms(2,3)] .

definition sample_fts :: fts_engine where
  "sample_fts = \<lparr>fe_parse = (\<lambda>q. if q = [] then None else Some (\<lambda>f. contains q (ft_track_id f))), fe_rank = (\<lambda>_ _ _. 0)\<rparr>"

theorem search_finds_matches_witness:
  "search_tracks sample_fts 1 sample_library_db ''b.flac'' =
    Inr (sort_key album_order (map rw_track (filter (\<lambda>r. contains ''b.flac'' (ft_track_id (fts_of r))) (ld_tracks sample_library_db))))"
proof (rule search_finds_matches)
  show "fe_parse sample_fts ''b.flac'' = Some (\<lambda>f. contains ''b.flac'' (ft_track_id f))" by (simp add: sample_fts_def)
  show "length (filter (\<lambda>f. contains ''b.flac'' (ft_track_id f)) (ld_fts sample_library_db)) \<le> 1" by code_simp
qed (rule sample_library_reachable)

text \<open>C24. A scan succeeds and makes the library mirror the directory: a path has a row afterwards exactly
  if the walk found it and its tags could be read, now or when the row was made; the row is the old one
  if the modification time is the stored one, and the track of the present tags otherwise. The ids the
  media endpoint knows are those of these paths. The ids are taken to have no collision on the paths
  in use, and the files to be no more than a statement has variables.\<close>

theorem scan_mirrors_directory:
  fixes w :: scan_world
  assumes "library_wf db" "hashed U id_of db" "inj_on id_of U" "scannable U mv (walk_audio_files dir (sw_tree w))"
  shows "\<exists>res db'. scan_once id_of mv dir w db = (Inr res, db') \<and> library_wf db' \<and> hashed U id_of db' \<and>
    (\<forall>p. library_view db' p = (case find (\<lambda>e. fe_file_path e = p) (walk_audio_files dir (sw_tree w)) of
       None \<Rightarrow> None | Some e \<Rightarrow> scan_view id_of (sw_readers w) e (library_view db p))) \<and>
    (\<forall>i. is_known_track_id (library_of pick db') i \<longleftrightarrow> (\<exists>p. library_view db' p \<noteq> None \<and> i = id_of p))"
proof -
  have "list_all (entry_in U) (walk_audio_files dir (sw_tree w))" "distinct (map fe_file_path (walk_audio_files dir (sw_tree w)))"
    "length (walk_audio_files dir (sw_tree w)) \<le> mv" using assms(4) by (simp_all add: scannable_def)
  from scan_once_exact [OF assms(1-3) this] show ?thesis using library_of_id by blast
qed

definition sample_tree :: fs_tree where
  "sample_tree = Fs_Dir ''m'' (Some [Fs_File ''a.flac'' (Some 2), Fs_Dir ''.git'' (Some [Fs_File ''x.mp3'' (Some 1)]),
     Fs_Dir ''d'' (Some [Fs_File ''c.MP3'' (Some 3), Fs_Other ''link'']), Fs_File ''note.txt'' None])"

definition sample_world :: scan_world where
  "sample_world = \<lparr>sw_tree = Some sample_tree, sw_listing = (\<lambda>_. Some [''cover.jpg'']),
     sw_readers = \<lparr>rd_dsf = (\<lambda>_. Inl ''error''), rd_lofty = (\<lambda>_. Inr \<lparr>lf_file_type = Type_Flac,
       lf_tag = Some (\<lambda>_. Some ''7''), lf_duration_secs = 3, lf_sample_rate = Some 44100\<rparr>)\<rparr>\<rparr>"

definition sample_paths :: "string set" where
  "sample_paths = {''/m'', ''/m/d'', ''/m/a.flac'', ''/m/b.flac'', ''/m/d/c.MP3''}"

lemma sample_walk_entries: "walk_audio_files ''/m'' (sw_tree sample_world) =
    [\<lparr>fe_file_path = ''/m/a.flac'', fe_dir_path = ''/m'', fe_mtime = 2\<rparr>, \<lparr>fe_file_path = ''/m/d/c.MP3'', fe_dir_path = ''/m/d'', fe_mtime = 3\<rparr>]"
  by code_simp

lemma sample_parents: "path_parent ''/m/a.flac'' = Some ''/m''" "path_parent ''/m/d/c.MP3'' = Some ''/m/d''"
  by code_simp+

lemma sample_scan:
  "library_wf sample_library_db" "hashed sample_paths sample_id_of sample_library_db" "inj_on sample_id_of sample_paths"
  "scannable sample_paths 100 (walk_audio_files ''/m'' (sw_tree sample_world))"
  subgoal by (rule library_reachable_wf) (rule sample_library_reachable)
  subgoal by code_simp
  subgoal by (simp add: inj_on_def sample_id_of_def)
  subgoal unfolding scannable_def sample_walk_entries by (simp add: entry_in_def sample_parents) (simp add: sample_paths_def)
  done

theorem scan_mirrors_directory_witness:
  "\<exists>res db'. scan_once sample_id_of 100 ''/m'' sample_world sample_library_db = (Inr res, db') \<and> library_wf db' \<and>
    hashed sample_paths sample_id_of db' \<and>
    (\<forall>p. library_view db' p = (case find (\<lambda>e. fe_file_path e = p) (walk_audio_files ''/m'' (sw_tree sample_world)) of
       None \<Rightarrow> None | Some e \<Rightarrow> scan_view sample_id_of (sw_readers sample_world) e (library_view sample_library_db p))) \<and>
    (\<forall>i. is_known_track_id (library_of hd db') i \<longleftrightarrow> (\<exists>p. library_view db' p \<noteq> None \<and> i = sample_id_of p))"
  by (rule scan_mirrors_directory) (rule sample_scan)+

text \<open>C25. A second scan of a directory in which no file was added, removed or touched succeeds. Whatever the
  readers would now make of the files, it does not read those again that the first scan could read: their rows stay
  as they are, and if all could be read it counts nothing as added, updated or removed and leaves the tables of the tracks
  and artists and the index as they are. If the readers give what they gave, every row stays. As for the first scan,
  the ids are taken to have no collision on the paths in use, and the files to be no more than a statement has
  variables.\<close>

theorem rescan_changes_nothing:
  fixes w :: scan_world and dir :: string
  defines "entries \<equiv> walk_audio_files dir (sw_tree w)"
  assumes "library_wf db" "hashed U id_of db" "inj_on id_of U" "scannable U mv entries"
    and "scan_once id_of mv dir w db = (Inr res, db')" "sw_tree w' = sw_tree w"
  shows "\<exists>res' db''. scan_once id_of mv dir w' db' = (Inr res', db'') \<and>
    (\<forall>e \<in> set entries. readable id_of (sw_readers w) e \<longrightarrow>
      library_view db'' (fe_file_path e) = library_view db' (fe_file_path e)) \<and>
    (sw_readers w' = sw_readers w \<longrightarrow> library_view db'' = library_view db') \<and>
    (list_all (readable id_of (sw_readers w)) entries \<longrightarrow>
      res' = \<lparr>sc_added = 0, sc_updated = 0, sc_removed = 0\<rparr> \<and>
      ld_tracks db'' = ld_tracks db' \<and> ld_fts db'' = ld_fts db' \<and> ld_artists db'' = ld_artists db')"
  unfolding entries_def by (rule scan_again [OF assms(2-4) assms(5) [unfolded entries_def] assms(6,7)])

text \<open>All tags have changed before the second scan, and it writes nothing.\<close>

definition sample_retagged :: scan_world where
  "sample_retagged = sample_world\<lparr>sw_readers := \<lparr>rd_dsf = (\<lambda>_. Inl ''error''), rd_lofty = (\<lambda>_. Inr \<lparr>lf_file_type = Type_Flac,
       lf_tag = Some (\<lambda>_. Some ''new''), lf_duration_secs = 1, lf_sample_rate = None\<rparr>)\<rparr>\<rparr>"

lemma sample_readable:
  "list_all (readable sample_id_of (sw_readers sample_world)) (walk_audio_files ''/m'' (sw_tree sample_world))"
proof -
  have "path_extension ''/m/a.flac'' = Some ''flac''" "path_extension ''/m/d/c.MP3'' = Some ''MP3''"
    "lowercase ''flac'' \<noteq> ''dsf''" "lowercase ''MP3'' \<noteq> ''dsf''" by code_simp+
  then show ?thesis unfolding sample_walk_entries
    by (simp add: readable_def extract_track_def lofty_track_def sample_world_def)
qed

theorem rescan_changes_nothing_witness:
  "\<exists>res db' db''. scan_once sample_id_of 100 ''/m'' sample_world sample_library_db = (Inr res, db') \<and>
    scan_once sample_id_of 100 ''/m'' sample_retagged db' = (Inr \<lparr>sc_added = 0, sc_updated = 0, sc_removed = 0\<rparr>, db'') \<and>
    ld_tracks db'' = ld_tracks db'"
proof -
  obtain res db' where first: "scan_once sample_id_of 100 ''/m'' sample_world sample_library_db = (Inr res, db')"
    using scan_once_exact [OF sample_scan(1-3)] sample_scan(4) unfolding scannable_def by blast
  have tree: "sw_tree sample_retagged = sw_tree sample_world" by (simp add: sample_retagged_def)
  have "\<exists>db''. scan_once sample_id_of 100 ''/m'' sample_retagged db' = (Inr \<lparr>sc_added = 0, sc_updated = 0, sc_removed = 0\<rparr>, db'') \<and>
      ld_tracks db'' = ld_tracks db'"
    using rescan_changes_nothing [OF sample_scan first tree] sample_readable by (elim exE conjE) simp
  with first show ?thesis by metis
qed

text \<open>A scan whose music directory is missing or cannot be listed, such as a disk that is not mounted,
  reports success and removes every track of the library.\<close>

lemma unlisted_directory_empties_library:
  assumes "sw_tree w = None \<or> sw_tree w = Some (Fs_Dir name None)"
  shows "\<exists>res db'. scan_once id_of mv dir w db = (Inr res, db') \<and> ld_tracks db' = []"
  using assms by (rule scan_unlisted)

lemma unlisted_directory_empties_library_witness:
  "ld_tracks sample_library_db \<noteq> [] \<and>
    (\<exists>res db'. scan_once sample_id_of 100 ''/m'' (sample_world\<lparr>sw_tree := None\<rparr>) sample_library_db = (Inr res, db') \<and> ld_tracks db' = [])"
  using sample_library_ids by (intro conjI unlisted_directory_empties_library) auto





text \<open>C28. A playlist edit sent by a user interface is seen at its next request: the tracks listed are those of
  the edited list of ids that are in the library, in order; the session and the library are as before.\<close>

theorem edit_seen_at_next_request:
  assumes "ue_opens env" "normal_row i (playlist_tables s)" "positions_ok i (playlist_tables s)"
    and "edit_of cmd i (playlist_ids i (playlist_tables s)) = Some ids"
  shows "\<exists>s'. handle_ui_client_message env now now_ns uuid kid (Msg_Command cmd) s = Some (s', None) \<and>
    handle_request env later kid (Req_GetPlaylistTracks i) s' = Some (Res_PlaylistTracks i
      (List.map_filter (\<lambda>tid. find (\<lambda>t. tr_id t = tid) (tracks_of (ui_library s))) ids)) \<and>
    ui_session s' = ui_session s \<and> ui_library s' = ui_library s"
  using assms by (rule edit_seen)

definition sample_env :: ui_env where
  "sample_env = \<lparr>ue_hmac = sample_mac, ue_fs = sample_files, ue_pick = hd, ue_fts = sample_fts, ue_max_variables = 100,
     ue_id_of = sample_id_of, ue_media_base_url = ''http://h'', ue_opens = True\<rparr>"

definition sample_ui :: "link ui_state" where
  "sample_ui = \<lparr>ui_session = sample_session, ui_library = sample_library_db, ui_playlists = sample_db, ui_keys = sample_keys\<rparr>"

theorem edit_seen_at_next_request_witness:
  "\<exists>s'. handle_ui_client_message sample_env 9 99 ''u'' ''k'' (Msg_Command (Ws_MovePlaylistTrack ''p'' 0 7)) sample_ui = Some (s', None) \<and>
    handle_request sample_env 9 ''k'' (Req_GetPlaylistTracks ''p'') s' = Some (Res_PlaylistTracks ''p''
      (List.map_filter (\<lambda>tid. find (\<lambda>t. tr_id t = tid) (tracks_of (ui_library sample_ui))) [''b'', ''c'', ''a''])) \<and>
    ui_session s' = ui_session sample_ui \<and> ui_library s' = ui_library sample_ui"
proof (rule edit_seen_at_next_request)
  have rows: "normal_row ''p'' (playlist_tables sample_ui) = normal_row ''p'' sample_db"
    "positions_ok ''p'' (playlist_tables sample_ui) = positions_ok ''p'' sample_db"
    "playlist_ids ''p'' (playlist_tables sample_ui) = playlist_ids ''p'' sample_db"
    by (simp_all add: playlist_tables_def sample_ui_def normal_row_def find_row_def positions_ok_def playlist_ids_def entry_rows_def rows_of_def)
  show "normal_row ''p'' (playlist_tables sample_ui)" "positions_ok ''p'' (playlist_tables sample_ui)"
    unfolding rows by (simp_all add: sample_db_facts)
  show "edit_of (Ws_MovePlaylistTrack ''p'' 0 7) ''p'' (playlist_ids ''p'' (playlist_tables sample_ui)) = Some [''b'', ''c'', ''a'']"
    unfolding rows by (simp add: sample_db_facts vec_move_def vec_remove_def vec_insert_def)
qed (simp add: sample_env_def)

section \<open>All connections of the server\<close>


definition sample_server :: "link server" where
  "sample_server = server_new (core_new [] [] new_link) empty_library sample_db"

definition sample_connect :: "client_message \<Rightarrow> string \<Rightarrow> link server_event" where
  "sample_connect msg kid = Ev_Connect [Frame_Ping, Frame_Text (Some msg)] kid [1, 2] (''c-'' @ kid) remote_node_output True True"


lemma sample_server_reachable: "server_reachable sample_env sample_server"
  unfolding sample_server_def by (intro server_reachable.start core_reachable.start)




text \<open>C30. The media keys of the nodes follow their connections: a key that was given to a node whose
  connection has ended signs nothing any more, the delayed revocations of replaced keys never hit the key
  in use on any connection, and the last ack sent to a node names the key in use.\<close>

theorem node_keys_follow_connections:
  assumes "server_reachable env s" "sv_nodes s c = Some n" "sv_nodes s c' = Some n'" "aq_kid q \<in> sv_retired s"
  shows "\<not> verify_media_auth hmac (sv_keys s) now path q \<and>
    kr_active (nc_rotation n') \<notin> set (revoke_due later n) \<and>
    na_media_auth_key_id (last (nc_acks n')) = Some (kr_active (nc_rotation n'))"
  using retired_refused [OF assms(1,4)] active_spared [OF assms(1-3)] last_ack_active [OF assms(1,3)] by blast

definition sample_node_left :: "link server" where
  "sample_node_left = fold (server_exec sample_env 5 50 ''u'')
     [sample_connect (Msg_NodeRegistration \<lparr>nr_node_id = Some ''n'', nr_display_name = None, nr_name = None\<rparr>) ''k'',
      Ev_Node ''c-k'' False Node_Ping] sample_server"

lemma sample_node_left_reachable: "server_reachable sample_env sample_node_left"
proof -
  let ?s = "server_exec sample_env 5 50 ''u'' (sample_connect (Msg_NodeRegistration
    \<lparr>nr_node_id = Some ''n'', nr_display_name = None, nr_name = None\<rparr>) ''k'') sample_server"
  have "server_reachable sample_env ?s"
    by (rule server_reachable.step [OF sample_server_reachable, of "''u''"])
      (simp add: sample_connect_def sample_server_def server_new_def)
  then show ?thesis
    unfolding sample_node_left_def
    using server_reachable.step [of sample_env ?s "''u''" "Ev_Node ''c-k'' False Node_Ping" 5 50] by simp
qed

lemma sample_node_left_facts:
  "\<exists>n. sv_nodes sample_node_left ''c-k'' = Some n" "''k'' \<in> sv_retired sample_node_left"
  by (simp_all add: sample_node_left_def sample_connect_def handle_ws_connection_def node_open_def node_leave_def put_node_def
      new_key_def sample_server_def server_new_def start_rotation_def Let_def)

theorem node_keys_follow_connections_witness:
  "\<exists>n. sv_nodes sample_node_left ''c-k'' = Some n \<and> \<not> verify_media_auth sample_mac (sv_keys sample_node_left) 6 ''/media/tracks/a''
      \<lparr>aq_kid = ''k'', aq_exp = 900, aq_sig = hex_encode (compute_media_signature sample_mac [1, 2] ''/media/tracks/a'' 900)\<rparr> \<and>
    kr_active (nc_rotation n) \<notin> set (revoke_due 1000 n) \<and>
    na_media_auth_key_id (last (nc_acks n)) = Some (kr_active (nc_rotation n))"
proof -
  obtain n where n: "sv_nodes sample_node_left ''c-k'' = Some n" using sample_node_left_facts(1) by blast
  from node_keys_follow_connections [OF sample_node_left_reachable n n,
      of "\<lparr>aq_kid = ''k'', aq_exp = 900, aq_sig = hex_encode (compute_media_signature sample_mac [1, 2] ''/media/tracks/a'' 900)\<rparr>"]
  show ?thesis using sample_node_left_facts(2) n by (intro exI [of _ n]) simp
qed

text \<open>C31. A node that has read what its connection has sent, in the handshake and at the rotations of the key,
  redirects its player to URLs of the server signed with the key in use, and the server accepts them until
  they expire, unless the key has been cleaned up or the probe of that very URL was refused.\<close>

theorem player_served_by_session:
  fixes now later :: nat and hmac :: mac
  assumes "server_reachable uenv s" "sv_nodes s c = Some n" "ks_get (kr_active (nc_rotation n)) (sv_keys s) = Some key"
      "length key = 32"
    and "np_phase p = Handshake" "ne_ack env t = Some ack" "list_all in_session evs"
      "p' = node_process_run env (Nd_Frame sent (In_Text t) # evs) p" "np_phase p' = Relaying"
    and "ack # concat (map (ack_in env) evs) = nc_acks n"
    and "track_id_ok i" "drain_headers headers"
  defines "path \<equiv> media_track_path i"
  defines "expiry \<equiv> min (now + media_url_ttl_secs) usize_max"
  defines "url \<equiv> build_signed_media_url hmac (ue_media_base_url uenv) path (kr_active (nc_rotation n)) key expiry"
  assumes "\<not> forbidden url"
  shows "proxy_handle_request hmac forbidden (Some now) (np_proxy p') seen now' st' forbidden' (Inr (get_line path) # headers) =
      Some (Proxy_Redirect url) \<and>
    (verify_media_auth hmac (sv_keys s) later path \<lparr>aq_kid = kr_active (nc_rotation n), aq_exp = expiry,
      aq_sig = hex_encode (compute_media_signature hmac key path expiry)\<rparr> \<longleftrightarrow> later \<le> expiry)"
  using session_signs [OF assms(1-12), of forbidden hmac now] assms(13-) by blast

definition sample_node_registration :: client_message where
  "sample_node_registration = Msg_NodeRegistration (session_registration ''n'')"

definition sample_node_served :: "link server" where
  "sample_node_served = server_exec sample_env 5 50 ''u''
     (Ev_Connect [Frame_Text (Some sample_node_registration)] ''k'' (replicate 32 7) ''c'' remote_node_output True True) sample_server"

lemma sample_node_served_reachable: "server_reachable sample_env sample_node_served"
  unfolding sample_node_served_def
  by (rule server_reachable.step [OF sample_server_reachable, of "''u''"])
    (simp add: sample_server_def server_new_def sample_node_registration_def)

definition sample_node_conn :: node_conn where
  "sample_node_conn = \<lparr>nc_node_id = ''n'', nc_rotation = start_rotation ''k'', nc_acks = [key_ack sample_env ''n'' ''k'' (replicate 32 7)],
     nc_last_seen = 5, nc_open = True\<rparr>"

lemma sample_node_served_facts:
  "sv_nodes sample_node_served ''c'' = Some sample_node_conn"
  "ks_get (kr_active (nc_rotation sample_node_conn)) (sv_keys sample_node_served) = Some (replicate 32 7)"
  by (simp_all add: sample_node_served_def sample_node_registration_def handle_ws_connection_def node_open_def put_node_def new_key_def
      sample_server_def server_new_def start_rotation_def registered_by_name sample_node_conn_def ks_get_generate Let_def)

lemma sample_acks_read:
  "\<lparr>na_node_id = ''n'', na_media_base_url = ''http://h'', na_media_auth_key = Some (hex_encode (replicate 32 7)),
     na_media_auth_key_id = Some ''k''\<rparr> # concat (map (ack_in sample_node_env) sample_turns) = nc_acks sample_node_conn"
  unfolding sample_session_runs(5) by (simp add: sample_node_conn_def key_ack_def sample_env_def)

theorem player_served_by_session_witness:
  "proxy_handle_request sample_mac (\<lambda>_. False) (Some 6)
      (np_proxy (node_process_run sample_node_env (Nd_Frame True (In_Text ''ack'') # sample_turns) sample_process)) [] None None
      (\<lambda>_. False) (Inr (get_line (media_track_path ''a'')) # [Inr crlf]) =
      Some (Proxy_Redirect (build_signed_media_url sample_mac (ue_media_base_url sample_env) (media_track_path ''a'')
        (kr_active (nc_rotation sample_node_conn)) (replicate 32 7) (min (6 + media_url_ttl_secs) usize_max))) \<and>
    (verify_media_auth sample_mac (sv_keys sample_node_served) 9 (media_track_path ''a'') \<lparr>aq_kid = kr_active (nc_rotation sample_node_conn),
      aq_exp = min (6 + media_url_ttl_secs) usize_max,
      aq_sig = hex_encode (compute_media_signature sample_mac (replicate 32 7) (media_track_path ''a'') (min (6 + media_url_ttl_secs) usize_max))\<rparr> \<longleftrightarrow>
      9 \<le> min (6 + media_url_ttl_secs) usize_max)"
  by (rule player_served_by_session [OF sample_node_served_reachable sample_node_served_facts _ sample_session_runs(1)
        sample_node_fields(3) sample_session_runs(2) refl sample_session_runs(3) sample_acks_read])
    (simp_all add: track_id_ok_def is_space_def byte_of_def crlf_def trim_def)

section \<open>The plain media server\<close>


definition sample_http_db :: library_db where
  "sample_http_db = empty_library\<lparr>ld_tracks := [\<lparr>rw_rowid = 1, rw_track = sample_track ''a'', rw_mtime = None\<rparr>]\<rparr>"

definition sample_open :: "bool \<Rightarrow> open_file" where
  "sample_open bad = \<lparr>of_bytes = [1, 2, 3, 4], of_regular = True, of_bad = (\<lambda>_. bad)\<rparr>"

definition sample_http :: "bool \<Rightarrow> http_env" where
  "sample_http bad = \<lparr>he_db = Some sample_http_db, he_files = sample_files, he_open = (\<lambda>_. Some (sample_open bad)),
     he_exists = (\<lambda>_. True), he_canonical = id, he_pictures = (\<lambda>_. None), he_got = id\<rparr>"

definition sample_conn :: conn where
  "sample_conn = \<lparr>cn_written = [], cn_writes = 9\<rparr>"

lemma sample_http_library: "http_library (sample_http bad) = \<lparr>lib_tracks = [sample_track ''a''], lib_albums = []\<rparr>"
  by (simp add: http_library_def sample_http_def sample_http_db_def tracks_of_def)

lemma sample_http_track:
  "get_track_by_id (http_library (sample_http bad)) ''a'' = Some (sample_track ''a'')"
  "get_track_by_path (http_library (sample_http bad)) ''a'' = Some (sample_track ''a'')"
  by (simp_all add: sample_http_library get_track_by_id_def get_track_by_path_def sample_track_def)




text \<open>C34. When reading a file asked for by its path fails at once, the head of a second response, an
  internal error, is written where the body announced by the first was to come.\<close>

theorem read_error_second_response:
  assumes "http_is_known_track_file env p" "he_open env p = Some f" "of_regular f" "of_bytes f \<noteq> []" "of_bad f 0" "2 \<le> cn_writes c"
  shows "\<exists>c'. http_serve_file env False p None c = (Inl ''read body: I/O error'', c') \<and>
    cn_written c' = cn_written c @
      bytes_of (response_head 200 ''OK'' [(''Content-Type'', content_type_for_path p), (''Accept-Ranges'', ''bytes''),
        (''Content-Length'', show_nat (length (of_bytes f)))]) @
      bytes_of (response_head 500 ''Internal Server Error'' [(''Content-Length'', ''0''), (''Content-Type'', ''text/plain; charset=utf-8'')])"
  using assms by (rule second_response)

theorem read_error_second_response_witness:
  "\<exists>c'. http_serve_file (sample_http True) False ''a'' None sample_conn = (Inl ''read body: I/O error'', c') \<and>
    cn_written c' = cn_written sample_conn @
      bytes_of (response_head 200 ''OK'' [(''Content-Type'', content_type_for_path ''a''), (''Accept-Ranges'', ''bytes''),
        (''Content-Length'', show_nat (length (of_bytes (sample_open True))))]) @
      bytes_of (response_head 500 ''Internal Server Error'' [(''Content-Length'', ''0''), (''Content-Type'', ''text/plain; charset=utf-8'')])"
proof (rule read_error_second_response)
  have "\<not> contains ''..'' ''a''" by code_simp
  then show "http_is_known_track_file (sample_http True) ''a''"
    using sample_http_track(2) [of True]
    by (simp add: http_is_known_track_file_def is_known_track_file_def del: contains.simps) (simp add: sample_http_def sample_files_def)
qed (simp_all add: sample_http_def sample_open_def sample_conn_def)

section \<open>Scrobbling\<close>

text \<open>C35. Fed with the events the bridge makes of any snapshots, and whatever the order of its tasks and the
  answers of the service, the Last.fm plugin loses and duplicates nothing: what is accepted, waits or is
  in the hands of a task is made up of one scrobble for each track reported, and no track is reported twice.\<close>

theorem scrobbles_accounted_for:
  assumes "concat (map step_event ss) = bridge_events prev snaps"
  shows "\<exists>ts. map tr_id ts = scrobbled_ids (bridge_events prev snaps) \<and> distinct (map tr_id ts) \<and>
    scrobble_account (fold lastfm_exec ss lastfm_new) = mset (map from_track ts) \<and>
    image_mset fst (mset (lf_accepted (fold lastfm_exec ss lastfm_new))) \<subseteq># mset (map from_track ts)"
  using assms by (rule accepted_once)

definition sample_lastfm_steps :: "lastfm_step list" where
  "sample_lastfm_steps = map Lf_Event (bridge_events prev_state_new [sample_state 0, sample_state 1]) @ [Lf_Run 0 5 True, Lf_Run 0 6 False]"

theorem scrobbles_accounted_for_witness:
  "\<exists>ts. map tr_id ts = scrobbled_ids (bridge_events prev_state_new [sample_state 0, sample_state 1]) \<and> distinct (map tr_id ts) \<and>
    scrobble_account (fold lastfm_exec sample_lastfm_steps lastfm_new) = mset (map from_track ts) \<and>
    image_mset fst (mset (lf_accepted (fold lastfm_exec sample_lastfm_steps lastfm_new))) \<subseteq># mset (map from_track ts)"
  by (rule scrobbles_accounted_for [of _ prev_state_new "[sample_state 0, sample_state 1]"]) (simp add: sample_lastfm_steps_def comp_def)




section \<open>The OpenHome adapter\<close>



section \<open>The terminal interface\<close>

text \<open>C38. Whatever keys are pressed and whatever the server answers, in any order: the panel never shows a
  level its mode does not have, an artist or genre is selected below the first level of its mode, the
  search field takes keys only on the search panel, and the requests are numbered one after another.\<close>

theorem tui_state_well_formed:
  "tui_ok (snd (tui_run settle is)) \<and>
   request_ids (snd (tui_run settle is)) = [1..<Suc (tu_req_counter (snd (tui_run settle is)))]"
  using tui_run_inv [of settle "is"] by (simp add: tui_inv_def numbered_def)

text \<open>C39. Opening an album in the terminal interface, answered by the server from its library, moving down
  \<open>j\<close> rows and pressing Enter sends one request for that album and then adds to the queue the \<open>j\<close>-th of
  the tracks the library lists for it, if the list widget leaves a row that is on its list selected.\<close>

theorem browsed_track_queued:
  fixes s :: "'w ui_state" and a :: tui_app and i :: nat
  defines "ident \<equiv> al_id (tu_albums a ! i)"
  assumes "keeps_rows settle" "in_library Mode_Albums 0 a" "tu_library_list a = Some i" "i < length (tu_albums a)"
    and "handle_request env now kid (Req_GetAlbumTracks ident) s = Some r" "ue_opens env"
    and "j < length (get_tracks_by_album_id (ui_library s) ident)"
  shows "tu_sent (snd (tui_turns settle ([In_Key Key_Right, In_Response r] @ replicate j (In_Key Key_Down) @ [In_Key Key_Enter]) (st, a))) =
    tu_sent a @ [Msg_Request (Suc (tu_req_counter a)) (Req_GetAlbumTracks ident),
      Msg_Command (Ws_AddToQueue (get_tracks_by_album_id (ui_library s) ident ! j))]"
  using album_browsed assms by blast

definition sample_widget :: list_widget where
  "sample_widget n sel = (case sel of None \<Rightarrow> None | Some k \<Rightarrow> if n = 0 then None else Some (min k (n - 1)))"

definition sample_tui :: tui_app where
  "sample_tui = tui_new\<lparr>tu_panel := Panel_Library, tu_library_list := Some 0,
     tu_albums := [\<lparr>al_id = ''#/m'', al_dir_path = ''/m'', al_title = None, al_artist = None, al_artwork_path = None\<rparr>]\<rparr>"

theorem browsed_track_queued_witness:
  "tu_sent (snd (tui_turns sample_widget ([In_Key Key_Right,
        In_Response (Res_AlbumTracks (get_tracks_by_album_id sample_library_db (al_id (tu_albums sample_tui ! 0))))] @
      replicate 1 (In_Key Key_Down) @ [In_Key Key_Enter]) (sample_state 0, sample_tui))) =
    tu_sent sample_tui @ [Msg_Request (Suc (tu_req_counter sample_tui)) (Req_GetAlbumTracks (al_id (tu_albums sample_tui ! 0))),
      Msg_Command (Ws_AddToQueue (get_tracks_by_album_id (ui_library sample_ui) (al_id (tu_albums sample_tui ! 0)) ! 1))]"
proof (rule browsed_track_queued)
  have "length (filter (\<lambda>t. tr_album_id t = Some ''#/m'') (tracks_of sample_library_db)) = 2" by code_simp
  then show "1 < length (get_tracks_by_album_id (ui_library sample_ui) (al_id (tu_albums sample_tui ! 0)))"
    by (simp add: get_tracks_by_album_id_def sample_ui_def sample_tui_def)
  show "handle_request sample_env 9 ''k'' (Req_GetAlbumTracks (al_id (tu_albums sample_tui ! 0))) sample_ui =
      Some (Res_AlbumTracks (get_tracks_by_album_id sample_library_db (al_id (tu_albums sample_tui ! 0))))"
    by (simp add: handle_request_def listed_def sample_env_def sample_ui_def Let_def)
qed (simp_all add: sample_tui_def tui_new_def sample_env_def keeps_rows_def sample_widget_def)

section \<open>Where queue edits and output part\<close>

text \<open>C40. Removing a track before the current one makes the output drop the file it is playing, although
  the part of the queue it should hold has not changed.\<close>

theorem removal_before_current_drops_playing:
  assumes "drives remote_node_output i c" "find_node (co_state c) i = Some n"
    and "nd_current_index n = Some ci" "k < ci" "ci < length (nd_queue n)"
    and "link_view (co_world c) = projection (nd_queue n) (Some ci)"
    and "0 < link_room (co_world c)" "quiet link_view link_room c"
  shows "\<exists>c' n'. remove_from_queue k c = (Inr (), c') \<and> find_node (co_state c') i = Some n' \<and>
    projection (nd_queue n') (nd_current_index n') = link_view (co_world c) \<and>
    link_view (co_world c') = tl (link_view (co_world c))"
  using assms by (rule remote.remove_before_current)

theorem removal_before_current_drops_playing_witness:
  "\<exists>c' n'. remove_from_queue 0 (sample_core 2 2) = (Inr (), c') \<and> find_node (co_state c') ''n'' = Some n' \<and>
    projection (nd_queue n') (nd_current_index n') = link_view (co_world (sample_core 2 2)) \<and>
    link_view (co_world c') = tl (link_view (co_world (sample_core 2 2)))"
  by (rule removal_before_current_drops_playing [OF sample_drives, where n = "sample_node 2" and ci = 2]) (simp_all add: sample_quiet)

section \<open>Further facts of the components\<close>

text \<open>Once the output has advanced by \<open>d\<close> tracks on its own, removing the track at \<open>k\<close> removes the
  file of the queue entry at \<open>k - d\<close> from the output.\<close>

lemma removal_after_advance_misses:
  assumes "drives remote_node_output i c" "find_node (co_state c) i = Some n"
    and "nd_current_index n = Some (s + d)" "s + d \<le> k" "k < length (nd_queue n)"
    and "link_view (co_world c) = projection (nd_queue n) (Some s)"
    and "0 < link_room (co_world c)" "quiet link_view link_room c"
  shows "\<exists>c'. remove_from_queue k c = (Inr (), c') \<and>
    find_node (co_state c') i = Some (remove_track k n) \<and>
    link_view (co_world c') = projection (vec_remove (k - d) (nd_queue n)) (Some s)"
  using assms by (rule remote.remove_after_advance)

lemma removal_after_advance_misses_witness:
  "\<exists>c'. remove_from_queue 3 (sample_core 0 2) = (Inr (), c') \<and>
    find_node (co_state c') ''n'' = Some (remove_track 3 (sample_node 2)) \<and>
    link_view (co_world c') = projection (vec_remove (3 - 2) (nd_queue (sample_node 2))) (Some 0)"
  by (rule removal_after_advance_misses [OF sample_drives, where d = 2]) (simp_all add: sample_quiet)

text \<open>A key that has not been renewed when the cleanup runs more than its maximal age later is
  gone: signing requests under it are answered with no URL at all. The key of a user interface's
  connection is made once, when it connects.\<close>

lemma old_key_signs_nothing:
  assumes "key_max_age < now - t"
  shows "sign_urls hmac fs lib (ks_cleanup_expired now key_max_age (ks_generate kid key t ks)) base kid now paths = Some Map.empty"
  by (rule sign_urls_no_key) (rule ks_cleanup_old [OF _ assms], simp add: ks_generate_def)

lemma old_key_signs_nothing_witness:
  "sign_urls sample_mac (\<lambda>_. None) sample_library
    (ks_cleanup_expired 1201 key_max_age (ks_generate ''k'' [1, 2] 0 Map.empty)) ''http://h'' ''k'' 1201 [''/media/tracks/a''] = Some Map.empty"
  by (rule old_key_signs_nothing) (simp add: key_max_age_def media_url_ttl_secs_def)

text \<open>A track is reported for scrobbling only while it is the current one and playing, is longer
  than 30 seconds, and has been played for half of its length or for four minutes.\<close>

lemma scrobble_rule:
  assumes "ScrobblePoint t \<in> set (fst (diff_events prev s))"
  shows "current_track s = Some t \<and> tr_id t \<notin> ps_scrobbled_tracks prev \<and>
    (\<exists>n d. selected_node s = Some n \<and> nd_status n = Playing \<and> tr_duration_secs t = Some d \<and>
       f64_lt (Fin 30) d \<and>
       (f64_le (f64_half d) (nd_position_secs n) \<or> f64_le (Fin 240) (nd_position_secs n)))"
  using assms by (rule scrobble_conditions)

definition sample_late :: playback_state where
  "sample_late = (sample_state 1)\<lparr>st_nodes := [(sample_node 1)\<lparr>nd_position_secs := Fin 120\<rparr>]\<rparr>"

lemma scrobble_rule_witness:
  "current_track sample_late = Some (sample_track ''b'') \<and>
    tr_id (sample_track ''b'') \<notin> ps_scrobbled_tracks \<lparr>ps_state = sample_late, ps_scrobbled_tracks = {}\<rparr> \<and>
    (\<exists>n d. selected_node sample_late = Some n \<and> nd_status n = Playing \<and>
       tr_duration_secs (sample_track ''b'') = Some d \<and> f64_lt (Fin 30) d \<and>
       (f64_le (f64_half d) (nd_position_secs n) \<or> f64_le (Fin 240) (nd_position_secs n)))"
proof (rule scrobble_rule)
  show "ScrobblePoint (sample_track ''b'') \<in>
      set (fst (diff_events \<lparr>ps_state = sample_late, ps_scrobbled_tracks = {}\<rparr> sample_late))"
    by (simp add: diff_events_repeat scrobble_due_def scrobble_threshold_def f64_min_def selected_node_def
        find_node_def sample_late_def sample_state_def sample_node_def default_node_def current_track_def
        sample_queue_def vec_get_def sample_track_def)
qed

text \<open>While a local node is selected, a playback or queue command of a connection that does not
  run its session changes nothing at all.\<close>

lemma foreign_command_rejected:
  assumes "is_queue_op cmd" "st_selected_node_id (co_state (se_core s)) = Some sel"
    "find_node (co_state (se_core s)) sel = Some n" "nd_node_type n = Local"
    "se_local_node_id s \<noteq> Some sel"
  shows "dispatch_command uuid conn cmd s = s"
  using assms by (rule stranger_rejected)

lemma foreign_command_rejected_witness:
  "dispatch_command ''u'' ''me'' Ws_ClearQueue sample_local_session = sample_local_session"
  by (rule foreign_command_rejected [where sel = "''n''" and n = "(sample_node 1)\<lparr>nd_node_type := Local\<rparr>"])
    (simp_all add: sample_local_session_def sample_session_def sample_state_def sample_node_def find_node_def)

text \<open>An edit of the entries that fails leaves the database exactly as it was, however far its
  statements had got.\<close>

lemma failed_edit_leaves_db:
  assumes "fst (m db) = Inl e"
    and "m \<in> {set_playlist_tracks now i ts, append_playlist_tracks now i ts, remove_playlist_track now i a,
      move_playlist_track now i a b}"
  shows "snd (m db) = db"
  using assms by (auto intro: failed_edits)

lemma failed_edit_leaves_db_witness:
  "snd (set_playlist_tracks 9 ''q'' [''a''] sample_db) = sample_db"
  by (rule failed_edit_leaves_db [where e = "''playlist q not found''"
        and now = 9 and i = "''q''" and ts = "[''a'']" and a = 0 and b = 0])
    (simp_all add: set_playlist_tracks_def normal_playlist_def existing_playlist_def get_playlist_def andThen_def
      reading_def ret_def fail_def find_row_def sample_db_def)

text \<open>The durations of a FLAC file longer than the total its header announces are trimmed to that total,
  though never below one unit for each sample; a total of zero means it is unknown.\<close>

lemma flac_durations_trimmed:
  "total_duration (trim_to_total limit (flac_samples bytes si starts)) =
    (if limit = 0 then total_duration (flac_samples bytes si starts)
     else max (length (flac_samples bytes si starts)) (min limit (total_duration (flac_samples bytes si starts))))"
  by (rule trim_to_total_duration) (rule flac_samples_positive)

text \<open>A state report of an older load leaves the current index alone, whatever song it names.\<close>

lemma stale_report_ignored:
  assumes "find_node (co_state c) i = Some n" "\<And>t. co_transport c i = Some t \<Longrightarrow> tp_generation t \<noteq> gen"
  shows "\<exists>n'. find_node (co_state (sync_node_state i st pos vol song gen c)) i = Some n' \<and>
    nd_current_index n' = nd_current_index n"
  using assms by (rule sync_ignores_stale)

lemma stale_report_ignored_witness:
  "\<exists>n'. find_node (co_state (sync_node_state ''n'' Playing (Fin 3) 50 (Some 2) 0 (sample_core 1 1))) ''n'' = Some n' \<and>
    nd_current_index n' = nd_current_index (sample_node 1)"
  by (rule stale_report_ignored) (auto simp: sample_basic)

text \<open>The three forms of a range header: a closed range is read as written, an open one extends
  to the end, and a suffix is counted from the end and cut to the file.\<close>

lemma range_forms:
  assumes "s \<le> e" "e < len" "len \<le> usize_max" "0 < k" "k \<le> usize_max"
  shows "parse_range (Some (''bytes='' @ show_nat s @ ''-'' @ show_nat e)) len = Inr (Some (s, e)) \<and>
    parse_range (Some (''bytes='' @ show_nat s @ ''-'')) len = Inr (Some (s, len - 1)) \<and>
    parse_range (Some (''bytes=-'' @ show_nat k)) len = Inr (Some (len - min k len, len - 1))"
  using assms parse_range_closed [of s e len] parse_range_open [of s len] parse_range_suffix [of k len] by simp

lemma range_forms_witness:
  "parse_range (Some (''bytes='' @ show_nat 3 @ ''-'' @ show_nat 7)) 10 = Inr (Some (3, 7)) \<and>
    parse_range (Some (''bytes='' @ show_nat 3 @ ''-'')) 10 = Inr (Some (3, 10 - 1)) \<and>
    parse_range (Some (''bytes=-'' @ show_nat 25)) 10 = Inr (Some (10 - min 25 10, 10 - 1))"
  by (rule range_forms) (simp_all add: usize_max_def)

text \<open>Once a node has connected again, its older connection changes nothing: neither a report still
  in flight nor the end of the connection.\<close>

lemma superseded_connection_inert:
  assumes "co_outputs c i = Some slot" "slot_connection_id slot \<noteq> conn"
  shows "connection_update i conn u c = c \<and> close_connection i conn c = c"
  using assms by (simp add: superseded_inert)

definition sample_update :: node_state_update where
  "sample_update = \<lparr>nu_status = Paused, nu_position_secs = Fin 3, nu_volume = 40, nu_mpd_song_index = Some 1,
     nu_projection_generation = 1\<rparr>"

lemma superseded_connection_inert_witness:
  "connection_update ''n'' ''old'' sample_update (sample_core 1 1) = sample_core 1 1 \<and>
    close_connection ''n'' ''old'' (sample_core 1 1) = sample_core 1 1"
  by (rule superseded_connection_inert [where slot = "\<lparr>slot_connection_id = ''conn'', slot_output = remote_node_output\<rparr>"])
    (simp_all add: sample_core_def)

text \<open>Calls that succeed are queued on the connection in the order they were made, behind what is
  pending, and never beyond the capacity of the channel.\<close>

lemma calls_queued_in_order:
  assumes "fst (for_each ks remote_node_output l) = Inr ()" "length (lk_pending l) \<le> channel_capacity"
  shows "lk_pending (snd (for_each ks remote_node_output l)) = lk_pending l @ map command_of ks \<and>
    lk_sent (snd (for_each ks remote_node_output l)) = lk_sent l \<and>
    length (lk_pending l) + length ks \<le> channel_capacity"
  using sends_in_order [OF refl assms(1)] sends_fit [OF assms] by simp

lemma calls_queued_in_order_witness:
  "lk_pending (snd (for_each [Call_Play, Call_Stop] remote_node_output new_link)) = lk_pending new_link @ map command_of [Call_Play, Call_Stop] \<and>
    lk_sent (snd (for_each [Call_Play, Call_Stop] remote_node_output new_link)) = lk_sent new_link \<and>
    length (lk_pending new_link) + length [Call_Play, Call_Stop] \<le> channel_capacity"
  by (rule calls_queued_in_order)
    (simp_all add: new_link_def channel_capacity_def remote_node_output_def link_send_def andDo_def andThen_def ret_def)

text \<open>A connection that starts a second session without a device id leaves the node of its first
  one behind: still marked connected, so that the cleanup never takes it, and owned by nobody.\<close>

lemma second_session_leaves_node:
  assumes "se_local_node_id s = Some old" "se_owners s old = Some conn"
    "find_node (co_state (se_core s)) old = Some n" "nd_connected n" "old \<noteq> ''local-'' @ uuid"
  shows "find_node (co_state (se_core (dispatch_command uuid conn (Ws_LocalSessionStart name None) s))) old = Some n \<and>
    se_owners (dispatch_command uuid conn (Ws_LocalSessionStart name None) s) old = None \<and> \<not> expired cutoff n"
  using restart_leaves_node [OF assms] by simp

definition sample_own_session :: "link session" where
  "sample_own_session = sample_local_session\<lparr>se_owners := [''n'' \<mapsto> ''me''], se_local_node_id := Some ''n''\<rparr>"

lemma second_session_leaves_node_witness:
  "find_node (co_state (se_core (dispatch_command ''u'' ''me'' (Ws_LocalSessionStart ''name'' None) sample_own_session))) ''n'' =
      Some ((sample_node 1)\<lparr>nd_node_type := Local\<rparr>) \<and>
    se_owners (dispatch_command ''u'' ''me'' (Ws_LocalSessionStart ''name'' None) sample_own_session) ''n'' = None \<and>
    \<not> expired 99 ((sample_node 1)\<lparr>nd_node_type := Local\<rparr>)"
  by (rule second_session_leaves_node)
    (simp_all add: sample_own_session_def sample_local_session_def sample_state_def sample_node_def
      find_node_def default_node_def)

text \<open>Percent decoding reads back every valid text written byte by byte as percent sequences, and
  leaves a text without percent signs as it is.\<close>

lemma percent_decoding_roundtrip:
  assumes "utf8_valid s" "utf8_valid p" "CHR ''%'' \<notin> set p"
  shows "percent_decode (percent_encode s) = Some s \<and> percent_decode p = Some p"
  using assms by (simp add: percent_roundtrip percent_decode_plain)

lemma percent_decoding_roundtrip_witness:
  "percent_decode (percent_encode ''a%b'') = Some ''a%b'' \<and> percent_decode ''a b'' = Some ''a b''"
  by (rule percent_decoding_roundtrip) (simp_all add: byte_of_def)

text \<open>The checksum of a FLAC frame header tells any two headers that differ in one byte apart.\<close>

lemma frame_checksum_one_byte: "flac_crc8 (xs @ x # ys) = flac_crc8 (xs @ y # ys) \<longleftrightarrow> x = y"
  by (rule flac_crc8_one_byte)

text \<open>A path that may be signed names a track, an album, an HLS resource of a track, or an existing
  file of a track, of the library whose path does not contain \<open>..\<close>.\<close>

lemma signable_names_library:
  assumes "is_signable_media_path fs lib path = Some True"
  shows "(\<exists>t \<in> set (lib_tracks lib). path = ''/media/tracks/'' @ tr_id t) \<or>
    (\<exists>a \<in> set (lib_albums lib). path = ''/media/art/'' @ al_id a) \<or>
    (\<exists>t \<in> set (lib_tracks lib). \<exists>v r. path = ''/media/hls/'' @ tr_id t @ ''/'' @ v @ ''/'' @ r \<and> hls_resource r) \<or>
    (\<exists>t \<in> set (lib_tracks lib). \<exists>raw. path = ''/media/file/'' @ raw \<and> percent_decode raw = Some (tr_file_path t) \<and>
      fs (tr_file_path t) \<noteq> None \<and> \<not> contains ''..'' (tr_file_path t))"
  using assms by (rule signable_sound)

lemma signable_names_library_witness:
  "(\<exists>t \<in> set (lib_tracks sample_library). ''/media/tracks/a'' = ''/media/tracks/'' @ tr_id t) \<or>
    (\<exists>a \<in> set (lib_albums sample_library). ''/media/tracks/a'' = ''/media/art/'' @ al_id a) \<or>
    (\<exists>t \<in> set (lib_tracks sample_library). \<exists>v r. ''/media/tracks/a'' = ''/media/hls/'' @ tr_id t @ ''/'' @ v @ ''/'' @ r \<and> hls_resource r) \<or>
    (\<exists>t \<in> set (lib_tracks sample_library). \<exists>raw. ''/media/tracks/a'' = ''/media/file/'' @ raw \<and> percent_decode raw = Some (tr_file_path t) \<and>
      sample_files (tr_file_path t) \<noteq> None \<and> \<not> contains ''..'' (tr_file_path t))"
  by (rule signable_names_library) (rule sample_signable)

text \<open>A state report of the current load that names song \<open>k\<close> moves the current index of the node
  to the queue entry whose file is the \<open>k\<close>-th the output holds.\<close>

lemma report_names_playing_file:
  assumes "faithful files i c" "find_node (co_state c) i = Some n"
    and "co_transport c i = Some t" "tp_generation t = gen" "tp_start_index t = Some s"
    and "k < length (files (co_world c))" "length (nd_queue n) \<le> usize_max"
  shows "\<exists>n'. find_node (co_state (sync_node_state i st pos vol (Some k) gen c)) i = Some n' \<and>
    nd_queue n' = nd_queue n \<and> nd_current_index n' = Some (s + k) \<and> s + k < length (nd_queue n) \<and>
    tr_file_path (nd_queue n ! (s + k)) = files (co_world c) ! k"
  using assms by (rule sync_tracks_output)

lemma report_names_playing_file_witness:
  "\<exists>n'. find_node (co_state (sync_node_state ''n'' Playing (Fin 3) 50 (Some 2) 1 (sample_core 1 1))) ''n'' = Some n' \<and>
    nd_queue n' = nd_queue (sample_node 1) \<and> nd_current_index n' = Some (1 + 2) \<and>
    1 + 2 < length (nd_queue (sample_node 1)) \<and>
    tr_file_path (nd_queue (sample_node 1) ! (1 + 2)) = link_view (co_world (sample_core 1 1)) ! 2"
  by (rule report_names_playing_file [where t = "sample_transport 1"])
    (simp_all add: sample_faithful projection_length usize_max_def)

text \<open>Replacing the queue with a start index in range loads a connected remote node with the new
  queue from there on and starts it.\<close>

lemma set_queue_loads_projection:
  assumes "drives remote_node_output i c" "find_node (co_state c) i = Some n"
    and "k < length ts" "length ts \<le> usize_max"
    and "1 < link_room (co_world c)" "quiet link_view link_room c"
  shows "\<exists>c'. core_set_queue ts (Some k) c = (Inr (), c') \<and> playing_from link_view i ts k c'"
  using assms by (rule remote.set_queue_loads)

lemma set_queue_loads_projection_witness:
  "\<exists>c'. core_set_queue sample_queue (Some 3) (sample_core 0 0) = (Inr (), c') \<and>
    playing_from link_view ''n'' sample_queue 3 c'"
  by (rule set_queue_loads_projection [OF sample_drives]) (simp_all add: sample_quiet sample_small)

end
